(* ===== verification/Prelude.thy ===== *)
theory Prelude
  imports Main "HOL-Library.Sublist"
begin

text \<open>
  Shared ground of the development: Rust strings as UTF-8 byte lists, the string
  functions of the Rust standard library the sources call (\<^verbatim>\<open>trim\<close>, \<^verbatim>\<open>split_once\<close>,
  \<^verbatim>\<open>replace\<close>, \<^verbatim>\<open>contains\<close>, \<^verbatim>\<open>chars().take(n)\<close>), signed 64-bit saturating
  arithmetic, and generic lemmas on lists, options and results.

  A Rust \<^verbatim>\<open>str\<close> is modelled by the list of its UTF-8 bytes, each byte an Isabelle
  \<open>char\<close>; \<open>length\<close> is \<^verbatim>\<open>str::len\<close>. Functions that work on characters rather than bytes
  (\<^verbatim>\<open>trim\<close>, \<^verbatim>\<open>chars\<close>) are written over the encoding.
\<close>

type_synonym rstr = string

section \<open>Results\<close>

text \<open>\<open>Inl\<close> is Rust's \<^verbatim>\<open>Err\<close>, \<open>Inr\<close> is \<^verbatim>\<open>Ok\<close>.\<close>

definition is_ok :: "'e + 'a \<Rightarrow> bool" where
  "is_ok r = (case r of Inl _ \<Rightarrow> False | Inr _ \<Rightarrow> True)"

lemma is_ok_simps [simp]: "is_ok (Inl e) = False" "is_ok (Inr a) = True"
  by (simp_all add: is_ok_def)

lemma is_ok_iff: "is_ok r \<longleftrightarrow> (\<exists>a. r = Inr a)"
  by (cases r) simp_all

definition and_then :: "'e + 'a \<Rightarrow> ('a \<Rightarrow> 'e + 'b) \<Rightarrow> 'e + 'b" where
  "and_then r f = (case r of Inl e \<Rightarrow> Inl e | Inr a \<Rightarrow> f a)"

lemma and_then_simps [simp]: "and_then (Inl e) f = Inl e" "and_then (Inr a) f = f a"
  by (simp_all add: and_then_def)

lemma and_then_Inr_iff: "and_then r f = Inr b \<longleftrightarrow> (\<exists>a. r = Inr a \<and> f a = Inr b)"
  by (cases r) simp_all

lemma guard_Inr_iff: "(if B then Inl e else r) = Inr a \<longleftrightarrow> \<not> B \<and> r = Inr a"
  by simp

lemma and_then_Inl_iff:
  "and_then r f = Inl e \<longleftrightarrow> r = Inl e \<or> (\<exists>a. r = Inr a \<and> f a = Inl e)"
  by (cases r) simp_all

definition map_err :: "('e \<Rightarrow> 'f) \<Rightarrow> 'e + 'a \<Rightarrow> 'f + 'a" where
  "map_err f r = (case r of Inl e \<Rightarrow> Inl (f e) | Inr a \<Rightarrow> Inr a)"

lemma map_err_Inr: "map_err f r = Inr a \<longleftrightarrow> r = Inr a"
  by (cases r) (simp_all add: map_err_def)

section \<open>Tables\<close>

text \<open>
  A database table is the list of its rows. \<open>update_where\<close> is the effect of
  \<^verbatim>\<open>UPDATE .. SET .. WHERE ..\<close>, \<open>rows_where\<close> the rows a \<^verbatim>\<open>WHERE\<close> clause selects (the
  number of rows affected is its length), \<open>next_serial\<close> the value a \<^verbatim>\<open>BIGSERIAL\<close> column
  takes on an \<^verbatim>\<open>INSERT\<close>.
\<close>

definition update_where :: "('r \<Rightarrow> bool) \<Rightarrow> ('r \<Rightarrow> 'r) \<Rightarrow> 'r list \<Rightarrow> 'r list" where
  "update_where P f rows = map (\<lambda>r. if P r then f r else r) rows"

definition rows_where :: "('r \<Rightarrow> bool) \<Rightarrow> 'r list \<Rightarrow> 'r list" where
  "rows_where P rows = filter P rows"

definition next_serial :: "('r \<Rightarrow> int) \<Rightarrow> 'r list \<Rightarrow> int" where
  "next_serial key rows = foldr (\<lambda>r m. max (key r) m) rows 0 + 1"

lemma length_update_where [simp]: "length (update_where P f rows) = length rows"
  by (simp add: update_where_def)

lemma update_where_none: "(\<And>r. r \<in> set rows \<Longrightarrow> \<not> P r) \<Longrightarrow> update_where P f rows = rows"
  by (induction rows) (simp_all add: update_where_def)

lemma update_where_keeps:
  "(\<And>r. key (f r) = key r) \<Longrightarrow> map key (update_where P f rows) = map key rows"
  by (simp add: update_where_def)

lemma set_update_where:
  "set (update_where P f rows) = f ` {r \<in> set rows. P r} \<union> {r \<in> set rows. \<not> P r}"
  by (auto simp: update_where_def)

lemma rows_where_update_where:
  "rows_where Q (update_where P f rows) =
     map (\<lambda>r. if P r then f r else r)
       (rows_where (\<lambda>r. if P r then Q (f r) else Q r) rows)"
  by (induction rows) (simp_all add: rows_where_def update_where_def)

lemma find_update_where:
  "(\<And>r. Q (f r) = Q r) \<Longrightarrow>
   find Q (update_where P f rows) = map_option (\<lambda>r. if P r then f r else r) (find Q rows)"
  by (induction rows) (auto simp: update_where_def)

lemma update_where_single:
  assumes "distinct (map key rows)" and "r \<in> set rows" and "P r" and "\<And>q. P q \<Longrightarrow> key q = key r"
  shows "update_where P f rows = update_where (\<lambda>q. key q = key r) (\<lambda>_. f r) rows"
proof -
  have same: "q = r" if "q \<in> set rows" "key q = key r" for q
    using assms(1,2) that by (auto simp: distinct_map dest: inj_onD)
  have "P q \<longleftrightarrow> key q = key r" if "q \<in> set rows" for q
    using same [OF that] assms(3,4) by blast
  then show ?thesis unfolding update_where_def using same by (auto intro!: map_cong)
qed

lemma find_SomeD: "find P xs = Some x \<Longrightarrow> x \<in> set xs \<and> P x"
  by (induction xs) (auto split: if_splits)

lemma map_eq_mem:
  assumes "map f xs = map f ys" and "y \<in> set ys"
  obtains x where "x \<in> set xs" "f x = f y"
proof -
  from assms(2) have "f y \<in> set (map f ys)" by simp
  then have "f y \<in> f ` set xs" using assms(1) by (metis list.set_map)
  with that show thesis by fastforce
qed

lemma find_append: "find Q (xs @ ys) = (case find Q xs of None \<Rightarrow> find Q ys | Some x \<Rightarrow> Some x)"
  by (induction xs) simp_all

lemma set_rows_where [simp]: "set (rows_where P rows) = {r \<in> set rows. P r}"
  by (auto simp: rows_where_def)

lemma keys_rows_where_update_where:
  assumes "\<And>r. key (f r) = key r"
  shows "key ` set (rows_where (\<lambda>r. key r \<in> K) (update_where P f rows)) = key ` set rows \<inter> K"
  by (induction rows) (auto simp: rows_where_def update_where_def assms)

lemma next_serial_greater: "r \<in> set rows \<Longrightarrow> key r < next_serial key rows"
  by (induction rows) (auto simp: next_serial_def)

lemma sorted_take_before_drop:
  assumes "sorted (map f xs)" and "x \<in> set (take n xs)" and "y \<in> set (drop n xs)"
  shows "f x \<le> f y"
proof -
  have "sorted (map f (take n xs) @ map f (drop n xs))"
    using assms(1) by (metis append_take_drop_id map_append)
  with assms(2,3) show ?thesis by (auto simp: sorted_append)
qed

text \<open>The first \<open>n\<close> of a sorted list, as a selection by identifier.\<close>

lemma take_sorted_keeps_best:
  assumes "sorted (map f xs)" and "distinct (map key xs)"
    and "x \<in> set xs" "y \<in> set xs" "key x \<in> key ` set (take n xs)" "key y \<notin> key ` set (take n xs)"
  shows "f x \<le> f y"
proof -
  from assms(5) obtain x' where x': "x' \<in> set (take n xs)" "key x = key x'" by auto
  then have "x' \<in> set xs" by (auto dest: in_set_takeD)
  with assms(2,3) x'(2) have "x = x'" by (auto simp: distinct_map dest: inj_onD)
  moreover have "y \<notin> set (take n xs)" using assms(6) by auto
  then have "y \<in> set (drop n xs)"
    using assms(4) by (metis Un_iff append_take_drop_id set_append)
  ultimately show ?thesis
    using sorted_take_before_drop [OF assms(1)] x'(1) by simp
qed

lemma take_all_unless_full:
  assumes "distinct (map key xs)" and "card (key ` set (take n xs)) < n"
  shows "take n xs = xs"
proof -
  have "distinct (map key (take n xs))" using assms(1) by (simp add: take_map [symmetric])
  then have "card (key ` set (take n xs)) = length (take n xs)"
    by (metis distinct_card length_map list.set_map)
  with assms(2) show ?thesis by simp
qed

section \<open>Bytes\<close>

abbreviation byte :: "char \<Rightarrow> nat" where
  "byte c \<equiv> of_char c"

definition is_ascii_digit :: "char \<Rightarrow> bool" where
  "is_ascii_digit c = (48 \<le> byte c \<and> byte c \<le> 57)"

definition is_ascii_lowercase :: "char \<Rightarrow> bool" where
  "is_ascii_lowercase c = (97 \<le> byte c \<and> byte c \<le> 122)"

definition is_ascii_uppercase :: "char \<Rightarrow> bool" where
  "is_ascii_uppercase c = (65 \<le> byte c \<and> byte c \<le> 90)"

definition is_ascii_alphabetic :: "char \<Rightarrow> bool" where
  "is_ascii_alphabetic c = (is_ascii_lowercase c \<or> is_ascii_uppercase c)"

definition is_ascii_alphanumeric :: "char \<Rightarrow> bool" where
  "is_ascii_alphanumeric c = (is_ascii_alphabetic c \<or> is_ascii_digit c)"

definition is_ascii_hexdigit :: "char \<Rightarrow> bool" where
  "is_ascii_hexdigit c =
     (is_ascii_digit c \<or> (97 \<le> byte c \<and> byte c \<le> 102) \<or> (65 \<le> byte c \<and> byte c \<le> 70))"

lemmas ascii_defs = is_ascii_digit_def is_ascii_lowercase_def is_ascii_uppercase_def
  is_ascii_alphabetic_def is_ascii_alphanumeric_def is_ascii_hexdigit_def

definition is_ascii_control :: "char \<Rightarrow> bool" where
  "is_ascii_control c = (byte c \<le> 31 \<or> byte c = 127)"

text \<open>\<^verbatim>\<open>u8::is_ascii_whitespace\<close>: space, tab, line feed, form feed, carriage return.\<close>

definition is_ascii_whitespace :: "char \<Rightarrow> bool" where
  "is_ascii_whitespace c = (byte c \<in> {9, 10, 12, 13, 32})"

definition to_ascii_lowercase :: "rstr \<Rightarrow> rstr" where
  "to_ascii_lowercase s =
     map (\<lambda>c. if is_ascii_uppercase c then char_of (byte c + 32) else c) s"

section \<open>Substrings\<close>

definition starts_with :: "rstr \<Rightarrow> rstr \<Rightarrow> bool" where
  "starts_with pat s = (take (length pat) s = pat)"

definition ends_with :: "rstr \<Rightarrow> rstr \<Rightarrow> bool" where
  "ends_with pat s = starts_with (rev pat) (rev s)"

lemma starts_with_iff: "starts_with pat s \<longleftrightarrow> (\<exists>t. s = pat @ t)"
  unfolding starts_with_def by (metis append_eq_conv_conj append_take_drop_id)

lemma starts_with_append [simp]: "starts_with pat (pat @ t)"
  by (simp add: starts_with_def)

lemma starts_with_drop: "starts_with pat s \<Longrightarrow> pat @ drop (length pat) s = s"
  unfolding starts_with_def by (metis append_take_drop_id)

lemma starts_with_length: "starts_with pat s \<Longrightarrow> length pat \<le> length s"
  by (auto simp: starts_with_iff)

lemma starts_with_shorter:
  "pat \<noteq> [] \<and> starts_with pat s \<Longrightarrow> length s - length pat < length s"
  by (cases s) (auto simp: starts_with_iff)

fun split_once :: "rstr \<Rightarrow> rstr \<Rightarrow> (rstr \<times> rstr) option" where
  "split_once pat [] = (if pat = [] then Some ([], []) else None)"
| "split_once pat (c # cs) =
     (if starts_with pat (c # cs) then Some ([], drop (length pat) (c # cs))
      else map_option (\<lambda>(a, b). (c # a, b)) (split_once pat cs))"

lemma split_once_append: "split_once pat s = Some (a, b) \<Longrightarrow> s = a @ pat @ b"
proof (induction s arbitrary: a b)
  case Nil
  then show ?case by (auto split: if_splits)
next
  case (Cons c cs)
  then show ?case
    by (auto simp: starts_with_drop split: if_splits)
qed

lemma split_once_first:
  "split_once pat s = Some (a, b) \<Longrightarrow> i < length a \<Longrightarrow> \<not> starts_with pat (drop i s)"
proof (induction s arbitrary: a b i)
  case Nil
  then show ?case by (auto split: if_splits)
next
  case (Cons c cs)
  then show ?case
    by (cases i) (auto split: if_splits)
qed

lemma split_once_None_iff: "split_once pat s = None \<longleftrightarrow> \<not> sublist pat s"
proof (induction s)
  case Nil
  then show ?case by simp
next
  case (Cons c cs)
  have "sublist pat (c # cs) \<longleftrightarrow> starts_with pat (c # cs) \<or> sublist pat cs"
    by (auto simp: sublist_Cons_right prefix_def starts_with_iff)
  with Cons show ?case by simp
qed

text \<open>\<^verbatim>\<open>str::contains\<close> with a string pattern.\<close>

definition contains_str :: "rstr \<Rightarrow> rstr \<Rightarrow> bool" where
  "contains_str pat s = (split_once pat s \<noteq> None)"

lemma contains_str_iff: "contains_str pat s \<longleftrightarrow> sublist pat s"
  by (simp add: contains_str_def split_once_None_iff)

text \<open>\<^verbatim>\<open>str::lines\<close>: the pieces between line feeds without a carriage return that comes before
  the line feed, and without an empty piece at the end.\<close>

fun drop_cr :: "rstr \<Rightarrow> rstr" where
  "drop_cr [] = []"
| "drop_cr [c] = (if byte c = 13 then [] else [c])"
| "drop_cr (c # cs) = c # drop_cr cs"

fun lines_from :: "rstr \<Rightarrow> rstr \<Rightarrow> rstr list" where
  "lines_from acc [] = (if acc = [] then [] else [acc])"
| "lines_from acc (c # cs) =
     (if byte c = 10 then drop_cr acc # lines_from [] cs else lines_from (acc @ [c]) cs)"

definition str_lines :: "rstr \<Rightarrow> rstr list" where
  "str_lines s = lines_from [] s"

text \<open>\<^verbatim>\<open>str::split\<close> with a one-byte ASCII separator.\<close>

fun split_on :: "char \<Rightarrow> rstr \<Rightarrow> rstr list" where
  "split_on sep [] = [[]]"
| "split_on sep (c # cs) =
     (if c = sep then [] # split_on sep cs
      else (case split_on sep cs of [] \<Rightarrow> [[c]] | w # ws \<Rightarrow> (c # w) # ws))"

lemma split_on_nonempty [simp]: "split_on sep s \<noteq> []"
  by (induction s) (auto split: list.splits)

lemma split_on_no_sep: "w \<in> set (split_on sep s) \<Longrightarrow> sep \<notin> set w"
proof (induction s arbitrary: w)
  case Nil
  then show ?case by simp
next
  case (Cons c cs)
  then show ?case
    by (cases "split_on sep cs") (auto split: if_splits)
qed

text \<open>\<^verbatim>\<open>str::replace\<close>, for the non-empty patterns the sources use.\<close>

function replace_str :: "rstr \<Rightarrow> rstr \<Rightarrow> rstr \<Rightarrow> rstr" where
  "replace_str pat new s =
     (if pat \<noteq> [] \<and> starts_with pat s then new @ replace_str pat new (drop (length pat) s)
      else (case s of [] \<Rightarrow> [] | c # cs \<Rightarrow> c # replace_str pat new cs))"
  by pat_completeness auto
termination
  by (relation "measure (\<lambda>(pat, new, s). length s)") (simp_all add: starts_with_shorter)

declare replace_str.simps [simp del]

section \<open>Characters of a UTF-8 string\<close>

definition is_continuation :: "char \<Rightarrow> bool" where
  "is_continuation c = (128 \<le> byte c \<and> byte c \<le> 191)"

definition chars_count :: "rstr \<Rightarrow> nat" where
  "chars_count s = length (filter (\<lambda>c. \<not> is_continuation c) s)"

text \<open>\<^verbatim>\<open>s.chars().take(n).collect()\<close>: a character is a non-continuation byte and
  the continuation bytes after it.\<close>

fun take_chars :: "nat \<Rightarrow> rstr \<Rightarrow> rstr" where
  "take_chars n [] = []"
| "take_chars 0 (c # cs) = (if is_continuation c then c # take_chars 0 cs else [])"
| "take_chars (Suc n) (c # cs) =
     (if is_continuation c then c # take_chars (Suc n) cs else c # take_chars n cs)"

lemma take_chars_prefix: "prefix (take_chars n s) s"
  by (induction n s rule: take_chars.induct) simp_all

lemma chars_count_take_chars: "chars_count (take_chars n s) = min n (chars_count s)"
  by (induction n s rule: take_chars.induct) (simp_all add: chars_count_def)

lemma take_chars_all: "chars_count s \<le> n \<Longrightarrow> take_chars n s = s"
  by (induction n s rule: take_chars.induct) (auto simp: chars_count_def split: if_splits)

text \<open>The White\_Space characters \<^verbatim>\<open>char::is_whitespace\<close> accepts, by their encodings.\<close>

definition ascii_space :: "char \<Rightarrow> bool" where
  "ascii_space c = ((9 \<le> byte c \<and> byte c \<le> 13) \<or> byte c = 32)"

definition wide_spaces :: "rstr list" where
  "wide_spaces =
     [[CHR 0xC2, CHR 0x85], [CHR 0xC2, CHR 0xA0], [CHR 0xE1, CHR 0x9A, CHR 0x80],
      [CHR 0xE2, CHR 0x80, CHR 0x80], [CHR 0xE2, CHR 0x80, CHR 0x81],
      [CHR 0xE2, CHR 0x80, CHR 0x82], [CHR 0xE2, CHR 0x80, CHR 0x83],
      [CHR 0xE2, CHR 0x80, CHR 0x84], [CHR 0xE2, CHR 0x80, CHR 0x85],
      [CHR 0xE2, CHR 0x80, CHR 0x86], [CHR 0xE2, CHR 0x80, CHR 0x87],
      [CHR 0xE2, CHR 0x80, CHR 0x88], [CHR 0xE2, CHR 0x80, CHR 0x89],
      [CHR 0xE2, CHR 0x80, CHR 0x8A], [CHR 0xE2, CHR 0x80, CHR 0xA8],
      [CHR 0xE2, CHR 0x80, CHR 0xA9], [CHR 0xE2, CHR 0x80, CHR 0xAF],
      [CHR 0xE2, CHR 0x81, CHR 0x9F], [CHR 0xE3, CHR 0x80, CHR 0x80]]"

text \<open>Bytes taken by the whitespace character at the head of \<open>s\<close>, 0 if there is none;
  \<open>spaces\<close> is \<^const>\<open>wide_spaces\<close>, or its reversals to read a string from its end.\<close>

definition space_len :: "rstr list \<Rightarrow> rstr \<Rightarrow> nat" where
  "space_len spaces s =
     (case s of [] \<Rightarrow> 0
      | c # _ \<Rightarrow> if ascii_space c then 1
          else (case find (\<lambda>w. starts_with w s) spaces of None \<Rightarrow> 0 | Some w \<Rightarrow> length w))"

lemma space_len_Nil [simp]: "space_len spaces [] = 0"
  by (simp add: space_len_def)

function strip_spaces :: "rstr list \<Rightarrow> rstr \<Rightarrow> rstr" where
  "strip_spaces spaces s =
     (if space_len spaces s = 0 then s
      else strip_spaces spaces (drop (space_len spaces s) s))"
  by pat_completeness auto
termination
  by (relation "measure (\<lambda>(spaces, s). length s)")
    (auto simp: space_len_def split: list.splits)

declare strip_spaces.simps [simp del]

definition trim_start :: "rstr \<Rightarrow> rstr" where
  "trim_start s = strip_spaces wide_spaces s"

definition trim_end :: "rstr \<Rightarrow> rstr" where
  "trim_end s = rev (strip_spaces (map rev wide_spaces) (rev s))"

definition trim :: "rstr \<Rightarrow> rstr" where
  "trim s = trim_end (trim_start s)"

lemma space_len_strip [simp]: "space_len sp (strip_spaces sp s) = 0"
proof (induction sp s rule: strip_spaces.induct)
  case (1 sp s)
  then show ?case by (cases "space_len sp s = 0") (simp_all add: strip_spaces.simps [of sp s])
qed

lemma strip_spaces_idem [simp]: "strip_spaces sp (strip_spaces sp s) = strip_spaces sp s"
  by (subst strip_spaces.simps) simp

lemma strip_spaces_suffix: "suffix (strip_spaces sp s) s"
proof (induction sp s rule: strip_spaces.induct)
  case (1 sp s)
  show ?case
  proof (cases "space_len sp s = 0")
    case True
    then show ?thesis by (simp add: strip_spaces.simps [of sp s])
  next
    case False
    with "1.IH" have "suffix (strip_spaces sp (drop (space_len sp s) s)) (drop (space_len sp s) s)"
      by simp
    then show ?thesis
      using False suffix_drop [of "space_len sp s" s]
      by (simp add: strip_spaces.simps [of sp s] suffix_order.trans)
  qed
qed

lemma length_strip_spaces: "length (strip_spaces sp s) \<le> length s"
  using strip_spaces_suffix by (rule suffix_length_le)

lemma length_trim: "length (trim s) \<le> length s"
  unfolding trim_def trim_end_def trim_start_def
  by (metis length_rev length_strip_spaces order_trans)

lemma trim_end_idem: "trim_end (trim_end s) = trim_end s"
  by (simp add: trim_end_def)

section \<open>Decimal numbers\<close>

fun show_nat :: "nat \<Rightarrow> rstr" where
  "show_nat n =
     (if n < 10 then [char_of (48 + n)] else show_nat (n div 10) @ [char_of (48 + n mod 10)])"

declare show_nat.simps [simp del]

definition show_int :: "int \<Rightarrow> rstr" where
  "show_int i = (if i < 0 then CHR ''-'' # show_nat (nat (- i)) else show_nat (nat i))"

fun read_digits :: "nat \<Rightarrow> rstr \<Rightarrow> nat" where
  "read_digits n [] = n"
| "read_digits n (c # cs) = read_digits (10 * n + (byte c - 48)) cs"

lemma read_digits_append: "read_digits n (s @ [c]) = 10 * read_digits n s + (byte c - 48)"
  by (induction n s rule: read_digits.induct) simp_all

lemma read_show_nat: "read_digits 0 (show_nat n) = n"
proof (induction n rule: show_nat.induct)
  case (1 n)
  show ?case
  proof (cases "n < 10")
    case True
    then show ?thesis by (simp add: show_nat.simps [of n])
  next
    case False
    with 1 have "read_digits 0 (show_nat (n div 10)) = n div 10" by simp
    moreover have "n mod 10 < 10" by simp
    ultimately show ?thesis
      using False by (simp add: show_nat.simps [of n] read_digits_append)
  qed
qed

lemma show_nat_digits: "c \<in> set (show_nat n) \<Longrightarrow> is_ascii_digit c"
proof (induction n arbitrary: c rule: show_nat.induct)
  case (1 n)
  have "n mod 10 < 10" by simp
  with 1 show ?case
    by (cases "n < 10") (auto simp: show_nat.simps [of n] is_ascii_digit_def)
qed

lemma show_nat_inject: "show_nat m = show_nat n \<longleftrightarrow> m = n"
  by (metis read_show_nat)

lemma show_nat_Nil [simp]: "show_nat n \<noteq> []"
  by (subst show_nat.simps) simp

lemma append_sep_inject:
  "c \<notin> set a \<Longrightarrow> c \<notin> set a' \<Longrightarrow> a @ c # b = a' @ c # b' \<longleftrightarrow> a = a' \<and> b = b'"
  by (auto simp: append_eq_append_conv2 Cons_eq_append_conv append_eq_Cons_conv)

lemma show_int_inject: "show_int i = show_int j \<longleftrightarrow> i = j"
proof -
  have "CHR ''-'' \<notin> set (show_nat n)" for n
    using show_nat_digits [of "CHR ''-''" n] by (auto simp: is_ascii_digit_def)
  then have "show_nat n \<noteq> CHR ''-'' # s" for n s
    by (metis list.set_intros(1))
  then show ?thesis
    by (auto simp: show_int_def show_nat_inject) metis+
qed

section \<open>Signed 64-bit integers\<close>

definition i64_max :: int where "i64_max = 9223372036854775807"
definition i64_min :: int where "i64_min = -9223372036854775808"

definition in_i64 :: "int \<Rightarrow> bool" where
  "in_i64 x = (i64_min \<le> x \<and> x \<le> i64_max)"

text \<open>The result of \<^verbatim>\<open>saturating_add\<close>, \<^verbatim>\<open>saturating_mul\<close>, \<^verbatim>\<open>saturating_pow\<close> on \<^verbatim>\<open>i64\<close> is
  the exact result clamped to the range.\<close>

definition sat64 :: "int \<Rightarrow> int" where
  "sat64 x = max i64_min (min i64_max x)"

lemma sat64_in_range: "in_i64 (sat64 x)"
  by (simp add: sat64_def in_i64_def i64_min_def i64_max_def)

lemma sat64_id: "in_i64 x \<Longrightarrow> sat64 x = x"
  by (simp add: sat64_def in_i64_def)

lemma sat64_mono: "x \<le> y \<Longrightarrow> sat64 x \<le> sat64 y"
  by (auto simp: sat64_def)

lemma sat64_nonneg: "0 \<le> x \<Longrightarrow> 0 \<le> sat64 x"
  by (simp add: sat64_def i64_min_def i64_max_def)

end
