(* ===== verification/Access.thy ===== *)
theory Access
  imports Prelude
begin

text \<open>
  \<^verbatim>\<open>backend/src/access.rs\<close>: the authenticated actor and its row-level data scope, and
  the order in which one scope may grant another.
\<close>

section \<open>Data scopes\<close>

datatype data_scope = Scope_All | Scope_Organization | Scope_DepartmentAndChildren | Scope_Department | Scope_SelfOnly

definition data_scope_as_str :: "data_scope \<Rightarrow> rstr" where
  "data_scope_as_str s = (case s of
      Scope_All \<Rightarrow> ''all''
    | Scope_Organization \<Rightarrow> ''organization''
    | Scope_DepartmentAndChildren \<Rightarrow> ''department_and_children''
    | Scope_Department \<Rightarrow> ''department''
    | Scope_SelfOnly \<Rightarrow> ''self'')"

definition from_database :: "rstr \<Rightarrow> data_scope option" where
  "from_database value =
     (if value = ''all'' then Some Scope_All
      else if value = ''organization'' then Some Scope_Organization
      else if value = ''department_and_children'' then Some Scope_DepartmentAndChildren
      else if value = ''department'' then Some Scope_Department
      else if value = ''self'' then Some Scope_SelfOnly
      else None)"

fun can_grant :: "data_scope \<Rightarrow> data_scope \<Rightarrow> bool" where
  "can_grant Scope_All requested = True"
| "can_grant Scope_Organization requested = (requested \<noteq> Scope_All)"
| "can_grant Scope_DepartmentAndChildren requested =
     (requested \<in> {Scope_DepartmentAndChildren, Scope_Department, Scope_SelfOnly})"
| "can_grant Scope_Department requested = (requested \<in> {Scope_Department, Scope_SelfOnly})"
| "can_grant Scope_SelfOnly requested = (requested = Scope_SelfOnly)"

section \<open>Actors\<close>

datatype actor_type = User | System

definition actor_type_as_str :: "actor_type \<Rightarrow> rstr" where
  "actor_type_as_str t = (case t of User \<Rightarrow> ''user'' | System \<Rightarrow> ''system'')"

record actor_context =
  actor_type :: actor_type
  user_id :: int
  session_id :: int
  organization_id :: int
  department_id :: "int option"
  data_scope :: data_scope
  permission_codes :: "rstr set"

definition has_permission :: "actor_context \<Rightarrow> rstr \<Rightarrow> bool" where
  "has_permission actor code = (code \<in> permission_codes actor)"

definition can_create_peer :: "actor_context \<Rightarrow> bool" where
  "can_create_peer actor = (data_scope actor \<noteq> Scope_SelfOnly)"

section \<open>The grant order\<close>

text \<open>The scopes are ranked from the narrowest to the widest; granting is the order of
  ranks, so the scopes form a linear order in which an actor grants what is below it.\<close>

fun scope_rank :: "data_scope \<Rightarrow> nat" where
  "scope_rank Scope_SelfOnly = 0"
| "scope_rank Scope_Department = 1"
| "scope_rank Scope_DepartmentAndChildren = 2"
| "scope_rank Scope_Organization = 3"
| "scope_rank Scope_All = 4"

lemma can_grant_iff_rank: "can_grant a b \<longleftrightarrow> scope_rank b \<le> scope_rank a"
  by (cases a; cases b) simp_all

lemma scope_rank_inj: "scope_rank a = scope_rank b \<Longrightarrow> a = b"
  by (cases a; cases b) simp_all

instantiation data_scope :: linorder
begin

definition less_eq_data_scope :: "data_scope \<Rightarrow> data_scope \<Rightarrow> bool" where
  "less_eq_data_scope a b = can_grant b a"

definition less_data_scope :: "data_scope \<Rightarrow> data_scope \<Rightarrow> bool" where
  "less_data_scope a b = (can_grant b a \<and> \<not> can_grant a b)"

instance
  by intro_classes
    (auto simp: less_eq_data_scope_def less_data_scope_def can_grant_iff_rank
       intro: scope_rank_inj)

end

lemma as_str_from_database: "from_database (data_scope_as_str s) = Some s"
  by (cases s) (simp_all add: data_scope_as_str_def from_database_def)

lemma from_database_as_str: "from_database v = Some s \<Longrightarrow> v = data_scope_as_str s"
  by (auto simp: data_scope_as_str_def from_database_def split: if_splits)

end
