(* ===== verification/Store.thy ===== *)
theory Store
  imports Access "HOL-Library.Product_Lexorder"
begin

text \<open>
  The tables the task scheduler works on, as \<^verbatim>\<open>backend/src/repositories/devrail.rs\<close>,
  \<^verbatim>\<open>backend/src/models.rs\<close> (\<^verbatim>\<open>DevRailTaskRow\<close>, \<^verbatim>\<open>DevRailRunRow\<close>,
  \<^verbatim>\<open>DevRailEnvironmentRow\<close>, \<^verbatim>\<open>DevRailTaskDependencyRow\<close>) and the migrations declare them.
  A timestamp is a number of microseconds, \<open>now\<close> the time of the transaction (PostgreSQL's
  \<^verbatim>\<open>now()\<close> is constant within one), and every statement is one atomic step on the database.
  Display texts in Chinese are represented by ASCII tags.
\<close>

section \<open>Statuses\<close>

datatype task_status =
    Task_Draft | Task_Queued | Task_Running | Task_AwaitingApproval | Task_ContinuationPending
  | Task_RepairPending | Task_RepairRunning | Task_RepairHandoff | Task_Succeeded | Task_Failed
  | Task_Cancelled | Task_Skipped | Task_Archived

datatype run_status =
    Run_Created | Run_Starting | Run_Active | Run_AwaitingApproval | Run_Completed | Run_Failed
  | Run_Cancelled

datatype run_kind = Primary | Retry | Continuation | FollowUp | Repair

datatype priority = Low | Normal | High | Urgent

datatype dependency_action = Wait | Skip | Fail

type_synonym timestamp = int
type_synonym uuid = nat

definition seconds :: "int \<Rightarrow> timestamp" where
  "seconds s = s * 1000000"

section \<open>Rows\<close>

record task_row =
  t_id :: int
  t_organization_id :: int
  t_department_id :: "int option"
  t_owner_user_id :: int
  t_project_id :: int
  t_repository_id :: "int option"
  t_environment_id :: "int option"
  t_assignee_user_id :: "int option"
  t_title :: rstr
  t_goal :: rstr
  t_background :: "rstr option"
  t_acceptance_criteria :: "rstr option"
  t_constraints :: "rstr option"
  t_labels :: "rstr list"
  t_priority :: priority
  t_status :: task_status
  t_revision :: int
  t_dispatch_snapshot :: rstr
  t_dispatch_snapshot_digest :: rstr
  t_workflow_source :: rstr
  t_workflow_version :: rstr
  t_workflow_digest :: rstr
  t_scheduler_attempt :: int
  t_scheduler_retry_count :: int
  t_scheduler_max_attempts :: int
  t_scheduler_retry_at :: "timestamp option"
  t_scheduler_last_error :: "rstr option"
  t_scheduler_claim_token :: "uuid option"
  t_scheduler_claimed_at :: "timestamp option"
  t_hook_failure_fingerprint :: "rstr option"
  t_hook_failure_count :: int
  t_due_at :: "timestamp option"
  t_created_at :: timestamp
  t_updated_at :: timestamp
  t_archived_at :: "timestamp option"
  t_current_repair_request_id :: "int option"
  t_creation_source :: rstr
  t_source_task_id :: "int option"
  t_source_run_id :: "int option"
  t_followup_depth :: int

record run_row =
  r_id :: int
  r_organization_id :: int
  r_department_id :: "int option"
  r_owner_user_id :: int
  r_task_id :: int
  r_run_kind :: run_kind
  r_parent_run_id :: "int option"
  r_root_run_id :: "int option"
  r_turn_id :: "rstr option"
  r_continuation_request_id :: "int option"
  r_repair_request_id :: "int option"
  r_status :: run_status
  r_attempt :: int
  r_task_revision :: int
  r_workflow_source :: rstr
  r_workflow_version :: rstr
  r_workflow_digest :: rstr
  r_exit_reason :: "rstr option"
  r_retry_reason :: "rstr option"
  r_recovery_suggestion :: "rstr option"
  r_cleanup_status :: rstr
  r_last_heartbeat_at :: "timestamp option"
  r_last_event_at :: "timestamp option"
  r_completed_at :: "timestamp option"
  r_updated_at :: timestamp
  r_snapshot_id :: int
  r_idempotency_key :: rstr
  r_actor_type :: actor_type
  r_parent_turn_id :: "rstr option"
  r_continuation_sequence :: "int option"
  r_repair_sequence :: "int option"
  r_thread_id :: "rstr option"
  r_harness_version :: "rstr option"
  r_harness_start_key :: "rstr option"
  r_harness_start_claim :: "(rstr \<times> uuid \<times> timestamp) option"
  r_harness_started_token :: "uuid option"
  r_quality_gate_claim :: "(rstr \<times> uuid \<times> timestamp) option"
  r_recovery_attempts :: int
  r_cwd :: rstr
  r_exit_code :: "int option"
  r_stderr_summary :: "rstr option"
  r_trace_id :: "rstr option"
  r_started_at :: "timestamp option"

record environment_row =
  e_id :: int
  e_organization_id :: int
  e_department_id :: "int option"
  e_owner_user_id :: int
  e_project_id :: int
  e_enabled :: bool
  e_archived_at :: "timestamp option"

record dependency_row =
  d_id :: int
  d_organization_id :: int
  d_department_id :: "int option"
  d_owner_user_id :: int
  d_task_id :: int
  d_prerequisite_task_id :: int
  d_failure_action :: dependency_action
  d_cancelled_action :: dependency_action
  d_timeout_action :: dependency_action

text \<open>Status history (appended by the trigger \<^verbatim>\<open>trg_devrail_record_task_status_history\<close>),
  audit log, notifications and outbox, with the columns the modelled code reads or keys on.\<close>

record history_row =
  h_id :: int
  h_organization_id :: int
  h_task_id :: int
  h_from_status :: task_status
  h_to_status :: task_status

record audit_row =
  a_organization_id :: int
  a_department_id :: "int option"
  a_action :: rstr
  a_target_type :: rstr
  a_target_id :: int
  a_reason :: rstr
  a_trace_id :: rstr

record notification_row =
  n_organization_id :: int
  n_department_id :: "int option"
  n_recipient_user_id :: int
  n_event_type :: rstr
  n_level :: rstr
  n_resource_type :: rstr
  n_resource_id :: int
  n_source_key :: rstr

text \<open>\<open>o_source\<close> is the value of \<^verbatim>\<open>COALESCE(payload->>'notificationSource', payload::text)\<close>,
  the last column of the table's unique index.\<close>

record outbox_row =
  o_organization_id :: int
  o_event_type :: rstr
  o_aggregate_type :: rstr
  o_aggregate_id :: int
  o_source :: rstr

record department_row =
  dep_id :: int
  dep_organization_id :: int
  dep_parent_id :: "int option"

record mutation_row =
  m_organization_id :: int
  m_task_id :: int
  m_idempotency_key :: rstr
  m_request_digest :: rstr
  m_result_revision :: int

record propagation_row =
  pr_organization_id :: int
  pr_dependency_id :: int
  pr_source_status_history_id :: int
  pr_action :: dependency_action
  pr_result_status :: task_status
  pr_trace_id :: rstr

record task_event_row =
  ev_organization_id :: int
  ev_task_id :: int
  ev_cursor :: int
  ev_event_type :: rstr
  ev_idempotency_key :: rstr

record db =
  departments :: "department_row list"
  tasks :: "task_row list"
  runs :: "run_row list"
  environments :: "environment_row list"
  dependencies :: "dependency_row list"
  dependency_mutations :: "mutation_row list"
  dependency_propagations :: "propagation_row list"
  task_events :: "task_event_row list"
  status_history :: "history_row list"
  audit_logs :: "audit_row list"
  notifications :: "notification_row list"
  outbox_events :: "outbox_row list"

text \<open>\<^verbatim>\<open>INSERT .. SELECT .. ON CONFLICT (key) DO NOTHING\<close>.\<close>

fun insert_absent :: "('r \<Rightarrow> 'k) \<Rightarrow> 'r list \<Rightarrow> 'r list \<Rightarrow> 'r list" where
  "insert_absent key [] rows = rows"
| "insert_absent key (x # xs) rows =
     insert_absent key xs (if key x \<in> key ` set rows then rows else rows @ [x])"

definition notification_key :: "notification_row \<Rightarrow> int \<times> rstr" where
  "notification_key n = (n_recipient_user_id n, n_source_key n)"

definition outbox_key :: "outbox_row \<Rightarrow> int \<times> rstr \<times> rstr \<times> int \<times> rstr" where
  "outbox_key e =
     (o_organization_id e, o_event_type e, o_aggregate_type e, o_aggregate_id e, o_source e)"

section \<open>Updating the task table\<close>

text \<open>An \<^verbatim>\<open>UPDATE devrail_tasks\<close> with the status-history trigger: one history row for each
  row whose status changes, in row order.\<close>

fun record_status_history ::
  "task_row list \<Rightarrow> task_row list \<Rightarrow> history_row list \<Rightarrow> history_row list" where
  "record_status_history (old # olds) (new # news) hs =
     record_status_history olds news
       (if t_status old = t_status new then hs
        else hs @ [\<lparr>h_id = next_serial h_id hs, h_organization_id = t_organization_id new,
                    h_task_id = t_id new, h_from_status = t_status old,
                    h_to_status = t_status new\<rparr>])"
| "record_status_history _ _ hs = hs"

definition update_tasks :: "(task_row \<Rightarrow> bool) \<Rightarrow> (task_row \<Rightarrow> task_row) \<Rightarrow> db \<Rightarrow> db" where
  "update_tasks P f db =
     (let rows = update_where P f (tasks db)
      in db\<lparr>tasks := rows,
            status_history := record_status_history (tasks db) rows (status_history db)\<rparr>)"

definition find_by_id :: "db \<Rightarrow> int \<Rightarrow> task_row option" where
  "find_by_id db i = find (\<lambda>t. t_id t = i) (tasks db)"

text \<open>\<^verbatim>\<open>append_task_event\<close>: the next cursor of the task, nothing on a repeated key.\<close>

definition next_cursor :: "int \<Rightarrow> task_event_row list \<Rightarrow> int" where
  "next_cursor task_id evs =
     (let cs = map ev_cursor (filter (\<lambda>e. ev_task_id e = task_id) evs)
      in if cs = [] then 1 else Max (set cs) + 1)"

definition append_task_event :: "int \<Rightarrow> int \<Rightarrow> rstr \<Rightarrow> rstr \<Rightarrow> db \<Rightarrow> db" where
  "append_task_event org task_id event_type key db =
     (if list_ex (\<lambda>e. ev_task_id e = task_id \<and> ev_idempotency_key e = key) (task_events db) then db
      else db\<lparr>task_events := task_events db @
             [\<lparr>ev_organization_id = org, ev_task_id = task_id,
               ev_cursor = next_cursor task_id (task_events db), ev_event_type = event_type,
               ev_idempotency_key = key\<rparr>]\<rparr>)"

text \<open>\<^verbatim>\<open>audit_logs::record_actor\<close> and \<^verbatim>\<open>devrail_notifications::outbox\<close>.\<close>

definition record_audit :: "audit_row \<Rightarrow> db \<Rightarrow> db" where
  "record_audit a db = db\<lparr>audit_logs := audit_logs db @ [a]\<rparr>"

definition outbox :: "outbox_row \<Rightarrow> db \<Rightarrow> db" where
  "outbox e db = db\<lparr>outbox_events := insert_absent outbox_key [e] (outbox_events db)\<rparr>"

text \<open>Primary keys are unique.\<close>

definition keys_ok :: "db \<Rightarrow> bool" where
  "keys_ok db = (distinct (map t_id (tasks db)) \<and> distinct (map r_id (runs db)))"

lemma tasks_update_tasks [simp]: "tasks (update_tasks P f db) = update_where P f (tasks db)"
  and runs_update_tasks [simp]: "runs (update_tasks P f db) = runs db"
  and environments_update_tasks [simp]: "environments (update_tasks P f db) = environments db"
  and departments_update_tasks [simp]: "departments (update_tasks P f db) = departments db"
  and mutations_update_tasks [simp]:
    "dependency_mutations (update_tasks P f db) = dependency_mutations db"
  and dependencies_update_tasks [simp]: "dependencies (update_tasks P f db) = dependencies db"
  by (simp_all add: update_tasks_def Let_def)

lemma insert_absent_keys: "key ` set (insert_absent key xs rows) = key ` set xs \<union> key ` set rows"
  by (induction key xs rows rule: insert_absent.induct) (auto simp: insert_absent.simps)

lemma insert_absent_distinct:
  "distinct (map key rows) \<Longrightarrow> distinct (map key (insert_absent key xs rows))"
  by (induction key xs rows rule: insert_absent.induct) (auto simp: image_iff)

lemma insert_absent_present:
  "key ` set xs \<subseteq> key ` set rows \<Longrightarrow> insert_absent key xs rows = rows"
  by (induction key xs rows rule: insert_absent.induct) auto

lemma frame_side_tables [simp]:
  "tasks (append_task_event org i ty key db) = tasks db"
  "dependencies (append_task_event org i ty key db) = dependencies db"
  "runs (append_task_event org i ty key db) = runs db"
  "dependency_mutations (append_task_event org i ty key db) = dependency_mutations db"
  "tasks (record_audit a db) = tasks db"
  "dependencies (record_audit a db) = dependencies db"
  "runs (record_audit a db) = runs db"
  "dependency_mutations (record_audit a db) = dependency_mutations db"
  "tasks (outbox e db) = tasks db"
  "dependencies (outbox e db) = dependencies db"
  "runs (outbox e db) = runs db"
  "dependency_mutations (outbox e db) = dependency_mutations db"
  by (simp_all add: append_task_event_def record_audit_def outbox_def)

lemma record_status_history_same:
  "map t_status olds = map t_status news \<Longrightarrow> record_status_history olds news hs = hs"
  by (induction olds news hs rule: record_status_history.induct) auto

lemma update_tasks_none:
  "(\<And>t. t \<in> set (tasks db) \<Longrightarrow> \<not> P t) \<Longrightarrow> update_tasks P f db = db"
  by (simp add: update_tasks_def update_where_none record_status_history_same)

lemma keys_ok_update_tasks:
  "keys_ok db \<Longrightarrow> (\<And>t. t_id (f t) = t_id t) \<Longrightarrow> keys_ok (update_tasks P f db)"
  by (simp add: keys_ok_def update_where_keeps)

lemma find_distinct_iff:
  "distinct (map key xs) \<Longrightarrow> find (\<lambda>y. key y = k) xs = Some x \<longleftrightarrow> x \<in> set xs \<and> key x = k"
  by (induction xs) (auto simp: image_iff)

lemma find_by_id_mem:
  "keys_ok db \<Longrightarrow> find_by_id db i = Some t \<longleftrightarrow> t \<in> set (tasks db) \<and> t_id t = i"
  by (simp add: find_by_id_def keys_ok_def find_distinct_iff)

lemma find_by_id_id: "find_by_id db i = Some t \<Longrightarrow> t_id t = i"
  by (auto simp: find_by_id_def find_Some_iff)

lemma find_by_id_update_tasks:
  assumes "\<And>t. t_id (f t) = t_id t"
  shows "find_by_id (update_tasks P f db) i = map_option (\<lambda>t. if P t then f t else t) (find_by_id db i)"
  by (simp add: find_by_id_def find_update_where assms)

section \<open>A small database\<close>

text \<open>One project of organization 1 with an enabled environment, a queued task and no runs:
  the concrete inputs of the development vary these rows.\<close>

definition example_task :: "int \<Rightarrow> task_row" where
  "example_task i =
     \<lparr>t_id = i, t_organization_id = 1, t_department_id = Some 10, t_owner_user_id = 100,
      t_project_id = 5, t_repository_id = None, t_environment_id = Some 7,
      t_assignee_user_id = None, t_title = ''title'', t_goal = ''goal'', t_background = None,
      t_acceptance_criteria = None, t_constraints = None, t_labels = [], t_priority = Normal,
      t_status = Task_Queued, t_revision = 1, t_dispatch_snapshot = ''{}'',
      t_dispatch_snapshot_digest = ''d'', t_workflow_source = ''w'', t_workflow_version = ''1'',
      t_workflow_digest = ''x'', t_scheduler_attempt = 0, t_scheduler_retry_count = 0,
      t_scheduler_max_attempts = 3, t_scheduler_retry_at = None, t_scheduler_last_error = None,
      t_scheduler_claim_token = None, t_scheduler_claimed_at = None, t_hook_failure_fingerprint = None, t_hook_failure_count = 0,
      t_due_at = None, t_created_at = 0, t_updated_at = 0, t_archived_at = None,
      t_current_repair_request_id = None, t_creation_source = ''manual'', t_source_task_id = None, t_source_run_id = None,
      t_followup_depth = 0\<rparr>"

definition example_run :: "int \<Rightarrow> int \<Rightarrow> run_row" where
  "example_run i task =
     \<lparr>r_id = i, r_organization_id = 1, r_department_id = Some 10, r_owner_user_id = 100,
      r_task_id = task, r_run_kind = Primary, r_parent_run_id = None,
      r_root_run_id = None, r_turn_id = None, r_continuation_request_id = None, r_repair_request_id = None,
      r_status = Run_Active, r_attempt = 1,
      r_task_revision = 1, r_workflow_source = ''w'', r_workflow_version = ''1'',
      r_workflow_digest = ''x'', r_exit_reason = None, r_retry_reason = None,
      r_recovery_suggestion = None, r_cleanup_status = ''pending'', r_last_heartbeat_at = Some 0,
      r_last_event_at = None, r_completed_at = None, r_updated_at = 0,
      r_snapshot_id = 1, r_idempotency_key = ''key'', r_actor_type = User, r_parent_turn_id = None,
      r_continuation_sequence = None, r_repair_sequence = None, r_thread_id = None, r_harness_version = None,
      r_harness_start_key = Some ''start'', r_harness_start_claim = None, r_harness_started_token = None,
      r_quality_gate_claim = None, r_recovery_attempts = 0, r_cwd = ''/w'', r_exit_code = None,
      r_stderr_summary = None, r_trace_id = None, r_started_at = None\<rparr>"

definition example_environment :: environment_row where
  "example_environment =
     \<lparr>e_id = 7, e_organization_id = 1, e_department_id = Some 10, e_owner_user_id = 100,
      e_project_id = 5, e_enabled = True, e_archived_at = None\<rparr>"

definition example_db :: "task_row list \<Rightarrow> run_row list \<Rightarrow> db" where
  "example_db ts rs =
     \<lparr>departments = [\<lparr>dep_id = 10, dep_organization_id = 1, dep_parent_id = None\<rparr>,
         \<lparr>dep_id = 11, dep_organization_id = 1, dep_parent_id = Some 10\<rparr>],
      tasks = ts, runs = rs, environments = [example_environment], dependencies = [],
      dependency_mutations = [], dependency_propagations = [], task_events = [],
      status_history = [], audit_logs = [], notifications = [], outbox_events = []\<rparr>"

lemmas example_defs = example_task_def example_run_def example_environment_def example_db_def

end
