(* ===== verification/Leases.thy ===== *)
theory Leases
  imports Store
begin

text \<open>
  The claim protocol that the scheduler, the repair requests, their gate reruns and the
  continuation requests share: a worker claims rows under its credential (a claim token,
  with the worker's name where the table has one), renews its lease, releases it, and a
  sweep frees leases that ran out. The locale states what a table must promise; the
  consequence is proved once: while a lease is live, nothing the other workers do takes
  the row away from its holder.
\<close>

datatype 'c lease_op = Claim 'c | Renew 'c int | Release 'c int | Expire

text \<open>\<open>by_others c op\<close>: the step is not taken under the credential \<open>c\<close>.\<close>

fun by_others :: "'c \<Rightarrow> 'c lease_op \<Rightarrow> bool" where
  "by_others c (Claim c') = (c' \<noteq> c)"
| "by_others c (Renew c' k) = (c' \<noteq> c)"
| "by_others c (Release c' k) = (c' \<noteq> c)"
| "by_others c Expire = True"

fun lease_step ::
  "(timestamp \<Rightarrow> 'c \<Rightarrow> 's \<Rightarrow> 's \<times> int list) \<Rightarrow> (timestamp \<Rightarrow> 'c \<Rightarrow> int \<Rightarrow> 's \<Rightarrow> 's \<times> bool) \<Rightarrow>
   (timestamp \<Rightarrow> 'c \<Rightarrow> int \<Rightarrow> 's \<Rightarrow> 's \<times> bool) \<Rightarrow> (timestamp \<Rightarrow> 's \<Rightarrow> 's) \<Rightarrow>
   timestamp \<Rightarrow> 'c lease_op \<Rightarrow> 's \<Rightarrow> 's" where
  "lease_step claim renew release expire now (Claim c) s = fst (claim now c s)"
| "lease_step claim renew release expire now (Renew c k) s = fst (renew now c k s)"
| "lease_step claim renew release expire now (Release c k) s = fst (release now c k s)"
| "lease_step claim renew release expire now Expire s = expire now s"

fun lease_run ::
  "(timestamp \<Rightarrow> 'c \<Rightarrow> 's \<Rightarrow> 's \<times> int list) \<Rightarrow> (timestamp \<Rightarrow> 'c \<Rightarrow> int \<Rightarrow> 's \<Rightarrow> 's \<times> bool) \<Rightarrow>
   (timestamp \<Rightarrow> 'c \<Rightarrow> int \<Rightarrow> 's \<Rightarrow> 's \<times> bool) \<Rightarrow> (timestamp \<Rightarrow> 's \<Rightarrow> 's) \<Rightarrow>
   (timestamp \<times> 'c lease_op) list \<Rightarrow> 's \<Rightarrow> 's" where
  "lease_run claim renew release expire [] s = s"
| "lease_run claim renew release expire ((now, op) # ops) s =
     lease_run claim renew release expire ops (lease_step claim renew release expire now op s)"

locale lease_table =
  fixes invar :: "'s \<Rightarrow> bool"
    and holder :: "'s \<Rightarrow> int \<Rightarrow> 'c option"
    and live :: "'s \<Rightarrow> timestamp \<Rightarrow> int \<Rightarrow> bool"
    and claim :: "timestamp \<Rightarrow> 'c \<Rightarrow> 's \<Rightarrow> 's \<times> int list"
    and renew :: "timestamp \<Rightarrow> 'c \<Rightarrow> int \<Rightarrow> 's \<Rightarrow> 's \<times> bool"
    and release :: "timestamp \<Rightarrow> 'c \<Rightarrow> int \<Rightarrow> 's \<Rightarrow> 's \<times> bool"
    and expire :: "timestamp \<Rightarrow> 's \<Rightarrow> 's"
  assumes live_earlier: "live s T k \<Longrightarrow> now \<le> T \<Longrightarrow> live s now k"
    and invar_step: "invar s \<Longrightarrow> invar (lease_step claim renew release expire now op s)"
    and claim_given: "invar s \<Longrightarrow> k \<in> set (snd (claim now c s)) \<Longrightarrow>
          holder (fst (claim now c s)) k = Some c"
    and claim_live: "invar s \<Longrightarrow> holder s k = Some c' \<Longrightarrow> live s now k \<Longrightarrow>
          k \<notin> set (snd (claim now c s))"
    and claim_frame: "invar s \<Longrightarrow> k \<notin> set (snd (claim now c s)) \<Longrightarrow>
          holder (fst (claim now c s)) k = holder s k
          \<and> live (fst (claim now c s)) T k = live s T k"
    and renew_fenced: "invar s \<Longrightarrow> holder s k \<noteq> Some c \<Longrightarrow> renew now c k s = (s, False)"
    and renew_frame: "invar s \<Longrightarrow> k' \<noteq> k \<Longrightarrow>
          holder (fst (renew now c k s)) k' = holder s k'
          \<and> live (fst (renew now c k s)) T k' = live s T k'"
    and release_fenced: "invar s \<Longrightarrow> holder s k \<noteq> Some c \<Longrightarrow> release now c k s = (s, False)"
    and release_done: "invar s \<Longrightarrow> holder s k = Some c \<Longrightarrow>
          snd (release now c k s) \<and> holder (fst (release now c k s)) k = None"
    and release_frame: "invar s \<Longrightarrow> k' \<noteq> k \<Longrightarrow>
          holder (fst (release now c k s)) k' = holder s k'
          \<and> live (fst (release now c k s)) T k' = live s T k'"
    and expire_live: "invar s \<Longrightarrow> live s now k \<Longrightarrow> holder s k = Some c \<Longrightarrow>
          holder (expire now s) k = holder s k \<and> live (expire now s) T k = live s T k"
begin

lemma step_by_others:
  assumes "invar s" and "holder s k = Some c" and "live s now k" and "by_others c op"
  shows "holder (lease_step claim renew release expire now op s) k = Some c
    \<and> live (lease_step claim renew release expire now op s) T k = live s T k"
proof (cases op)
  case (Claim c')
  with assms claim_live [of s k c now c'] claim_frame [of s k now c' T] show ?thesis by simp
next
  case (Renew c' k')
  with assms renew_fenced [of s k c' now] renew_frame [of s k k' now c' T] show ?thesis
    by (cases "k' = k") auto
next
  case (Release c' k')
  with assms release_fenced [of s k c' now] release_frame [of s k k' now c' T] show ?thesis
    by (cases "k' = k") auto
next
  case Expire
  with assms expire_live [of s now k c T] show ?thesis by simp
qed

lemma invar_run: "invar s \<Longrightarrow> invar (lease_run claim renew release expire ops s)"
proof (induction ops arbitrary: s)
  case (Cons x ops)
  then show ?case by (cases x) (simp add: invar_step)
qed simp

lemma live_lease_is_exclusive:
  assumes "invar s" and "holder s k = Some c" and "live s T k"
    and "\<forall>(now, op) \<in> set ops. now \<le> T \<and> by_others c op"
  shows "holder (lease_run claim renew release expire ops s) k = Some c
    \<and> live (lease_run claim renew release expire ops s) T k"
  using assms
proof (induction ops arbitrary: s)
  case Nil
  then show ?case by simp
next
  case (Cons x ops)
  obtain now op where x: "x = (now, op)" by (cases x)
  let ?s = "lease_step claim renew release expire now op s"
  from Cons.prems x have "now \<le> T" and "by_others c op" by auto
  with Cons.prems have step: "holder ?s k = Some c \<and> live ?s T k = live s T k"
    by (intro step_by_others) (auto intro: live_earlier)
  from Cons.prems have "invar ?s" by (intro invar_step)
  with step Cons.prems Cons.IH [of ?s] x show ?case by simp
qed

lemma released_claim_is_stale:
  assumes "invar s" and "holder s k = Some c"
  shows "snd (renew later c k (fst (release now c k s))) = False
    \<and> snd (release later c k (fst (release now c k s))) = False"
proof -
  let ?s = "fst (release now c k s)"
  from assms have "holder ?s k = None" using release_done by blast
  moreover from assms(1) have "invar ?s"
    using invar_step [of s now "Release c k"] by simp
  ultimately show ?thesis
    by (simp add: renew_fenced release_fenced)
qed

end

section \<open>Leases with an expiry column\<close>

text \<open>The statements the request tables share, over any row type. \<open>select_rows\<close> is
  \<^verbatim>\<open>SELECT .. WHERE .. ORDER BY .. FOR UPDATE SKIP LOCKED LIMIT n\<close>, \<open>claim_rows\<close> the update of the
  rows it selects, \<open>update_one\<close> an update whose caller tests for exactly one affected row.\<close>

definition select_rows ::
  "('r \<Rightarrow> int) \<Rightarrow> ('r \<Rightarrow> bool) \<Rightarrow> ('r \<Rightarrow> 'k::linorder) \<Rightarrow> int set \<Rightarrow> int \<Rightarrow> 'r list \<Rightarrow> int list" where
  "select_rows key P order locked limit rows =
     map key (take (nat limit) (filter (\<lambda>r. key r \<notin> locked) (sort_key order (filter P rows))))"

definition claim_rows ::
  "('r \<Rightarrow> int) \<Rightarrow> ('r \<Rightarrow> bool) \<Rightarrow> ('r \<Rightarrow> 'k::linorder) \<Rightarrow> ('r \<Rightarrow> 'r) \<Rightarrow> int set \<Rightarrow> int \<Rightarrow> 'r list \<Rightarrow>
   'r list \<times> int list" where
  "claim_rows key P order f locked limit rows =
     (let ids = select_rows key P order locked limit rows
      in (update_where (\<lambda>r. key r \<in> set ids) f rows, ids))"

definition update_one :: "('r \<Rightarrow> bool) \<Rightarrow> ('r \<Rightarrow> 'r) \<Rightarrow> 'r list \<Rightarrow> 'r list \<times> bool" where
  "update_one P f rows = (update_where P f rows, length (rows_where P rows) = 1)"

definition clamp :: "int \<Rightarrow> int \<Rightarrow> int \<Rightarrow> int" where
  "clamp lo hi x = max lo (min hi x)"

definition unexpired :: "('r \<Rightarrow> timestamp option) \<Rightarrow> timestamp \<Rightarrow> 'r \<Rightarrow> bool" where
  "unexpired expires now r = (case expires r of None \<Rightarrow> False | Some e \<Rightarrow> now < e)"

definition expired :: "('r \<Rightarrow> timestamp option) \<Rightarrow> timestamp \<Rightarrow> 'r \<Rightarrow> bool" where
  "expired expires now r = (case expires r of None \<Rightarrow> False | Some e \<Rightarrow> e \<le> now)"

lemma select_rows_sound:
  assumes "distinct (map key rows)" and "k \<in> set (select_rows key P order locked limit rows)"
  shows "\<exists>r. find (\<lambda>r. key r = k) rows = Some r \<and> P r"
proof -
  from assms(2) obtain r where r: "r \<in> set rows" "P r" "key r = k"
    by (auto simp: select_rows_def dest!: in_set_takeD)
  with assms(1) show ?thesis by (auto simp: find_distinct_iff)
qed

lemma select_rows_bound:
  "length (select_rows key P order locked limit rows) \<le> nat limit"
  by (simp add: select_rows_def)

lemma select_rows_range:
  "set (select_rows key P order locked limit rows) \<subseteq> key ` {r \<in> set rows. P r \<and> key r \<notin> locked}"
  by (auto simp: select_rows_def dest!: in_set_takeD)

lemma select_rows_complete:
  assumes "length (select_rows key P order locked limit rows) < nat limit"
  shows "set (select_rows key P order locked limit rows) = key ` {r \<in> set rows. P r \<and> key r \<notin> locked}"
proof -
  let ?xs = "filter (\<lambda>r. key r \<notin> locked) (sort_key order (filter P rows))"
  have "take (nat limit) ?xs = ?xs" using assms by (simp add: select_rows_def)
  then show ?thesis by (auto simp: select_rows_def)
qed

lemma length_rows_where_key:
  assumes "distinct (map key xs)" and "\<And>x. P x \<Longrightarrow> key x = k"
  shows "length (rows_where P xs) = 1 \<longleftrightarrow> (\<exists>x. find (\<lambda>x. key x = k) xs = Some x \<and> P x)"
  using assms(1)
proof (induction xs)
  case Nil
  then show ?case by (simp add: rows_where_def)
next
  case (Cons x xs)
  have none: "filter P xs = []" if "key x = k"
  proof -
    have "\<not> P y" if "y \<in> set xs" for y
      using that \<open>key x = k\<close> Cons.prems assms(2) [of y] by (auto simp: image_iff)
    then show ?thesis by (simp add: filter_empty_conv)
  qed
  show ?case
  proof (cases "key x = k")
    case True
    with none show ?thesis by (simp add: rows_where_def)
  next
    case False
    with assms(2) have "\<not> P x" by blast
    with False Cons show ?thesis by (simp add: rows_where_def)
  qed
qed

lemma find_key_id: "find (\<lambda>r. key r = k) rows = Some r \<Longrightarrow> key r = k"
  by (auto simp: find_Some_iff)

lemma find_key_update_where:
  "(\<And>r. key (f r) = key r) \<Longrightarrow>
   find (\<lambda>r. key r = k) (update_where P f rows) =
     map_option (\<lambda>r. if P r then f r else r) (find (\<lambda>r. key r = k) rows)"
  by (rule find_update_where) simp

text \<open>The contract of one such table: \<open>cred\<close> is the credential of a claimed row and \<open>None\<close> for any
  other, \<open>expires\<close> its expiry, \<open>claimable\<close> and \<open>sweepable\<close> the \<^verbatim>\<open>WHERE\<close> clauses of claim and sweep, and the four updates are
  the \<^verbatim>\<open>SET\<close> clauses of claim, renewal, release and sweep.\<close>

locale row_leases =
  fixes key :: "'r \<Rightarrow> int"
    and cred :: "'r \<Rightarrow> 'c option"
    and expires :: "'r \<Rightarrow> timestamp option"
    and claimable :: "timestamp \<Rightarrow> 'r \<Rightarrow> bool"
    and claim_order :: "'r \<Rightarrow> 'k::linorder"
    and sweepable :: "timestamp \<Rightarrow> 'r \<Rightarrow> bool"
    and sweep_order :: "'r \<Rightarrow> 'm::linorder"
    and on_claim :: "timestamp \<Rightarrow> 'c \<Rightarrow> 'r \<Rightarrow> 'r"
    and on_renew :: "timestamp \<Rightarrow> 'r \<Rightarrow> 'r"
    and on_release :: "timestamp \<Rightarrow> 'r \<Rightarrow> 'r"
    and on_sweep :: "timestamp \<Rightarrow> 'r \<Rightarrow> 'r"
    and locked :: "timestamp \<Rightarrow> int set"
    and limit :: int
    and sweep_limit :: int
  assumes keeps_key: "key (on_claim now c r) = key r" "key (on_renew now r) = key r"
      "key (on_release now r) = key r" "key (on_sweep now r) = key r"
    and claimable_free: "claimable now r \<Longrightarrow> cred r = None"
    and sweepable_expired: "sweepable now r \<Longrightarrow> expired expires now r"
    and cred_claim: "cred (on_claim now c r) = Some c"
    and cred_renew: "cred (on_renew now r) = cred r"
    and cred_release: "cred (on_release now r) = None"
begin

definition table_ok :: "'r list \<Rightarrow> bool" where
  "table_ok rows = distinct (map key rows)"

definition holder_of :: "'r list \<Rightarrow> int \<Rightarrow> 'c option" where
  "holder_of rows k = Option.bind (find (\<lambda>r. key r = k) rows) cred"

definition lease_live :: "'r list \<Rightarrow> timestamp \<Rightarrow> int \<Rightarrow> bool" where
  "lease_live rows T k = (case find (\<lambda>r. key r = k) rows of None \<Rightarrow> False | Some r \<Rightarrow> unexpired expires T r)"

definition claim_op :: "timestamp \<Rightarrow> 'c \<Rightarrow> 'r list \<Rightarrow> 'r list \<times> int list" where
  "claim_op now c = claim_rows key (claimable now) claim_order (on_claim now c) (locked now) limit"

definition renew_op :: "timestamp \<Rightarrow> 'c \<Rightarrow> int \<Rightarrow> 'r list \<Rightarrow> 'r list \<times> bool" where
  "renew_op now c k =
     update_one (\<lambda>r. key r = k \<and> cred r = Some c \<and> unexpired expires now r) (on_renew now)"

definition release_op :: "timestamp \<Rightarrow> 'c \<Rightarrow> int \<Rightarrow> 'r list \<Rightarrow> 'r list \<times> bool" where
  "release_op now c k = update_one (\<lambda>r. key r = k \<and> cred r = Some c) (on_release now)"

definition sweep_op :: "timestamp \<Rightarrow> 'r list \<Rightarrow> 'r list" where
  "sweep_op now rows = fst (claim_rows key (sweepable now) sweep_order
     (on_sweep now) (locked now) sweep_limit rows)"

lemma update_one_refused:
  assumes "table_ok rows" and "\<And>r. P r \<Longrightarrow> key r = k"
    and "\<And>r. find (\<lambda>r. key r = k) rows = Some r \<Longrightarrow> \<not> P r"
  shows "update_one P f rows = (rows, False)"
proof -
  have "\<not> P r" if "r \<in> set rows" for r
    using assms that find_distinct_iff [of key rows "key r" r] by (metis table_ok_def)
  then have "update_where P f rows = rows" by (rule update_where_none)
  moreover have "length (rows_where P rows) \<noteq> 1"
    using length_rows_where_key [of key rows P k] assms unfolding table_ok_def by blast
  ultimately show ?thesis by (simp add: update_one_def)
qed

lemma table_ok_update:
  "table_ok rows \<Longrightarrow> (\<And>r. key (f r) = key r) \<Longrightarrow> table_ok (update_where P f rows)"
  by (simp add: table_ok_def update_where_keeps)

lemma not_swept:
  assumes "table_ok rows" and "lease_live rows now k"
  shows "k \<notin> set (select_rows key (sweepable now) sweep_order locks n rows)"
proof
  assume "k \<in> set (select_rows key (sweepable now) sweep_order locks n rows)"
  from select_rows_sound [OF assms(1) [unfolded table_ok_def] this] assms(2) show False
    by (auto simp: lease_live_def unexpired_def expired_def dest!: sweepable_expired split: option.splits)
qed

lemmas row_lease_defs = holder_of_def lease_live_def claim_op_def claim_rows_def renew_op_def
  release_op_def sweep_op_def update_one_def Let_def

lemma find_claimed:
  "find (\<lambda>r. key r = k) (fst (claim_op now c rows)) =
     map_option (\<lambda>r. if k \<in> set (snd (claim_op now c rows)) then on_claim now c r else r)
       (find (\<lambda>r. key r = k) rows)"
  by (cases "find (\<lambda>r. key r = k) rows")
    (auto simp: claim_op_def claim_rows_def Let_def find_key_update_where keeps_key dest: find_key_id)

lemma find_guarded:
  assumes "\<And>r. key (f r) = key r"
  shows "find (\<lambda>r. key r = k') (fst (update_one (\<lambda>r. key r = k \<and> Q r) f rows)) =
     map_option (\<lambda>r. if k' = k \<and> Q r then f r else r) (find (\<lambda>r. key r = k') rows)"
  using assms
  by (cases "find (\<lambda>r. key r = k') rows") (auto simp: update_one_def find_key_update_where dest: find_key_id)

lemma find_swept:
  assumes "table_ok rows" and "lease_live rows now k"
  shows "find (\<lambda>r. key r = k) (sweep_op now rows) = find (\<lambda>r. key r = k) rows"
  using not_swept [OF assms]
  by (cases "find (\<lambda>r. key r = k) rows")
    (auto simp: sweep_op_def claim_rows_def Let_def find_key_update_where keeps_key dest: find_key_id)

lemma table_ok_step:
  "table_ok rows \<Longrightarrow> table_ok (lease_step claim_op renew_op release_op sweep_op now op rows)"
  by (cases op)
    (auto simp: claim_op_def renew_op_def release_op_def sweep_op_def claim_rows_def update_one_def Let_def
       intro!: table_ok_update keeps_key)

lemma is_lease_table: "lease_table table_ok holder_of lease_live claim_op renew_op release_op sweep_op"
proof (unfold_locales, goal_cases)
  case (1 s T k now)
  then show ?case by (auto simp: lease_live_def unexpired_def split: option.splits)
next
  case (2 s now op)
  then show ?case by (rule table_ok_step)
next
  case (3 s k now c)
  then have "\<exists>r. find (\<lambda>r. key r = k) s = Some r"
    using select_rows_sound [of key s k "claimable now" claim_order "locked now" limit] by (auto simp: claim_op_def claim_rows_def Let_def table_ok_def)
  with 3 show ?case by (auto simp: holder_of_def find_claimed cred_claim)
next
  case (4 s k c' now c)
  then show ?case
    using select_rows_sound [of key s k "claimable now"] claimable_free
    by (fastforce simp: claim_op_def claim_rows_def Let_def table_ok_def holder_of_def bind_eq_Some_conv)
next
  case (5 s k now c T)
  then show ?case by (simp add: holder_of_def lease_live_def find_claimed option.map_ident)
next
  case (6 s k c now)
  then show ?case
    unfolding renew_op_def by (intro update_one_refused [where k = k]) (auto simp: holder_of_def)
next
  case (7 s k' k now c T)
  then show ?case
    by (simp add: holder_of_def lease_live_def renew_op_def find_guarded keeps_key option.map_ident)
next
  case (8 s k c now)
  then show ?case
    unfolding release_op_def by (intro update_one_refused [where k = k]) (auto simp: holder_of_def)
next
  case (9 s k c now)
  then obtain r where r: "find (\<lambda>r. key r = k) s = Some r" "cred r = Some c"
    by (auto simp: holder_of_def bind_eq_Some_conv)
  with 9(1) length_rows_where_key [of key s "\<lambda>r. key r = k \<and> cred r = Some c" k] show ?case
    by (auto simp: release_op_def holder_of_def find_guarded keeps_key cred_release update_one_def table_ok_def
        find_key_update_where dest: find_key_id)
next
  case (10 s k' k now c T)
  then show ?case
    by (simp add: holder_of_def lease_live_def release_op_def find_guarded keeps_key option.map_ident)
next
  case (11 s now k c T)
  then show ?case by (simp add: holder_of_def lease_live_def find_swept)
qed

end

sublocale row_leases \<subseteq> lease_table table_ok holder_of lease_live claim_op renew_op release_op sweep_op
  by (rule is_lease_table)

end
