(* ===== verification/Tracker.thy ===== *)
theory Tracker
  imports Leases
begin

text \<open>
  The PostgreSQL task tracker (\<^verbatim>\<open>backend/src/orchestration/task_tracker.rs\<close> over
  \<^verbatim>\<open>backend/src/repositories/devrail.rs\<close>): selecting and claiming queued tasks, renewing and
  releasing a claim, scheduling a retry, failing a task, and the state reconciliation that
  precedes each dispatch.
\<close>

section \<open>Eligibility and order of dispatch\<close>

text \<open>\<^verbatim>\<open>dependency_eligible_sql\<close>: no prerequisite short of success.\<close>

definition dependency_eligible :: "db \<Rightarrow> task_row \<Rightarrow> bool" where
  "dependency_eligible db t =
     (\<not> list_ex (\<lambda>d. d_task_id d = t_id t \<and> d_organization_id d = t_organization_id t \<and>
          list_ex (\<lambda>p. t_id p = d_prerequisite_task_id d
                    \<and> t_organization_id p = d_organization_id d
                    \<and> t_status p \<noteq> Task_Succeeded) (tasks db))
        (dependencies db))"

definition has_usable_environment :: "db \<Rightarrow> task_row \<Rightarrow> bool" where
  "has_usable_environment db t =
     list_ex (\<lambda>e. Some (e_id e) = t_environment_id t
        \<and> e_organization_id e = t_organization_id t \<and> e_project_id e = t_project_id t
        \<and> e_owner_user_id e = t_owner_user_id t \<and> e_department_id e = t_department_id t
        \<and> e_enabled e \<and> e_archived_at e = None) (environments db)"

definition has_active_run :: "db \<Rightarrow> task_row \<Rightarrow> bool" where
  "has_active_run db t =
     list_ex (\<lambda>r. r_task_id r = t_id t
        \<and> r_status r \<in> {Run_Starting, Run_Active, Run_AwaitingApproval}) (runs db)"

definition lease_lapsed :: "timestamp \<Rightarrow> int \<Rightarrow> task_row \<Rightarrow> bool" where
  "lease_lapsed now lease t =
     (case t_scheduler_claimed_at t of None \<Rightarrow> True | Some at \<Rightarrow> at < now - seconds lease)"

definition retry_due :: "timestamp \<Rightarrow> task_row \<Rightarrow> bool" where
  "retry_due now t = (case t_scheduler_retry_at t of None \<Rightarrow> True | Some at \<Rightarrow> at \<le> now)"

definition within_attempts :: "task_row \<Rightarrow> bool" where
  "within_attempts t =
     (t_scheduler_attempt t < t_scheduler_max_attempts t
      \<or> (t_hook_failure_count t > 0 \<and> t_hook_failure_count t < 5))"

definition claimable :: "db \<Rightarrow> timestamp \<Rightarrow> int \<Rightarrow> task_row \<Rightarrow> bool" where
  "claimable db now lease t =
     (t_status t = Task_Queued \<and> t_archived_at t = None \<and> within_attempts t
      \<and> dependency_eligible db t \<and> has_usable_environment db t \<and> lease_lapsed now lease t
      \<and> retry_due now t \<and> \<not> has_active_run db t)"

definition next_attempt :: "db \<Rightarrow> task_row \<Rightarrow> int" where
  "next_attempt db t =
     (let as = map r_attempt (filter (\<lambda>r. r_task_id r = t_id t) (runs db))
      in max ((if as = [] then 0 else Max (set as)) + 1) 1)"

definition priority_rank :: "priority \<Rightarrow> int" where
  "priority_rank p = (case p of Urgent \<Rightarrow> 0 | High \<Rightarrow> 1 | Normal \<Rightarrow> 2 | Low \<Rightarrow> 3)"

text \<open>The priority rank less one for every full ageing period the task has waited, at
  most three.\<close>

definition aged_rank :: "timestamp \<Rightarrow> int \<Rightarrow> task_row \<Rightarrow> int" where
  "aged_rank now aging t =
     priority_rank (t_priority t) - min 3 ((now - t_created_at t) div seconds aging)"

definition dispatch_key ::
  "timestamp \<Rightarrow> int \<Rightarrow> task_row \<Rightarrow> int \<times> (int \<times> timestamp) \<times> timestamp \<times> int" where
  "dispatch_key now aging t =
     (aged_rank now aging t,
      (case t_due_at t of Some due \<Rightarrow> (0, due) | None \<Rightarrow> (1, 0)),
      t_created_at t, t_id t)"

section \<open>Claims\<close>

text \<open>\<open>locked\<close> are the rows other transactions hold (\<^verbatim>\<open>FOR UPDATE SKIP LOCKED\<close>).\<close>

definition claim_candidates ::
  "db \<Rightarrow> timestamp \<Rightarrow> int set \<Rightarrow> int \<Rightarrow> int \<Rightarrow> int \<Rightarrow> task_row list" where
  "claim_candidates db now locked limit lease aging =
     take (nat limit)
       (filter (\<lambda>t. t_id t \<notin> locked)
         (sort_key (dispatch_key now aging) (filter (claimable db now lease) (tasks db))))"

definition claim_scheduler_tasks ::
  "timestamp \<Rightarrow> int set \<Rightarrow> uuid \<Rightarrow> int \<Rightarrow> int \<Rightarrow> int \<Rightarrow> db \<Rightarrow> db \<times> task_row list" where
  "claim_scheduler_tasks now locked token limit lease aging db =
     (let ids = map t_id (claim_candidates db now locked limit lease aging);
          db' = update_tasks (\<lambda>t. t_id t \<in> set ids)
                  (\<lambda>t. t\<lparr>t_scheduler_claim_token := Some token, t_scheduler_claimed_at := Some now,
                         t_scheduler_attempt := next_attempt db t, t_updated_at := now\<rparr>) db
      in (db', rows_where (\<lambda>t. t_id t \<in> set ids) (tasks db')))"

text \<open>The \<^verbatim>\<open>WHERE\<close> clause common to the guarded updates.\<close>

definition owns_claim :: "int \<Rightarrow> uuid \<Rightarrow> task_row \<Rightarrow> bool" where
  "owns_claim task_id token t =
     (t_id t = task_id \<and> t_status t = Task_Queued \<and> t_scheduler_claim_token t = Some token)"

definition lease_fresh :: "timestamp \<Rightarrow> int \<Rightarrow> task_row \<Rightarrow> bool" where
  "lease_fresh now lease t =
     (case t_scheduler_claimed_at t of None \<Rightarrow> False | Some at \<Rightarrow> at \<ge> now - seconds lease)"

definition guarded_update ::
  "(task_row \<Rightarrow> bool) \<Rightarrow> (task_row \<Rightarrow> task_row) \<Rightarrow> db \<Rightarrow> db \<times> bool" where
  "guarded_update P f db = (update_tasks P f db, length (rows_where P (tasks db)) = 1)"

definition release_scheduler_claim :: "timestamp \<Rightarrow> int \<Rightarrow> uuid \<Rightarrow> db \<Rightarrow> db \<times> bool" where
  "release_scheduler_claim now task_id token db =
     guarded_update (owns_claim task_id token)
       (\<lambda>t. t\<lparr>t_scheduler_claim_token := None, t_scheduler_claimed_at := None,
              t_updated_at := now\<rparr>) db"

definition renew_scheduler_claim :: "timestamp \<Rightarrow> int \<Rightarrow> uuid \<Rightarrow> int \<Rightarrow> db \<Rightarrow> db \<times> bool" where
  "renew_scheduler_claim now task_id token lease db =
     guarded_update (\<lambda>t. owns_claim task_id token t \<and> lease_fresh now lease t)
       (\<lambda>t. t\<lparr>t_scheduler_claimed_at := Some now, t_updated_at := now\<rparr>) db"

definition scheduler_claim_is_current :: "timestamp \<Rightarrow> int \<Rightarrow> uuid \<Rightarrow> int \<Rightarrow> db \<Rightarrow> bool" where
  "scheduler_claim_is_current now task_id token lease db =
     list_ex (\<lambda>t. owns_claim task_id token t \<and> lease_fresh now lease t
                \<and> dependency_eligible db t) (tasks db)"

definition schedule_retry ::
  "timestamp \<Rightarrow> int \<Rightarrow> uuid \<Rightarrow> timestamp \<Rightarrow> rstr \<Rightarrow> db \<Rightarrow> db \<times> bool" where
  "schedule_retry now task_id token retry_at error db =
     guarded_update (owns_claim task_id token)
       (\<lambda>t. t\<lparr>t_scheduler_claim_token := None, t_scheduler_claimed_at := None,
              t_scheduler_retry_count := t_scheduler_retry_count t + 1,
              t_scheduler_retry_at := Some retry_at,
              t_scheduler_last_error := Some (take_chars 500 error),
              t_status := (if t_scheduler_retry_count t + 1 \<ge> t_scheduler_max_attempts t
                           then Task_Failed else t_status t),
              t_updated_at := now\<rparr>) db"

definition fail_scheduler_task :: "timestamp \<Rightarrow> int \<Rightarrow> uuid \<Rightarrow> rstr \<Rightarrow> db \<Rightarrow> db \<times> bool" where
  "fail_scheduler_task now task_id token error db =
     guarded_update (owns_claim task_id token)
       (\<lambda>t. t\<lparr>t_status := Task_Failed, t_scheduler_claim_token := None,
              t_scheduler_claimed_at := None,
              t_scheduler_last_error := Some (take_chars 500 error),
              t_updated_at := now\<rparr>) db"

section \<open>Laws of the guarded updates\<close>

lemma lease_lapsed_iff: "lease_lapsed now lease t \<longleftrightarrow> \<not> lease_fresh now lease t"
  by (auto simp: lease_lapsed_def lease_fresh_def split: option.splits)

lemma lease_fresh_earlier: "lease_fresh T lease t \<Longrightarrow> now \<le> T \<Longrightarrow> lease_fresh now lease t"
  by (auto simp: lease_fresh_def split: option.splits)

lemma snd_guarded_update:
  assumes "keys_ok db" and "\<And>t. P t \<Longrightarrow> t_id t = k"
  shows "snd (guarded_update P f db) \<longleftrightarrow> (\<exists>t. find_by_id db k = Some t \<and> P t)"
  using assms length_rows_where_key [of t_id "tasks db" P k]
  by (simp add: guarded_update_def find_by_id_def keys_ok_def)

lemma guarded_update_refused:
  assumes "keys_ok db" and "\<And>t. P t \<Longrightarrow> t_id t = k"
    and "\<And>t. find_by_id db k = Some t \<Longrightarrow> \<not> P t"
  shows "guarded_update P f db = (db, False)"
proof -
  have "\<not> P t" if "t \<in> set (tasks db)" for t
    using that assms find_by_id_mem [OF assms(1), of "t_id t" t] by metis
  then have "update_tasks P f db = db" by (rule update_tasks_none)
  with snd_guarded_update [OF assms(1,2), where f = f] assms(3) show ?thesis
    by (auto simp: guarded_update_def prod_eq_iff)
qed

lemma guarded_update_held:
  assumes "keys_ok db" and "find_by_id db i = Some t" and "owns_claim i token t"
  shows "snd (guarded_update (owns_claim i token) f db)"
  using assms by (subst snd_guarded_update [where k = i]) (auto simp: owns_claim_def)

lemma find_by_id_guarded_update:
  "(\<And>t. t_id (f t) = t_id t) \<Longrightarrow>
   find_by_id (fst (guarded_update P f db)) i =
     map_option (\<lambda>t. if P t then f t else t) (find_by_id db i)"
  by (simp add: guarded_update_def find_by_id_update_tasks)

lemma keys_ok_guarded_update:
  "keys_ok db \<Longrightarrow> (\<And>t. t_id (f t) = t_id t) \<Longrightarrow> keys_ok (fst (guarded_update P f db))"
  by (simp add: guarded_update_def keys_ok_update_tasks)

lemmas tracker_defs = release_scheduler_claim_def renew_scheduler_claim_def
  schedule_retry_def fail_scheduler_task_def

section \<open>Laws of the claim\<close>

lemma claim_candidates_claimable:
  "t \<in> set (claim_candidates db now locked limit lease aging) \<Longrightarrow>
   t \<in> set (tasks db) \<and> claimable db now lease t \<and> t_id t \<notin> locked"
  by (auto simp: claim_candidates_def dest: in_set_takeD)

lemma length_claim_candidates:
  "length (claim_candidates db now locked limit lease aging) \<le> nat limit"
  by (simp add: claim_candidates_def)

lemma fst_claim:
  "fst (claim_scheduler_tasks now locked token limit lease aging db) =
     update_tasks (\<lambda>t. t_id t \<in> t_id ` set (claim_candidates db now locked limit lease aging))
       (\<lambda>t. t\<lparr>t_scheduler_claim_token := Some token, t_scheduler_claimed_at := Some now,
              t_scheduler_attempt := next_attempt db t, t_updated_at := now\<rparr>) db"
  by (simp add: claim_scheduler_tasks_def Let_def)

lemma snd_claim:
  "snd (claim_scheduler_tasks now locked token limit lease aging db) =
     rows_where (\<lambda>t. t_id t \<in> t_id ` set (claim_candidates db now locked limit lease aging))
       (tasks (fst (claim_scheduler_tasks now locked token limit lease aging db)))"
  by (simp add: claim_scheduler_tasks_def Let_def)

lemma claimed_ids:
  "t_id ` set (snd (claim_scheduler_tasks now locked token limit lease aging db)) =
     t_id ` set (claim_candidates db now locked limit lease aging)"
proof -
  have "t_id ` set (claim_candidates db now locked limit lease aging) \<subseteq> t_id ` set (tasks db)"
    using claim_candidates_claimable by blast
  then show ?thesis
    unfolding snd_claim fst_claim tasks_update_tasks
    by (subst keys_rows_where_update_where) auto
qed

lemma find_by_id_claim:
  "find_by_id (fst (claim_scheduler_tasks now locked token limit lease aging db)) i =
     map_option
       (\<lambda>t. if i \<in> t_id ` set (claim_candidates db now locked limit lease aging)
            then t\<lparr>t_scheduler_claim_token := Some token, t_scheduler_claimed_at := Some now,
                   t_scheduler_attempt := next_attempt db t, t_updated_at := now\<rparr>
            else t) (find_by_id db i)"
  unfolding fst_claim
  by (cases "find_by_id db i") (auto simp: find_by_id_update_tasks dest: find_by_id_id)

lemma candidate_row:
  assumes "keys_ok db" and "i \<in> t_id ` set (claim_candidates db now locked limit lease aging)"
  shows "\<exists>t. find_by_id db i = Some t \<and> claimable db now lease t"
proof -
  from assms(2) obtain t
    where "t \<in> set (claim_candidates db now locked limit lease aging)" and "i = t_id t" by auto
  with claim_candidates_claimable find_by_id_mem [OF assms(1)] show ?thesis by blast
qed

section \<open>The task table keeps the lease contract\<close>

definition task_holder :: "db \<Rightarrow> int \<Rightarrow> uuid option" where
  "task_holder db i = (case find_by_id db i of None \<Rightarrow> None
     | Some t \<Rightarrow> if t_status t = Task_Queued then t_scheduler_claim_token t else None)"

definition task_lease_live :: "int \<Rightarrow> db \<Rightarrow> timestamp \<Rightarrow> int \<Rightarrow> bool" where
  "task_lease_live lease db now i = (case find_by_id db i of None \<Rightarrow> False
     | Some t \<Rightarrow> lease_fresh now lease t)"

text \<open>What a claim returns, as identifiers; \<open>locked\<close>, \<open>limit\<close> and \<open>aging\<close> may differ from worker
  to worker and from tick to tick.\<close>

definition claim_ids ::
  "(timestamp \<Rightarrow> uuid \<Rightarrow> int set) \<Rightarrow> (timestamp \<Rightarrow> uuid \<Rightarrow> int) \<Rightarrow> int \<Rightarrow> (timestamp \<Rightarrow> uuid \<Rightarrow> int) \<Rightarrow>
   timestamp \<Rightarrow> uuid \<Rightarrow> db \<Rightarrow> db \<times> int list" where
  "claim_ids locked limit lease aging now token db =
     (let r = claim_scheduler_tasks now (locked now token) token (limit now token) lease
                (aging now token) db
      in (fst r, map t_id (snd r)))"

abbreviation task_renew :: "int \<Rightarrow> timestamp \<Rightarrow> uuid \<Rightarrow> int \<Rightarrow> db \<Rightarrow> db \<times> bool" where
  "task_renew lease \<equiv> \<lambda>now token i. renew_scheduler_claim now i token lease"

abbreviation task_release :: "timestamp \<Rightarrow> uuid \<Rightarrow> int \<Rightarrow> db \<Rightarrow> db \<times> bool" where
  "task_release \<equiv> \<lambda>now token i. release_scheduler_claim now i token"

text \<open>No sweep frees the claims of queued tasks: a lapsed lease is taken over by the claim
  itself.\<close>

abbreviation task_expire :: "timestamp \<Rightarrow> db \<Rightarrow> db" where
  "task_expire \<equiv> \<lambda>now db. db"

lemmas task_lease_defs = task_holder_def task_lease_live_def claim_ids_def

lemma keys_ok_task_step:
  "keys_ok db \<Longrightarrow>
   keys_ok (lease_step (claim_ids locked limit lease aging) (task_renew lease) task_release
              task_expire now op db)"
  by (cases op)
    (auto simp: claim_ids_def Let_def fst_claim tracker_defs
       intro!: keys_ok_update_tasks keys_ok_guarded_update)

interpretation task_leases: lease_table keys_ok task_holder "task_lease_live lease"
    "claim_ids locked limit lease aging" "task_renew lease" task_release task_expire
  for lease locked limit aging
proof (unfold_locales, goal_cases)
  case (1 s T k now)
  then show ?case
    by (auto simp: task_lease_live_def intro: lease_fresh_earlier split: option.splits)
next
  case (2 s now op)
  then show ?case by (rule keys_ok_task_step)
next
  case (3 s k now c)
  then show ?case
    using candidate_row [of s k now "locked now c" "limit now c" lease "aging now c"]
    by (auto simp: task_lease_defs Let_def claimed_ids find_by_id_claim claimable_def)
next
  case (4 s k c' now c)
  then show ?case
    using candidate_row [of s k now "locked now c" "limit now c" lease "aging now c"]
    by (auto simp: task_lease_defs Let_def claimed_ids claimable_def lease_lapsed_iff)
next
  case (5 s k now c T)
  then show ?case
    by (auto simp: task_lease_defs Let_def claimed_ids find_by_id_claim split: option.splits)
next
  case (6 s k c now)
  then show ?case
    unfolding tracker_defs
    by (intro guarded_update_refused [where k = k])
      (auto simp: owns_claim_def task_holder_def)
next
  case (7 s k' k now c T)
  then show ?case
    by (auto simp: task_lease_defs tracker_defs find_by_id_guarded_update owns_claim_def
          dest: find_by_id_id split: option.splits)
next
  case (8 s k c now)
  then show ?case
    unfolding tracker_defs
    by (intro guarded_update_refused [where k = k])
      (auto simp: owns_claim_def task_holder_def)
next
  case (9 s k c now)
  then show ?case
    using snd_guarded_update [OF 9(1), of "owns_claim k c" k]
    by (auto simp: task_lease_defs tracker_defs find_by_id_guarded_update owns_claim_def
          dest: find_by_id_id split: option.splits if_splits)
next
  case (10 s k' k now c T)
  then show ?case
    by (auto simp: task_lease_defs tracker_defs find_by_id_guarded_update owns_claim_def
          dest: find_by_id_id split: option.splits)
next
  case (11 s now k c T)
  then show ?case by simp
qed

section \<open>Properties\<close>

lemma fst_claim_ids:
  "fst (claim_ids locked limit lease aging now token db) =
     fst (claim_scheduler_tasks now (locked now token) token (limit now token) lease
            (aging now token) db)"
  by (simp add: claim_ids_def Let_def)

lemma claimed_holder:
  assumes "keys_ok db" and "i \<in> t_id ` set (snd (claim_scheduler_tasks now locked token limit lease aging db))"
  shows "task_holder (fst (claim_scheduler_tasks now locked token limit lease aging db)) i = Some token"
    and "task_lease_live lease (fst (claim_scheduler_tasks now locked token limit lease aging db))
           (now + seconds lease) i"
  using assms candidate_row [of db i now locked limit lease aging]
  by (auto simp: task_holder_def task_lease_live_def claimed_ids find_by_id_claim claimable_def
        lease_fresh_def)

text \<open>C5. Mutual exclusion of the schedulers: once \<open>claim_scheduler_tasks\<close> has given a task to
  the token of one scheduler instance, whatever claims, renewals and releases other instances
  run (each with its own row locks, limit and ageing period) until the lease is over, the
  task stays queued under that token and the lease stays live.\<close>

theorem claimed_task_stays_claimed:
  assumes "keys_ok db"
    and "i \<in> t_id ` set (snd (claim_scheduler_tasks now mine token n lease period db))"
    and "\<forall>(at, op) \<in> set ops. at \<le> now + seconds lease \<and> by_others token op"
  shows "let after = lease_run (claim_ids locked limit lease aging) (task_renew lease) task_release
            task_expire ops (fst (claim_scheduler_tasks now mine token n lease period db))
         in task_holder after i = Some token \<and> task_lease_live lease after (now + seconds lease) i"
proof -
  let ?db = "fst (claim_scheduler_tasks now mine token n lease period db)"
  have "keys_ok ?db" using assms(1) by (simp add: fst_claim keys_ok_update_tasks)
  with claimed_holder [OF assms(1,2)] assms(3) show ?thesis
    unfolding Let_def by (intro task_leases.live_lease_is_exclusive)
qed

theorem claimed_task_stays_claimed_witness:
  "let claimed = fst (claim_scheduler_tasks 0 {} 9 1 30 60 (example_db [example_task 1] []));
       after = lease_run (claim_ids (\<lambda>_ _. {}) (\<lambda>_ _. 5) 30 (\<lambda>_ _. 60)) (task_renew 30) task_release
         task_expire [(10, Claim 8), (20, Release 8 1), (seconds 30, Claim 7)] claimed
   in task_holder after 1 = Some 9 \<and> task_lease_live 30 after (0 + seconds 30) 1"
  unfolding Let_def
  by (rule claimed_task_stays_claimed [unfolded Let_def])
    (simp_all add: example_defs keys_ok_def claimed_ids claim_candidates_def claimable_def
       within_attempts_def dependency_eligible_def has_usable_environment_def lease_lapsed_def
       retry_due_def has_active_run_def seconds_def)

text \<open>C12. What one claim hands out. The tasks returned are at most \<open>limit\<close>, every one was
  claimable and not locked by another transaction, and the selection is the best one: a claimable
  unlocked task that was left out is behind every task handed out in the dispatch order, and
  none is left out while the limit is not reached.\<close>

theorem claim_takes_the_best:
  assumes "keys_ok db"
  shows "let claimed = t_id ` set (snd (claim_scheduler_tasks now locked token limit lease aging db));
             open_tasks = {t \<in> set (tasks db). claimable db now lease t \<and> t_id t \<notin> locked}
         in card claimed \<le> nat limit
          \<and> claimed \<subseteq> t_id ` open_tasks
          \<and> (\<forall>t \<in> open_tasks. \<forall>u \<in> open_tasks. t_id t \<in> claimed \<longrightarrow> t_id u \<notin> claimed \<longrightarrow>
               dispatch_key now aging t < dispatch_key now aging u)
          \<and> (card claimed < nat limit \<longrightarrow> claimed = t_id ` open_tasks)"
proof -
  define S where "S = filter (\<lambda>t. t_id t \<notin> locked)
    (sort_key (dispatch_key now aging) (filter (claimable db now lease) (tasks db)))"
  let ?ids = "t_id ` set (take (nat limit) S)"
  have set_S: "set S = {t \<in> set (tasks db). claimable db now lease t \<and> t_id t \<notin> locked}"
    by (auto simp: S_def)
  have sorted: "sorted (map (dispatch_key now aging) S)"
    by (simp add: S_def sorted_filter)
  have dist: "distinct (map t_id S)"
    using assms by (auto simp: S_def keys_ok_def distinct_map filter_sort intro: inj_on_subset)
  have before: "dispatch_key now aging t < dispatch_key now aging u"
    if "t \<in> set S" "u \<in> set S" "t_id t \<in> ?ids" "t_id u \<notin> ?ids" for t u
  proof -
    have "dispatch_key now aging t \<le> dispatch_key now aging u"
      using that by (rule take_sorted_keeps_best [OF sorted dist])
    moreover have "dispatch_key now aging t \<noteq> dispatch_key now aging u"
      using that(3,4) by (auto simp: dispatch_key_def)
    ultimately show ?thesis by simp
  qed
  have all: "?ids = t_id ` set S" if "card ?ids < nat limit"
    using take_all_unless_full [OF dist that] by simp
  have "card ?ids \<le> nat limit"
    using card_image_le [of "set (take (nat limit) S)" t_id] card_length [of "take (nat limit) S"]
    by simp
  moreover have "?ids \<subseteq> t_id ` set S" by (auto dest: in_set_takeD)
  ultimately show ?thesis
    unfolding Let_def claimed_ids claim_candidates_def S_def [symmetric] set_S [symmetric]
    using before all by blast
qed

theorem claim_takes_the_best_witness:
  "let db = example_db [example_task 1, (example_task 2)\<lparr>t_priority := Urgent\<rparr>] [];
       claimed = t_id ` set (snd (claim_scheduler_tasks 0 {} 9 1 30 60 db));
       open_tasks = {t \<in> set (tasks db). claimable db 0 30 t \<and> t_id t \<notin> {}}
   in card claimed \<le> nat 1
    \<and> claimed \<subseteq> t_id ` open_tasks
    \<and> (\<forall>t \<in> open_tasks. \<forall>u \<in> open_tasks. t_id t \<in> claimed \<longrightarrow> t_id u \<notin> claimed \<longrightarrow>
         dispatch_key 0 60 t < dispatch_key 0 60 u)
    \<and> (card claimed < nat 1 \<longrightarrow> claimed = t_id ` open_tasks)"
  unfolding Let_def
  by (rule claim_takes_the_best [unfolded Let_def]) (simp add: example_defs keys_ok_def)

lemma stale_token_refused:
  assumes "keys_ok db" and "task_holder db i \<noteq> Some token"
  shows "renew_scheduler_claim now i token lease db = (db, False)
       \<and> release_scheduler_claim now i token db = (db, False)
       \<and> schedule_retry now i token retry_at error db = (db, False)
       \<and> fail_scheduler_task now i token error db = (db, False)
       \<and> \<not> scheduler_claim_is_current now i token lease db"
proof -
  have none: "\<not> owns_claim i token t" if "find_by_id db i = Some t" for t
    using assms(2) that by (auto simp: task_holder_def owns_claim_def)
  have id: "owns_claim i token t \<Longrightarrow> t_id t = i" for t by (simp add: owns_claim_def)
  have "\<not> owns_claim i token t" if "t \<in> set (tasks db)" for t
    using that none id find_by_id_mem [OF assms(1), of i t] by blast
  then have "\<not> scheduler_claim_is_current now i token lease db"
    by (auto simp: scheduler_claim_is_current_def list_ex_iff)
  moreover have "guarded_update (owns_claim i token) f db = (db, False)" for f
    by (rule guarded_update_refused [OF assms(1) id none])
  moreover have "guarded_update (\<lambda>t. owns_claim i token t \<and> lease_fresh now lease t) f db
      = (db, False)" for f
    using none id by (intro guarded_update_refused [OF assms(1), where k = i]) auto
  ultimately show ?thesis unfolding tracker_defs by simp
qed

text \<open>Fencing: a scheduler whose token no longer holds a task cannot touch it. Renewal, release,
  retry and failure under that token report \<^verbatim>\<open>false\<close> and leave the whole database as it is,
  and the claim is not current.\<close>

theorem stale_token_changes_nothing:
  assumes "keys_ok db" and "task_holder db i \<noteq> Some token"
  shows "renew_scheduler_claim now i token lease db = (db, False)
       \<and> release_scheduler_claim now i token db = (db, False)
       \<and> schedule_retry now i token retry_at error db = (db, False)
       \<and> fail_scheduler_task now i token error db = (db, False)
       \<and> \<not> scheduler_claim_is_current now i token lease db"
  by (rule stale_token_refused [OF assms])

theorem stale_token_changes_nothing_witness:
  "let db = example_db [(example_task 1)\<lparr>t_scheduler_claim_token := Some 8,
              t_scheduler_claimed_at := Some 0\<rparr>] []
   in renew_scheduler_claim 5 1 9 30 db = (db, False)
    \<and> release_scheduler_claim 5 1 9 db = (db, False)
    \<and> schedule_retry 5 1 9 60 ''e'' db = (db, False)
    \<and> fail_scheduler_task 5 1 9 ''e'' db = (db, False)
    \<and> \<not> scheduler_claim_is_current 5 1 9 30 db"
  unfolding Let_def
  by (rule stale_token_changes_nothing)
    (simp_all add: example_defs keys_ok_def task_holder_def find_by_id_def)

text \<open>Renewal and takeover exclude each other. The holder of a queued task can renew its claim
  exactly as long as the lease is fresh, and in that state no claim of any other instance, with
  any limit, returns the task.\<close>

theorem renewable_iff_not_takeable:
  assumes "keys_ok db" and "find_by_id db i = Some t" and "owns_claim i token t"
  shows "(snd (renew_scheduler_claim now i token lease db) \<longleftrightarrow> \<not> lease_lapsed now lease t)
       \<and> (snd (renew_scheduler_claim now i token lease db) \<longrightarrow>
            i \<notin> t_id ` set (snd (claim_scheduler_tasks now locked other limit lease aging db)))"
proof -
  have renew: "snd (renew_scheduler_claim now i token lease db) \<longleftrightarrow> lease_fresh now lease t"
    unfolding renew_scheduler_claim_def
    using assms(2,3)
    by (subst snd_guarded_update [OF assms(1), where k = i]) (auto simp: owns_claim_def)
  have "i \<notin> t_id ` set (claim_candidates db now locked limit lease aging)"
    if "lease_fresh now lease t"
  proof
    assume "i \<in> t_id ` set (claim_candidates db now locked limit lease aging)"
    with candidate_row [OF assms(1)] assms(2) have "claimable db now lease t" by fastforce
    with that show False by (simp add: claimable_def lease_lapsed_iff)
  qed
  with renew show ?thesis by (simp add: claimed_ids lease_lapsed_iff)
qed

theorem renewable_iff_not_takeable_witness:
  "let t = (example_task 1)\<lparr>t_scheduler_claim_token := Some 9, t_scheduler_claimed_at := Some 0\<rparr>;
       db = example_db [t] []
   in (snd (renew_scheduler_claim 5 1 9 30 db) \<longleftrightarrow> \<not> lease_lapsed 5 30 t)
    \<and> (snd (renew_scheduler_claim 5 1 9 30 db) \<longrightarrow>
         1 \<notin> t_id ` set (snd (claim_scheduler_tasks 5 {} 8 4 30 60 db)))"
  unfolding Let_def
  by (rule renewable_iff_not_takeable)
    (simp_all add: example_defs keys_ok_def find_by_id_def owns_claim_def)

text \<open>C13. Dependencies gate dispatch: a task handed out by a claim has, at that moment, every
  recorded prerequisite in status succeeded and no run in progress, and its row differs from
  before only in token, claim time, attempt number and update time.\<close>

theorem claimed_task_is_ready:
  assumes "keys_ok db"
    and "u \<in> set (snd (claim_scheduler_tasks now locked token limit lease aging db))"
  shows "(\<forall>d \<in> set (dependencies db). \<forall>p \<in> set (tasks db).
            d_task_id d = t_id u \<and> d_organization_id d = t_organization_id u
            \<and> t_id p = d_prerequisite_task_id d \<and> t_organization_id p = d_organization_id d \<longrightarrow>
            t_status p = Task_Succeeded)
       \<and> \<not> has_active_run db u
       \<and> (\<exists>t. find_by_id db (t_id u) = Some t
            \<and> u = t\<lparr>t_scheduler_claim_token := Some token, t_scheduler_claimed_at := Some now,
                    t_scheduler_attempt := next_attempt db t, t_updated_at := now\<rparr>)"
proof -
  let ?db = "fst (claim_scheduler_tasks now locked token limit lease aging db)"
  have "keys_ok ?db" using assms(1) by (simp add: fst_claim keys_ok_update_tasks)
  moreover have "u \<in> set (tasks ?db)" using assms(2) unfolding snd_claim by simp
  ultimately have u: "find_by_id ?db (t_id u) = Some u" by (simp add: find_by_id_mem)
  from assms(2) have "t_id u \<in> t_id ` set (claim_candidates db now locked limit lease aging)"
    by (metis claimed_ids imageI)
  with u candidate_row [OF assms(1)] obtain t where t: "find_by_id db (t_id u) = Some t"
    "claimable db now lease t"
    "u = t\<lparr>t_scheduler_claim_token := Some token, t_scheduler_claimed_at := Some now,
           t_scheduler_attempt := next_attempt db t, t_updated_at := now\<rparr>"
    by (fastforce simp: find_by_id_claim)
  from t(3) have "t_id u = t_id t" "t_organization_id u = t_organization_id t" by simp_all
  with t(2) have "\<not> has_active_run db u" and "dependency_eligible db u"
    by (simp_all add: claimable_def has_active_run_def dependency_eligible_def)
  then have "\<forall>d \<in> set (dependencies db). \<forall>p \<in> set (tasks db).
            d_task_id d = t_id u \<and> d_organization_id d = t_organization_id u
            \<and> t_id p = d_prerequisite_task_id d \<and> t_organization_id p = d_organization_id d \<longrightarrow>
            t_status p = Task_Succeeded"
    by (auto simp: dependency_eligible_def list_ex_iff)
  with t(1,3) \<open>\<not> has_active_run db u\<close> show ?thesis by blast
qed

theorem claimed_task_is_ready_witness:
  "let db = (example_db [example_task 1, (example_task 2)\<lparr>t_status := Task_Succeeded\<rparr>] [])
              \<lparr>dependencies := [\<lparr>d_id = 1, d_organization_id = 1, d_department_id = None,
                 d_owner_user_id = 100, d_task_id = 1, d_prerequisite_task_id = 2,
                 d_failure_action = Fail, d_cancelled_action = Skip, d_timeout_action = Wait\<rparr>]\<rparr>;
       u = (example_task 1)\<lparr>t_scheduler_claim_token := Some 9, t_scheduler_claimed_at := Some 5,
             t_scheduler_attempt := 1, t_updated_at := 5\<rparr>
   in (\<forall>d \<in> set (dependencies db). \<forall>p \<in> set (tasks db).
            d_task_id d = t_id u \<and> d_organization_id d = t_organization_id u
            \<and> t_id p = d_prerequisite_task_id d \<and> t_organization_id p = d_organization_id d \<longrightarrow>
            t_status p = Task_Succeeded)
       \<and> \<not> has_active_run db u
       \<and> (\<exists>t. find_by_id db (t_id u) = Some t
            \<and> u = t\<lparr>t_scheduler_claim_token := Some 9, t_scheduler_claimed_at := Some 5,
                    t_scheduler_attempt := next_attempt db t, t_updated_at := 5\<rparr>)"
  unfolding Let_def
  by (rule claimed_task_is_ready [where locked = "{}" and limit = 3 and lease = 30 and aging = 60])
    (simp_all add: example_defs keys_ok_def claim_scheduler_tasks_def claim_candidates_def
       claimable_def within_attempts_def dependency_eligible_def has_usable_environment_def
       lease_lapsed_def retry_due_def has_active_run_def next_attempt_def rows_where_def
       update_tasks_def update_where_def)

lemma aged_rank_bounds:
  assumes "0 < aging" and "t_created_at t \<le> now"
  shows "aged_rank now aging t \<le> priority_rank (t_priority t)"
    and "priority_rank (t_priority t) - 3 \<le> aged_rank now aging t"
  using assms by (simp_all add: aged_rank_def seconds_def pos_imp_zdiv_nonneg_iff)

text \<open>No starvation by priority: a task that has waited three ageing periods is ranked no
  later than any task created within the last period, whatever the priorities; unless it has
  the lowest priority it comes strictly first in the dispatch order.\<close>

theorem waiting_outranks_priority:
  assumes "0 < aging" and "t_created_at t + 3 * seconds aging \<le> now"
    and "now < t_created_at u + seconds aging" and "t_created_at u \<le> now"
  shows "aged_rank now aging t \<le> aged_rank now aging u
       \<and> (t_priority t \<noteq> Low \<longrightarrow> dispatch_key now aging t < dispatch_key now aging u)"
proof -
  have s: "0 < seconds aging" using assms(1) by (simp add: seconds_def)
  have "3 \<le> (now - t_created_at t) div seconds aging"
    using assms(2) s zdiv_mono1 [of "3 * seconds aging" "now - t_created_at t" "seconds aging"]
    by simp
  then have t: "aged_rank now aging t = priority_rank (t_priority t) - 3"
    by (simp add: aged_rank_def)
  have "(now - t_created_at u) div seconds aging = 0"
    using assms(3,4) by (intro div_pos_pos_trivial) simp_all
  then have u: "aged_rank now aging u = priority_rank (t_priority u)"
    by (simp add: aged_rank_def)
  have "priority_rank (t_priority t) - 3 \<le> priority_rank (t_priority u)"
    and "t_priority t \<noteq> Low \<Longrightarrow> priority_rank (t_priority t) - 3 < priority_rank (t_priority u)"
    by (cases "t_priority t"; cases "t_priority u"; simp add: priority_rank_def)+
  with t u show ?thesis by (auto simp: dispatch_key_def)
qed

theorem waiting_outranks_priority_witness:
  "let t = example_task 1;
       u = (example_task 2)\<lparr>t_priority := Urgent, t_due_at := Some 0, t_created_at := seconds 200\<rparr>
   in aged_rank (seconds 210) 60 t \<le> aged_rank (seconds 210) 60 u
    \<and> (t_priority t \<noteq> Low \<longrightarrow> dispatch_key (seconds 210) 60 t < dispatch_key (seconds 210) 60 u)"
  unfolding Let_def
  by (rule waiting_outranks_priority) (simp_all add: example_defs seconds_def)

text \<open>Retry budget: for the holder of a queued task \<open>schedule_retry\<close> succeeds, gives up the
  claim, counts the retry, and leaves the task queued exactly while the count is below the
  maximum; the attempt that reaches it fails the task. The stored error is a prefix of the
  message of at most 500 characters. A retry put off to the future keeps the task from every
  claim until it is due.\<close>

theorem schedule_retry_outcome:
  assumes "keys_ok db" and "find_by_id db i = Some t" and "owns_claim i token t"
  shows "snd (schedule_retry now i token retry_at error db)
       \<and> (\<exists>u. find_by_id (fst (schedule_retry now i token retry_at error db)) i = Some u
            \<and> t_scheduler_claim_token u = None \<and> t_scheduler_claimed_at u = None
            \<and> t_scheduler_retry_count u = t_scheduler_retry_count t + 1
            \<and> t_status u = (if t_scheduler_retry_count u < t_scheduler_max_attempts u
                             then Task_Queued else Task_Failed)
            \<and> (\<exists>e. t_scheduler_last_error u = Some e \<and> prefix e error \<and> chars_count e \<le> 500))
       \<and> (\<forall>later locked other limit lease aging. later < retry_at \<longrightarrow>
            i \<notin> t_id ` set (snd (claim_scheduler_tasks later locked other limit lease aging
                    (fst (schedule_retry now i token retry_at error db)))))"
proof -
  let ?db = "fst (schedule_retry now i token retry_at error db)"
  have ok: "snd (schedule_retry now i token retry_at error db)"
    unfolding schedule_retry_def by (rule guarded_update_held [OF assms])
  obtain u where u: "find_by_id ?db i = Some u"
    and row: "u = t\<lparr>t_scheduler_claim_token := None, t_scheduler_claimed_at := None,
              t_scheduler_retry_count := t_scheduler_retry_count t + 1,
              t_scheduler_retry_at := Some retry_at,
              t_scheduler_last_error := Some (take_chars 500 error),
              t_status := (if t_scheduler_retry_count t + 1 \<ge> t_scheduler_max_attempts t
                           then Task_Failed else t_status t),
              t_updated_at := now\<rparr>"
    unfolding schedule_retry_def using assms(2,3) by (simp add: find_by_id_guarded_update)
  have keys: "keys_ok ?db"
    unfolding schedule_retry_def using assms(1) by (intro keys_ok_guarded_update) simp_all
  have "i \<notin> t_id ` set (snd (claim_scheduler_tasks later locked other limit lease aging ?db))"
    if "later < retry_at" for later locked other limit lease aging
    using that u candidate_row [OF keys, of i later locked limit lease aging]
    by (auto simp: claimed_ids claimable_def retry_due_def row)
  moreover have "prefix (take_chars 500 error) error \<and> chars_count (take_chars 500 error) \<le> 500"
    by (simp add: take_chars_prefix chars_count_take_chars)
  ultimately show ?thesis
    using ok u assms(3) by (auto simp: row owns_claim_def)
qed

theorem schedule_retry_outcome_witness:
  "let t = (example_task 1)\<lparr>t_scheduler_claim_token := Some 9, t_scheduler_claimed_at := Some 0\<rparr>;
       db = example_db [t] []
   in snd (schedule_retry 5 1 9 60 ''boom'' db)
    \<and> (\<exists>u. find_by_id (fst (schedule_retry 5 1 9 60 ''boom'' db)) 1 = Some u
         \<and> t_status u = Task_Queued \<and> t_scheduler_retry_count u = 1)"
  unfolding Let_def
  using schedule_retry_outcome [of "example_db [(example_task 1)\<lparr>t_scheduler_claim_token := Some 9,
      t_scheduler_claimed_at := Some 0\<rparr>] []" 1 "(example_task 1)\<lparr>t_scheduler_claim_token := Some 9,
      t_scheduler_claimed_at := Some 0\<rparr>" 9 5 60 "''boom''"]
  by (auto simp: example_defs keys_ok_def find_by_id_def owns_claim_def schedule_retry_def
        guarded_update_def update_tasks_def update_where_def)

end
