(* ===== verification/Reconcile.thy ===== *)
theory Reconcile
  imports Tracker
begin

text \<open>
  \<^verbatim>\<open>reconcile_scheduler_state\<close> of \<^verbatim>\<open>backend/src/repositories/devrail.rs\<close>: the transaction that
  starts every scheduler tick. It frees claims of tasks that are no longer queued, fails
  queued tasks whose attempts are used up, lists the runs that no longer agree with their
  task, and fails the runs whose process is gone.
\<close>

section \<open>Definitions\<close>

record pending_interruption =
  p_run_id :: int
  p_reason :: rstr

record reconciliation =
  queue_depth :: nat
  active_runs :: nat
  released_claims :: nat
  stale_runs :: nat
  exhausted_tasks :: nat
  pending_interruptions :: "pending_interruption list"

definition stray_claim :: "task_row \<Rightarrow> bool" where
  "stray_claim t = (t_status t \<noteq> Task_Queued \<and> t_scheduler_claim_token t \<noteq> None)"

definition release_stray_claims :: "timestamp \<Rightarrow> db \<Rightarrow> db" where
  "release_stray_claims now =
     update_tasks stray_claim
       (\<lambda>t. t\<lparr>t_scheduler_claim_token := None, t_scheduler_claimed_at := None, t_updated_at := now\<rparr>)"

definition exhausted :: "timestamp \<Rightarrow> task_row \<Rightarrow> bool" where
  "exhausted now t =
     (t_status t = Task_Queued \<and> t_archived_at t = None
      \<and> t_scheduler_attempt t \<ge> t_scheduler_max_attempts t
      \<and> (t_hook_failure_count t = 0 \<or> t_hook_failure_count t \<ge> 5)
      \<and> retry_due now t)"

definition fail_exhausted :: "timestamp \<Rightarrow> db \<Rightarrow> db" where
  "fail_exhausted now =
     update_tasks (exhausted now)
       (\<lambda>t. t\<lparr>t_status := Task_Failed, t_scheduler_claim_token := None,
              t_scheduler_claimed_at := None,
              t_scheduler_last_error := Some ''max_scheduler_attempts_reached'',
              t_updated_at := now\<rparr>)"

text \<open>The two \<^verbatim>\<open>CASE\<close> conditions the query repeats, for a run and its task.\<close>

definition environment_of :: "db \<Rightarrow> task_row \<Rightarrow> environment_row option" where
  "environment_of db t = find (\<lambda>e. Some (e_id e) = t_environment_id t) (environments db)"

definition environment_invalid :: "db \<Rightarrow> task_row \<Rightarrow> bool" where
  "environment_invalid db t =
     (case environment_of db t of None \<Rightarrow> True
      | Some e \<Rightarrow> \<not> e_enabled e \<or> e_archived_at e \<noteq> None)"

definition workflow_drift :: "run_row \<Rightarrow> task_row \<Rightarrow> bool" where
  "workflow_drift r t =
     (r_workflow_source r \<noteq> t_workflow_source t \<or> r_workflow_version r \<noteq> t_workflow_version t
      \<or> r_workflow_digest r \<noteq> t_workflow_digest t)"

definition revision_drift :: "run_row \<Rightarrow> task_row \<Rightarrow> bool" where
  "revision_drift r t =
     ((r_run_kind r \<in> {Primary, Retry} \<and> r_task_revision r \<noteq> t_revision t)
      \<or> (r_run_kind r \<in> {Continuation, Repair}
         \<and> (r_task_revision r > t_revision t \<or> r_task_revision r + 1 < t_revision t)))"

definition task_terminal :: "task_row \<Rightarrow> bool" where
  "task_terminal t = (t_status t \<in> {Task_Failed, Task_Succeeded, Task_Skipped, Task_Archived})"

definition interruption_reason :: "db \<Rightarrow> run_row \<Rightarrow> task_row \<Rightarrow> rstr" where
  "interruption_reason db r t =
     (if t_status t = Task_Cancelled then ''task_cancelled''
      else if task_terminal t then ''task_state_drift''
      else if t_archived_at t \<noteq> None then ''task_state_drift''
      else if environment_invalid db t then ''environment_invalid''
      else if workflow_drift r t then ''workflow_identity_drift''
      else if revision_drift r t then ''task_revision_drift''
      else ''reconciliation_required'')"

definition must_interrupt :: "db \<Rightarrow> run_row \<Rightarrow> task_row \<Rightarrow> bool" where
  "must_interrupt db r t =
     (t_status t = Task_Cancelled \<or> task_terminal t \<or> t_archived_at t \<noteq> None
      \<or> environment_invalid db t \<or> workflow_drift r t \<or> revision_drift r t)"

definition find_interruptions :: "db \<Rightarrow> pending_interruption list" where
  "find_interruptions db =
     concat (map (\<lambda>r. case find_by_id db (r_task_id r) of None \<Rightarrow> []
                 | Some t \<Rightarrow> if must_interrupt db r t
                     then [\<lparr>p_run_id = r_id r, p_reason = interruption_reason db r t\<rparr>] else [])
       (sort_key r_id (filter (\<lambda>r. r_status r \<in> {Run_Starting, Run_Active}) (runs db))))"

definition interrupt_audited :: "db \<Rightarrow> int \<Rightarrow> rstr \<Rightarrow> bool" where
  "interrupt_audited db run_id reason =
     list_ex (\<lambda>a. a_action a = ''devrail.run.reconcile_interrupt''
        \<and> a_target_type a = ''devrail_run'' \<and> a_target_id a = run_id \<and> a_reason a = reason)
       (audit_logs db)"

definition audit_interruptions :: "rstr \<Rightarrow> pending_interruption list \<Rightarrow> db \<Rightarrow> db" where
  "audit_interruptions trace ps db =
     db\<lparr>audit_logs := audit_logs db @
        concat (map (\<lambda>p. map (\<lambda>r. \<lparr>a_organization_id = r_organization_id r,
               a_department_id = r_department_id r, a_action = ''devrail.run.reconcile_interrupt'',
               a_target_type = ''devrail_run'', a_target_id = r_id r, a_reason = p_reason p,
               a_trace_id = trace\<rparr>)
            (filter (\<lambda>r. r_id r = p_run_id p \<and> \<not> interrupt_audited db (r_id r) (p_reason p))
              (runs db))) ps)\<rparr>"

definition last_sign_of_life :: "run_row \<Rightarrow> timestamp" where
  "last_sign_of_life r =
     (case r_last_heartbeat_at r of Some at \<Rightarrow> at
      | None \<Rightarrow> (case r_last_event_at r of Some at \<Rightarrow> at | None \<Rightarrow> r_updated_at r))"

definition stale_run :: "timestamp \<Rightarrow> int list \<Rightarrow> int \<Rightarrow> run_row \<Rightarrow> bool" where
  "stale_run now running timeout r =
     (r_status r \<in> {Run_Starting, Run_Active}
      \<and> last_sign_of_life r < now - seconds timeout \<and> r_id r \<notin> set running)"

definition process_missing :: "timestamp \<Rightarrow> run_row \<Rightarrow> run_row" where
  "process_missing now r =
     r\<lparr>r_status := Run_Failed, r_exit_reason := Some ''supervisor_process_missing'',
       r_retry_reason := Some ''supervisor_reconciliation_found_no_process'',
       r_recovery_suggestion := Some ''process_exited_check_logs_and_retry'',
       r_completed_at := (case r_completed_at r of None \<Rightarrow> Some now | Some at \<Rightarrow> Some at),
       r_updated_at := now, r_cleanup_status := ''completed''\<rparr>"

definition fail_stale_runs :: "timestamp \<Rightarrow> int list \<Rightarrow> int \<Rightarrow> db \<Rightarrow> db" where
  "fail_stale_runs now running timeout db =
     db\<lparr>runs := update_where (stale_run now running timeout) (process_missing now) (runs db)\<rparr>"

definition missing_process_run :: "run_row \<Rightarrow> bool" where
  "missing_process_run r =
     (r_status r = Run_Failed \<and> r_exit_reason r = Some ''supervisor_process_missing'')"

definition fail_tasks_of_missing_runs :: "timestamp \<Rightarrow> db \<Rightarrow> db" where
  "fail_tasks_of_missing_runs now db =
     update_tasks
       (\<lambda>t. t_status t = Task_Running
          \<and> list_ex (\<lambda>r. r_task_id r = t_id t \<and> missing_process_run r) (runs db))
       (\<lambda>t. t\<lparr>t_status := Task_Failed, t_scheduler_claim_token := None,
              t_scheduler_claimed_at := None, t_updated_at := now\<rparr>) db"

definition missing_source :: "run_row \<Rightarrow> rstr" where
  "missing_source r = ''run:'' @ show_int (r_id r) @ '':supervisor_process_missing''"

definition report_missing_runs :: "rstr \<Rightarrow> int list \<Rightarrow> db \<Rightarrow> db" where
  "report_missing_runs trace stale_ids db =
     db\<lparr>audit_logs := audit_logs db @
          map (\<lambda>r. \<lparr>a_organization_id = r_organization_id r, a_department_id = r_department_id r,
                 a_action = ''devrail.run.reconcile'', a_target_type = ''devrail_run'',
                 a_target_id = r_id r, a_reason = ''supervisor_process_missing'',
                 a_trace_id = trace\<rparr>)
            (filter (\<lambda>r. r_id r \<in> set stale_ids) (runs db)),
        notifications := insert_absent notification_key
          (map (\<lambda>r. \<lparr>n_organization_id = r_organization_id r, n_department_id = r_department_id r,
                 n_recipient_user_id = r_owner_user_id r, n_event_type = ''run.failed'',
                 n_level = ''error'', n_resource_type = ''devrail_run'', n_resource_id = r_id r,
                 n_source_key = missing_source r\<rparr>)
            (filter missing_process_run (runs db))) (notifications db),
        outbox_events := insert_absent outbox_key
          (map (\<lambda>r. \<lparr>o_organization_id = r_organization_id r,
                 o_event_type = ''notification.created'', o_aggregate_type = ''devrail_run'',
                 o_aggregate_id = r_id r, o_source = missing_source r\<rparr>)
            (filter missing_process_run (runs db))) (outbox_events db)\<rparr>"

definition reconcile_scheduler_state ::
  "timestamp \<Rightarrow> rstr \<Rightarrow> rstr \<Rightarrow> int list \<Rightarrow> int \<Rightarrow> db \<Rightarrow> db \<times> reconciliation" where
  "reconcile_scheduler_state now interrupt_trace reconcile_trace running timeout db =
     (let db1 = release_stray_claims now db;
          db2 = fail_exhausted now db1;
          pending = find_interruptions db2;
          db3 = (if pending = [] then db2 else audit_interruptions interrupt_trace pending db2);
          stale_ids = map r_id (rows_where (stale_run now running timeout) (runs db3));
          db4 = fail_stale_runs now running timeout db3;
          db5 = (if stale_ids = [] then db4
                 else report_missing_runs reconcile_trace stale_ids
                        (fail_tasks_of_missing_runs now db4))
      in (db5,
          \<lparr>queue_depth = length (rows_where
              (\<lambda>t. t_status t = Task_Queued \<and> t_archived_at t = None) (tasks db5)),
           active_runs = length (rows_where
              (\<lambda>r. r_status r \<in> {Run_Starting, Run_Active, Run_AwaitingApproval}) (runs db5)),
           released_claims = length (rows_where stray_claim (tasks db)),
           stale_runs = length stale_ids,
           exhausted_tasks = length (rows_where (exhausted now) (tasks db1)),
           pending_interruptions = pending\<rparr>))"

section \<open>Steps of the reconciliation\<close>

lemmas reconcile_step_defs = release_stray_claims_def fail_exhausted_def audit_interruptions_def
  fail_stale_runs_def fail_tasks_of_missing_runs_def report_missing_runs_def

lemma runs_steps [simp]:
  "runs (release_stray_claims now db) = runs db"
  "runs (fail_exhausted now db) = runs db"
  "runs (audit_interruptions trace ps db) = runs db"
  "runs (fail_tasks_of_missing_runs now db) = runs db"
  "runs (report_missing_runs trace ids db) = runs db"
  by (simp_all add: reconcile_step_defs)

lemma tasks_steps [simp]:
  "tasks (audit_interruptions trace ps db) = tasks db"
  "tasks (fail_stale_runs now running timeout db) = tasks db"
  "tasks (report_missing_runs trace ids db) = tasks db"
  by (simp_all add: reconcile_step_defs)

lemma fst_reconcile_runs:
  "runs (fst (reconcile_scheduler_state now it rt running timeout db)) =
     runs (fail_stale_runs now running timeout db)"
  by (simp add: reconcile_scheduler_state_def Let_def fail_stale_runs_def)

definition has_stale_run :: "timestamp \<Rightarrow> int list \<Rightarrow> int \<Rightarrow> db \<Rightarrow> bool" where
  "has_stale_run now running timeout db = list_ex (stale_run now running timeout) (runs db)"

lemma has_stale_run_steps [simp]:
  "has_stale_run now running timeout (release_stray_claims now' db) = has_stale_run now running timeout db"
  "has_stale_run now running timeout (fail_exhausted now' db) = has_stale_run now running timeout db"
  "has_stale_run now running timeout (audit_interruptions trace ps db) = has_stale_run now running timeout db"
  by (simp_all add: has_stale_run_def)

lemma stale_ids_Nil:
  "rows_where (stale_run now running timeout) (runs db) = [] \<longleftrightarrow>
   \<not> has_stale_run now running timeout db"
  by (simp add: rows_where_def has_stale_run_def list_ex_iff filter_empty_conv)

lemma fst_reconcile_tasks:
  "tasks (fst (reconcile_scheduler_state now it rt running timeout db)) =
     (let db2 = fail_exhausted now (release_stray_claims now db)
      in if has_stale_run now running timeout db
         then tasks (fail_tasks_of_missing_runs now
                ((fail_stale_runs now running timeout db2)))
         else tasks db2)"
proof -
  have same: "tasks (fail_tasks_of_missing_runs now x) = tasks (fail_tasks_of_missing_runs now y)"
    if "tasks x = tasks y" "runs x = runs y" for x y
    using that by (simp add: fail_tasks_of_missing_runs_def)
  show ?thesis
    unfolding reconcile_scheduler_state_def Let_def
    by (auto simp: stale_ids_Nil fail_stale_runs_def intro!: same)
qed

text \<open>After the first two steps a task that is not queued holds no claim, and no queued task
  is exhausted; the last step keeps both.\<close>

definition settled :: "timestamp \<Rightarrow> task_row \<Rightarrow> bool" where
  "settled now t = (\<not> stray_claim t \<and> \<not> exhausted now t)"

lemma settled_first_steps:
  "t \<in> set (tasks (fail_exhausted now (release_stray_claims now db))) \<Longrightarrow> settled now t"
  by (auto simp: reconcile_step_defs set_update_where settled_def stray_claim_def exhausted_def)

lemma settled_reconcile:
  assumes "t \<in> set (tasks (fst (reconcile_scheduler_state now it rt running timeout db)))"
  shows "settled now t"
proof (cases "has_stale_run now running timeout db")
  case True
  let ?db = "fail_stale_runs now running timeout (fail_exhausted now (release_stray_claims now db))"
  from True assms have "t \<in> set (tasks (fail_tasks_of_missing_runs now ?db))"
    by (simp add: fst_reconcile_tasks)
  then consider "t \<in> set (tasks ?db)" | "t_status t = Task_Failed" "t_scheduler_claim_token t = None"
    by (auto simp: fail_tasks_of_missing_runs_def set_update_where)
  then show ?thesis
  proof cases
    case 1
    then show ?thesis by (auto intro: settled_first_steps)
  next
    case 2
    then show ?thesis by (simp add: settled_def stray_claim_def exhausted_def)
  qed
next
  case False
  with assms show ?thesis by (auto simp: fst_reconcile_tasks intro: settled_first_steps)
qed

lemma no_stale_after: "\<not> has_stale_run now running timeout (fail_stale_runs now running timeout db)"
  by (auto simp: has_stale_run_def list_ex_iff fail_stale_runs_def set_update_where stale_run_def
    process_missing_def)

lemma release_stray_claims_settled:
  "(\<And>t. t \<in> set (tasks db) \<Longrightarrow> settled now t) \<Longrightarrow> release_stray_claims now db = db"
  unfolding release_stray_claims_def by (rule update_tasks_none) (auto simp: settled_def)

lemma counters_settled:
  assumes "\<And>t. t \<in> set (tasks db) \<Longrightarrow> settled now t"
    and "\<not> has_stale_run now running timeout db"
  shows "released_claims (snd (reconcile_scheduler_state now it rt running timeout db)) = 0"
    and "exhausted_tasks (snd (reconcile_scheduler_state now it rt running timeout db)) = 0"
    and "stale_runs (snd (reconcile_scheduler_state now it rt running timeout db)) = 0"
  using assms(1) assms(2) [unfolded stale_ids_Nil [symmetric]]
  by (auto simp: reconcile_scheduler_state_def Let_def release_stray_claims_settled
        rows_where_def filter_empty_conv settled_def)

lemma find_by_id_reconcile_first:
  "find_by_id (fail_exhausted now (release_stray_claims now db)) i =
     map_option (\<lambda>t. let u = (if stray_claim t
            then t\<lparr>t_scheduler_claim_token := None, t_scheduler_claimed_at := None,
                   t_updated_at := now\<rparr> else t)
        in if exhausted now u
           then u\<lparr>t_status := Task_Failed, t_scheduler_claim_token := None,
                  t_scheduler_claimed_at := None,
                  t_scheduler_last_error := Some ''max_scheduler_attempts_reached'',
                  t_updated_at := now\<rparr> else u) (find_by_id db i)"
  by (cases "find_by_id db i")
    (simp_all add: fail_exhausted_def release_stray_claims_def find_by_id_update_tasks Let_def)

lemma find_by_id_cong: "tasks x = tasks y \<Longrightarrow> find_by_id x i = find_by_id y i"
  by (simp add: find_by_id_def)

lemma find_by_id_reconcile:
  "find_by_id (fst (reconcile_scheduler_state now it rt running timeout db)) i =
     map_option (\<lambda>u. if has_stale_run now running timeout db \<and> t_status u = Task_Running
          \<and> list_ex (\<lambda>r. r_task_id r = t_id u \<and> missing_process_run r)
              (runs (fail_stale_runs now running timeout db))
        then u\<lparr>t_status := Task_Failed, t_scheduler_claim_token := None,
               t_scheduler_claimed_at := None, t_updated_at := now\<rparr> else u)
       (find_by_id (fail_exhausted now (release_stray_claims now db)) i)"
proof (cases "has_stale_run now running timeout db")
  case True
  let ?db = "fail_stale_runs now running timeout (fail_exhausted now (release_stray_claims now db))"
  have "find_by_id (fst (reconcile_scheduler_state now it rt running timeout db)) i =
        find_by_id (fail_tasks_of_missing_runs now ?db) i"
    using True by (intro find_by_id_cong) (simp add: fst_reconcile_tasks)
  also have "\<dots> = map_option (\<lambda>u. if t_status u = Task_Running
        \<and> list_ex (\<lambda>r. r_task_id r = t_id u \<and> missing_process_run r) (runs ?db)
      then u\<lparr>t_status := Task_Failed, t_scheduler_claim_token := None,
             t_scheduler_claimed_at := None, t_updated_at := now\<rparr> else u) (find_by_id ?db i)"
    unfolding fail_tasks_of_missing_runs_def by (subst find_by_id_update_tasks) simp_all
  finally show ?thesis
    using True
    by (simp add: fail_stale_runs_def find_by_id_def)
next
  case False
  then show ?thesis
    by (simp add: option.map_ident find_by_id_def fst_reconcile_tasks)
qed

lemma dependencies_reconcile:
  "dependencies (fst (reconcile_scheduler_state now it rt running timeout db)) = dependencies db"
  by (simp add: reconcile_scheduler_state_def Let_def reconcile_step_defs)

lemma keys_ok_reconcile:
  assumes "keys_ok db"
  shows "keys_ok (fst (reconcile_scheduler_state now it rt running timeout db))"
proof -
  have "map t_id (tasks (fst (reconcile_scheduler_state now it rt running timeout db))) = map t_id (tasks db)"
    by (simp add: fst_reconcile_tasks Let_def reconcile_step_defs update_where_keeps)
  moreover have "map r_id (runs (fst (reconcile_scheduler_state now it rt running timeout db))) = map r_id (runs db)"
    by (simp add: fst_reconcile_runs fail_stale_runs_def update_where_keeps process_missing_def)
  ultimately show ?thesis using assms by (simp add: keys_ok_def)
qed

lemma reconcile_keys:
  "map (\<lambda>t. (t_id t, t_organization_id t)) (tasks (fst (reconcile_scheduler_state now it rt running timeout db)))
     = map (\<lambda>t. (t_id t, t_organization_id t)) (tasks db)"
proof -
  let ?key = "\<lambda>t. (t_id t, t_organization_id t)"
  have "map ?key (tasks (release_stray_claims now x)) = map ?key (tasks x)"
    "map ?key (tasks (fail_exhausted now x)) = map ?key (tasks x)"
    "map ?key (tasks (fail_tasks_of_missing_runs now x)) = map ?key (tasks x)" for x
    unfolding release_stray_claims_def fail_exhausted_def fail_tasks_of_missing_runs_def tasks_update_tasks
    by (rule update_where_keeps, simp)+
  then show ?thesis unfolding fst_reconcile_tasks Let_def by (simp only: tasks_steps split: if_split) simp
qed

text \<open>A row that is not failed afterwards was there before, but for a stray claim.\<close>

lemma reconcile_row_source:
  assumes "find_by_id (fst (reconcile_scheduler_state now it rt running timeout db)) i = Some u"
    and "t_status u \<noteq> Task_Failed"
  obtains t where "find_by_id db i = Some t"
    "u = t \<or> stray_claim t \<and> u = t\<lparr>t_scheduler_claim_token := None, t_scheduler_claimed_at := None, t_updated_at := now\<rparr>"
proof -
  obtain v where v: "find_by_id (fail_exhausted now (release_stray_claims now db)) i = Some v" "u = v"
    using assms by (auto simp: find_by_id_reconcile split: if_splits)
  then obtain t where "find_by_id db i = Some t" by (auto simp: find_by_id_reconcile_first)
  with v assms(2) that show thesis
    by (cases "stray_claim t") (auto simp: find_by_id_reconcile_first Let_def split: if_splits)
qed

section \<open>Properties\<close>

text \<open>One pass settles the scheduler state: after \<open>reconcile_scheduler_state\<close> no task that
  left the queue holds a claim, no queued task is out of attempts and no run has lost its
  process, so a second pass at the same time with the same processes counts zero released
  claims, exhausted tasks and stale runs.\<close>

theorem reconcile_settles:
  "let db' = fst (reconcile_scheduler_state now it rt running timeout db);
       again = snd (reconcile_scheduler_state now it' rt' running timeout db')
   in list_all (\<lambda>t. \<not> stray_claim t \<and> \<not> exhausted now t) (tasks db')
    \<and> list_all (\<lambda>r. \<not> stale_run now running timeout r) (runs db')
    \<and> released_claims again = 0 \<and> exhausted_tasks again = 0 \<and> stale_runs again = 0"
proof -
  let ?db = "fst (reconcile_scheduler_state now it rt running timeout db)"
  have settled: "settled now t" if "t \<in> set (tasks ?db)" for t
    using that by (rule settled_reconcile)
  moreover have stale: "\<not> has_stale_run now running timeout ?db"
    using no_stale_after [of now running timeout db]
    by (simp add: has_stale_run_def fst_reconcile_runs)
  ultimately show ?thesis
    using counters_settled [OF settled stale]
    by (simp add: Let_def list_all_iff settled_def has_stale_run_def list_ex_iff)
qed

text \<open>The reconciliation fails exactly the lost runs: every starting or active run that this
  process does not supervise and that has shown no sign of life for the timeout ends failed
  with exit reason \<^verbatim>\<open>supervisor_process_missing\<close>, and every other run is untouched.\<close>

theorem reconcile_fails_exactly_stale_runs:
  "let lost = {r \<in> set (runs db). r_status r \<in> {Run_Starting, Run_Active} \<and> r_id r \<notin> set running
                \<and> last_sign_of_life r < now - seconds timeout}
   in set (runs (fst (reconcile_scheduler_state now it rt running timeout db))) =
        (set (runs db) - lost) \<union> process_missing now ` lost"
  unfolding fst_reconcile_runs fail_stale_runs_def Let_def
  by (auto simp: set_update_where stale_run_def)

lemma interruption_reason_range:
  "must_interrupt db r t \<Longrightarrow> interruption_reason db r t \<in> {''task_cancelled'', ''task_state_drift'',
     ''environment_invalid'', ''workflow_identity_drift'', ''task_revision_drift''}"
  by (cases "t_archived_at t") (auto simp: must_interrupt_def interruption_reason_def)

text \<open>The interruption list is exact: a pass lists a run if and only if it is starting or
  active and disagrees with its task (as the first two steps leave it), always under one of
  the five specific reasons; the fallback reason \<^verbatim>\<open>reconciliation_required\<close> of the query is never
  produced.\<close>

theorem interruptions_are_exact:
  "set (pending_interruptions (snd (reconcile_scheduler_state now it rt running timeout db))) =
     {\<lparr>p_run_id = r_id r, p_reason = interruption_reason settled_db r t\<rparr> | r t settled_db.
        settled_db = fail_exhausted now (release_stray_claims now db)
        \<and> r \<in> set (runs db) \<and> r_status r \<in> {Run_Starting, Run_Active}
        \<and> find_by_id settled_db (r_task_id r) = Some t \<and> must_interrupt settled_db r t}
   \<and> list_all (\<lambda>p. p_reason p \<in> {''task_cancelled'', ''task_state_drift'', ''environment_invalid'',
        ''workflow_identity_drift'', ''task_revision_drift''})
      (pending_interruptions (snd (reconcile_scheduler_state now it rt running timeout db)))"
proof -
  let ?db = "fail_exhausted now (release_stray_claims now db)"
  have "pending_interruptions (snd (reconcile_scheduler_state now it rt running timeout db))
      = find_interruptions ?db"
    by (simp add: reconcile_scheduler_state_def Let_def)
  moreover have exact: "set (find_interruptions ?db) =
     {\<lparr>p_run_id = r_id r, p_reason = interruption_reason ?db r t\<rparr> | r t.
        r \<in> set (runs db) \<and> r_status r \<in> {Run_Starting, Run_Active}
        \<and> find_by_id ?db (r_task_id r) = Some t \<and> must_interrupt ?db r t}"
    by (force simp: find_interruptions_def split: option.splits if_splits)
  moreover have "p_reason p \<in> {''task_cancelled'', ''task_state_drift'', ''environment_invalid'',
        ''workflow_identity_drift'', ''task_revision_drift''}" if "p \<in> set (find_interruptions ?db)" for p
    using that interruption_reason_range unfolding exact by fastforce
  ultimately show ?thesis by (auto simp: list_all_iff)
qed

text \<open>What a pass does to a task: a task keeps its status unless it was queued with its attempts
  used up (and no pending retry) or running with a lost run; in both cases it ends failed and
  without a claim. A queued task that still has attempts keeps its claim.\<close>

theorem reconcile_task_outcome:
  assumes "find_by_id db i = Some t"
    and "find_by_id (fst (reconcile_scheduler_state now it rt running timeout db)) i = Some u"
  shows "(t_status u \<noteq> t_status t \<longrightarrow> t_status u = Task_Failed \<and> t_scheduler_claim_token u = None
            \<and> (exhausted now t \<or> t_status t = Task_Running))
       \<and> (t_status u = Task_Queued \<longrightarrow> u = t)"
proof -
  obtain v where v: "find_by_id (fail_exhausted now (release_stray_claims now db)) i = Some v"
    using assms by (auto simp: find_by_id_reconcile)
  have stray: "\<not> exhausted now (t\<lparr>t_scheduler_claim_token := None, t_scheduler_claimed_at := None,
      t_updated_at := now\<rparr>)" if "stray_claim t"
    using that by (simp add: stray_claim_def exhausted_def)
  have "t_status v = t_status t \<and> (t_status t = Task_Queued \<longrightarrow> v = t)
      \<or> exhausted now t \<and> t_status v = Task_Failed \<and> t_scheduler_claim_token v = None"
  proof (cases "stray_claim t")
    case True
    with v assms(1) stray show ?thesis
      by (auto simp: find_by_id_reconcile_first Let_def stray_claim_def)
  next
    case False
    with v assms(1) show ?thesis
      by (cases "exhausted now t") (auto simp: find_by_id_reconcile_first Let_def)
  qed
  moreover have "u = v \<or> t_status v = Task_Running \<and> t_status u = Task_Failed \<and> t_scheduler_claim_token u = None"
    using assms(2) unfolding find_by_id_reconcile v by (simp split: if_splits) auto
  ultimately show ?thesis by (metis task_status.distinct)
qed

theorem reconcile_task_outcome_witness:
  "let t = (example_task 1)\<lparr>t_scheduler_attempt := 3\<rparr>;
       u = t\<lparr>t_status := Task_Failed, t_scheduler_claim_token := None, t_scheduler_claimed_at := None,
              t_scheduler_last_error := Some ''max_scheduler_attempts_reached'', t_updated_at := 5\<rparr>
   in (t_status u \<noteq> t_status t \<longrightarrow> t_status u = Task_Failed \<and> t_scheduler_claim_token u = None
            \<and> (exhausted 5 t \<or> t_status t = Task_Running))
       \<and> (t_status u = Task_Queued \<longrightarrow> u = t)"
proof -
  let ?t = "(example_task 1)\<lparr>t_scheduler_attempt := 3\<rparr>"
  have t: "find_by_id (example_db [?t] []) 1 = Some ?t"
    by (simp add: find_by_id_def example_db_def example_task_def)
  have "\<not> stray_claim ?t" and "exhausted 5 ?t"
    by (simp_all add: stray_claim_def exhausted_def retry_due_def example_task_def)
  with t show ?thesis
    unfolding Let_def
    by (intro reconcile_task_outcome [where db = "example_db [?t] []" and i = 1 and it = "''a''"
          and rt = "''b''" and running = "[]" and timeout = 60])
      (simp_all add: find_by_id_reconcile find_by_id_reconcile_first)
qed

text \<open>A released claim costs an attempt (the comment in \<^verbatim>\<open>dispatch_task\<close> says that a task
  without capacity stays queued rather than being reported as failed): a queued task of one
  allowed attempt and no hook failure, claimed and released again without any run, has its
  attempt counter at the maximum and the next reconciliation marks it failed.\<close>

theorem released_claim_exhausts_single_attempt:
  assumes "keys_ok db" and "find_by_id db i = Some t" and "claimable db now lease t"
    and "t_scheduler_max_attempts t = 1" and "t_hook_failure_count t = 0" and "now \<le> later"
    and "i \<in> t_id ` set (snd (claim_scheduler_tasks now locked token limit lease aging db))"
  shows "let claimed = fst (claim_scheduler_tasks now locked token limit lease aging db);
             released = fst (release_scheduler_claim now i token claimed)
         in runs released = runs db
          \<and> map_option t_status (find_by_id released i) = Some Task_Queued
          \<and> map_option t_status (find_by_id
              (fst (reconcile_scheduler_state later it rt running timeout released)) i) = Some Task_Failed"
proof -
  let ?claimed = "fst (claim_scheduler_tasks now locked token limit lease aging db)"
  let ?released = "fst (release_scheduler_claim now i token ?claimed)"
  have att: "1 \<le> next_attempt db t" by (simp add: next_attempt_def Let_def)
  have c: "find_by_id ?claimed i = Some (t\<lparr>t_scheduler_claim_token := Some token,
      t_scheduler_claimed_at := Some now, t_scheduler_attempt := next_attempt db t, t_updated_at := now\<rparr>)"
    using assms(2,7) by (simp add: find_by_id_claim claimed_ids)
  have r: "find_by_id ?released i = Some (t\<lparr>t_scheduler_claim_token := None,
      t_scheduler_claimed_at := None, t_scheduler_attempt := next_attempt db t, t_updated_at := now\<rparr>)"
    unfolding release_scheduler_claim_def
    using c assms(2,3) by (simp add: find_by_id_guarded_update owns_claim_def claimable_def find_by_id_id)
  have "exhausted later (t\<lparr>t_scheduler_claim_token := None,
      t_scheduler_claimed_at := None, t_scheduler_attempt := next_attempt db t, t_updated_at := now\<rparr>)"
    using assms(3-6) att
    by (auto simp: exhausted_def claimable_def retry_due_def split: option.splits)
  then have "map_option t_status (find_by_id
      (fst (reconcile_scheduler_state later it rt running timeout ?released)) i) = Some Task_Failed"
    unfolding find_by_id_reconcile find_by_id_reconcile_first r
    by (simp add: Let_def stray_claim_def)
  with r assms(3) show ?thesis
    by (simp add: Let_def claimable_def release_scheduler_claim_def guarded_update_def fst_claim)
qed

theorem released_claim_exhausts_single_attempt_witness:
  "let db = example_db [(example_task 1)\<lparr>t_scheduler_max_attempts := 1\<rparr>] [];
       claimed = fst (claim_scheduler_tasks 0 {} 9 1 30 60 db);
       released = fst (release_scheduler_claim 0 1 9 claimed)
   in runs released = runs db
    \<and> map_option t_status (find_by_id released 1) = Some Task_Queued
    \<and> map_option t_status (find_by_id
        (fst (reconcile_scheduler_state 5 ''a'' ''b'' [] 60 released)) 1) = Some Task_Failed"
  unfolding Let_def
  by (rule released_claim_exhausts_single_attempt [unfolded Let_def,
        where t = "(example_task 1)\<lparr>t_scheduler_max_attempts := 1\<rparr>"])
    (simp_all add: example_defs keys_ok_def claimed_ids claim_candidates_def claimable_def
       within_attempts_def dependency_eligible_def has_usable_environment_def lease_lapsed_def
       retry_due_def has_active_run_def find_by_id_def)

text \<open>A lost run of one task fails other tasks that are healthy. When a pass finds any stale run,
  every running task that has some earlier run with exit reason
  \<^verbatim>\<open>supervisor_process_missing\<close> is marked failed, even if its current run is active and
  supervised.\<close>

theorem lost_run_fails_recovered_tasks:
  assumes "find_by_id db i = Some t" and "t_status t = Task_Running"
    and "old \<in> set (runs db)" and "r_task_id old = i" and "missing_process_run old"
    and "lost \<in> set (runs db)" and "stale_run now running timeout lost"
  shows "map_option t_status (find_by_id
           (fst (reconcile_scheduler_state now it rt running timeout db)) i) = Some Task_Failed"
proof -
  have "\<not> stale_run now running timeout old"
    using assms(5) by (simp add: stale_run_def missing_process_run_def)
  with assms(3) have "old \<in> set (runs (fail_stale_runs now running timeout db))"
    by (auto simp: fail_stale_runs_def set_update_where)
  moreover have "has_stale_run now running timeout db"
    using assms(6,7) by (auto simp: has_stale_run_def list_ex_iff)
  moreover have "t_id t = i" using assms(1) by (rule find_by_id_id)
  ultimately show ?thesis
    using assms(1,2,4,5)
    by (auto simp: find_by_id_reconcile find_by_id_reconcile_first Let_def stray_claim_def
          exhausted_def list_ex_iff)
qed

theorem lost_run_fails_recovered_tasks_witness:
  "map_option t_status (find_by_id
     (fst (reconcile_scheduler_state (seconds 500) ''a'' ''b'' [21] 60
       (example_db [(example_task 1)\<lparr>t_status := Task_Running\<rparr>, (example_task 2)\<lparr>t_status := Task_Running\<rparr>]
         [(example_run 20 1)\<lparr>r_status := Run_Failed, r_exit_reason := Some ''supervisor_process_missing''\<rparr>,
          (example_run 21 1)\<lparr>r_attempt := 2, r_last_heartbeat_at := Some (seconds 499)\<rparr>,
          example_run 30 2]))) 1) = Some Task_Failed"
  by (rule lost_run_fails_recovered_tasks [where t = "(example_task 1)\<lparr>t_status := Task_Running\<rparr>"
        and old = "(example_run 20 1)\<lparr>r_status := Run_Failed,
          r_exit_reason := Some ''supervisor_process_missing''\<rparr>"
        and lost = "example_run 30 2"])
    (simp_all add: example_defs find_by_id_def missing_process_run_def stale_run_def
       last_sign_of_life_def seconds_def)

end
