(* ===== verification/Recursive.thy ===== *)
theory Recursive
  imports Prelude
begin

text \<open>
  \<^verbatim>\<open>WITH RECURSIVE .. UNION ..\<close> over a finite table of edges, computed as PostgreSQL does: the
  rows found last are the working table of the next round, rows already found are dropped,
  and the query ends when a round finds nothing new. It computes the reflexive-transitive
  closure.
\<close>

definition cte_round :: "('a \<times> 'a) list \<Rightarrow> 'a list \<Rightarrow> 'a list \<Rightarrow> 'a list" where
  "cte_round es acc work =
     remdups (map snd (filter (\<lambda>(a, b). a \<in> set work \<and> b \<notin> set acc) es))"

lemma set_cte_round: "set (cte_round es acc work) = (set es `` set work) - set acc"
  by (auto simp: cte_round_def image_iff)

lemma cte_round_decreases:
  assumes "cte_round es acc work \<noteq> []"
  shows "card (snd ` set es - (set acc \<union> set (cte_round es acc work))) < card (snd ` set es - set acc)"
proof (rule psubset_card_mono)
  show "finite (snd ` set es - set acc)" by simp
  from assms obtain x where "x \<in> set (cte_round es acc work)" by (meson last_in_set)
  then have "x \<in> snd ` set es - set acc" by (force simp: set_cte_round)
  with \<open>x \<in> set (cte_round es acc work)\<close>
  show "snd ` set es - (set acc \<union> set (cte_round es acc work)) \<subset> snd ` set es - set acc"
    by blast
qed

function cte_loop :: "('a \<times> 'a) list \<Rightarrow> 'a list \<Rightarrow> 'a list \<Rightarrow> 'a list" where
  "cte_loop es acc work =
     (let new = cte_round es acc work
      in if new = [] then acc else cte_loop es (acc @ new) new)"
  by pat_completeness auto
termination
  by (relation "measure (\<lambda>(es, acc, work). card (snd ` set es - set acc))")
    (use cte_round_decreases in auto)

declare cte_loop.simps [simp del]

definition recursive_cte :: "('a \<times> 'a) list \<Rightarrow> 'a list \<Rightarrow> 'a list" where
  "recursive_cte es base = (let b = remdups base in cte_loop es b b)"

lemma Image_rtrancl_closed: "B \<subseteq> A \<Longrightarrow> r `` A \<subseteq> A \<Longrightarrow> r\<^sup>* `` B \<subseteq> A"
proof
  fix y assume "B \<subseteq> A" and "r `` A \<subseteq> A" and "y \<in> r\<^sup>* `` B"
  then obtain x where "(x, y) \<in> r\<^sup>*" and "x \<in> A" by blast
  then show "y \<in> A"
    using \<open>r `` A \<subseteq> A\<close> by (induction rule: rtrancl_induct) blast+
qed

lemma set_cte_loop:
  assumes "set work \<subseteq> set acc" and "set es `` (set acc - set work) \<subseteq> set acc"
  shows "set (cte_loop es acc work) = (set es)\<^sup>* `` set acc"
  using assms
proof (induction es acc work rule: cte_loop.induct)
  case (1 es acc work)
  let ?new = "cte_round es acc work"
  show ?case
  proof (cases "?new = []")
    case True
    then have "set es `` set work \<subseteq> set acc" by (metis set_cte_round Diff_eq_empty_iff set_empty)
    with "1.prems"(2) have "set es `` set acc \<subseteq> set acc" by blast
    then have "(set es)\<^sup>* `` set acc \<subseteq> set acc" by (intro Image_rtrancl_closed) auto
    with True show ?thesis by (subst cte_loop.simps) auto
  next
    case False
    have new: "set ?new \<subseteq> (set es)\<^sup>* `` set acc"
      using "1.prems"(1) by (auto simp: set_cte_round)
    have "set (cte_loop es (acc @ ?new) ?new) = (set es)\<^sup>* `` set (acc @ ?new)"
    proof (rule "1.IH" [OF refl False])
      show "set es `` (set (acc @ ?new) - set ?new) \<subseteq> set (acc @ ?new)"
        using "1.prems"(2) unfolding set_append set_cte_round by blast
    qed simp
    also have "\<dots> = (set es)\<^sup>* `` set acc"
      using new by (auto intro: rtrancl_trans)
    finally show ?thesis using False by (subst cte_loop.simps) (simp add: Let_def)
  qed
qed

lemma set_recursive_cte: "set (recursive_cte es base) = (set es)\<^sup>* `` set base"
  by (simp add: recursive_cte_def Let_def set_cte_loop)

text \<open>Acyclicity of a finite relation when the successors of one node are replaced.\<close>

lemma acyclic_replace_successors:
  assumes ac: "acyclic E"
    and no_path: "\<And>q. q \<in> Q \<Longrightarrow> (q, t) \<notin> E\<^sup>*"
  shows "acyclic ({(a, b) \<in> E. a \<noteq> t} \<union> {t} \<times> Q)"
proof -
  let ?R = "{(a, b) \<in> E. a \<noteq> t}"
  have sub: "?R\<^sup>* \<subseteq> E\<^sup>*" by (rule rtrancl_mono) auto
  have keep: "(q, x) \<in> (?R \<union> {t} \<times> Q)\<^sup>* \<Longrightarrow> (q, t) \<notin> E\<^sup>* \<Longrightarrow> (q, x) \<in> ?R\<^sup>*" for q x
  proof (induction rule: rtrancl_induct)
    case base
    then show ?case by simp
  next
    case (step y z)
    then have y: "(q, y) \<in> ?R\<^sup>*" by simp
    then have "y \<noteq> t" using sub step.prems by blast
    with step.hyps(2) have "(y, z) \<in> ?R" by auto
    with y show ?case by (rule rtrancl_into_rtrancl)
  qed
  have split: "(x, y) \<in> (?R \<union> {t} \<times> Q)\<^sup>+ \<Longrightarrow>
      (x, y) \<in> ?R\<^sup>+ \<or> (x, t) \<in> (?R \<union> {t} \<times> Q)\<^sup>* \<and> (\<exists>q \<in> Q. (q, y) \<in> (?R \<union> {t} \<times> Q)\<^sup>*)" for x y
  proof (induction rule: trancl_induct)
    case (base y)
    then show ?case by auto
  next
    case (step y z)
    show ?case
    proof (cases "(y, z) \<in> ?R")
      case True
      then have "(y, z) \<in> ?R \<union> {t} \<times> Q" by simp
      with True step.IH show ?thesis
        by (meson rtrancl_into_rtrancl trancl_into_trancl)
    next
      case False
      with step.hyps(2) have "y = t" and "z \<in> Q" by auto
      with step.hyps(1) show ?thesis by (auto dest: trancl_into_rtrancl)
    qed
  qed
  have "(x, x) \<notin> (?R \<union> {t} \<times> Q)\<^sup>+" for x
  proof
    assume "(x, x) \<in> (?R \<union> {t} \<times> Q)\<^sup>+"
    then consider "(x, x) \<in> ?R\<^sup>+"
      | q where "q \<in> Q" "(q, t) \<in> (?R \<union> {t} \<times> Q)\<^sup>*"
      using split rtrancl_trans by meson
    then show False
    proof cases
      case 1
      then have "(x, x) \<in> E\<^sup>+" by (rule trancl_mono) auto
      with ac show False by (simp add: acyclic_def)
    next
      case 2
      with keep no_path sub show False by blast
    qed
  qed
  then show ?thesis by (simp add: acyclic_def)
qed

end
