(* ===== verification/Errors.thy ===== *)
theory Errors
  imports Prelude
begin

text \<open>
  \<^verbatim>\<open>backend/src/error.rs\<close>: the API error type, its HTTP response and the mapping of database
  errors; \<^verbatim>\<open>backend/src/orchestration/task_tracker.rs\<close>: the tracker's error kinds. Chinese
  display texts are ASCII tags.
\<close>

datatype api_error =
    Unauthorized
  | Forbidden rstr
  | NotFound rstr
  | Conflict rstr
  | Validation rstr
  | Unavailable
  | CsrfInvalid
  | RateLimited nat
  | Internal rstr

fun status_code :: "api_error \<Rightarrow> nat" where
  "status_code Unauthorized = 401"
| "status_code (Forbidden _) = 403"
| "status_code (NotFound _) = 404"
| "status_code (Conflict _) = 409"
| "status_code (Validation _) = 422"
| "status_code Unavailable = 503"
| "status_code CsrfInvalid = 403"
| "status_code (RateLimited _) = 429"
| "status_code (Internal _) = 500"

fun error_code :: "api_error \<Rightarrow> rstr" where
  "error_code Unauthorized = ''UNAUTHORIZED''"
| "error_code (Forbidden _) = ''FORBIDDEN''"
| "error_code (NotFound _) = ''NOT_FOUND''"
| "error_code (Conflict _) = ''CONFLICT''"
| "error_code (Validation _) = ''VALIDATION_ERROR''"
| "error_code Unavailable = ''SERVICE_UNAVAILABLE''"
| "error_code CsrfInvalid = ''CSRF_INVALID''"
| "error_code (RateLimited _) = ''RATE_LIMITED''"
| "error_code (Internal _) = ''INTERNAL_ERROR''"

text \<open>The \<^verbatim>\<open>Display\<close> text, with the root cause of an internal error hidden.\<close>

fun public_message :: "api_error \<Rightarrow> rstr" where
  "public_message Unauthorized = ''unauthenticated_or_session_expired''"
| "public_message (Forbidden m) = m"
| "public_message (NotFound m) = m"
| "public_message (Conflict m) = m"
| "public_message (Validation m) = m"
| "public_message Unavailable = ''service_temporarily_unavailable''"
| "public_message CsrfInvalid = ''csrf_check_failed''"
| "public_message (RateLimited _) = ''too_many_login_attempts''"
| "public_message (Internal _) = ''internal_server_error''"

record error_reply =
  reply_status :: nat
  reply_code :: rstr
  reply_message :: rstr
  reply_trace_id :: rstr
  retry_after :: "rstr option"

definition into_response :: "rstr option \<Rightarrow> api_error \<Rightarrow> error_reply" where
  "into_response trace e =
     \<lparr>reply_status = status_code e, reply_code = error_code e, reply_message = public_message e,
      reply_trace_id = (case trace of None \<Rightarrow> ''unavailable'' | Some t \<Rightarrow> t),
      retry_after = (case e of RateLimited secs \<Rightarrow> Some (show_nat secs) | _ \<Rightarrow> None)\<rparr>"

section \<open>Database errors\<close>

datatype constraint_kind = UniqueViolation | ForeignKeyViolation | CheckViolation | OtherViolation

datatype sqlx_error =
    RowNotFound
  | Database constraint_kind
  | PoolTimedOut
  | PoolClosed
  | Io
  | Tls
  | Protocol rstr
  | OtherSqlx

fun db_error :: "sqlx_error \<Rightarrow> api_error" where
  "db_error (Database UniqueViolation) = Conflict ''unique_constraint''"
| "db_error (Database ForeignKeyViolation) = Validation ''related_data_missing_or_referenced''"
| "db_error e = Internal ''database_error''"

datatype tracker_error_kind = Transient | TrackerConflict | TrackerNotFound | Permanent

fun tracker_error :: "sqlx_error \<Rightarrow> tracker_error_kind" where
  "tracker_error RowNotFound = TrackerNotFound"
| "tracker_error (Database k) =
     (if k \<in> {UniqueViolation, CheckViolation, ForeignKeyViolation} then TrackerConflict
      else Permanent)"
| "tracker_error PoolTimedOut = Transient"
| "tracker_error PoolClosed = Transient"
| "tracker_error Io = Transient"
| "tracker_error Tls = Transient"
| "tracker_error (Protocol _) = Permanent"
| "tracker_error OtherSqlx = Permanent"

end
