(* ===== verification/Scope.thy ===== *)
theory Scope
  imports Store Recursive
begin

text \<open>
  Row-level data scope of the SQL statements (\<^verbatim>\<open>scope_sql\<close> and the recursive
  \<^verbatim>\<open>visible_departments\<close> query of \<^verbatim>\<open>backend/src/repositories/devrail.rs\<close>).
\<close>

definition department_edges :: "int \<Rightarrow> db \<Rightarrow> (int \<times> int) list" where
  "department_edges org db =
     concat (map (\<lambda>d. case dep_parent_id d of None \<Rightarrow> [] | Some p \<Rightarrow> [(p, dep_id d)])
       (filter (\<lambda>d. dep_organization_id d = org) (departments db)))"

definition visible_departments :: "actor_context \<Rightarrow> db \<Rightarrow> int list" where
  "visible_departments actor db =
     recursive_cte (department_edges (organization_id actor) db)
       (map dep_id (filter (\<lambda>d. Some (dep_id d) = department_id actor
          \<and> dep_organization_id d = organization_id actor) (departments db)))"

text \<open>\<open>scope_sql actor db (organization, owner, department)\<close> of a row. A comparison with a
  null department is not true.\<close>

definition scope_sql :: "actor_context \<Rightarrow> db \<Rightarrow> int \<times> int \<times> int option \<Rightarrow> bool" where
  "scope_sql actor db row = (case row of (org, owner, dept) \<Rightarrow>
     data_scope actor = Scope_All
     \<or> (org = organization_id actor
        \<and> (data_scope actor = Scope_Organization
           \<or> (data_scope actor = Scope_SelfOnly \<and> owner = user_id actor)
           \<or> (data_scope actor = Scope_Department \<and> dept \<noteq> None \<and> dept = department_id actor)
           \<or> (data_scope actor = Scope_DepartmentAndChildren
              \<and> (\<exists>d \<in> set (visible_departments actor db). dept = Some d)))))"

definition task_scope :: "task_row \<Rightarrow> int \<times> int \<times> int option" where
  "task_scope t = (t_organization_id t, t_owner_user_id t, t_department_id t)"

definition find_task_by_id :: "actor_context \<Rightarrow> db \<Rightarrow> int \<Rightarrow> task_row option" where
  "find_task_by_id actor db i =
     find (\<lambda>t. t_id t = i \<and> t_archived_at t = None \<and> scope_sql actor db (task_scope t)) (tasks db)"

definition find_task :: "actor_context \<Rightarrow> db \<Rightarrow> int \<Rightarrow> int \<Rightarrow> task_row option" where
  "find_task actor db project_id i =
     find (\<lambda>t. t_id t = i \<and> t_project_id t = project_id \<and> t_archived_at t = None
        \<and> scope_sql actor db (task_scope t)) (tasks db)"

section \<open>What a scope shows\<close>

lemma set_department_edges:
  "set (department_edges org db) =
     {(p, c). \<exists>d \<in> set (departments db). dep_organization_id d = org
        \<and> dep_parent_id d = Some p \<and> c = dep_id d}"
  by (auto simp: department_edges_def split: option.splits)

lemma set_visible_departments:
  "set (visible_departments actor db) =
     {c. \<exists>d \<in> set (departments db). dep_organization_id d = organization_id actor
        \<and> Some (dep_id d) = department_id actor
        \<and> (dep_id d, c) \<in> (set (department_edges (organization_id actor) db))\<^sup>*}"
  by (auto simp: visible_departments_def set_recursive_cte)

lemma scope_sql_same_organization:
  "scope_sql actor db (org, owner, dept) \<Longrightarrow> data_scope actor \<noteq> Scope_All \<Longrightarrow>
   org = organization_id actor"
  by (simp add: scope_sql_def)

text \<open>Within the actor's organization the three department-based scopes are nested.\<close>

lemma department_scope_nested:
  assumes "scope_sql (actor\<lparr>data_scope := Scope_Department\<rparr>) db (org, owner, dept)"
    and "\<exists>d \<in> set (departments db). dep_organization_id d = organization_id actor
           \<and> Some (dep_id d) = department_id actor"
  shows "scope_sql (actor\<lparr>data_scope := Scope_DepartmentAndChildren\<rparr>) db (org, owner, dept)"
  using assms
  by (auto simp: scope_sql_def set_visible_departments)

lemma find_task_Some:
  "find_task actor db p i = Some t \<Longrightarrow>
   t \<in> set (tasks db) \<and> t_id t = i \<and> t_project_id t = p \<and> t_archived_at t = None
   \<and> scope_sql actor db (task_scope t)"
  by (auto simp: find_task_def find_Some_iff)

lemma find_task_by_id_Some:
  "find_task_by_id actor db i = Some t \<Longrightarrow>
   t \<in> set (tasks db) \<and> t_id t = i \<and> t_archived_at t = None \<and> scope_sql actor db (task_scope t)"
  by (auto simp: find_task_by_id_def find_Some_iff)

end
