(* ===== verification/Dependencies.thy ===== *)
theory Dependencies
  imports Scope Errors "HOL-Library.Sublist"
begin

text \<open>
  The task dependency graph: replacing the prerequisites of a task
  (\<^verbatim>\<open>replace_task_dependencies\<close> of \<^verbatim>\<open>backend/src/services/devrail.rs\<close> and of
  \<^verbatim>\<open>backend/src/repositories/devrail.rs\<close>). A repository function runs inside the
  transaction of its caller: on an error the caller drops the transaction, so the result is
  the error alone and the database is as before.
\<close>

section \<open>Definitions\<close>

record new_dependency =
  nd_task_id :: int
  nd_prerequisite_task_id :: int
  nd_failure_action :: dependency_action
  nd_cancelled_action :: dependency_action
  nd_timeout_action :: dependency_action

definition dependency_edges :: "int \<Rightarrow> db \<Rightarrow> (int \<times> int) list" where
  "dependency_edges org db =
     map (\<lambda>d. (d_task_id d, d_prerequisite_task_id d))
       (filter (\<lambda>d. d_organization_id d = org) (dependencies db))"

text \<open>The recursive query \<^verbatim>\<open>reachable\<close>: tasks some prerequisite chain of \<open>from\<close> leads to.\<close>

definition reachable_prerequisites :: "int \<Rightarrow> db \<Rightarrow> int \<Rightarrow> int list" where
  "reachable_prerequisites org db from =
     recursive_cte (dependency_edges org db)
       (map snd (filter (\<lambda>(a, b). a = from) (dependency_edges org db)))"

text \<open>The inserts, under the table's constraints: a task is not its own prerequisite and a
  pair occurs once.\<close>

fun insert_dependencies ::
  "int \<Rightarrow> int option \<Rightarrow> int \<Rightarrow> new_dependency list \<Rightarrow> db \<Rightarrow> sqlx_error + db" where
  "insert_dependencies org dept owner [] db = Inr db"
| "insert_dependencies org dept owner (n # ns) db =
     (if nd_task_id n = nd_prerequisite_task_id n then Inl (Database CheckViolation)
      else if (nd_task_id n, nd_prerequisite_task_id n) \<in> set (dependency_edges org db)
      then Inl (Database UniqueViolation)
      else insert_dependencies org dept owner ns
        (db\<lparr>dependencies := dependencies db @
           [\<lparr>d_id = next_serial d_id (dependencies db), d_organization_id = org,
             d_department_id = dept, d_owner_user_id = owner, d_task_id = nd_task_id n,
             d_prerequisite_task_id = nd_prerequisite_task_id n,
             d_failure_action = nd_failure_action n, d_cancelled_action = nd_cancelled_action n,
             d_timeout_action = nd_timeout_action n\<rparr>]\<rparr>))"

definition replace_task_dependencies ::
  "timestamp \<Rightarrow> actor_context \<Rightarrow> int \<Rightarrow> int \<Rightarrow> rstr \<Rightarrow> rstr \<Rightarrow> new_dependency list \<Rightarrow> db \<Rightarrow>
   sqlx_error + db" where
  "replace_task_dependencies now actor task_id revision key digest deps db =
    (let org = organization_id actor in
     case find (\<lambda>t. t_id t = task_id \<and> t_organization_id t = org \<and> t_archived_at t = None
                 \<and> scope_sql actor db (task_scope t)) (tasks db) of
       None \<Rightarrow> Inl RowNotFound
     | Some task \<Rightarrow>
       (case find (\<lambda>m. m_organization_id m = org \<and> m_task_id m = task_id
                    \<and> m_idempotency_key m = key) (dependency_mutations db) of
          Some m \<Rightarrow> if m_request_digest m = digest then Inr db
                    else Inl (Protocol ''idempotency_key_reused'')
        | None \<Rightarrow>
          if t_revision task \<noteq> revision then Inl (Protocol ''revision_changed'')
          else
            let ids = remdups (map nd_prerequisite_task_id deps @ [task_id]);
                locked = filter (\<lambda>t. t_id t \<in> set ids \<and> t_organization_id t = org
                   \<and> t_archived_at t = None \<and> scope_sql actor db (task_scope t)) (tasks db)
            in if length locked \<noteq> length ids then Inl RowNotFound
               else if list_ex (\<lambda>n. task_id \<in> set (reachable_prerequisites org db
                                       (nd_prerequisite_task_id n))) deps
               then Inl (Protocol ''dependency_cycle'')
               else
                 (case insert_dependencies org (t_department_id task) (t_owner_user_id task) deps
                    (db\<lparr>dependencies := filter (\<lambda>d. \<not> (d_task_id d = task_id
                         \<and> d_organization_id d = org)) (dependencies db)\<rparr>) of
                    Inl e \<Rightarrow> Inl e
                  | Inr db1 \<Rightarrow>
                    let db2 = update_tasks (\<lambda>t. t_id t = task_id \<and> t_organization_id t = org)
                          (\<lambda>t. t\<lparr>t_revision := t_revision t + 1, t_updated_at := now\<rparr>) db1
                    in Inr (db2\<lparr>dependency_mutations := dependency_mutations db2 @
                          [\<lparr>m_organization_id = org, m_task_id = task_id,
                            m_idempotency_key = key, m_request_digest = digest,
                            m_result_revision = t_revision task + 1\<rparr>]\<rparr>))))"

section \<open>The service\<close>

record dependency_input =
  di_prerequisite_task_id :: int
  di_failure_action :: "dependency_action option"
  di_cancelled_action :: "dependency_action option"
  di_timeout_action :: "dependency_action option"

definition dependency_action_of :: "dependency_action option \<Rightarrow> dependency_action" where
  "dependency_action_of a = (case a of Some Skip \<Rightarrow> Skip | Some Fail \<Rightarrow> Fail | _ \<Rightarrow> Wait)"

definition validate_idempotency_key :: "rstr \<Rightarrow> api_error + rstr" where
  "validate_idempotency_key value =
     (let v = trim value
      in if v = [] \<or> length v > 128 \<or> list_ex (\<lambda>c. is_ascii_control c \<or> is_ascii_whitespace c) v
         then Inl (Validation ''idempotency_key_format'') else Inr v)"

fun dependency_error :: "sqlx_error \<Rightarrow> api_error" where
  "dependency_error RowNotFound = NotFound ''task_missing_or_out_of_scope''"
| "dependency_error (Protocol m) =
     (if m \<in> {''dependency_cycle'', ''idempotency_key_reused'', ''revision_changed''}
      then Conflict m else db_error (Protocol m))"
| "dependency_error e = db_error e"

fun adjacent_equal :: "int list \<Rightarrow> bool" where
  "adjacent_equal (x # y # zs) = (x = y \<or> adjacent_equal (y # zs))"
| "adjacent_equal _ = False"

definition requested_rows :: "int \<Rightarrow> dependency_input list \<Rightarrow> new_dependency list" where
  "requested_rows task_id inputs =
     map (\<lambda>d. \<lparr>nd_task_id = task_id, nd_prerequisite_task_id = di_prerequisite_task_id d,
                nd_failure_action = dependency_action_of (di_failure_action d),
                nd_cancelled_action = dependency_action_of (di_cancelled_action d),
                nd_timeout_action = dependency_action_of (di_timeout_action d)\<rparr>)
       inputs"

text \<open>The task event, the audit entry and the outbox event of a change.\<close>

definition report_dependency_change ::
  "rstr \<Rightarrow> actor_context \<Rightarrow> task_row \<Rightarrow> int \<Rightarrow> rstr \<Rightarrow> db \<Rightarrow> db" where
  "report_dependency_change trace actor task task_id idempotency_key db =
     outbox \<lparr>o_organization_id = organization_id actor, o_event_type = ''task.dependencies.changed'',
             o_aggregate_type = ''devrail_task'', o_aggregate_id = task_id,
             o_source = ''taskId='' @ show_int task_id\<rparr>
       (record_audit \<lparr>a_organization_id = organization_id actor, a_department_id = department_id actor,
             a_action = ''devrail.task.dependencies.replace'', a_target_type = ''devrail_task'',
             a_target_id = task_id, a_reason = [], a_trace_id = trace\<rparr>
         (append_task_event (t_organization_id task) task_id ''task.dependencies.changed''
            (''dependency-mutation:'' @ idempotency_key) db))"

text \<open>\<open>digest_of\<close> stands for \<^verbatim>\<open>snapshot_digest\<close> of the serialised request (SHA-256 over
  \<^verbatim>\<open>serde_json\<close>), \<open>trace\<close> for the trace identifier of the audit entry.\<close>

definition replace_dependencies_service ::
  "(dependency_input list \<Rightarrow> rstr) \<Rightarrow> rstr \<Rightarrow> timestamp \<Rightarrow> actor_context \<Rightarrow> int \<Rightarrow> int \<Rightarrow> int \<Rightarrow> rstr \<Rightarrow>
   dependency_input list \<Rightarrow> db \<Rightarrow> api_error + db" where
  "replace_dependencies_service digest_of trace now actor project_id task_id revision key inputs db =
    (if \<not> has_permission actor ''devrail:task_dependency:write''
     then Inl (Forbidden ''missing_task_dependency_write'')
     else case find_task actor db project_id task_id of
       None \<Rightarrow> Inl (NotFound ''task_missing_or_out_of_scope'')
     | Some task \<Rightarrow>
       if t_status task \<notin> {Task_Draft, Task_Queued} \<and> revision \<ge> t_revision task
       then Inl (Conflict ''only_draft_or_queued_tasks'')
       else if revision \<le> 0 \<or> length inputs > 32 then Inl (Validation ''revision_or_count'')
       else and_then (validate_idempotency_key key) (\<lambda>idempotency_key.
         let sorted = sort_key di_prerequisite_task_id inputs in
         if list_ex (\<lambda>d. di_prerequisite_task_id d = task_id) sorted
            \<or> adjacent_equal (map di_prerequisite_task_id sorted)
         then Inl (Validation ''self_or_duplicate_dependency'')
         else
           case replace_task_dependencies now actor task_id revision idempotency_key
                  (digest_of sorted) (requested_rows task_id sorted) db of
             Inl e \<Rightarrow> Inl (dependency_error e)
           | Inr db1 \<Rightarrow> Inr (report_dependency_change trace actor task task_id idempotency_key db1)))"

section \<open>What a replacement does to the graph\<close>

lemma dependency_edges_append:
  "dependency_edges org (db\<lparr>dependencies := ds @ es\<rparr>) =
     dependency_edges org (db\<lparr>dependencies := ds\<rparr>) @ dependency_edges org (db\<lparr>dependencies := es\<rparr>)"
  by (simp add: dependency_edges_def)

lemma insert_dependencies_outcome:
  assumes "insert_dependencies org dept owner ns db = Inr db'"
  shows "(\<exists>ds. db' = db\<lparr>dependencies := dependencies db @ ds\<rparr>
      \<and> map (\<lambda>d. (d_organization_id d, d_task_id d, d_prerequisite_task_id d)) ds =
          map (\<lambda>n. (org, nd_task_id n, nd_prerequisite_task_id n)) ns)
    \<and> (\<forall>n \<in> set ns. nd_task_id n \<noteq> nd_prerequisite_task_id n)"
  using assms
proof (induction ns arbitrary: db)
  case Nil
  then show ?case by simp
next
  case (Cons n ns)
  let ?row = "\<lparr>d_id = next_serial d_id (dependencies db), d_organization_id = org,
             d_department_id = dept, d_owner_user_id = owner, d_task_id = nd_task_id n,
             d_prerequisite_task_id = nd_prerequisite_task_id n,
             d_failure_action = nd_failure_action n, d_cancelled_action = nd_cancelled_action n,
             d_timeout_action = nd_timeout_action n\<rparr>"
  let ?db = "db\<lparr>dependencies := dependencies db @ [?row]\<rparr>"
  from Cons.prems have ne: "nd_task_id n \<noteq> nd_prerequisite_task_id n"
    and rest: "insert_dependencies org dept owner ns ?db = Inr db'" by (auto split: if_splits)
  from Cons.IH [OF rest] obtain ds where ds: "db' = ?db\<lparr>dependencies := dependencies ?db @ ds\<rparr>"
      "map (\<lambda>d. (d_organization_id d, d_task_id d, d_prerequisite_task_id d)) ds =
          map (\<lambda>n. (org, nd_task_id n, nd_prerequisite_task_id n)) ns"
      "\<forall>n \<in> set ns. nd_task_id n \<noteq> nd_prerequisite_task_id n" by blast
  from ds ne show ?case by (intro conjI exI [of _ "?row # ds"]) simp_all
qed

text \<open>The edges of one organization after the delete and the inserts.\<close>

definition without_edges_of :: "int \<Rightarrow> int \<Rightarrow> db \<Rightarrow> db" where
  "without_edges_of org task_id db =
     db\<lparr>dependencies := filter (\<lambda>d. \<not> (d_task_id d = task_id \<and> d_organization_id d = org))
        (dependencies db)\<rparr>"

lemma edges_without:
  "set (dependency_edges o' (without_edges_of org task_id db)) =
     (if o' = org then {(a, b) \<in> set (dependency_edges org db). a \<noteq> task_id}
      else set (dependency_edges o' db))"
  by (auto simp: dependency_edges_def without_edges_of_def)

lemma dependency_edges_triples:
  "dependency_edges org db = map snd (filter (\<lambda>x. fst x = org)
     (map (\<lambda>d. (d_organization_id d, d_task_id d, d_prerequisite_task_id d)) (dependencies db)))"
  by (simp add: dependency_edges_def filter_map o_def)

lemma edges_inserted:
  assumes "insert_dependencies org dept owner ns db = Inr db'"
  shows "set (dependency_edges o' db') = set (dependency_edges o' db)
     \<union> (if o' = org then (\<lambda>n. (nd_task_id n, nd_prerequisite_task_id n)) ` set ns else {})"
proof -
  from insert_dependencies_outcome [OF assms] obtain ds
    where ds: "db' = db\<lparr>dependencies := dependencies db @ ds\<rparr>"
      "map (\<lambda>d. (d_organization_id d, d_task_id d, d_prerequisite_task_id d)) ds =
          map (\<lambda>n. (org, nd_task_id n, nd_prerequisite_task_id n)) ns" by blast
  have "dependency_edges o' db' = dependency_edges o' db
      @ (if o' = org then map (\<lambda>n. (nd_task_id n, nd_prerequisite_task_id n)) ns else [])"
    unfolding dependency_edges_triples ds(1) by (simp add: ds(2) filter_map o_def)
  then show ?thesis by auto
qed

lemma set_reachable_prerequisites:
  "set (reachable_prerequisites org db q) = {x. (q, x) \<in> (set (dependency_edges org db))\<^sup>+}"
proof -
  have "set (reachable_prerequisites org db q) =
      (set (dependency_edges org db))\<^sup>* `` (set (dependency_edges org db) `` {q})"
    by (auto simp: reachable_prerequisites_def set_recursive_cte image_iff)
  then show ?thesis
    by (auto simp: trancl_unfold_left)
qed

text \<open>The three ways a replacement succeeds or not, after the row has been found.\<close>

definition replay_of :: "actor_context \<Rightarrow> int \<Rightarrow> rstr \<Rightarrow> db \<Rightarrow> mutation_row option" where
  "replay_of actor task_id key db =
     find (\<lambda>m. m_organization_id m = organization_id actor \<and> m_task_id m = task_id
        \<and> m_idempotency_key m = key) (dependency_mutations db)"

lemma replace_task_dependencies_Inr:
  assumes "replace_task_dependencies now actor task_id revision key digest deps db = Inr db'"
  shows "(\<exists>m. replay_of actor task_id key db = Some m \<and> m_request_digest m = digest \<and> db' = db)
    \<or> (\<exists>task db1. replay_of actor task_id key db = None
        \<and> task \<in> set (tasks db) \<and> t_id task = task_id
        \<and> t_organization_id task = organization_id actor \<and> t_revision task = revision
        \<and> (\<forall>n \<in> set deps. (nd_prerequisite_task_id n, task_id) \<notin>
              (set (dependency_edges (organization_id actor) db))\<^sup>+)
        \<and> insert_dependencies (organization_id actor) (t_department_id task) (t_owner_user_id task) deps
            (without_edges_of (organization_id actor) task_id db) = Inr db1
        \<and> db' = (update_tasks (\<lambda>t. t_id t = task_id \<and> t_organization_id t = organization_id actor)
              (\<lambda>t. t\<lparr>t_revision := t_revision t + 1, t_updated_at := now\<rparr>) db1)
              \<lparr>dependency_mutations := dependency_mutations db1 @
                 [\<lparr>m_organization_id = organization_id actor, m_task_id = task_id,
                   m_idempotency_key = key, m_request_digest = digest,
                   m_result_revision = t_revision task + 1\<rparr>]\<rparr>)"
proof -
  let ?org = "organization_id actor"
  obtain task where task: "find (\<lambda>t. t_id t = task_id \<and> t_organization_id t = ?org \<and> t_archived_at t = None
                 \<and> scope_sql actor db (task_scope t)) (tasks db) = Some task"
    using assms by (auto simp: replace_task_dependencies_def Let_def split: option.splits)
  then have mem: "task \<in> set (tasks db)" "t_id task = task_id" "t_organization_id task = ?org" by (auto simp: find_Some_iff)
  show ?thesis
  proof (cases "replay_of actor task_id key db")
    case (Some m)
    with assms task show ?thesis
      by (auto simp: replace_task_dependencies_def replay_of_def Let_def split: if_splits)
  next
    case None
    from None assms task mem show ?thesis
      by (auto simp: replace_task_dependencies_def replay_of_def Let_def list_ex_iff
            set_reachable_prerequisites without_edges_of_def split: if_splits sum.splits)
  qed
qed

lemma requested_rows_edges:
  "(\<lambda>n. (nd_task_id n, nd_prerequisite_task_id n)) ` set (requested_rows task_id (sort_key di_prerequisite_task_id inputs)) =
     {task_id} \<times> di_prerequisite_task_id ` set inputs"
  by (auto simp: requested_rows_def image_image)

lemma report_frame:
  "dependencies (report_dependency_change trace actor task i k db) = dependencies db"
  "tasks (report_dependency_change trace actor task i k db) = tasks db"
  "dependency_mutations (report_dependency_change trace actor task i k db) = dependency_mutations db"
  "departments (report_dependency_change trace actor task i k db) = departments db"
  by (simp_all add: report_dependency_change_def outbox_def record_audit_def append_task_event_def)

lemma service_Inr:
  assumes "replace_dependencies_service digest_of trace now actor project_id task_id revision key inputs db
             = Inr db'"
  shows "\<exists>task k db1. find_task actor db project_id task_id = Some task
     \<and> has_permission actor ''devrail:task_dependency:write''
     \<and> (t_status task \<in> {Task_Draft, Task_Queued} \<or> revision < t_revision task)
     \<and> 0 < revision \<and> length inputs \<le> 32
     \<and> validate_idempotency_key key = Inr k
     \<and> task_id \<notin> di_prerequisite_task_id ` set inputs
     \<and> \<not> adjacent_equal (map di_prerequisite_task_id (sort_key di_prerequisite_task_id inputs))
     \<and> replace_task_dependencies now actor task_id revision k
          (digest_of (sort_key di_prerequisite_task_id inputs)) (requested_rows task_id (sort_key di_prerequisite_task_id inputs)) db = Inr db1
     \<and> dependencies db' = dependencies db1 \<and> tasks db' = tasks db1
     \<and> dependency_mutations db' = dependency_mutations db1 \<and> departments db' = departments db1"
proof -
  note service = assms [unfolded replace_dependencies_service_def]
  have perm: "has_permission actor ''devrail:task_dependency:write''"
    using service by (cases "has_permission actor ''devrail:task_dependency:write''") simp_all
  moreover obtain task where task: "find_task actor db project_id task_id = Some task"
    using service perm by (cases "find_task actor db project_id task_id") simp_all
  moreover have "t_status task \<in> {Task_Draft, Task_Queued} \<or> revision < t_revision task"
    and "0 < revision" and "length inputs \<le> 32"
    using service perm task by (auto split: if_splits)
  moreover from calculation obtain k where k: "validate_idempotency_key key = Inr k"
    using service perm task by (cases "validate_idempotency_key key") (simp_all split: if_splits)
  moreover from calculation obtain db1
    where "task_id \<notin> di_prerequisite_task_id ` set inputs"
      and "\<not> adjacent_equal (map di_prerequisite_task_id (sort_key di_prerequisite_task_id inputs))"
      and "replace_task_dependencies now actor task_id revision k
          (digest_of (sort_key di_prerequisite_task_id inputs))
          (requested_rows task_id (sort_key di_prerequisite_task_id inputs)) db = Inr db1"
      and "db' = report_dependency_change trace actor task task_id k db1"
    using service perm task k
    by (auto simp: Let_def list_ex_iff split: if_splits sum.splits)
  ultimately show ?thesis by (auto simp: report_frame)
qed

lemma replace_task_dependencies_row:
  assumes "replace_task_dependencies now actor task_id revision key digest deps db = Inr db'"
  shows "find (\<lambda>t. t_id t = task_id \<and> t_organization_id t = organization_id actor \<and> t_archived_at t = None
            \<and> scope_sql actor db (task_scope t)) (tasks db) \<noteq> None"
  using assms by (auto simp: replace_task_dependencies_def Let_def split: option.splits)

lemma service_replays:
  assumes "has_permission actor ''devrail:task_dependency:write''"
    and "find_task actor db project_id task_id = Some task"
    and "t_status task \<in> {Task_Draft, Task_Queued} \<or> revision < t_revision task"
    and "0 < revision" "length inputs \<le> 32" and "validate_idempotency_key key = Inr k"
    and "task_id \<notin> di_prerequisite_task_id ` set inputs"
    and "\<not> adjacent_equal (map di_prerequisite_task_id (sort_key di_prerequisite_task_id inputs))"
    and "replay_of actor task_id k db = Some m"
    and "find (\<lambda>t. t_id t = task_id \<and> t_organization_id t = organization_id actor \<and> t_archived_at t = None
            \<and> scope_sql actor db (task_scope t)) (tasks db) \<noteq> None"
  shows "replace_dependencies_service digest_of trace now actor project_id task_id revision key inputs db =
    (if m_request_digest m = digest_of (sort_key di_prerequisite_task_id inputs)
     then Inr (report_dependency_change trace actor task task_id k db)
     else Inl (Conflict ''idempotency_key_reused''))"
proof -
  have "replace_task_dependencies now actor task_id revision k digest deps db =
      (if m_request_digest m = digest then Inr db else Inl (Protocol ''idempotency_key_reused''))"
    for digest deps
    using assms(9,10) by (auto simp: replace_task_dependencies_def replay_of_def Let_def)
  moreover have "\<not> (t_status task \<notin> {Task_Draft, Task_Queued} \<and> revision \<ge> t_revision task)"
    and "\<not> (revision \<le> 0 \<or> length inputs > 32)"
    and "\<not> list_ex (\<lambda>d. di_prerequisite_task_id d = task_id) (sort_key di_prerequisite_task_id inputs)"
    using assms(3-5,7) by (auto simp: list_ex_iff)
  ultimately show ?thesis
    unfolding replace_dependencies_service_def using assms(1,2,6,8) by (simp add: Let_def)
qed

lemma service_cases [consumes 1, case_names replay fresh]:
  assumes "replace_dependencies_service digest_of trace now actor project_id task_id revision key inputs db
             = Inr db'"
  obtains k m where "validate_idempotency_key key = Inr k" "replay_of actor task_id k db = Some m"
      "m_request_digest m = digest_of (sort_key di_prerequisite_task_id inputs)"
      "dependencies db' = dependencies db" "tasks db' = tasks db" "departments db' = departments db"
      "dependency_mutations db' = dependency_mutations db"
  | k task where "validate_idempotency_key key = Inr k" "replay_of actor task_id k db = None"
      "task \<in> set (tasks db)" "t_id task = task_id" "t_organization_id task = organization_id actor"
      "t_revision task = revision" "departments db' = departments db"
      "\<forall>q \<in> di_prerequisite_task_id ` set inputs.
          (q, task_id) \<notin> (set (dependency_edges (organization_id actor) db))\<^sup>*"
      "\<forall>org. set (dependency_edges org db') =
            (if org = organization_id actor
             then {(a, b) \<in> set (dependency_edges org db). a \<noteq> task_id}
                  \<union> {task_id} \<times> di_prerequisite_task_id ` set inputs
             else set (dependency_edges org db))"
      "tasks db' = update_where (\<lambda>t. t_id t = task_id \<and> t_organization_id t = organization_id actor)
          (\<lambda>t. t\<lparr>t_revision := t_revision t + 1, t_updated_at := now\<rparr>) (tasks db)"
      "dependency_mutations db' = dependency_mutations db @
          [\<lparr>m_organization_id = organization_id actor, m_task_id = task_id, m_idempotency_key = k,
            m_request_digest = digest_of (sort_key di_prerequisite_task_id inputs),
            m_result_revision = t_revision task + 1\<rparr>]"
proof -
  from service_Inr [OF assms] obtain k db1
    where k: "validate_idempotency_key key = Inr k"
      and self: "task_id \<notin> di_prerequisite_task_id ` set inputs"
      and repo: "replace_task_dependencies now actor task_id revision k
          (digest_of (sort_key di_prerequisite_task_id inputs))
          (requested_rows task_id (sort_key di_prerequisite_task_id inputs)) db = Inr db1"
      and same: "dependencies db' = dependencies db1" "tasks db' = tasks db1"
        "dependency_mutations db' = dependency_mutations db1" "departments db' = departments db1"
    by blast
  from replace_task_dependencies_Inr [OF repo] show thesis
  proof (elim disjE exE conjE)
    fix m assume "replay_of actor task_id k db = Some m" "db1 = db"
      "m_request_digest m = digest_of (sort_key di_prerequisite_task_id inputs)"
    with k same that(1) show thesis by simp
  next
    fix task x
    assume fresh: "replay_of actor task_id k db = None" "task \<in> set (tasks db)" "t_id task = task_id"
        "t_organization_id task = organization_id actor" "t_revision task = revision"
      and path: "\<forall>n \<in> set (requested_rows task_id (sort_key di_prerequisite_task_id inputs)).
          (nd_prerequisite_task_id n, task_id) \<notin> (set (dependency_edges (organization_id actor) db))\<^sup>+"
      and ins: "insert_dependencies (organization_id actor) (t_department_id task) (t_owner_user_id task)
            (requested_rows task_id (sort_key di_prerequisite_task_id inputs))
            (without_edges_of (organization_id actor) task_id db) = Inr x"
      and db1: "db1 = update_tasks (\<lambda>t. t_id t = task_id \<and> t_organization_id t = organization_id actor)
              (\<lambda>t. t\<lparr>t_revision := t_revision t + 1, t_updated_at := now\<rparr>) x
              \<lparr>dependency_mutations := dependency_mutations x @
                 [\<lparr>m_organization_id = organization_id actor, m_task_id = task_id,
                   m_idempotency_key = k,
                   m_request_digest = digest_of (sort_key di_prerequisite_task_id inputs),
                   m_result_revision = t_revision task + 1\<rparr>]\<rparr>"
    have x: "tasks x = tasks db" "departments x = departments db" "dependency_mutations x = dependency_mutations db"
      using insert_dependencies_outcome [OF ins] by (auto simp: without_edges_of_def)
    have edges: "dependency_edges org db' = dependency_edges org x" for org
      using same(1) by (simp add: dependency_edges_def db1)
    have "(q, task_id) \<notin> (set (dependency_edges (organization_id actor) db))\<^sup>*"
      if "q \<in> di_prerequisite_task_id ` set inputs" for q
      using that path self by (auto simp: requested_rows_def rtrancl_eq_or_trancl)
    with fresh k same(2-4) x that(2) show thesis
      by (simp add: db1 edges edges_inserted [OF ins] edges_without requested_rows_edges)
  qed
qed

section \<open>Properties\<close>

text \<open>C7. The dependency graph stays acyclic: a successful replacement through the service, by
  whichever actor and with whichever request, keeps the graph of every organization free of
  cycles.\<close>

theorem dependencies_stay_acyclic:
  assumes "\<forall>org. acyclic (set (dependency_edges org db))"
    and "replace_dependencies_service digest_of trace now actor project_id task_id revision key inputs db
           = Inr db'"
  shows "\<forall>org. acyclic (set (dependency_edges org db'))"
  using assms(2)
proof (cases rule: service_cases)
  case replay
  with assms(1) show ?thesis by (simp add: dependency_edges_def)
next
  case fresh
  show ?thesis
  proof
    fix org
    show "acyclic (set (dependency_edges org db'))"
      using assms(1) fresh(8,9) acyclic_replace_successors
        [of "set (dependency_edges org db)" "di_prerequisite_task_id ` set inputs" task_id]
      by (cases "org = organization_id actor") auto
  qed
qed

definition example_actor :: actor_context where
  "example_actor = \<lparr>actor_type = User, user_id = 100, session_id = 1, organization_id = 1,
     department_id = Some 10, data_scope = Scope_DepartmentAndChildren,
     permission_codes = {''devrail:task_dependency:write''}\<rparr>"

definition example_graph :: db where
  "example_graph = (example_db [example_task 1, example_task 2, example_task 3] [])
     \<lparr>dependencies := [\<lparr>d_id = 1, d_organization_id = 1, d_department_id = None,
        d_owner_user_id = 100, d_task_id = 2, d_prerequisite_task_id = 3, d_failure_action = Fail,
        d_cancelled_action = Skip, d_timeout_action = Wait\<rparr>]\<rparr>"

definition example_input :: "int \<Rightarrow> dependency_input" where
  "example_input q = \<lparr>di_prerequisite_task_id = q, di_failure_action = Some Fail,
     di_cancelled_action = None, di_timeout_action = None\<rparr>"

lemma example_replacement_ok:
  "is_ok (replace_dependencies_service (\<lambda>_. ''digest'') ''trace'' 5 example_actor 5 1 1 ''key''
     [example_input 2] example_graph)"
  by code_simp

lemma example_replacement_cycle:
  "replace_dependencies_service (\<lambda>_. ''digest'') ''trace'' 5 example_actor 5 3 1 ''key''
     [example_input 2] example_graph = Inl (Conflict ''dependency_cycle'')"
  by code_simp

lemma acyclic_example_graph: "acyclic (set (dependency_edges org example_graph))"
proof -
  have "set (dependency_edges org example_graph) \<subseteq> {(2, 3)}"
    by (auto simp: dependency_edges_def example_graph_def)
  moreover have "acyclic {(2 :: int, 3)}" by (simp add: acyclic_def trancl_insert)
  ultimately show ?thesis by (rule acyclic_subset [rotated])
qed

theorem dependencies_stay_acyclic_witness:
  "\<exists>db'. replace_dependencies_service (\<lambda>_. ''digest'') ''trace'' 5 example_actor 5 1 1 ''key''
            [example_input 2] example_graph = Inr db'
     \<and> (\<forall>org. acyclic (set (dependency_edges org db')))"
  using example_replacement_ok dependencies_stay_acyclic [of example_graph "\<lambda>_. ''digest''" "''trace''"
      5 example_actor 5 1 1 "''key''" "[example_input 2]"] acyclic_example_graph
  by (auto simp: is_ok_iff)

text \<open>What a first request does: under an unused idempotency key a successful replacement finds
  the task in draft or queued at exactly the revision the client saw, leaves the edges of the
  task equal to the requested prerequisites (all other edges, and other organizations, as they
  were), raises the task's revision by one and touches no other task.\<close>

theorem replacement_installs_request:
  assumes "keys_ok db" and "validate_idempotency_key key = Inr k" and "replay_of actor task_id k db = None"
    and "replace_dependencies_service digest_of trace now actor project_id task_id revision key inputs db
           = Inr db'"
  shows "(\<exists>t. find_task actor db project_id task_id = Some t \<and> t_revision t = revision
            \<and> t_status t \<in> {Task_Draft, Task_Queued}
            \<and> find_by_id db' task_id = Some (t\<lparr>t_revision := revision + 1, t_updated_at := now\<rparr>))
       \<and> (\<forall>i. i \<noteq> task_id \<longrightarrow> find_by_id db' i = find_by_id db i)
       \<and> (\<forall>org. set (dependency_edges org db') =
            (if org = organization_id actor
             then {(a, b) \<in> set (dependency_edges org db). a \<noteq> task_id}
                  \<union> {task_id} \<times> di_prerequisite_task_id ` set inputs
             else set (dependency_edges org db)))"
  using assms(4)
proof (cases rule: service_cases)
  case replay
  with assms(2,3) show ?thesis by simp
next
  case (fresh k' task)
  from service_Inr [OF assms(4)] obtain t where t: "find_task actor db project_id task_id = Some t"
    "t_status t \<in> {Task_Draft, Task_Queued} \<or> revision < t_revision t" by blast
  then have "t = task"
    using fresh(3,4) assms(1) by (auto simp: keys_ok_def distinct_map dest!: find_task_Some inj_onD)
  moreover have "find_by_id db task_id = Some task"
    using fresh(3,4) assms(1) by (simp add: find_by_id_mem)
  moreover have "find_by_id db' i = map_option (\<lambda>t. if t_id t = task_id \<and> t_organization_id t = organization_id actor
      then t\<lparr>t_revision := t_revision t + 1, t_updated_at := now\<rparr> else t) (find_by_id db i)" for i
    using find_by_id_update_tasks [of "\<lambda>t. t\<lparr>t_revision := t_revision t + 1, t_updated_at := now\<rparr>"
        "\<lambda>t. t_id t = task_id \<and> t_organization_id t = organization_id actor" db i]
    by (simp add: find_by_id_def fresh(10))
  moreover have "map_option (\<lambda>t. if t_id t = task_id \<and> t_organization_id t = organization_id actor
      then t\<lparr>t_revision := t_revision t + 1, t_updated_at := now\<rparr> else t) (find_by_id db i)
      = find_by_id db i" if "i \<noteq> task_id" for i
    using that by (cases "find_by_id db i") (auto dest: find_by_id_id)
  ultimately show ?thesis using t fresh(4,5,6,9) by auto
qed

theorem replacement_installs_request_witness:
  "\<exists>db'. replace_dependencies_service (\<lambda>_. ''digest'') ''trace'' 5 example_actor 5 1 1 ''key''
            [example_input 2] example_graph = Inr db'
     \<and> find_by_id db' 1 = Some ((example_task 1)\<lparr>t_revision := 2, t_updated_at := 5\<rparr>)
     \<and> set (dependency_edges 1 db') = {(2, 3), (1, 2)}"
proof -
  have keys: "keys_ok example_graph" by code_simp
  have key: "validate_idempotency_key ''key'' = Inr ''key''" by code_simp
  have fresh: "replay_of example_actor 1 ''key'' example_graph = None" by code_simp
  have row: "find_task example_actor example_graph 5 1 = Some (example_task 1)" by code_simp
  obtain db' where ok: "replace_dependencies_service (\<lambda>_. ''digest'') ''trace'' 5 example_actor 5 1 1 ''key''
            [example_input 2] example_graph = Inr db'"
    using example_replacement_ok by (auto simp: is_ok_iff)
  have edges: "{(a, b) \<in> set (dependency_edges 1 example_graph). a \<noteq> 1} = {(2, 3)}"
    by (auto simp: dependency_edges_def example_graph_def)
  have org: "organization_id example_actor = 1" by (simp add: example_actor_def)
  from ok replacement_installs_request [OF keys key fresh ok] row edges show ?thesis
    by (auto simp: org example_input_def)
qed

text \<open>The state a successful request leaves behind, as a repetition finds it.\<close>

lemma after_success:
  assumes "replace_dependencies_service digest_of trace now actor project_id task_id revision key inputs db
             = Inr db'"
    and "validate_idempotency_key key = Inr k"
  shows "\<exists>task m. find_task actor db' project_id task_id = Some task
      \<and> (t_status task \<in> {Task_Draft, Task_Queued} \<or> revision < t_revision task)
      \<and> replay_of actor task_id k db' = Some m
      \<and> m_request_digest m = digest_of (sort_key di_prerequisite_task_id inputs)
      \<and> find (\<lambda>t. t_id t = task_id \<and> t_organization_id t = organization_id actor \<and> t_archived_at t = None
            \<and> scope_sql actor db' (task_scope t)) (tasks db') \<noteq> None"
proof -
  from service_Inr [OF assms(1)] obtain t db1
    where t: "find_task actor db project_id task_id = Some t"
        "t_status t \<in> {Task_Draft, Task_Queued} \<or> revision < t_revision t"
      and repo: "replace_task_dependencies now actor task_id revision k
          (digest_of (sort_key di_prerequisite_task_id inputs))
          (requested_rows task_id (sort_key di_prerequisite_task_id inputs)) db = Inr db1"
    using assms(2) by auto
  note row = replace_task_dependencies_row [OF repo]
  have scope: "scope_sql actor db' = scope_sql actor db" if "departments db' = departments db"
    using that by (simp add: scope_sql_def fun_eq_iff visible_departments_def department_edges_def)
  from assms(1) show ?thesis
  proof (cases rule: service_cases)
    case (replay k' m)
    with t row assms(2) scope show ?thesis by (auto simp: find_task_def replay_of_def)
  next
    case (fresh k' task)
    let ?f = "\<lambda>t. if t_id t = task_id \<and> t_organization_id t = organization_id actor
        then t\<lparr>t_revision := t_revision t + 1, t_updated_at := now\<rparr> else t"
    have "find_task actor db' project_id task_id = Some (?f t)"
      using t(1) unfolding find_task_def fresh(10) scope [OF fresh(7)]
      by (subst find_update_where) (auto simp: task_scope_def)
    moreover have "t_status (?f t) \<in> {Task_Draft, Task_Queued} \<or> revision < t_revision (?f t)"
      using t(2) by auto
    moreover have "find (\<lambda>t. t_id t = task_id \<and> t_organization_id t = organization_id actor \<and> t_archived_at t = None
            \<and> scope_sql actor db' (task_scope t)) (tasks db') \<noteq> None"
      using row unfolding fresh(10) scope [OF fresh(7)]
      by (subst find_update_where) (auto simp: task_scope_def)
    moreover have "replay_of actor task_id k db' = Some
        \<lparr>m_organization_id = organization_id actor, m_task_id = task_id, m_idempotency_key = k,
         m_request_digest = digest_of (sort_key di_prerequisite_task_id inputs),
         m_result_revision = t_revision task + 1\<rparr>"
      using fresh(1,2,11) assms(2)
      by (auto simp: replay_of_def find_append)
    ultimately show ?thesis by force
  qed
qed

text \<open>Idempotency: repeating an accepted request (same actor, task, revision, key and
  prerequisites) at any later time succeeds again and changes neither a task, nor a dependency,
  nor the recorded mutations; reusing its key for a request with another digest is refused as a
  conflict.\<close>

theorem replacement_is_idempotent:
  assumes "replace_dependencies_service digest_of trace now actor project_id task_id revision key inputs db
             = Inr db'"
    and "digest_of (sort_key di_prerequisite_task_id others) \<noteq> digest_of (sort_key di_prerequisite_task_id inputs)"
    and "length others \<le> 32" and "task_id \<notin> di_prerequisite_task_id ` set others"
    and "\<not> adjacent_equal (map di_prerequisite_task_id (sort_key di_prerequisite_task_id others))"
  shows "(\<exists>db''. replace_dependencies_service digest_of trace' later actor project_id task_id revision
                   key inputs db' = Inr db''
            \<and> tasks db'' = tasks db' \<and> dependencies db'' = dependencies db'
            \<and> dependency_mutations db'' = dependency_mutations db')
       \<and> replace_dependencies_service digest_of trace' later actor project_id task_id revision
            key others db' = Inl (Conflict ''idempotency_key_reused'')"
proof -
  from service_Inr [OF assms(1)] obtain k
    where ok: "has_permission actor ''devrail:task_dependency:write''" "0 < revision" "length inputs \<le> 32"
      "validate_idempotency_key key = Inr k" "task_id \<notin> di_prerequisite_task_id ` set inputs"
      "\<not> adjacent_equal (map di_prerequisite_task_id (sort_key di_prerequisite_task_id inputs))" by blast
  from after_success [OF assms(1) ok(4)] obtain task m
    where "find_task actor db' project_id task_id = Some task"
      "t_status task \<in> {Task_Draft, Task_Queued} \<or> revision < t_revision task"
      "replay_of actor task_id k db' = Some m"
      "m_request_digest m = digest_of (sort_key di_prerequisite_task_id inputs)"
      "find (\<lambda>t. t_id t = task_id \<and> t_organization_id t = organization_id actor \<and> t_archived_at t = None
            \<and> scope_sql actor db' (task_scope t)) (tasks db') \<noteq> None" by blast
  note state = this
  have "replace_dependencies_service digest_of trace' later actor project_id task_id revision key inputs db'
      = Inr (report_dependency_change trace' actor task task_id k db')"
    using service_replays [OF ok(1) state(1,2) ok(2,3,4,5,6) state(3,5)] state(4) by simp
  moreover have "replace_dependencies_service digest_of trace' later actor project_id task_id revision
      key others db' = Inl (Conflict ''idempotency_key_reused'')"
    using service_replays [OF ok(1) state(1,2) ok(2) assms(3) ok(4) assms(4,5) state(3,5)] state(4) assms(2)
    by simp
  ultimately show ?thesis by (auto simp: report_frame)
qed

theorem replacement_is_idempotent_witness:
  "\<exists>db'. replace_dependencies_service (\<lambda>ds. show_nat (length ds)) ''trace'' 5 example_actor 5 1 1 ''key''
            [example_input 2] example_graph = Inr db'
     \<and> (\<exists>db''. replace_dependencies_service (\<lambda>ds. show_nat (length ds)) ''again'' 6 example_actor 5 1 1
                 ''key'' [example_input 2] db' = Inr db'' \<and> tasks db'' = tasks db'
            \<and> dependencies db'' = dependencies db' \<and> dependency_mutations db'' = dependency_mutations db')
     \<and> replace_dependencies_service (\<lambda>ds. show_nat (length ds)) ''again'' 6 example_actor 5 1 1 ''key'' []
          db' = Inl (Conflict ''idempotency_key_reused'')"
proof -
  let ?digest = "\<lambda>ds :: dependency_input list. show_nat (length ds)"
  have "is_ok (replace_dependencies_service ?digest ''trace'' 5 example_actor 5 1 1 ''key''
            [example_input 2] example_graph)"
    by code_simp
  then obtain db' where ok: "replace_dependencies_service ?digest ''trace'' 5 example_actor 5 1 1 ''key''
            [example_input 2] example_graph = Inr db'" by (auto simp: is_ok_iff)
  with replacement_is_idempotent [OF ok, of "[]" "''again''" 6] show ?thesis
    by (auto simp: show_nat_inject)
qed

end
