(* ===== verification/Propagation.thy ===== *)
theory Propagation
  imports Tracker Errors
begin

text \<open>
  \<^verbatim>\<open>reconcile_task_dependencies\<close> of \<^verbatim>\<open>backend/src/repositories/devrail.rs\<close>: the transaction that
  carries the failure, cancellation or skipping of a prerequisite over to the tasks that
  depend on it, by the action each dependency prescribes. One pass propagates along one edge of
  every chain; the scheduler repeats it.
\<close>

section \<open>Definitions\<close>

record propagation_candidate =
  c_dependency_id :: int
  c_organization_id :: int
  c_department_id :: "int option"
  c_owner_user_id :: int
  c_project_id :: int
  c_task_id :: int
  c_prerequisite_task_id :: int
  c_source_status_history_id :: int
  c_prerequisite_status :: task_status
  c_action :: dependency_action

fun dependency_action_rank :: "dependency_action \<Rightarrow> nat" where
  "dependency_action_rank Fail = 0"
| "dependency_action_rank Skip = 1"
| "dependency_action_rank Wait = 2"

text \<open>The lateral subquery \<^verbatim>\<open>history\<close>: the latest entry into the present status.\<close>

definition latest_history :: "db \<Rightarrow> task_row \<Rightarrow> int option" where
  "latest_history db p =
     (let ids = map h_id (filter (\<lambda>h. h_organization_id h = t_organization_id p
                   \<and> h_task_id h = t_id p \<and> h_to_status h = t_status p) (status_history db))
      in if ids = [] then None else Some (Max (set ids)))"

text \<open>The lateral subquery \<^verbatim>\<open>failed_run\<close>: exit reason of the failed run completed last, a run
  with no completion time counting as the earliest.\<close>

definition failed_run_exit_reason :: "db \<Rightarrow> task_row \<Rightarrow> rstr option" where
  "failed_run_exit_reason db p =
     (let rs = sort_key (\<lambda>r. (case r_completed_at r of None \<Rightarrow> (0::int, 0) | Some at \<Rightarrow> (1, at), r_id r))
                 (filter (\<lambda>r. r_organization_id r = t_organization_id p \<and> r_task_id r = t_id p
                    \<and> r_status r = Run_Failed) (runs db))
      in if rs = [] then None else r_exit_reason (last rs))"

definition propagated_action :: "db \<Rightarrow> dependency_row \<Rightarrow> task_row \<Rightarrow> dependency_action" where
  "propagated_action db d p =
     (if t_status p = Task_Cancelled then d_cancelled_action d
      else if t_status p = Task_Failed
              \<and> failed_run_exit_reason db p \<in> {Some ''timeout'', Some ''stall''}
      then d_timeout_action d else d_failure_action d)"

definition candidate ::
  "dependency_row \<Rightarrow> task_row \<Rightarrow> int \<Rightarrow> task_row \<Rightarrow> dependency_action \<Rightarrow> propagation_candidate" where
  "candidate d t h p action =
     \<lparr>c_dependency_id = d_id d, c_organization_id = d_organization_id d,
      c_department_id = d_department_id d, c_owner_user_id = d_owner_user_id d,
      c_project_id = t_project_id t, c_task_id = d_task_id d,
      c_prerequisite_task_id = d_prerequisite_task_id d, c_source_status_history_id = h,
      c_prerequisite_status = t_status p, c_action = action\<rparr>"

definition candidates_of :: "db \<Rightarrow> dependency_row \<Rightarrow> propagation_candidate list" where
  "candidates_of db d =
     concat (map (\<lambda>t. concat (map (\<lambda>p. case latest_history db p of None \<Rightarrow> []
         | Some h \<Rightarrow> [candidate d t h p (propagated_action db d p)])
       (filter (\<lambda>p. t_id p = d_prerequisite_task_id d \<and> t_organization_id p = d_organization_id d
          \<and> t_status p \<in> {Task_Failed, Task_Cancelled, Task_Skipped}) (tasks db))))
     (filter (\<lambda>t. t_id t = d_task_id d \<and> t_organization_id t = d_organization_id d) (tasks db)))"

definition propagation_candidates :: "db \<Rightarrow> propagation_candidate list" where
  "propagation_candidates db =
     sort_key (\<lambda>c. (c_task_id c, dependency_action_rank (c_action c), c_dependency_id c))
       (concat (map (candidates_of db) (dependencies db)))"

text \<open>\<^verbatim>\<open>Iterator::min_by_key\<close> of a non-empty group: the first of the least.\<close>

fun winner_of :: "propagation_candidate \<Rightarrow> propagation_candidate list \<Rightarrow> propagation_candidate" where
  "winner_of w [] = w"
| "winner_of w (c # cs) =
     winner_of (if dependency_action_rank (c_action c) < dependency_action_rank (c_action w)
                then c else w) cs"

fun target_status :: "task_status \<Rightarrow> dependency_action \<Rightarrow> task_status" where
  "target_status Task_Queued Fail = Task_Failed"
| "target_status Task_Skipped Fail = Task_Failed"
| "target_status Task_Queued Skip = Task_Skipped"
| "target_status s _ = s"

fun action_str :: "dependency_action \<Rightarrow> rstr" where
  "action_str Wait = ''wait''"
| "action_str Skip = ''skip''"
| "action_str Fail = ''fail''"

definition propagation_key :: "propagation_row \<Rightarrow> int \<times> int \<times> int \<times> dependency_action" where
  "propagation_key p =
     (pr_organization_id p, pr_dependency_id p, pr_source_status_history_id p, pr_action p)"

definition record_propagations ::
  "rstr \<Rightarrow> task_status \<Rightarrow> propagation_candidate list \<Rightarrow> db \<Rightarrow> db" where
  "record_propagations trace target cs db =
     db\<lparr>dependency_propagations := insert_absent propagation_key
       (map (\<lambda>c. \<lparr>pr_organization_id = c_organization_id c, pr_dependency_id = c_dependency_id c,
            pr_source_status_history_id = c_source_status_history_id c, pr_action = c_action c,
            pr_result_status = target, pr_trace_id = trace\<rparr>) cs) (dependency_propagations db)\<rparr>"

definition transition_key :: "propagation_candidate \<Rightarrow> rstr" where
  "transition_key w =
     ''dependency-propagation:'' @ show_int (c_dependency_id w) @ '':'' @
     show_int (c_source_status_history_id w) @ '':'' @ action_str (c_action w)"

text \<open>The writes that report a transition: task event, audit entry, and a notification with its
  outbox event. A notification's identifier is its position in the table.\<close>

definition report_propagation ::
  "rstr \<Rightarrow> task_status \<Rightarrow> propagation_candidate \<Rightarrow> db \<Rightarrow> db" where
  "report_propagation trace target w db =
     (let key = transition_key w;
          db1 = record_audit \<lparr>a_organization_id = c_organization_id w,
                  a_department_id = c_department_id w,
                  a_action = ''devrail.task.dependency.propagate'', a_target_type = ''devrail_task'',
                  a_target_id = c_task_id w, a_reason = action_str (c_action w),
                  a_trace_id = trace\<rparr>
                (append_task_event (c_organization_id w) (c_task_id w)
                   ''task.dependency.propagated'' key db);
          n = \<lparr>n_organization_id = c_organization_id w, n_department_id = c_department_id w,
               n_recipient_user_id = c_owner_user_id w, n_event_type = ''task.dependency.propagated'',
               n_level = (if target = Task_Skipped then ''warning'' else ''error''),
               n_resource_type = ''devrail_task'', n_resource_id = c_task_id w,
               n_source_key = ''task:'' @ show_int (c_task_id w) @ '':'' @ key\<rparr>
      in if notification_key n \<in> notification_key ` set (notifications db1) then db1
         else db1\<lparr>notifications := notifications db1 @ [n],
                  outbox_events := outbox_events db1 @
                    [\<lparr>o_organization_id = c_organization_id w, o_event_type = ''notification.created'',
                      o_aggregate_type = ''devrail_task'', o_aggregate_id = c_task_id w,
                      o_source = ''notificationId='' @ show_nat (length (notifications db1) + 1)\<rparr>]\<rparr>)"

definition propagation_error :: "propagation_candidate \<Rightarrow> rstr" where
  "propagation_error w =
     ''prerequisite '' @ show_int (c_prerequisite_task_id w) @ '' ended, action '' @
     action_str (c_action w)"

text \<open>The body of the loop for the candidates \<open>c # cs\<close> of one task.\<close>

definition propagate_group ::
  "(int \<Rightarrow> rstr) \<Rightarrow> timestamp \<Rightarrow> propagation_candidate \<Rightarrow> propagation_candidate list \<Rightarrow> db \<Rightarrow>
   sqlx_error + db \<times> nat" where
  "propagate_group trace_of now c cs db =
     (let w = winner_of c cs; trace = trace_of (c_task_id c) in
      case find (\<lambda>t. t_id t = c_task_id c \<and> t_organization_id t = c_organization_id w) (tasks db) of
        None \<Rightarrow> Inl RowNotFound
      | Some t \<Rightarrow>
        let current = t_status t;
            target = target_status current (c_action w);
            db1 = record_propagations trace target (c # cs) db;
            P = (\<lambda>t. t_id t = c_task_id c \<and> t_organization_id t = c_organization_id w
                   \<and> t_status t \<in> {Task_Queued, Task_Skipped})
        in if target = current then Inr (db1, 0)
           else let db2 = update_tasks P (\<lambda>t. t\<lparr>t_status := target, t_scheduler_claim_token := None,
                        t_scheduler_claimed_at := None,
                        t_scheduler_last_error := Some (propagation_error w),
                        t_updated_at := now\<rparr>) db1
                in if length (rows_where P (tasks db1)) = 1
                   then Inr (report_propagation trace target w db2, 1) else Inr (db2, 0))"

function propagate_groups ::
  "(int \<Rightarrow> rstr) \<Rightarrow> timestamp \<Rightarrow> propagation_candidate list \<Rightarrow> db \<times> nat \<Rightarrow> sqlx_error + db \<times> nat" where
  "propagate_groups trace_of now [] acc = Inr acc"
| "propagate_groups trace_of now (c # cs) acc =
     (let same = takeWhile (\<lambda>x. c_task_id x = c_task_id c) cs;
          others = dropWhile (\<lambda>x. c_task_id x = c_task_id c) cs
      in and_then (propagate_group trace_of now c same (fst acc))
           (\<lambda>(db, n). propagate_groups trace_of now others (db, snd acc + n)))"
  by pat_completeness auto
termination
  by (relation "measure (\<lambda>(_, _, cs, _). length cs)") (auto simp: less_Suc_eq_le length_dropWhile_le)

definition reconcile_task_dependencies ::
  "(int \<Rightarrow> rstr) \<Rightarrow> timestamp \<Rightarrow> db \<Rightarrow> sqlx_error + db \<times> nat" where
  "reconcile_task_dependencies trace_of now db =
     propagate_groups trace_of now (propagation_candidates db) (db, 0)"

section \<open>One group\<close>

lemma winner_of_least:
  "winner_of w cs \<in> set (w # cs)
   \<and> (\<forall>c \<in> set (w # cs). dependency_action_rank (c_action (winner_of w cs)) \<le> dependency_action_rank (c_action c))"
proof (induction cs arbitrary: w)
  case Nil
  then show ?case by simp
next
  case (Cons c cs)
  let ?w = "if dependency_action_rank (c_action c) < dependency_action_rank (c_action w) then c else w"
  from Cons.IH [of ?w] show ?case by (auto split: if_splits)
qed

text \<open>How the status of a task may move in a pass, and how many moves are left.\<close>

fun advances :: "task_status \<Rightarrow> task_status \<Rightarrow> bool" where
  "advances Task_Queued s = (s \<in> {Task_Queued, Task_Skipped, Task_Failed})"
| "advances Task_Skipped s = (s \<in> {Task_Skipped, Task_Failed})"
| "advances s s' = (s' = s)"

fun moves_left :: "task_status \<Rightarrow> nat" where
  "moves_left Task_Queued = 2"
| "moves_left Task_Skipped = 1"
| "moves_left _ = 0"

definition potential :: "db \<Rightarrow> nat" where
  "potential db = sum_list (map (\<lambda>t. moves_left (t_status t)) (tasks db))"

definition row_advances :: "task_row \<Rightarrow> task_row \<Rightarrow> bool" where
  "row_advances t u =
     (t_id u = t_id t \<and> t_organization_id u = t_organization_id t
      \<and> advances (t_status t) (t_status u) \<and> (t_status u = t_status t \<longrightarrow> u = t))"

abbreviation tasks_advance :: "db \<Rightarrow> db \<Rightarrow> bool" where
  "tasks_advance db db' \<equiv> list_all2 row_advances (tasks db) (tasks db')"

lemma advances_refl [simp]: "advances s s"
  by (cases s) simp_all

lemma advances_iff:
  "advances s s' \<longleftrightarrow> s' = s \<or> s = Task_Queued \<and> s' \<in> {Task_Skipped, Task_Failed}
     \<or> s = Task_Skipped \<and> s' = Task_Failed"
  by (cases s) auto

lemma advances_trans: "advances a b \<Longrightarrow> advances b c \<Longrightarrow> advances a c"
  by (cases a; cases b) auto

lemma advances_antisym: "advances a b \<Longrightarrow> advances b a \<Longrightarrow> a = b"
  by (cases a; cases b) auto

lemma advances_target: "advances s (target_status s a)"
  by (cases s; cases a) simp_all

lemma moves_left_advances: "advances s s' \<Longrightarrow> moves_left s' + (if s' = s then 0 else 1) \<le> moves_left s"
  by (cases s; cases s') auto

lemma target_status_changes:
  "target_status s a \<noteq> s \<Longrightarrow> s \<in> {Task_Queued, Task_Skipped}"
  by (cases s; cases a) simp_all

lemma row_advances_refl [simp]: "row_advances t t"
  by (simp add: row_advances_def)

lemma row_advances_trans: "row_advances t u \<Longrightarrow> row_advances u v \<Longrightarrow> row_advances t v"
  unfolding row_advances_def using advances_trans advances_antisym by metis

lemma tasks_advance_refl [simp]: "list_all2 row_advances ts ts"
  by (simp add: list.rel_refl)

lemma tasks_advance_trans:
  "list_all2 row_advances a b \<Longrightarrow> list_all2 row_advances b c \<Longrightarrow> list_all2 row_advances a c"
  by (rule list_all2_trans [where ?P1.0 = row_advances and ?P2.0 = row_advances])
    (auto intro: row_advances_trans)

lemma tasks_advance_keys:
  "list_all2 row_advances a b \<Longrightarrow>
   map (\<lambda>t. (t_id t, t_organization_id t)) b = map (\<lambda>t. (t_id t, t_organization_id t)) a"
  by (induction rule: list_all2_induct) (simp_all add: row_advances_def)

lemma tasks_advance_ids: "list_all2 row_advances a b \<Longrightarrow> map t_id b = map t_id a"
  by (induction rule: list_all2_induct) (simp_all add: row_advances_def)

lemma tasks_report [simp]:
  "tasks (report_propagation trace target w db) = tasks db"
  "runs (report_propagation trace target w db) = runs db"
  "tasks (record_propagations trace target cs db) = tasks db"
  "runs (record_propagations trace target cs db) = runs db"
  by (simp_all add: report_propagation_def record_propagations_def Let_def)

definition group_task :: "db \<Rightarrow> propagation_candidate \<Rightarrow> propagation_candidate list \<Rightarrow> task_row option" where
  "group_task db c cs = find (\<lambda>t. t_id t = c_task_id c
     \<and> t_organization_id t = c_organization_id (winner_of c cs)) (tasks db)"

lemma propagate_group_outcome:
  assumes "keys_ok db" and "group_task db c cs = Some t"
  shows "\<exists>db'. propagate_group trace_of now c cs db =
            Inr (db', if target_status (t_status t) (c_action (winner_of c cs)) = t_status t then 0 else 1)
      \<and> runs db' = runs db
      \<and> tasks db' = (if target_status (t_status t) (c_action (winner_of c cs)) = t_status t then tasks db
          else update_where (\<lambda>u. t_id u = t_id t)
            (\<lambda>u. u\<lparr>t_status := target_status (t_status t) (c_action (winner_of c cs)),
                   t_scheduler_claim_token := None, t_scheduler_claimed_at := None,
                   t_scheduler_last_error := Some (propagation_error (winner_of c cs)),
                   t_updated_at := now\<rparr>) (tasks db))"
proof -
  let ?w = "winner_of c cs" and ?target = "target_status (t_status t) (c_action (winner_of c cs))"
  let ?P = "\<lambda>t. t_id t = c_task_id c \<and> t_organization_id t = c_organization_id ?w
                   \<and> t_status t \<in> {Task_Queued, Task_Skipped}"
  from assms(2) have t: "t \<in> set (tasks db)" "t_id t = c_task_id c" "t_organization_id t = c_organization_id ?w"
    by (auto simp: group_task_def find_Some_iff)
  have only: "u = t" if "u \<in> set (tasks db)" "t_id u = t_id t" for u
    using that t(1) assms(1) by (auto simp: keys_ok_def distinct_map dest: inj_onD)
  show ?thesis
  proof (cases "?target = t_status t")
    case True
    with assms(2) show ?thesis by (auto simp: propagate_group_def group_task_def Let_def)
  next
    case False
    then have "?P t" using t target_status_changes by blast
    then have P: "?P u \<longleftrightarrow> t_id u = t_id t" if "u \<in> set (tasks db)" for u
      using that only t(2) by metis
    then have "update_where ?P f (tasks db) = update_where (\<lambda>u. t_id u = t_id t) f (tasks db)" for f
      by (simp add: update_where_def)
    moreover have "find_by_id db (t_id t) = Some t" using t(1) assms(1) by (simp add: find_by_id_mem)
    then have "length (rows_where ?P (tasks db)) = 1"
      using assms(1) \<open>?P t\<close> length_rows_where_key [of t_id "tasks db" ?P "t_id t"] t(2)
      by (simp add: keys_ok_def find_by_id_def)
    ultimately show ?thesis
      using assms(2) False by (auto simp: propagate_group_def group_task_def Let_def)
  qed
qed

lemma potential_advances:
  "list_all2 row_advances a b \<Longrightarrow>
   sum_list (map (\<lambda>t. moves_left (t_status t)) b) + (if a = b then 0 else 1)
     \<le> sum_list (map (\<lambda>t. moves_left (t_status t)) a)"
proof (induction rule: list_all2_induct)
  case Nil
  then show ?case by simp
next
  case (Cons t ts u us)
  have "moves_left (t_status u) + (if t = u then 0 else 1) \<le> moves_left (t_status t)"
    using Cons.hyps(1) moves_left_advances [of "t_status t" "t_status u"]
    by (auto simp: row_advances_def)
  with Cons.IH show ?case by (auto split: if_splits)
qed

lemma keys_ok_advance:
  "keys_ok db \<Longrightarrow> tasks_advance db db' \<Longrightarrow> runs db' = runs db \<Longrightarrow> keys_ok db'"
  by (simp add: keys_ok_def tasks_advance_ids)

text \<open>A task lets a candidate be when its action has nothing to do to it.\<close>

definition lets_be :: "db \<Rightarrow> propagation_candidate \<Rightarrow> bool" where
  "lets_be db c =
     list_all (\<lambda>t. t_id t = c_task_id c \<and> t_organization_id t = c_organization_id c \<longrightarrow>
        target_status (t_status t) (c_action c) = t_status t) (tasks db)"

definition has_task :: "db \<Rightarrow> propagation_candidate \<Rightarrow> bool" where
  "has_task db c =
     list_ex (\<lambda>t. t_id t = c_task_id c \<and> t_organization_id t = c_organization_id c) (tasks db)"

lemma has_task_iff:
  "has_task db c \<longleftrightarrow> (c_task_id c, c_organization_id c) \<in> set (map (\<lambda>t. (t_id t, t_organization_id t)) (tasks db))"
  by (force simp: has_task_def list_ex_iff)

lemma has_task_advance: "tasks_advance db db' \<Longrightarrow> has_task db' c = has_task db c"
  unfolding has_task_iff by (simp add: tasks_advance_keys)

lemma weaker_action_settled:
  "target_status s a = s \<Longrightarrow> dependency_action_rank a \<le> dependency_action_rank b \<Longrightarrow> target_status s b = s"
  by (cases s; cases a; cases b) simp_all

lemma group_task_of_winner:
  assumes "has_task db (winner_of c cs)" and "\<forall>x \<in> set cs. c_task_id x = c_task_id c"
  obtains t where "group_task db c cs = Some t"
proof -
  have "c_task_id (winner_of c cs) = c_task_id c"
    using winner_of_least [of c cs] assms(2) by auto
  with assms(1) have "group_task db c cs \<noteq> None"
    by (auto simp: group_task_def has_task_def list_ex_iff find_None_iff)
  with that show thesis by blast
qed

lemma propagate_group_step:
  assumes "keys_ok db" and "\<forall>x \<in> set (c # cs). has_task db x" and "\<forall>x \<in> set cs. c_task_id x = c_task_id c"
  shows "\<exists>db' n. propagate_group trace_of now c cs db = Inr (db', n)
      \<and> runs db' = runs db \<and> tasks_advance db db' \<and> n = (if tasks db' = tasks db then 0 else 1)
      \<and> (n = 0 \<longrightarrow> (\<forall>x \<in> set (c # cs). lets_be db x))"
proof -
  obtain t where gt: "group_task db c cs = Some t"
    using assms(2,3) winner_of_least [of c cs] group_task_of_winner by metis
  then have t: "t \<in> set (tasks db)" "t_id t = c_task_id c" by (auto simp: group_task_def find_Some_iff)
  let ?target = "target_status (t_status t) (c_action (winner_of c cs))"
  have only: "u = t" if "u \<in> set (tasks db)" "t_id u = t_id t" for u
    using that t(1) assms(1) by (auto simp: keys_ok_def distinct_map dest: inj_onD)
  obtain db' where db': "propagate_group trace_of now c cs db =
        Inr (db', if ?target = t_status t then 0 else 1)" "runs db' = runs db"
      "tasks db' = (if ?target = t_status t then tasks db else update_where (\<lambda>u. t_id u = t_id t)
            (\<lambda>u. u\<lparr>t_status := ?target, t_scheduler_claim_token := None, t_scheduler_claimed_at := None,
                   t_scheduler_last_error := Some (propagation_error (winner_of c cs)),
                   t_updated_at := now\<rparr>) (tasks db))"
    using propagate_group_outcome [OF assms(1) gt] by blast
  have "tasks_advance db db'"
    using only advances_target [of "t_status t" "c_action (winner_of c cs)"]
    by (auto simp: db'(3) update_where_def list_all2_map2 row_advances_def intro!: list.rel_refl_strong)
  moreover have "tasks db' \<noteq> tasks db" if "?target \<noteq> t_status t"
  proof
    assume "tasks db' = tasks db"
    then have "map t_status (tasks db') = map t_status (tasks db)" by simp
    with that t(1) show False by (auto simp: db'(3) update_where_def)
  qed
  moreover have "lets_be db x" if "?target = t_status t" "x \<in> set (c # cs)" for x
  proof -
    have "dependency_action_rank (c_action (winner_of c cs)) \<le> dependency_action_rank (c_action x)"
      using winner_of_least [of c cs] that(2) by blast
    with that(1) have "target_status (t_status t) (c_action x) = t_status t"
      using weaker_action_settled by blast
    moreover have "u = t" if "u \<in> set (tasks db)" "t_id u = c_task_id x" for u
      using that \<open>x \<in> set (c # cs)\<close> assms(3) t(2) only by auto
    ultimately show ?thesis by (auto simp: lets_be_def list_all_iff)
  qed
  ultimately show ?thesis using db'(1,2) by (auto simp: db'(3))
qed

section \<open>One pass\<close>

lemma lets_be_cong: "tasks x = tasks y \<Longrightarrow> lets_be x = lets_be y"
  by (simp add: lets_be_def fun_eq_iff)

lemma propagate_groups_step:
  assumes "keys_ok (fst acc)" and "\<forall>x \<in> set cs. has_task (fst acc) x"
  shows "\<exists>db' n. propagate_groups trace_of now cs acc = Inr (db', snd acc + n)
      \<and> runs db' = runs (fst acc) \<and> tasks_advance (fst acc) db' \<and> potential db' + n \<le> potential (fst acc)
      \<and> (n = 0 \<longrightarrow> tasks db' = tasks (fst acc) \<and> (\<forall>x \<in> set cs. lets_be (fst acc) x))"
  using assms
proof (induction trace_of now cs acc rule: propagate_groups.induct)
  case (1 trace_of now acc)
  then show ?case by (intro exI [of _ "fst acc"] exI [of _ 0]) simp
next
  case (2 trace_of now c cs acc)
  define same others where "same = takeWhile (\<lambda>x. c_task_id x = c_task_id c) cs"
    and "others = dropWhile (\<lambda>x. c_task_id x = c_task_id c) cs"
  have cs: "set cs = set same \<union> set others"
    unfolding same_def others_def by (metis set_append takeWhile_dropWhile_id)
  have "\<forall>x \<in> set same. c_task_id x = c_task_id c"
    unfolding same_def by (auto dest: set_takeWhileD)
  with 2(2,3) cs obtain db1 n1 where g: "propagate_group trace_of now c same (fst acc) = Inr (db1, n1)"
      "runs db1 = runs (fst acc)" "tasks_advance (fst acc) db1"
      "n1 = (if tasks db1 = tasks (fst acc) then 0 else 1)"
      "n1 = 0 \<longrightarrow> (\<forall>x \<in> set (c # same). lets_be (fst acc) x)"
    using propagate_group_step [of "fst acc" c same trace_of now] by (auto)
  have "keys_ok db1" by (rule keys_ok_advance [OF 2(2) g(3,2)])
  moreover have "\<forall>x \<in> set others. has_task db1 x" using 2(3) cs g(3) by (simp add: has_task_advance)
  ultimately obtain db2 n2 where r: "propagate_groups trace_of now others (db1, snd acc + n1) =
        Inr (db2, snd acc + n1 + n2)" "runs db2 = runs db1" "tasks_advance db1 db2"
      "potential db2 + n2 \<le> potential db1"
      "n2 = 0 \<longrightarrow> tasks db2 = tasks db1 \<and> (\<forall>x \<in> set others. lets_be db1 x)"
    using 2(1) [OF same_def others_def, of db1 n1] by auto
  have "potential db1 + n1 \<le> potential (fst acc)"
    using potential_advances [OF g(3)] g(4) by (auto simp: potential_def)
  moreover have "propagate_groups trace_of now (c # cs) acc = Inr (db2, snd acc + (n1 + n2))"
    using g(1) r(1) by (simp add: same_def [symmetric] others_def [symmetric] Let_def add.assoc)
  moreover have "tasks db2 = tasks (fst acc) \<and> (\<forall>x \<in> set (c # cs). lets_be (fst acc) x)"
    if "n1 + n2 = 0"
  proof -
    from that g(4) have "tasks db1 = tasks (fst acc)" by (simp split: if_splits)
    with that r(5) g(5) cs lets_be_cong [of db1 "fst acc"] show ?thesis by auto
  qed
  moreover have "tasks_advance (fst acc) db2" by (rule tasks_advance_trans [OF g(3) r(3)])
  ultimately show ?case
    using r(2,4) g(2) by (intro exI [of _ db2] exI [of _ "n1 + n2"]) auto
qed

lemma set_propagation_candidates:
  "c \<in> set (propagation_candidates db) \<longleftrightarrow> (\<exists>d \<in> set (dependencies db). c \<in> set (candidates_of db d))"
  by (auto simp: propagation_candidates_def)

lemma set_case_option:
  "set (case x of None \<Rightarrow> [] | Some h \<Rightarrow> [f h]) = {f h | h. x = Some h}"
  by (cases x) auto

lemma set_candidates_of:
  "c \<in> set (candidates_of db d) \<longleftrightarrow>
   (\<exists>t \<in> set (tasks db). \<exists>p \<in> set (tasks db). \<exists>h.
      t_id t = d_task_id d \<and> t_organization_id t = d_organization_id d
      \<and> t_id p = d_prerequisite_task_id d \<and> t_organization_id p = d_organization_id d
      \<and> t_status p \<in> {Task_Failed, Task_Cancelled, Task_Skipped} \<and> latest_history db p = Some h
      \<and> c = candidate d t h p (propagated_action db d p))"
  by (auto simp: candidates_of_def set_case_option)

lemma candidates_have_tasks: "c \<in> set (propagation_candidates db) \<Longrightarrow> has_task db c"
  unfolding set_propagation_candidates set_candidates_of
  by (auto simp: candidate_def has_task_def list_ex_iff)

lemma pass_outcome:
  assumes "keys_ok db"
  shows "\<exists>db' n. reconcile_task_dependencies trace_of now db = Inr (db', n)
      \<and> runs db' = runs db \<and> tasks_advance db db' \<and> potential db' + n \<le> potential db
      \<and> (n = 0 \<longrightarrow> tasks db' = tasks db \<and> (\<forall>c \<in> set (propagation_candidates db). lets_be db c))"
  using propagate_groups_step [of "(db, 0)" "propagation_candidates db" trace_of now]
    assms candidates_have_tasks
  by (simp add: reconcile_task_dependencies_def)

lemma propagate_group_dependencies:
  "propagate_group trace_of now c cs db = Inr (db', n) \<Longrightarrow> dependencies db' = dependencies db"
  by (auto simp: propagate_group_def report_propagation_def record_propagations_def Let_def
      split: option.splits if_splits)

lemma propagate_groups_dependencies:
  "propagate_groups trace_of now cs acc = Inr (db', n) \<Longrightarrow> dependencies db' = dependencies (fst acc)"
proof (induction trace_of now cs acc rule: propagate_groups.induct)
  case (2 trace_of now c cs acc)
  then show ?case
    by (auto simp: Let_def and_then_Inr_iff dest: propagate_group_dependencies)
qed simp

lemma pass_dependencies:
  "reconcile_task_dependencies trace_of now db = Inr (db', n) \<Longrightarrow> dependencies db' = dependencies db"
  by (auto simp: reconcile_task_dependencies_def dest: propagate_groups_dependencies)

lemma pass_row:
  assumes "tasks_advance db db'" and "keys_ok db" and "find_by_id db' i = Some u"
  obtains t where "find_by_id db i = Some t" "row_advances t u"
proof -
  from assms(3) obtain k where k: "k < length (tasks db')" "tasks db' ! k = u" "t_id u = i"
    by (auto simp: find_by_id_def find_Some_iff)
  with assms(1) have adv: "row_advances (tasks db ! k) u" and "k < length (tasks db)"
    by (auto simp: list_all2_conv_all_nth)
  moreover have "find_by_id db i = Some (tasks db ! k)"
    using calculation k(3) assms(2) by (simp add: find_by_id_mem row_advances_def)
  ultimately show thesis using that by blast
qed

section \<open>Properties\<close>

text \<open>The passes of consecutive ticks.\<close>

fun propagation_passes ::
  "(nat \<Rightarrow> int \<Rightarrow> rstr) \<Rightarrow> (nat \<Rightarrow> timestamp) \<Rightarrow> nat \<Rightarrow> db \<Rightarrow> sqlx_error + db \<times> nat" where
  "propagation_passes trace_of now 0 db = Inr (db, 0)"
| "propagation_passes trace_of now (Suc k) db =
     and_then (propagation_passes trace_of now k db)
       (\<lambda>(db', n). reconcile_task_dependencies (trace_of k) (now k) db')"

lemma passes_outcome:
  assumes "keys_ok db"
  shows "\<exists>db' n. propagation_passes trace_of now k db = Inr (db', n) \<and> keys_ok db'
      \<and> tasks_advance db db'
      \<and> ((\<forall>j < k. \<exists>x m. propagation_passes trace_of now (Suc j) db = Inr (x, m) \<and> m > 0) \<longrightarrow>
           potential db' + k \<le> potential db)"
proof (induction k)
  case 0
  with assms show ?case by simp
next
  case (Suc k)
  then obtain x n where x: "propagation_passes trace_of now k db = Inr (x, n)" "keys_ok x" "tasks_advance db x"
      "(\<forall>j < k. \<exists>x m. propagation_passes trace_of now (Suc j) db = Inr (x, m) \<and> m > 0) \<longrightarrow>
           potential x + k \<le> potential db" by blast
  from pass_outcome [OF x(2), of "trace_of k" "now k"] obtain y m
    where y: "reconcile_task_dependencies (trace_of k) (now k) x = Inr (y, m)" "runs y = runs x"
      "tasks_advance x y" "potential y + m \<le> potential x" by blast
  from x(1) y(1) have run: "propagation_passes trace_of now (Suc k) db = Inr (y, m)" by simp
  have "potential y + Suc k \<le> potential db"
    if all: "\<forall>j < Suc k. \<exists>x m. propagation_passes trace_of now (Suc j) db = Inr (x, m) \<and> m > 0"
  proof -
    from all run have "m > 0" by (metis lessI old.prod.inject sum.inject(2))
    moreover from all x(4) have "potential x + k \<le> potential db" by simp
    ultimately show ?thesis using y(4) by simp
  qed
  with run keys_ok_advance [OF x(2) y(3,2)] tasks_advance_trans [OF x(3) y(3)] show ?case by blast
qed

text \<open>Propagation never fails on a consistent database and only ever moves a queued task to
  skipped or failed, or a skipped one to failed: every row keeps its identity, a row whose status
  is unchanged is unchanged altogether, and no task in another status is touched.\<close>

theorem propagation_only_advances:
  assumes "keys_ok db"
  shows "\<exists>db' n. reconcile_task_dependencies trace_of now db = Inr (db', n)
      \<and> runs db' = runs db
      \<and> list_all2 (\<lambda>t u. t_id u = t_id t
            \<and> (u = t \<or> t_status t = Task_Queued \<and> t_status u \<in> {Task_Skipped, Task_Failed}
                \<or> t_status t = Task_Skipped \<and> t_status u = Task_Failed)) (tasks db) (tasks db')"
proof -
  obtain db' n where pass: "reconcile_task_dependencies trace_of now db = Inr (db', n)"
    "runs db' = runs db" "tasks_advance db db'"
    using pass_outcome [OF assms] by blast
  have "t_id u = t_id t
      \<and> (u = t \<or> t_status t = Task_Queued \<and> t_status u \<in> {Task_Skipped, Task_Failed}
          \<or> t_status t = Task_Skipped \<and> t_status u = Task_Failed)" if "row_advances t u" for t u
    using that unfolding row_advances_def advances_iff by blast
  from list_all2_mono [OF pass(3) this] have "list_all2 (\<lambda>t u. t_id u = t_id t
            \<and> (u = t \<or> t_status t = Task_Queued \<and> t_status u \<in> {Task_Skipped, Task_Failed}
                \<or> t_status t = Task_Skipped \<and> t_status u = Task_Failed)) (tasks db) (tasks db')"
    .
  with pass(1,2) show ?thesis by blast
qed

definition example_edge :: dependency_row where
  "example_edge = \<lparr>d_id = 1, d_organization_id = 1, d_department_id = None, d_owner_user_id = 100,
     d_task_id = 1, d_prerequisite_task_id = 2, d_failure_action = Fail, d_cancelled_action = Skip,
     d_timeout_action = Wait\<rparr>"

definition example_chain :: db where
  "example_chain = (example_db [example_task 1, (example_task 2)\<lparr>t_status := Task_Failed\<rparr>] [])
     \<lparr>dependencies := [example_edge],
      status_history := [\<lparr>h_id = 1, h_organization_id = 1, h_task_id = 2,
        h_from_status = Task_Running, h_to_status = Task_Failed\<rparr>]\<rparr>"

lemma keys_ok_example_chain: "keys_ok example_chain"
  by (simp add: keys_ok_def example_chain_def example_defs)

theorem propagation_only_advances_witness:
  "\<exists>db' n. reconcile_task_dependencies (\<lambda>_. ''trace'') 5 example_chain = Inr (db', n)
      \<and> runs db' = runs example_chain
      \<and> list_all2 (\<lambda>t u. t_id u = t_id t
            \<and> (u = t \<or> t_status t = Task_Queued \<and> t_status u \<in> {Task_Skipped, Task_Failed}
                \<or> t_status t = Task_Skipped \<and> t_status u = Task_Failed)) (tasks example_chain) (tasks db')"
  by (rule propagation_only_advances [OF keys_ok_example_chain])

text \<open>A pass that propagates nothing certifies the policy: when the count is zero, no task is
  left that one of its dependencies should have moved. A prerequisite that is failed, cancelled
  or skipped (with its history entry) and whose applicable action is \<^verbatim>\<open>fail\<close> has no queued or
  skipped dependent, and one whose action is \<^verbatim>\<open>skip\<close> has no queued dependent.\<close>

theorem quiet_pass_certifies_policy:
  assumes "keys_ok db" and "reconcile_task_dependencies trace_of now db = Inr (db', 0)"
    and "d \<in> set (dependencies db)" and "t \<in> set (tasks db)" and "p \<in> set (tasks db)"
    and "t_id t = d_task_id d" and "t_organization_id t = d_organization_id d"
    and "t_id p = d_prerequisite_task_id d" and "t_organization_id p = d_organization_id d"
    and "t_status p \<in> {Task_Failed, Task_Cancelled, Task_Skipped}" and "latest_history db p \<noteq> None"
  shows "tasks db' = tasks db
      \<and> (propagated_action db d p = Fail \<longrightarrow> t_status t \<notin> {Task_Queued, Task_Skipped})
      \<and> (propagated_action db d p = Skip \<longrightarrow> t_status t \<noteq> Task_Queued)"
proof -
  have pass: "tasks db' = tasks db" "\<forall>c \<in> set (propagation_candidates db). lets_be db c"
    using pass_outcome [OF assms(1), of trace_of now] assms(2) by auto
  from assms(11) obtain h where h: "latest_history db p = Some h" by blast
  with assms(4-10) have "candidate d t h p (propagated_action db d p) \<in> set (candidates_of db d)"
    unfolding set_candidates_of by blast
  with assms(3) have "candidate d t h p (propagated_action db d p) \<in> set (propagation_candidates db)"
    unfolding set_propagation_candidates by blast
  with pass(2) have "lets_be db (candidate d t h p (propagated_action db d p))" by blast
  with assms(4,6,7) have "target_status (t_status t) (propagated_action db d p) = t_status t"
    by (auto simp: lets_be_def list_all_iff candidate_def)
  with pass(1) show ?thesis by (cases "t_status t"; cases "propagated_action db d p") simp_all
qed

theorem quiet_pass_certifies_policy_witness:
  "let t = (example_task 1)\<lparr>t_status := Task_Failed\<rparr>; p = (example_task 2)\<lparr>t_status := Task_Failed\<rparr>;
       db = example_chain\<lparr>tasks := [t, p]\<rparr>
   in \<exists>db'. reconcile_task_dependencies (\<lambda>_. ''trace'') 5 db = Inr (db', 0) \<and> tasks db' = tasks db
      \<and> (propagated_action db example_edge p = Fail \<longrightarrow> t_status t \<notin> {Task_Queued, Task_Skipped})
      \<and> (propagated_action db example_edge p = Skip \<longrightarrow> t_status t \<noteq> Task_Queued)"
proof -
  let ?t = "(example_task 1)\<lparr>t_status := Task_Failed\<rparr>" and ?p = "(example_task 2)\<lparr>t_status := Task_Failed\<rparr>"
  let ?db = "example_chain\<lparr>tasks := [?t, ?p]\<rparr>"
  have keys: "keys_ok ?db" by (simp add: keys_ok_def example_chain_def example_defs)
  have "potential ?db = 0" by (simp add: potential_def)
  with pass_outcome [OF keys, of "\<lambda>_. ''trace''" 5] obtain db'
    where "reconcile_task_dependencies (\<lambda>_. ''trace'') 5 ?db = Inr (db', 0)" by auto
  moreover have "tasks db' = tasks ?db
      \<and> (propagated_action ?db example_edge ?p = Fail \<longrightarrow> t_status ?t \<notin> {Task_Queued, Task_Skipped})
      \<and> (propagated_action ?db example_edge ?p = Skip \<longrightarrow> t_status ?t \<noteq> Task_Queued)"
    by (rule quiet_pass_certifies_policy [OF keys calculation])
      (simp_all add: example_chain_def example_edge_def example_defs latest_history_def)
  ultimately show ?thesis unfolding Let_def by blast
qed

text \<open>C11. Propagation converges: whatever the clock and the trace identifiers, among the first
  \<open>potential db + 1\<close> passes (two per queued and one per skipped task, plus one) there is one
  that propagates nothing.\<close>

theorem propagation_converges:
  assumes "keys_ok db"
  shows "\<exists>k \<le> potential db. \<exists>db'. propagation_passes trace_of now (Suc k) db = Inr (db', 0)"
proof (rule ccontr)
  assume none: "\<not> ?thesis"
  let ?k = "Suc (potential db)"
  have "\<exists>x m. propagation_passes trace_of now (Suc j) db = Inr (x, m) \<and> m > 0" if "j < ?k" for j
  proof -
    obtain x m where "propagation_passes trace_of now (Suc j) db = Inr (x, m)"
      using passes_outcome [OF assms, of trace_of now "Suc j"] by blast
    with none that show ?thesis by (metis gr0I less_Suc_eq_le)
  qed
  with passes_outcome [OF assms, of trace_of now ?k] show False by fastforce
qed

theorem propagation_converges_witness:
  "\<exists>k \<le> potential example_chain. \<exists>db'.
     propagation_passes (\<lambda>_ _. ''trace'') int (Suc k) example_chain = Inr (db', 0)"
  by (rule propagation_converges [OF keys_ok_example_chain])

end
