(* ===== verification/Scheduler.thy ===== *)
theory Scheduler
  imports Reconcile Propagation Dependencies
begin

text \<open>
  \<^verbatim>\<open>backend/src/workers/task_scheduler.rs\<close>: the retry policy and its jittered delay, the actor
  a scheduled task runs as, the classification of dispatch errors, and one scheduler tick:
  dependency propagation, reconciliation, the claim of a batch and the dispatch loop with its
  error handling. Starting a run (\<^verbatim>\<open>create_scheduled_run\<close>, which prepares a workspace and a
  process) is a parameter of the loop; metrics and logging are left out.
\<close>

section \<open>Retry delay\<close>

record scheduler_policy =
  sp_poll_interval :: int
  sp_claim_lease_seconds :: int
  sp_retry_base_seconds :: int
  sp_retry_max_seconds :: int
  sp_retry_jitter_percent :: int
  sp_stall_timeout :: int
  sp_priority_aging_seconds :: int

definition default_policy :: scheduler_policy where
  "default_policy =
     \<lparr>sp_poll_interval = 10, sp_claim_lease_seconds = 60, sp_retry_base_seconds = 1,
      sp_retry_max_seconds = 300, sp_retry_jitter_percent = 20, sp_stall_timeout = 120,
      sp_priority_aging_seconds = 3600\<rparr>"

text \<open>Division of \<^verbatim>\<open>i64\<close> truncates towards zero.\<close>

definition trunc_div :: "int \<Rightarrow> int \<Rightarrow> int" where
  "trunc_div a b = (if 0 \<le> a then a div b else - ((- a) div b))"

text \<open>\<^verbatim>\<open>chrono::Duration::seconds\<close> panics outside plus or minus \<^verbatim>\<open>i64::MAX\<close> milliseconds.\<close>

definition duration_seconds :: "int \<Rightarrow> int option" where
  "duration_seconds s = (if \<bar>s\<bar> \<le> i64_max div 1000 then Some s else None)"

text \<open>\<open>None\<close> is a panic: the remainder by a jitter range of zero, or a duration out of range.\<close>

definition retry_delay_with_seed :: "int \<Rightarrow> scheduler_policy \<Rightarrow> nat \<Rightarrow> int option" where
  "retry_delay_with_seed attempt policy jitter_seed =
     (let bounded_attempt = max 1 (min 8 attempt);
          base_seconds = min (sat64 (sp_retry_base_seconds policy * sat64 (2 ^ nat (bounded_attempt - 1))))
                           (sp_retry_max_seconds policy);
          jitter_bound = trunc_div (sat64 (base_seconds * sp_retry_jitter_percent policy)) 100;
          jitter_range = (let r = sat64 (jitter_bound + 1) in if r < 0 then 1 else nat r)
      in if jitter_range = 0 then None
         else let m = jitter_seed mod jitter_range;
                  jitter_seconds = (if int m \<le> i64_max then int m else 0)
              in duration_seconds (min (sat64 (base_seconds + jitter_seconds)) (sp_retry_max_seconds policy)))"

section \<open>Dispatching one task\<close>

text \<open>The actor of a scheduled task: the owner's organization, no session, five permissions.\<close>

definition scheduler_actor :: "task_row \<Rightarrow> actor_context" where
  "scheduler_actor t =
     \<lparr>actor_type = System, user_id = t_owner_user_id t, session_id = 0,
      organization_id = t_organization_id t, department_id = t_department_id t,
      data_scope = Scope_Organization,
      permission_codes = {''devrail:task:read'', ''devrail:task_dependency:read'',
        ''devrail:task_dependency:write'', ''devrail:followup:create'', ''devrail:run:execute''}\<rparr>"

definition scheduler_idempotency_key :: "int \<Rightarrow> int \<Rightarrow> rstr" where
  "scheduler_idempotency_key task_id attempt =
     ''scheduler:'' @ show_int task_id @ '':'' @ show_int attempt"

fun is_retryable :: "api_error \<Rightarrow> bool" where
  "is_retryable (Internal _) = True"
| "is_retryable Unavailable = True"
| "is_retryable (Conflict _) = True"
| "is_retryable _ = False"

fun dispatch_failure_reason :: "api_error \<Rightarrow> rstr" where
  "dispatch_failure_reason Unauthorized = ''permission_or_policy_denies''"
| "dispatch_failure_reason (Forbidden _) = ''permission_or_policy_denies''"
| "dispatch_failure_reason (NotFound _) = ''resource_missing''"
| "dispatch_failure_reason (Validation _) = ''task_configuration_invalid''"
| "dispatch_failure_reason (Conflict _) = ''temporary_conflict''"
| "dispatch_failure_reason Unavailable = ''temporarily_unavailable''"
| "dispatch_failure_reason (Internal _) = ''temporarily_unavailable''"
| "dispatch_failure_reason CsrfInvalid = ''rejected_by_security_policy''"
| "dispatch_failure_reason (RateLimited _) = ''rejected_by_security_policy''"

text \<open>\<open>start env key actor task token db\<close> stands for \<^verbatim>\<open>devrail_runs::create_scheduled_run\<close>.\<close>

type_synonym run_starter =
  "int \<Rightarrow> rstr \<Rightarrow> actor_context \<Rightarrow> int \<Rightarrow> uuid \<Rightarrow> db \<Rightarrow> db \<times> (api_error + unit)"

definition dispatch_task :: "run_starter \<Rightarrow> task_row \<Rightarrow> uuid \<Rightarrow> db \<Rightarrow> db \<times> (api_error + unit)" where
  "dispatch_task start task token db =
     (case t_environment_id task of
        None \<Rightarrow> (db, Inl (Validation ''queued_task_without_environment''))
      | Some env \<Rightarrow> start env (scheduler_idempotency_key (t_id task) (t_scheduler_attempt task))
                     (scheduler_actor task) (t_id task) token db)"

text \<open>The message of a full Harness.\<close>

definition capacity_exhausted :: rstr where
  "capacity_exhausted = ''harness_concurrency_exhausted''"

datatype dispatch_outcome =
    Started | StaleClaim | Capacity | RetryScheduled | PermanentFailure | ClaimReleased | Panicked

text \<open>What the loop does with an error of \<open>dispatch_task\<close>. \<open>seed\<close> is the random seed of the delay.\<close>

definition handle_dispatch_failure ::
  "scheduler_policy \<Rightarrow> nat \<Rightarrow> timestamp \<Rightarrow> task_row \<Rightarrow> uuid \<Rightarrow> api_error \<Rightarrow> db \<Rightarrow> db \<times> dispatch_outcome" where
  "handle_dispatch_failure policy seed now task token error db =
     (let reason = dispatch_failure_reason error in
      if error = Conflict capacity_exhausted
      then (fst (release_scheduler_claim now (t_id task) token db), Capacity)
      else if is_retryable error \<and> t_scheduler_attempt task < t_scheduler_max_attempts task
      then (case retry_delay_with_seed (t_scheduler_attempt task) policy seed of
              None \<Rightarrow> (db, Panicked)
            | Some delay \<Rightarrow>
              let r = schedule_retry now (t_id task) token (now + seconds delay) reason db
              in if snd r then (fst r, RetryScheduled)
                 else (fst (release_scheduler_claim now (t_id task) token (fst r)), ClaimReleased))
      else let r = fail_scheduler_task now (t_id task) token reason db
           in if snd r then (fst r, PermanentFailure)
              else (fst (release_scheduler_claim now (t_id task) token (fst r)), ClaimReleased))"

text \<open>One iteration of the loop; \<open>clock\<close> gives the times at which the claim is renewed and at which
  an error is handled.\<close>

definition process_claimed ::
  "run_starter \<Rightarrow> scheduler_policy \<Rightarrow> nat \<Rightarrow> timestamp \<times> timestamp \<Rightarrow> uuid \<Rightarrow> task_row \<Rightarrow> db \<Rightarrow>
   db \<times> dispatch_outcome" where
  "process_claimed start policy seed clock token claimed db =
     (case find_task_by_id (scheduler_actor claimed) db (t_id claimed) of
        None \<Rightarrow> (fst (release_scheduler_claim (fst clock) (t_id claimed) token db), StaleClaim)
      | Some task \<Rightarrow>
        let r = renew_scheduler_claim (fst clock) (t_id task) token (sp_claim_lease_seconds policy) db
        in if \<not> snd r then (fst r, StaleClaim)
           else (case dispatch_task start task token (fst r) of
                   (db', Inr _) \<Rightarrow> (db', Started)
                 | (db', Inl error) \<Rightarrow>
                     handle_dispatch_failure policy seed (snd clock) task token error db'))"

fun process_batch ::
  "run_starter \<Rightarrow> scheduler_policy \<Rightarrow> (int \<Rightarrow> nat) \<Rightarrow> (int \<Rightarrow> timestamp \<times> timestamp) \<Rightarrow> uuid \<Rightarrow> task_row list \<Rightarrow>
   db \<Rightarrow> db \<times> (int \<times> dispatch_outcome) list" where
  "process_batch start policy seed clock token [] db = (db, [])"
| "process_batch start policy seed clock token (t # ts) db =
     (case process_claimed start policy (seed (t_id t)) (clock (t_id t)) token t db of
        (db1, out) \<Rightarrow> (case process_batch start policy seed clock token ts db1 of
           (db2, outs) \<Rightarrow> (db2, (t_id t, out) # outs)))"

definition claim_batch_size :: int where
  "claim_batch_size = 16"

section \<open>One tick\<close>

record tick_input =
  ti_now :: timestamp
  ti_running :: "int list"
  ti_locked :: "int set"
  ti_token :: uuid
  ti_seed :: "int \<Rightarrow> nat"
  ti_clock :: "int \<Rightarrow> timestamp \<times> timestamp"
  ti_traces :: "int \<Rightarrow> rstr"

text \<open>\<^verbatim>\<open>run_tick\<close> over the tracker (\<^verbatim>\<open>database_side_channels\<close> false): an error of the propagation
  ends the tick.\<close>

definition run_tick ::
  "run_starter \<Rightarrow> scheduler_policy \<Rightarrow> tick_input \<Rightarrow> db \<Rightarrow>
   tracker_error_kind + db \<times> reconciliation \<times> (int \<times> dispatch_outcome) list" where
  "run_tick start policy inp db =
     (case reconcile_task_dependencies (ti_traces inp) (ti_now inp) db of
        Inl e \<Rightarrow> Inl (tracker_error e)
      | Inr (db1, propagated) \<Rightarrow>
        (case reconcile_scheduler_state (ti_now inp) (ti_traces inp 0) (ti_traces inp 1)
                (ti_running inp) (sp_stall_timeout policy) db1 of
           (db2, rec) \<Rightarrow>
           (case claim_scheduler_tasks (ti_now inp) (ti_locked inp) (ti_token inp) claim_batch_size
                   (sp_claim_lease_seconds policy) (sp_priority_aging_seconds policy) db2 of
              (db3, claimed) \<Rightarrow>
              (case process_batch start policy (ti_seed inp) (ti_clock inp) (ti_token inp) claimed db3 of
                 (db4, outs) \<Rightarrow> Inr (db4, rec, outs)))))"

section \<open>Properties of the delay and the key\<close>

text \<open>What \<^verbatim>\<open>AppConfig::from_values\<close> guarantees of the retry settings.\<close>

definition retry_policy_ok :: "scheduler_policy \<Rightarrow> bool" where
  "retry_policy_ok p =
     (1 \<le> sp_retry_base_seconds p \<and> sp_retry_base_seconds p \<le> sp_retry_max_seconds p
      \<and> sp_retry_max_seconds p \<le> i64_max div 1000
      \<and> 0 \<le> sp_retry_jitter_percent p \<and> sp_retry_jitter_percent p \<le> 100)"

definition backoff_base :: "int \<Rightarrow> scheduler_policy \<Rightarrow> int" where
  "backoff_base attempt p =
     min (sp_retry_base_seconds p * 2 ^ nat (max 1 (min 8 attempt) - 1)) (sp_retry_max_seconds p)"

lemma backoff_power: "1 \<le> (2 :: int) ^ nat (max 1 (min 8 attempt) - 1)"
  "(2 :: int) ^ nat (max 1 (min 8 attempt) - 1) \<le> 128"
proof -
  have "nat (max 1 (min 8 attempt) - 1) \<le> 7" by linarith
  then have "(2 :: int) ^ nat (max 1 (min 8 attempt) - 1) \<le> 2 ^ 7" by (intro power_increasing) simp_all
  then show "(2 :: int) ^ nat (max 1 (min 8 attempt) - 1) \<le> 128" by simp
qed simp

lemma backoff_base_bounds:
  assumes "retry_policy_ok p"
  shows "sp_retry_base_seconds p \<le> backoff_base attempt p" and "1 \<le> backoff_base attempt p"
    and "backoff_base attempt p \<le> sp_retry_max_seconds p"
proof -
  have "sp_retry_base_seconds p * 1 \<le> sp_retry_base_seconds p * 2 ^ nat (max 1 (min 8 attempt) - 1)"
    using assms backoff_power(1) by (intro mult_left_mono) (simp_all add: retry_policy_ok_def)
  with assms show ge: "sp_retry_base_seconds p \<le> backoff_base attempt p"
    and "backoff_base attempt p \<le> sp_retry_max_seconds p"
    by (simp_all add: backoff_base_def retry_policy_ok_def)
  from ge assms show "1 \<le> backoff_base attempt p" by (simp add: retry_policy_ok_def)
qed

text \<open>Clamping to 64 bits below a bound that fits does not change a minimum.\<close>

lemma min_sat64: "0 \<le> x \<Longrightarrow> m \<le> i64_max \<Longrightarrow> min (sat64 x) m = min x m"
  by (auto simp: sat64_def i64_min_def i64_max_def)

lemma retry_delay_unfold:
  assumes "retry_policy_ok p"
  shows "retry_delay_with_seed attempt p seed =
    Some (min (backoff_base attempt p +
        int (seed mod nat (backoff_base attempt p * sp_retry_jitter_percent p div 100 + 1)))
      (sp_retry_max_seconds p))"
proof -
  let ?b = "backoff_base attempt p" and ?m = "sp_retry_max_seconds p"
  let ?j = "?b * sp_retry_jitter_percent p div 100"
  note b = backoff_base_bounds [OF assms, of attempt]
  have m: "?m \<le> 9223372036854775" using assms by (simp add: retry_policy_ok_def i64_max_def)
  have "in_i64 (2 ^ nat (max 1 (min 8 attempt) - 1))"
    using backoff_power [of attempt] unfolding in_i64_def i64_min_def i64_max_def by linarith
  then have pow: "sat64 (2 ^ nat (max 1 (min 8 attempt) - 1)) = 2 ^ nat (max 1 (min 8 attempt) - 1)"
    by (rule sat64_id)
  have "0 \<le> sp_retry_base_seconds p * 2 ^ nat (max 1 (min 8 attempt) - 1)"
    using assms by (simp add: retry_policy_ok_def)
  then have base: "min (sat64 (sp_retry_base_seconds p * sat64 (2 ^ nat (max 1 (min 8 attempt) - 1)))) ?m = ?b"
    using m by (simp add: pow min_sat64 i64_max_def backoff_base_def)
  have prod: "0 \<le> ?b * sp_retry_jitter_percent p" "?b * sp_retry_jitter_percent p \<le> ?b * 100"
    using b assms by (simp_all add: retry_policy_ok_def)
  then have sat: "sat64 (?b * sp_retry_jitter_percent p) = ?b * sp_retry_jitter_percent p"
    using b(3) m by (intro sat64_id) (simp add: in_i64_def i64_min_def i64_max_def)
  have j: "0 \<le> ?j" "?j \<le> ?b" using prod by simp_all
  then have range: "sat64 (?j + 1) = ?j + 1"
    using b(3) m by (intro sat64_id) (simp add: in_i64_def i64_min_def i64_max_def)
  let ?s = "int (seed mod nat (?j + 1))"
  have "seed mod nat (?j + 1) < nat (?j + 1)" using j(1) by (intro mod_less_divisor) simp
  then have s: "0 \<le> ?s" "?s \<le> ?b" using j by linarith+
  have last: "min (sat64 (?b + ?s)) ?m = min (?b + ?s) ?m"
    using b s m by (intro min_sat64) (simp_all add: i64_max_def)
  have "1 \<le> min (?b + ?s) ?m" using b s by linarith
  then have "duration_seconds (min (?b + ?s) ?m) = Some (min (?b + ?s) ?m)"
    using m by (simp add: duration_seconds_def i64_max_def)
  then show ?thesis
    unfolding retry_delay_with_seed_def Let_def base
    using j s b(3) m by (simp add: sat trunc_div_def prod range last i64_max_def)
qed

lemma retry_delay_range:
  assumes "retry_policy_ok p"
  obtains d where "retry_delay_with_seed attempt p seed = Some d" "1 \<le> d" "d \<le> sp_retry_max_seconds p"
proof -
  have "1 \<le> min (backoff_base attempt p +
        int (seed mod nat (backoff_base attempt p * sp_retry_jitter_percent p div 100 + 1)))
      (sp_retry_max_seconds p)"
    using backoff_base_bounds [OF assms, of attempt] by simp
  with that retry_delay_unfold [OF assms] show thesis by simp
qed

text \<open>C32. The retry delay is safe and exponential: for the retry settings the configuration accepts
  it never panics, lies between the doubled base (capped) and that value plus the jitter share,
  and never exceeds the configured maximum, for every attempt number and every random seed.\<close>

theorem retry_delay_bounded:
  assumes "retry_policy_ok p"
  shows "\<exists>d. retry_delay_with_seed attempt p seed = Some d
      \<and> 1 \<le> d \<and> d \<le> sp_retry_max_seconds p
      \<and> backoff_base attempt p \<le> d
      \<and> 100 * d \<le> backoff_base attempt p * (100 + sp_retry_jitter_percent p)"
proof -
  let ?b = "backoff_base attempt p"
  let ?j = "?b * sp_retry_jitter_percent p div 100"
  let ?s = "int (seed mod nat (?j + 1))"
  note b = backoff_base_bounds [OF assms, of attempt]
  have "0 \<le> ?b * sp_retry_jitter_percent p" using b assms by (simp add: retry_policy_ok_def)
  then have j: "0 \<le> ?j" by simp
  then have "seed mod nat (?j + 1) < nat (?j + 1)" by (intro mod_less_divisor) simp
  then have s: "0 \<le> ?s" "?s \<le> ?j" using j by linarith+
  have "100 * ?j \<le> ?b * sp_retry_jitter_percent p" by simp
  then have bound: "100 * (?b + ?s) \<le> ?b * (100 + sp_retry_jitter_percent p)"
    using s(2) by (simp add: distrib_left)
  have "100 * min (?b + ?s) (sp_retry_max_seconds p) \<le> 100 * (?b + ?s)"
    by (intro mult_left_mono) simp_all
  from this bound have "100 * min (?b + ?s) (sp_retry_max_seconds p) \<le> ?b * (100 + sp_retry_jitter_percent p)"
    by (rule order_trans)
  moreover have "1 \<le> min (?b + ?s) (sp_retry_max_seconds p)" "?b \<le> min (?b + ?s) (sp_retry_max_seconds p)"
    "min (?b + ?s) (sp_retry_max_seconds p) \<le> sp_retry_max_seconds p"
    using b s by simp_all
  ultimately show ?thesis unfolding retry_delay_unfold [OF assms] by blast
qed

theorem retry_delay_bounded_witness:
  "\<exists>d. retry_delay_with_seed 5 default_policy 12345 = Some d
      \<and> 1 \<le> d \<and> d \<le> sp_retry_max_seconds default_policy
      \<and> backoff_base 5 default_policy \<le> d
      \<and> 100 * d \<le> backoff_base 5 default_policy * (100 + sp_retry_jitter_percent default_policy)"
  by (rule retry_delay_bounded) (simp add: retry_policy_ok_def default_policy_def i64_max_def)

lemma colon_not_in_show_int: "CHR '':'' \<notin> set (show_int i)"
proof -
  have "CHR '':'' \<notin> set (show_nat n)" for n
    using show_nat_digits [of "CHR '':''" n] by (auto simp: is_ascii_digit_def)
  then show ?thesis by (simp add: show_int_def)
qed

text \<open>The idempotency key of a scheduled run identifies the attempt: two keys agree only for the
  same task and the same attempt.\<close>

theorem scheduler_key_identifies_attempt:
  "scheduler_idempotency_key t a = scheduler_idempotency_key t' a' \<longleftrightarrow> t = t' \<and> a = a'"
  by (simp add: scheduler_idempotency_key_def append_sep_inject colon_not_in_show_int show_int_inject)

section \<open>Properties of the loop\<close>

lemma held_row:
  assumes "keys_ok db" and "task_holder db i = Some token"
  obtains t where "find_by_id db i = Some t" "owns_claim i token t"
  using assms that by (auto simp: task_holder_def owns_claim_def dest: find_by_id_id
      split: option.splits if_splits)

lemma fail_scheduler_task_outcome:
  assumes "keys_ok db" and "find_by_id db i = Some t" and "owns_claim i token t"
  shows "snd (fail_scheduler_task now i token error db)"
    and "find_by_id (fst (fail_scheduler_task now i token error db)) i =
      Some (t\<lparr>t_status := Task_Failed, t_scheduler_claim_token := None, t_scheduler_claimed_at := None,
              t_scheduler_last_error := Some (take_chars 500 error), t_updated_at := now\<rparr>)"
  unfolding fail_scheduler_task_def
  using assms by (simp_all add: find_by_id_guarded_update guarded_update_held)

lemma release_outcome:
  assumes "find_by_id db i = Some t" and "owns_claim i token t"
  shows "find_by_id (fst (release_scheduler_claim now i token db)) i =
      Some (t\<lparr>t_scheduler_claim_token := None, t_scheduler_claimed_at := None, t_updated_at := now\<rparr>)"
  unfolding release_scheduler_claim_def using assms by (simp add: find_by_id_guarded_update)

lemma retry_row:
  assumes "keys_ok db" and "find_by_id db i = Some t" and "owns_claim i token t"
  shows "snd (schedule_retry now i token retry_at error db)"
    and "find_by_id (fst (schedule_retry now i token retry_at error db)) i =
      Some (t\<lparr>t_scheduler_claim_token := None, t_scheduler_claimed_at := None,
              t_scheduler_retry_count := t_scheduler_retry_count t + 1,
              t_scheduler_retry_at := Some retry_at,
              t_scheduler_last_error := Some (take_chars 500 error),
              t_status := (if t_scheduler_retry_count t + 1 \<ge> t_scheduler_max_attempts t
                           then Task_Failed else t_status t),
              t_updated_at := now\<rparr>)"
  unfolding schedule_retry_def
  using assms by (simp_all add: find_by_id_guarded_update guarded_update_held)

text \<open>Error handling of the dispatch loop. When starting a run fails for a task the scheduler
  still holds, the claim is always given up, and the task ends as the error demands: a full
  Harness leaves it queued, an internal error, unavailability or conflict with attempts left
  schedules a retry (which fails the task only when the retry budget is used up), and any other
  error fails it permanently with the reason of that error class.\<close>

theorem dispatch_failure_outcome:
  assumes "keys_ok db" and "task_holder db (t_id task) = Some token" and "retry_policy_ok policy"
  shows "\<exists>db' out u. handle_dispatch_failure policy seed now task token error db = (db', out)
      \<and> find_by_id db' (t_id task) = Some u \<and> t_scheduler_claim_token u = None
      \<and> out = (if error = Conflict capacity_exhausted then Capacity
               else if is_retryable error \<and> t_scheduler_attempt task < t_scheduler_max_attempts task
               then RetryScheduled else PermanentFailure)
      \<and> (out = Capacity \<longrightarrow> t_status u = Task_Queued)
      \<and> (out = RetryScheduled \<longrightarrow>
           t_status u = (if t_scheduler_retry_count u < t_scheduler_max_attempts u
                         then Task_Queued else Task_Failed)
           \<and> (\<exists>d. t_scheduler_retry_at u = Some (now + seconds d) \<and> 1 \<le> d \<and> d \<le> sp_retry_max_seconds policy))
      \<and> (out = PermanentFailure \<longrightarrow> t_status u = Task_Failed
           \<and> t_scheduler_last_error u = Some (take_chars 500 (dispatch_failure_reason error)))"
proof -
  obtain t where t: "find_by_id db (t_id task) = Some t" "owns_claim (t_id task) token t"
    using held_row [OF assms(1,2)] .
  then have queued: "t_status t = Task_Queued" by (simp add: owns_claim_def)
  obtain d where d: "retry_delay_with_seed (t_scheduler_attempt task) policy seed = Some d"
    "1 \<le> d" "d \<le> sp_retry_max_seconds policy"
    using retry_delay_range [OF assms(3)] .
  consider (capacity) "error = Conflict capacity_exhausted"
    | (retry) "error \<noteq> Conflict capacity_exhausted" "is_retryable error"
        "t_scheduler_attempt task < t_scheduler_max_attempts task"
    | (fail) "error \<noteq> Conflict capacity_exhausted"
        "\<not> (is_retryable error \<and> t_scheduler_attempt task < t_scheduler_max_attempts task)"
    by blast
  then show ?thesis
  proof cases
    case capacity
    with release_outcome [OF t, of now] queued show ?thesis
      by (simp add: handle_dispatch_failure_def)
  next
    case retry
    with retry_row [OF assms(1) t, of now "now + seconds d" "dispatch_failure_reason error"] d queued
    show ?thesis by (auto simp: handle_dispatch_failure_def Let_def)
  next
    case fail
    then have no_retry: "(is_retryable error \<and> t_scheduler_attempt task < t_scheduler_max_attempts task) = False"
      by simp
    from fail(1) fail_scheduler_task_outcome [OF assms(1) t, of now "dispatch_failure_reason error"]
    show ?thesis unfolding handle_dispatch_failure_def Let_def no_retry by simp
  qed
qed

theorem dispatch_failure_outcome_witness:
  "let task = example_task 1; error = Unavailable; now = 5; policy = default_policy;
       db = example_db [(example_task 1)\<lparr>t_scheduler_claim_token := Some 9\<rparr>] []
   in \<exists>db' out u. handle_dispatch_failure policy 7 now task 9 error db = (db', out)
      \<and> find_by_id db' (t_id task) = Some u \<and> t_scheduler_claim_token u = None
      \<and> out = (if error = Conflict capacity_exhausted then Capacity
               else if is_retryable error \<and> t_scheduler_attempt task < t_scheduler_max_attempts task
               then RetryScheduled else PermanentFailure)
      \<and> (out = Capacity \<longrightarrow> t_status u = Task_Queued)
      \<and> (out = RetryScheduled \<longrightarrow>
           t_status u = (if t_scheduler_retry_count u < t_scheduler_max_attempts u
                         then Task_Queued else Task_Failed)
           \<and> (\<exists>d. t_scheduler_retry_at u = Some (now + seconds d) \<and> 1 \<le> d \<and> d \<le> sp_retry_max_seconds policy))
      \<and> (out = PermanentFailure \<longrightarrow> t_status u = Task_Failed
           \<and> t_scheduler_last_error u = Some (take_chars 500 (dispatch_failure_reason error)))"
  unfolding Let_def
  by (rule dispatch_failure_outcome)
    (simp_all add: keys_ok_def example_defs task_holder_def find_by_id_def retry_policy_ok_def
       default_policy_def i64_max_def)

lemma release_gives_up: "keys_ok db \<Longrightarrow> task_holder (fst (release_scheduler_claim now i token db)) i \<noteq> Some token"
  using task_leases.release_done [of db i token now] task_leases.release_fenced [of db i token now]
  by (cases "task_holder db i = Some token") auto

lemma failure_gives_up:
  assumes "keys_ok db" and "retry_policy_ok policy"
  shows "task_holder (fst (handle_dispatch_failure policy seed now task token error db)) (t_id task)
           \<noteq> Some token"
proof (cases "task_holder db (t_id task) = Some token")
  case True
  obtain t where t: "find_by_id db (t_id task) = Some t" "owns_claim (t_id task) token t"
    using held_row [OF assms(1) True] .
  obtain d where "retry_delay_with_seed (t_scheduler_attempt task) policy seed = Some d"
    using retry_delay_range [OF assms(2)] by metis
  with release_gives_up [OF assms(1), of now "t_id task" token]
    retry_row [OF assms(1) t] fail_scheduler_task_outcome [OF assms(1) t]
  show ?thesis by (auto simp: handle_dispatch_failure_def Let_def task_holder_def)
next
  case False
  have "release_scheduler_claim now (t_id task) token db = (db, False)"
    "schedule_retry now (t_id task) token at reason db = (db, False)"
    "fail_scheduler_task now (t_id task) token reason db = (db, False)" for at reason
    using stale_token_refused [OF assms(1) False] by blast+
  with False show ?thesis by (simp add: handle_dispatch_failure_def Let_def split: option.splits)
qed

lemma renew_refused:
  assumes "keys_ok db" and "\<not> snd (renew_scheduler_claim now i token lease db)"
  shows "fst (renew_scheduler_claim now i token lease db) = db"
    and "task_holder db i \<noteq> Some token \<or> \<not> task_lease_live lease db now i"
proof -
  have id: "owns_claim i token t \<and> lease_fresh now lease t \<Longrightarrow> t_id t = i" for t
    by (simp add: owns_claim_def)
  have none: "\<not> (owns_claim i token t \<and> lease_fresh now lease t)" if "find_by_id db i = Some t" for t
    using assms(2) that unfolding renew_scheduler_claim_def
    by (subst (asm) snd_guarded_update [OF assms(1) id]) auto
  then show "fst (renew_scheduler_claim now i token lease db) = db"
    unfolding renew_scheduler_claim_def by (simp add: guarded_update_refused [OF assms(1) id none])
  from none show "task_holder db i \<noteq> Some token \<or> \<not> task_lease_live lease db now i"
    by (auto simp: task_holder_def task_lease_live_def owns_claim_def dest: find_by_id_id
        split: option.splits)
qed

lemma keys_ok_renew: "keys_ok db \<Longrightarrow> keys_ok (fst (renew_scheduler_claim now i token lease db))"
  unfolding renew_scheduler_claim_def by (rule keys_ok_guarded_update) simp_all

lemma keys_ok_dispatch_task:
  assumes "\<And>env key actor i tok x. keys_ok x \<Longrightarrow> keys_ok (fst (start env key actor i tok x))" and "keys_ok db"
  shows "keys_ok (fst (dispatch_task start task token db))"
  using assms by (simp add: dispatch_task_def split: option.splits)

text \<open>A tick leaks no live claim: whatever starting the run does to the database (as long as keys
  stay unique), after one iteration of the loop that did not start the run the task is no longer
  held under the tick's token, or its lease had already run out when the claim was to be renewed.\<close>

theorem iteration_leaks_no_live_claim:
  assumes "keys_ok db" and "retry_policy_ok policy"
    and "\<And>env key actor i tok x. keys_ok x \<Longrightarrow> keys_ok (fst (start env key actor i tok x))"
    and "process_claimed start policy seed clock token claimed db = (db', out)" and "out \<noteq> Started"
  shows "task_holder db' (t_id claimed) \<noteq> Some token
       \<or> \<not> task_lease_live (sp_claim_lease_seconds policy) db' (fst clock) (t_id claimed)"
proof (cases "find_task_by_id (scheduler_actor claimed) db (t_id claimed)")
  case None
  with assms(4) release_gives_up [OF assms(1)] show ?thesis by (auto simp: process_claimed_def)
next
  case (Some task)
  then have id: "t_id task = t_id claimed" using find_task_by_id_Some by blast
  let ?lease = "sp_claim_lease_seconds policy"
  let ?r = "renew_scheduler_claim (fst clock) (t_id claimed) token ?lease db"
  show ?thesis
  proof (cases "snd ?r")
    case False
    with Some id assms(4) have "db' = fst ?r" by (simp add: process_claimed_def Let_def)
    with renew_refused [OF assms(1) False] show ?thesis by simp
  next
    case True
    obtain db1 res where d: "dispatch_task start task token (fst ?r) = (db1, res)" by fastforce
    with Some id assms(4,5) True obtain e where "res = Inl e"
      "db' = fst (handle_dispatch_failure policy seed (snd clock) task token e db1)"
      by (auto simp: process_claimed_def Let_def split: sum.splits)
    moreover have "keys_ok db1"
      using keys_ok_dispatch_task [where start = start and task = task and token = token,
          OF assms(3) keys_ok_renew [OF assms(1)]] d by (metis fst_conv)
    ultimately show ?thesis
      using failure_gives_up [OF _ assms(2), of db1 seed "snd clock" task token e] id by simp
  qed
qed

theorem iteration_leaks_no_live_claim_witness:
  "let db = example_db [(example_task 1)\<lparr>t_scheduler_claim_token := Some 9,
              t_scheduler_claimed_at := Some 0\<rparr>] [];
       start = (\<lambda>env key actor i tok x. (x, Inl Unavailable));
       r = process_claimed start default_policy 3 (5, 6) 9 (example_task 1) db
   in snd r = RetryScheduled
    \<and> (task_holder (fst r) 1 \<noteq> Some 9
       \<or> \<not> task_lease_live (sp_claim_lease_seconds default_policy) (fst r) 5 1)"
proof -
  let ?db = "example_db [(example_task 1)\<lparr>t_scheduler_claim_token := Some 9,
              t_scheduler_claimed_at := Some 0\<rparr>] []"
  let ?start = "\<lambda>env key actor i tok x. (x, Inl Unavailable)"
  let ?r = "process_claimed ?start default_policy 3 (5, 6) 9 (example_task 1) ?db"
  have out: "snd ?r = RetryScheduled" by code_simp
  have "keys_ok ?db" by (simp add: keys_ok_def example_defs)
  moreover have "retry_policy_ok default_policy" by code_simp
  ultimately have "task_holder (fst ?r) (t_id (example_task 1)) \<noteq> Some 9
       \<or> \<not> task_lease_live (sp_claim_lease_seconds default_policy) (fst ?r) (fst (5, 6 :: timestamp)) (t_id (example_task 1))"
    by (rule iteration_leaks_no_live_claim [where start = ?start and out = "snd ?r" and seed = 3])
      (simp_all add: out prod_eq_iff)
  then show ?thesis unfolding Let_def using out by (simp add: example_task_def)
qed

section \<open>What a tick works on\<close>

lemma process_batch_ids:
  "map fst (snd (process_batch start policy seed clock token ts db)) = map t_id ts"
proof (induction ts arbitrary: db)
  case (Cons t ts)
  obtain db1 out where "process_claimed start policy (seed (t_id t)) (clock (t_id t)) token t db = (db1, out)"
    by fastforce
  with Cons.IH [of db1] show ?case by (simp add: split_beta)
qed simp

lemma length_claimed:
  assumes "keys_ok db"
  shows "distinct (map t_id (snd (claim_scheduler_tasks now locked token limit lease aging db)))"
    and "length (snd (claim_scheduler_tasks now locked token limit lease aging db)) \<le> nat limit"
proof -
  let ?claimed = "snd (claim_scheduler_tasks now locked token limit lease aging db)"
  have "distinct (map t_id (tasks (fst (claim_scheduler_tasks now locked token limit lease aging db))))"
    using assms by (simp add: fst_claim keys_ok_def update_where_keeps)
  then show dist: "distinct (map t_id ?claimed)"
    unfolding snd_claim rows_where_def by (simp add: distinct_map_filter)
  have "length ?claimed = card (t_id ` set ?claimed)"
    using dist by (metis distinct_card length_map list.set_map)
  also have "\<dots> \<le> length (claim_candidates db now locked limit lease aging)"
    unfolding claimed_ids by (metis card_length length_map list.set_map)
  also have "\<dots> \<le> nat limit" by (rule length_claim_candidates)
  finally show "length ?claimed \<le> nat limit" .
qed

text \<open>A row that propagation and reconciliation leave neither failed nor skipped is the row it was
  before them, but for a stray claim.\<close>

lemma prepared_row_source:
  assumes "keys_ok db" and "reconcile_task_dependencies traces now db = Inr (db1, n)"
    and "find_by_id (fst (reconcile_scheduler_state now it rt running timeout db1)) i = Some u"
    and "t_status u \<notin> {Task_Failed, Task_Skipped}"
  obtains t where "find_by_id db i = Some t" "t_status t = t_status u"
    "t_organization_id t = t_organization_id u" "t_status u = Task_Queued \<longrightarrow> u = t"
proof -
  obtain t1 where t1: "find_by_id db1 i = Some t1"
    "u = t1 \<or> stray_claim t1 \<and> u = t1\<lparr>t_scheduler_claim_token := None, t_scheduler_claimed_at := None, t_updated_at := now\<rparr>"
    using reconcile_row_source [OF assms(3)] assms(4) by blast
  have "tasks_advance db db1" using pass_outcome [OF assms(1), of traces now] assms(2) by auto
  from pass_row [OF this assms(1) t1(1)] obtain t where t: "find_by_id db i = Some t" "row_advances t t1" .
  have same: "t_status t1 = t_status u" "t_organization_id t1 = t_organization_id u" using t1(2) by auto
  with t(2) assms(4) have eq: "t1 = t"
    unfolding row_advances_def advances_iff by auto
  with that t(1) t1(2) same show thesis by (auto simp: stray_claim_def)
qed

lemma prepared_row_exists:
  assumes "keys_ok db" and "reconcile_task_dependencies traces now db = Inr (db1, n)"
    and "p \<in> set (tasks db)"
  shows "\<exists>u. find_by_id (fst (reconcile_scheduler_state now it rt running timeout db1)) (t_id p) = Some u
     \<and> t_organization_id u = t_organization_id p"
proof -
  let ?db = "fst (reconcile_scheduler_state now it rt running timeout db1)"
  let ?key = "\<lambda>t. (t_id t, t_organization_id t)"
  have pass: "runs db1 = runs db" "tasks_advance db db1"
    using pass_outcome [OF assms(1), of traces now] assms(2) by auto
  have "map ?key (tasks ?db) = map ?key (tasks db)"
    using tasks_advance_keys [OF pass(2)] by (simp only: reconcile_keys)
  from map_eq_mem [OF this assms(3)] obtain u where "u \<in> set (tasks ?db)" "?key u = ?key p" .
  moreover have "keys_ok ?db" by (rule keys_ok_reconcile [OF keys_ok_advance [OF assms(1) pass(2,1)]])
  ultimately show ?thesis by (auto simp: find_by_id_mem)
qed

lemma ready_before_tick:
  assumes "keys_ok db" and "reconcile_task_dependencies traces now db = Inr (db1, n)"
    and "i \<in> t_id ` set (claim_candidates (fst (reconcile_scheduler_state now it rt running timeout db1))
            now locked limit lease aging)"
  shows "i \<notin> locked
     \<and> (\<exists>t. find_by_id db i = Some t \<and> t_status t = Task_Queued \<and> t_archived_at t = None
          \<and> within_attempts t
          \<and> (\<forall>d \<in> set (dependencies db). \<forall>p \<in> set (tasks db).
               d_task_id d = i \<and> d_organization_id d = t_organization_id t
               \<and> t_id p = d_prerequisite_task_id d \<and> t_organization_id p = d_organization_id d \<longrightarrow>
               t_status p = Task_Succeeded))"
proof -
  let ?db = "fst (reconcile_scheduler_state now it rt running timeout db1)"
  have pass: "runs db1 = runs db" "tasks_advance db db1"
    using pass_outcome [OF assms(1), of traces now] assms(2) by auto
  have keys: "keys_ok ?db" by (rule keys_ok_reconcile [OF keys_ok_advance [OF assms(1) pass(2,1)]])
  have deps: "dependencies ?db = dependencies db"
    by (simp add: dependencies_reconcile pass_dependencies [OF assms(2)])
  from candidate_row [OF keys assms(3)] obtain u where u: "find_by_id ?db i = Some u" "claimable ?db now lease u"
    by blast
  then have "t_status u = Task_Queued" by (simp add: claimable_def)
  with prepared_row_source [OF assms(1,2) u(1)] obtain t where t: "find_by_id db i = Some t" "u = t" by auto
  have id: "t_id t = i" using t(1) by (rule find_by_id_id)
  have "t_status p = Task_Succeeded"
    if d: "d \<in> set (dependencies db)" "d_task_id d = i" "d_organization_id d = t_organization_id t"
      and p: "p \<in> set (tasks db)" "t_id p = d_prerequisite_task_id d" "t_organization_id p = d_organization_id d"
    for d p
  proof -
    obtain q where q: "find_by_id ?db (t_id p) = Some q" "t_organization_id q = t_organization_id p"
      using prepared_row_exists [OF assms(1,2) p(1)] by blast
    then have "q \<in> set (tasks ?db)" "t_id q = t_id p" using keys by (simp_all add: find_by_id_mem)
    with u(2) t(2) d p(2,3) q(2) deps id have "t_status q = Task_Succeeded"
      unfolding claimable_def dependency_eligible_def list_ex_iff by metis
    with prepared_row_source [OF assms(1,2) q(1)] obtain p'
      where "find_by_id db (t_id p) = Some p'" "t_status p' = Task_Succeeded" by auto
    with assms(1) p(1) show ?thesis by (metis find_by_id_mem option.inject)
  qed
  moreover have "i \<notin> locked" using assms(3) claim_candidates_claimable by blast
  ultimately show ?thesis using t u(2) by (auto simp: claimable_def)
qed

end
