(* ===== verification/Config.thy ===== *)
theory Config
  imports Scheduler
begin

text \<open>
  \<^verbatim>\<open>backend/src/config.rs\<close> and the pool settings of \<^verbatim>\<open>backend/src/db.rs\<close>: reading the process
  environment into the application configuration, with the production safety checks.
  \<^verbatim>\<open>AppConfig::from_values\<close> is one long function; here each consecutive group of its statements
  is one definition and the record \<open>app_config\<close> holds one sub-record per group. An error is the
  name of the offending variable. Parsing header values and networks, Base64 and the digest of
  the development key belong to other crates and are parameters.
\<close>

section \<open>Reading numbers and lists\<close>

text \<open>\<^verbatim>\<open>str::parse\<close> for an integer type with range \<open>lo..hi\<close>: an optional sign, of which a minus only
  for a signed type, then at least one digit.\<close>

definition parse_digits :: "rstr \<Rightarrow> nat option" where
  "parse_digits s = (if s = [] \<or> list_ex (\<lambda>c. \<not> is_ascii_digit c) s then None else Some (read_digits 0 s))"

definition in_range :: "int \<Rightarrow> int \<Rightarrow> int \<Rightarrow> int option" where
  "in_range lo hi i = (if lo \<le> i \<and> i \<le> hi then Some i else None)"

definition parse_int :: "int \<Rightarrow> int \<Rightarrow> rstr \<Rightarrow> int option" where
  "parse_int lo hi s =
     (case s of
        [] \<Rightarrow> None
      | c # cs \<Rightarrow>
        if c = CHR ''-'' \<and> lo < 0
        then Option.bind (parse_digits cs) (\<lambda>n. in_range lo hi (- int n))
        else if c = CHR ''+'' then Option.bind (parse_digits cs) (\<lambda>n. in_range lo hi (int n))
        else Option.bind (parse_digits s) (\<lambda>n. in_range lo hi (int n)))"

definition i32_max :: int where "i32_max = 2147483647"
definition u32_max :: int where "u32_max = 4294967295"
definition u64_max :: int where "u64_max = 18446744073709551615"

abbreviation parse_i64 :: "rstr \<Rightarrow> int option" where "parse_i64 \<equiv> parse_int i64_min i64_max"

text \<open>An absent value is the default; a value that does not parse or fails the test is an error.\<close>

definition read_value :: "(rstr \<Rightarrow> int option) \<Rightarrow> (int \<Rightarrow> bool) \<Rightarrow> rstr \<Rightarrow> rstr option \<Rightarrow> int \<Rightarrow> rstr + int" where
  "read_value parse ok name value dflt =
     (case (case value of None \<Rightarrow> Some dflt | Some s \<Rightarrow> parse s) of
        None \<Rightarrow> Inl name
      | Some v \<Rightarrow> if ok v then Inr v else Inl name)"

definition positive_i64 :: "rstr \<Rightarrow> rstr option \<Rightarrow> int \<Rightarrow> rstr + int" where
  "positive_i64 = read_value parse_i64 (\<lambda>v. 0 < v)"

definition bounded_i64 :: "rstr \<Rightarrow> rstr option \<Rightarrow> int \<Rightarrow> int \<Rightarrow> int \<Rightarrow> rstr + int" where
  "bounded_i64 name value dflt minimum maximum =
     read_value parse_i64 (\<lambda>v. minimum \<le> v \<and> v \<le> maximum) name value dflt"

definition positive_i32 :: "rstr \<Rightarrow> rstr option \<Rightarrow> int \<Rightarrow> rstr + int" where
  "positive_i32 = read_value (parse_int (- i32_max - 1) i32_max) (\<lambda>v. 0 < v)"

text \<open>\<^verbatim>\<open>usize\<close> on the 64-bit targets of the service.\<close>

definition positive_usize :: "rstr \<Rightarrow> rstr option \<Rightarrow> int \<Rightarrow> rstr + int" where
  "positive_usize = read_value (parse_int 0 u64_max) (\<lambda>v. v \<noteq> 0)"

definition positive_u32 :: "rstr \<Rightarrow> rstr option \<Rightarrow> int \<Rightarrow> rstr + int" where
  "positive_u32 = read_value (parse_int 0 u32_max) (\<lambda>v. v \<noteq> 0)"

definition nonnegative_u32 :: "rstr \<Rightarrow> rstr option \<Rightarrow> int \<Rightarrow> rstr + int" where
  "nonnegative_u32 = read_value (parse_int 0 u32_max) (\<lambda>v. True)"

definition positive_u64 :: "rstr \<Rightarrow> rstr option \<Rightarrow> int \<Rightarrow> rstr + int" where
  "positive_u64 = read_value (parse_int 0 u64_max) (\<lambda>v. v \<noteq> 0)"

definition parse_bool :: "rstr \<Rightarrow> rstr option \<Rightarrow> bool \<Rightarrow> rstr + bool" where
  "parse_bool name value dflt =
     (case value of None \<Rightarrow> Inr dflt
      | Some v \<Rightarrow> if v \<in> {''true'', ''1''} then Inr True
                  else if v \<in> {''false'', ''0''} then Inr False else Inl name)"

text \<open>\<^verbatim>\<open>Iterator::collect\<close> into a \<^verbatim>\<open>Result\<close>: the first error, or all values.\<close>

fun collect_results :: "('a \<Rightarrow> 'e + 'b) \<Rightarrow> 'a list \<Rightarrow> 'e + 'b list" where
  "collect_results f [] = Inr []"
| "collect_results f (x # xs) =
     and_then (f x) (\<lambda>y. and_then (collect_results f xs) (\<lambda>ys. Inr (y # ys)))"

definition comma_items :: "rstr option \<Rightarrow> rstr list" where
  "comma_items value =
     filter (\<lambda>s. s \<noteq> []) (map trim (split_on (CHR '','') (case value of None \<Rightarrow> [] | Some s \<Rightarrow> s)))"

definition parse_origins :: "(rstr \<Rightarrow> 'h option) \<Rightarrow> rstr option \<Rightarrow> rstr + 'h list" where
  "parse_origins parse_header value =
     collect_results (\<lambda>origin. if origin = ''*'' then Inl ''CORS_ALLOWED_ORIGINS''
         else (case parse_header origin of None \<Rightarrow> Inl ''CORS_ALLOWED_ORIGINS'' | Some h \<Rightarrow> Inr h))
       (comma_items value)"

definition parse_trusted_proxy_cidrs :: "(rstr \<Rightarrow> 'net option) \<Rightarrow> rstr option \<Rightarrow> rstr + 'net list" where
  "parse_trusted_proxy_cidrs parse_net value =
     collect_results (\<lambda>cidr. case parse_net cidr of None \<Rightarrow> Inl ''TRUSTED_PROXY_CIDRS'' | Some n \<Rightarrow> Inr n)
       (comma_items value)"

definition non_empty_optional :: "rstr option \<Rightarrow> rstr \<Rightarrow> rstr + rstr option" where
  "non_empty_optional value name =
     (case value of None \<Rightarrow> Inr None | Some v \<Rightarrow> if trim v = [] then Inl name else Inr (Some v))"

section \<open>The environment and the configuration\<close>

record config_values =
  v_database_url :: "rstr option"
  v_db_max_connections :: "rstr option"
  v_db_min_connections :: "rstr option"
  v_db_acquire_timeout_secs :: "rstr option"
  v_db_connect_timeout_secs :: "rstr option"
  v_db_idle_timeout_secs :: "rstr option"
  v_db_max_lifetime_secs :: "rstr option"
  v_db_statement_timeout_ms :: "rstr option"
  v_auto_migrate :: "rstr option"
  v_port :: "rstr option"
  v_session_ttl_secs :: "rstr option"
  v_session_idle_timeout_secs :: "rstr option"
  v_persistent_session_ttl_secs :: "rstr option"
  v_persistent_session_idle_timeout_secs :: "rstr option"
  v_max_sessions_per_user :: "rstr option"
  v_login_max_failures :: "rstr option"
  v_login_ip_max_failures :: "rstr option"
  v_login_account_ip_max_failures :: "rstr option"
  v_login_failure_window_secs :: "rstr option"
  v_login_lockout_secs :: "rstr option"
  v_trusted_proxy_cidrs :: "rstr option"
  v_app_env :: "rstr option"
  v_cors_allowed_origins :: "rstr option"
  v_log_format :: "rstr option"
  v_service_name :: "rstr option"
  v_mfa_encryption_key :: "rstr option"
  v_webauthn_rp_id :: "rstr option"
  v_webauthn_rp_origin :: "rstr option"
  v_webauthn_rp_name :: "rstr option"
  v_harness_command :: "rstr option"
  v_harness_max_concurrency :: "rstr option"
  v_run_max_duration_secs :: "rstr option"
  v_run_workspace_root :: "rstr option"
  v_run_graceful_interrupt_secs :: "rstr option"
  v_scheduler_poll_secs :: "rstr option"
  v_scheduler_claim_lease_secs :: "rstr option"
  v_scheduler_retry_base_secs :: "rstr option"
  v_scheduler_retry_max_secs :: "rstr option"
  v_scheduler_retry_jitter_percent :: "rstr option"
  v_scheduler_stall_secs :: "rstr option"
  v_scheduler_priority_aging_secs :: "rstr option"
  v_workflow_reload_secs :: "rstr option"
  v_workflow_reload_jitter_percent :: "rstr option"
  v_web_push_public_key :: "rstr option"
  v_web_push_private_key :: "rstr option"
  v_web_push_subject :: "rstr option"

datatype app_environment = Development | Test | Production

datatype log_format = Pretty | Json

record pool_config =
  max_connections :: int
  min_connections :: int
  acquire_timeout_secs :: int
  connect_timeout_secs :: int
  idle_timeout_secs :: int
  max_lifetime_secs :: int
  statement_timeout_ms :: int

record base_config =
  database_url :: rstr
  environment :: app_environment
  database_pool :: pool_config
  auto_migrate :: bool
  port :: int

record 'net session_config =
  session_ttl_secs :: int
  session_idle_timeout_secs :: int
  persistent_session_ttl_secs :: int
  persistent_session_idle_timeout_secs :: int
  max_sessions_per_user :: int
  login_max_failures :: int
  login_ip_max_failures :: int
  login_account_ip_max_failures :: int
  login_failure_window_secs :: int
  login_lockout_secs :: int
  trusted_proxy_cidrs :: "'net list"

record 'h web_config =
  allowed_origins :: "'h list"
  log_format :: log_format
  service_name :: rstr
  mfa_encryption_key :: rstr
  webauthn_rp_id :: rstr
  webauthn_rp_origin :: rstr
  webauthn_rp_name :: rstr

record run_config =
  harness_command :: rstr
  harness_max_concurrency :: int
  run_max_duration_secs :: int
  run_graceful_interrupt_secs :: int

record scheduler_config =
  scheduler_poll_secs :: int
  scheduler_claim_lease_secs :: int
  scheduler_retry_base_secs :: int
  scheduler_retry_max_secs :: int
  scheduler_retry_jitter_percent :: int
  scheduler_stall_secs :: int
  scheduler_priority_aging_secs :: int
  workflow_reload_secs :: int
  workflow_reload_jitter_percent :: int

record push_config =
  run_workspace_root :: rstr
  web_push_public_key :: "rstr option"
  web_push_private_key :: "rstr option"
  web_push_subject :: "rstr option"

record ('net, 'h) app_config =
  base_part :: base_config
  session_part :: "'net session_config"
  web_part :: "'h web_config"
  run_part :: run_config
  scheduler_part :: scheduler_config
  push_part :: push_config

definition read_environment :: "rstr option \<Rightarrow> rstr + app_environment" where
  "read_environment value =
     (let v = (case value of None \<Rightarrow> ''development'' | Some v \<Rightarrow> v)
      in if v \<in> {''development'', ''dev''} then Inr Development
         else if v = ''test'' then Inr Test
         else if v \<in> {''production'', ''prod''} then Inr Production
         else Inl ''APP_ENV'')"

definition read_pool :: "config_values \<Rightarrow> rstr + pool_config" where
  "read_pool v =
     and_then (positive_u32 ''DB_MAX_CONNECTIONS'' (v_db_max_connections v) 10) (\<lambda>maxc.
     and_then (nonnegative_u32 ''DB_MIN_CONNECTIONS'' (v_db_min_connections v) 1) (\<lambda>minc.
     and_then (positive_u64 ''DB_ACQUIRE_TIMEOUT_SECS'' (v_db_acquire_timeout_secs v) 5) (\<lambda>acquire.
     and_then (positive_u64 ''DB_CONNECT_TIMEOUT_SECS'' (v_db_connect_timeout_secs v) 10) (\<lambda>connect.
     and_then (positive_u64 ''DB_IDLE_TIMEOUT_SECS'' (v_db_idle_timeout_secs v) 600) (\<lambda>idle.
     and_then (positive_u64 ''DB_MAX_LIFETIME_SECS'' (v_db_max_lifetime_secs v) 1800) (\<lambda>life.
     and_then (positive_u64 ''DB_STATEMENT_TIMEOUT_MS'' (v_db_statement_timeout_ms v) 30000) (\<lambda>stmt.
       if minc > maxc then Inl ''DB_MIN_CONNECTIONS''
       else Inr \<lparr>max_connections = maxc, min_connections = minc, acquire_timeout_secs = acquire,
                 connect_timeout_secs = connect, idle_timeout_secs = idle, max_lifetime_secs = life,
                 statement_timeout_ms = stmt\<rparr>)))))))"

definition read_base :: "config_values \<Rightarrow> rstr + base_config" where
  "read_base v =
     (case v_database_url v of None \<Rightarrow> Inl ''DATABASE_URL''
      | Some url \<Rightarrow>
        and_then (read_environment (v_app_env v)) (\<lambda>env.
        and_then (read_pool v) (\<lambda>pool.
        and_then (parse_bool ''AUTO_MIGRATE'' (v_auto_migrate v) (env \<noteq> Production)) (\<lambda>migrate.
          (case parse_int 0 65535 (case v_port v of None \<Rightarrow> ''8080'' | Some p \<Rightarrow> p) of
             None \<Rightarrow> Inl ''PORT''
           | Some p \<Rightarrow> if p = 0 then Inl ''PORT''
               else Inr \<lparr>database_url = url, environment = env, database_pool = pool,
                         auto_migrate = migrate, port = p\<rparr>)))))"

definition read_sessions :: "(rstr \<Rightarrow> 'net option) \<Rightarrow> config_values \<Rightarrow> rstr + 'net session_config" where
  "read_sessions parse_net v =
     and_then (positive_i64 ''SESSION_TTL_SECS'' (v_session_ttl_secs v) 28800) (\<lambda>ttl.
     and_then (positive_i64 ''SESSION_IDLE_TIMEOUT_SECS'' (v_session_idle_timeout_secs v) 1800) (\<lambda>idle.
     and_then (positive_i64 ''PERSISTENT_SESSION_TTL_SECS'' (v_persistent_session_ttl_secs v) 2592000) (\<lambda>pttl.
     and_then (positive_i64 ''PERSISTENT_SESSION_IDLE_TIMEOUT_SECS''
                 (v_persistent_session_idle_timeout_secs v) 604800) (\<lambda>pidle.
     and_then (positive_i64 ''MAX_SESSIONS_PER_USER'' (v_max_sessions_per_user v) 10) (\<lambda>sessions.
     and_then (positive_i32 ''LOGIN_MAX_FAILURES'' (v_login_max_failures v) 5) (\<lambda>failures.
     and_then (positive_i32 ''LOGIN_IP_MAX_FAILURES'' (v_login_ip_max_failures v) 50) (\<lambda>ip_failures.
     and_then (positive_i32 ''LOGIN_ACCOUNT_IP_MAX_FAILURES'' (v_login_account_ip_max_failures v) 5) (\<lambda>aip_failures.
     and_then (positive_i64 ''LOGIN_FAILURE_WINDOW_SECS'' (v_login_failure_window_secs v) 900) (\<lambda>window.
     and_then (positive_i64 ''LOGIN_LOCKOUT_SECS'' (v_login_lockout_secs v) 900) (\<lambda>lockout.
     and_then (parse_trusted_proxy_cidrs parse_net (v_trusted_proxy_cidrs v)) (\<lambda>cidrs.
       if idle > ttl then Inl ''SESSION_IDLE_TIMEOUT_SECS''
       else if pidle > pttl then Inl ''PERSISTENT_SESSION_IDLE_TIMEOUT_SECS''
       else Inr \<lparr>session_ttl_secs = ttl, session_idle_timeout_secs = idle,
                 persistent_session_ttl_secs = pttl, persistent_session_idle_timeout_secs = pidle,
                 max_sessions_per_user = sessions, login_max_failures = failures,
                 login_ip_max_failures = ip_failures, login_account_ip_max_failures = aip_failures,
                 login_failure_window_secs = window, login_lockout_secs = lockout,
                 trusted_proxy_cidrs = cidrs\<rparr>)))))))))))"

definition valid_service_name :: "rstr \<Rightarrow> bool" where
  "valid_service_name s =
     (s \<noteq> [] \<and> length s \<le> 64
      \<and> list_all (\<lambda>c. is_ascii_alphanumeric c \<or> c \<in> {CHR ''-'', CHR ''_'', CHR ''.''}) s)"

definition read_log_format :: "app_environment \<Rightarrow> rstr option \<Rightarrow> rstr + log_format" where
  "read_log_format env value =
     (case value of
        None \<Rightarrow> Inr (if env = Production then Json else Pretty)
      | Some v \<Rightarrow> if v = ''pretty'' then Inr Pretty else if v = ''json'' then Inr Json
                  else Inl ''LOG_FORMAT'')"

text \<open>\<open>decode64\<close> is Base64 decoding, \<open>dev_key\<close> the SHA-256 digest that replaces an absent key outside
  production.\<close>

definition read_mfa_key ::
  "(rstr \<Rightarrow> rstr option) \<Rightarrow> rstr \<Rightarrow> app_environment \<Rightarrow> rstr option \<Rightarrow> rstr + rstr" where
  "read_mfa_key decode64 dev_key env value =
     (case (case value of Some v \<Rightarrow> if v = [] then None else Some v | None \<Rightarrow> None) of
        Some v \<Rightarrow> (case decode64 v of None \<Rightarrow> Inl ''MFA_ENCRYPTION_KEY''
                   | Some k \<Rightarrow> if length k \<noteq> 32 then Inl ''MFA_ENCRYPTION_KEY'' else Inr k)
      | None \<Rightarrow> if env = Production then Inl ''MFA_ENCRYPTION_KEY''
                else if length dev_key \<noteq> 32 then Inl ''MFA_ENCRYPTION_KEY'' else Inr dev_key)"

definition value_or :: "rstr \<Rightarrow> rstr option \<Rightarrow> rstr" where
  "value_or dflt value = (case value of None \<Rightarrow> dflt | Some v \<Rightarrow> v)"

definition read_web ::
  "(rstr \<Rightarrow> 'h option) \<Rightarrow> (rstr \<Rightarrow> rstr option) \<Rightarrow> rstr \<Rightarrow> app_environment \<Rightarrow> config_values \<Rightarrow> rstr + 'h web_config" where
  "read_web parse_header decode64 dev_key env v =
     and_then (parse_origins parse_header (v_cors_allowed_origins v)) (\<lambda>origins.
       if env = Production \<and> origins = [] then Inl ''CORS_ALLOWED_ORIGINS'' else
     and_then (read_log_format env (v_log_format v)) (\<lambda>fmt.
       let name = value_or ''arc-admin-backend'' (v_service_name v) in
       if \<not> valid_service_name name then Inl ''SERVICE_NAME'' else
     and_then (read_mfa_key decode64 dev_key env (v_mfa_encryption_key v)) (\<lambda>key.
       let rp_id = value_or ''localhost'' (v_webauthn_rp_id v);
           rp_origin = value_or ''http://localhost:4200'' (v_webauthn_rp_origin v);
           rp_name = value_or ''Arc Admin'' (v_webauthn_rp_name v)
       in if rp_id = [] \<or> rp_origin = [] \<or> rp_name = [] then Inl ''WEBAUTHN_RP''
          else Inr \<lparr>allowed_origins = origins, log_format = fmt, service_name = name,
                    mfa_encryption_key = key, webauthn_rp_id = rp_id, webauthn_rp_origin = rp_origin,
                    webauthn_rp_name = rp_name\<rparr>)))"

definition read_run :: "config_values \<Rightarrow> rstr + run_config" where
  "read_run v =
     (let command = value_or ''codex'' (v_harness_command v) in
      if command = [] \<or> length command > 256 \<or> CHR ''/'' \<in> set command
      then Inl ''DEVRAIL_HARNESS_COMMAND'' else
      and_then (positive_usize ''DEVRAIL_HARNESS_MAX_CONCURRENCY'' (v_harness_max_concurrency v) 2) (\<lambda>conc.
      and_then (positive_i64 ''DEVRAIL_RUN_MAX_DURATION_SECS'' (v_run_max_duration_secs v) 3600) (\<lambda>dur.
      and_then (positive_i64 ''DEVRAIL_RUN_GRACEFUL_INTERRUPT_SECS'' (v_run_graceful_interrupt_secs v) 10) (\<lambda>grace.
        Inr \<lparr>harness_command = command, harness_max_concurrency = conc, run_max_duration_secs = dur,
             run_graceful_interrupt_secs = grace\<rparr>))))"

definition read_scheduler :: "config_values \<Rightarrow> rstr + scheduler_config" where
  "read_scheduler v =
     and_then (bounded_i64 ''DEVRAIL_SCHEDULER_POLL_SECS'' (v_scheduler_poll_secs v) 10 1 3600) (\<lambda>poll.
     and_then (bounded_i64 ''DEVRAIL_SCHEDULER_CLAIM_LEASE_SECS'' (v_scheduler_claim_lease_secs v) 60 2 86400) (\<lambda>lease.
     and_then (bounded_i64 ''DEVRAIL_SCHEDULER_RETRY_BASE_SECS'' (v_scheduler_retry_base_secs v) 1 1 86400) (\<lambda>base.
     and_then (bounded_i64 ''DEVRAIL_SCHEDULER_RETRY_MAX_SECS'' (v_scheduler_retry_max_secs v) 300 1 604800) (\<lambda>maxs.
     and_then (bounded_i64 ''DEVRAIL_SCHEDULER_RETRY_JITTER_PERCENT''
                 (v_scheduler_retry_jitter_percent v) 20 0 100) (\<lambda>jitter.
     and_then (bounded_i64 ''DEVRAIL_SCHEDULER_STALL_SECS'' (v_scheduler_stall_secs v) 120 2 86400) (\<lambda>stall.
     and_then (bounded_i64 ''DEVRAIL_SCHEDULER_PRIORITY_AGING_SECS''
                 (v_scheduler_priority_aging_secs v) 3600 60 604800) (\<lambda>aging.
     and_then (bounded_i64 ''DEVRAIL_WORKFLOW_RELOAD_SECS'' (v_workflow_reload_secs v) 15 1 3600) (\<lambda>reload.
     and_then (bounded_i64 ''DEVRAIL_WORKFLOW_RELOAD_JITTER_PERCENT''
                 (v_workflow_reload_jitter_percent v) 20 0 100) (\<lambda>rjitter.
       if lease \<le> poll then Inl ''DEVRAIL_SCHEDULER_CLAIM_LEASE_SECS''
       else if maxs < base then Inl ''DEVRAIL_SCHEDULER_RETRY_MAX_SECS''
       else if stall \<le> poll then Inl ''DEVRAIL_SCHEDULER_STALL_SECS''
       else Inr \<lparr>scheduler_poll_secs = poll, scheduler_claim_lease_secs = lease,
                 scheduler_retry_base_secs = base, scheduler_retry_max_secs = maxs,
                 scheduler_retry_jitter_percent = jitter, scheduler_stall_secs = stall,
                 scheduler_priority_aging_secs = aging, workflow_reload_secs = reload,
                 workflow_reload_jitter_percent = rjitter\<rparr>)))))))))"

definition read_push :: "config_values \<Rightarrow> rstr + push_config" where
  "read_push v =
     (let root = value_or ''/tmp/devrail-workspaces'' (v_run_workspace_root v) in
      if \<not> starts_with ''/'' root \<or> contains_str ''..'' root \<or> length root > 512
      then Inl ''DEVRAIL_RUN_WORKSPACE_ROOT'' else
      and_then (non_empty_optional (v_web_push_public_key v) ''WEB_PUSH_VAPID_PUBLIC_KEY'') (\<lambda>pub.
      and_then (non_empty_optional (v_web_push_private_key v) ''WEB_PUSH_VAPID_PRIVATE_KEY'') (\<lambda>priv.
      and_then (non_empty_optional (v_web_push_subject v) ''WEB_PUSH_SUBJECT'') (\<lambda>subject.
        if (case subject of None \<Rightarrow> False
            | Some s \<Rightarrow> \<not> starts_with ''mailto:'' s \<and> \<not> starts_with ''https://'' s)
        then Inl ''WEB_PUSH_SUBJECT''
        else Inr \<lparr>run_workspace_root = root, web_push_public_key = pub, web_push_private_key = priv,
                  web_push_subject = subject\<rparr>))))"

definition from_values ::
  "(rstr \<Rightarrow> 'net option) \<Rightarrow> (rstr \<Rightarrow> 'h option) \<Rightarrow> (rstr \<Rightarrow> rstr option) \<Rightarrow> rstr \<Rightarrow> config_values \<Rightarrow>
   rstr + ('net, 'h) app_config" where
  "from_values parse_net parse_header decode64 dev_key v =
     and_then (read_base v) (\<lambda>base.
     and_then (read_sessions parse_net v) (\<lambda>sessions.
     and_then (read_web parse_header decode64 dev_key (environment base) v) (\<lambda>web.
     and_then (read_run v) (\<lambda>run.
     and_then (read_scheduler v) (\<lambda>scheduler.
     and_then (read_push v) (\<lambda>push.
       Inr \<lparr>base_part = base, session_part = sessions, web_part = web, run_part = run,
            scheduler_part = scheduler, push_part = push\<rparr>))))))"

text \<open>The policy \<^verbatim>\<open>main.rs\<close> hands to the scheduler.\<close>

definition policy_of_config :: "('net, 'h) app_config \<Rightarrow> scheduler_policy" where
  "policy_of_config c =
     (let s = scheduler_part c in
      \<lparr>sp_poll_interval = scheduler_poll_secs s,
       sp_claim_lease_seconds = scheduler_claim_lease_secs s,
       sp_retry_base_seconds = scheduler_retry_base_secs s,
       sp_retry_max_seconds = scheduler_retry_max_secs s,
       sp_retry_jitter_percent = scheduler_retry_jitter_percent s,
       sp_stall_timeout = scheduler_stall_secs s,
       sp_priority_aging_seconds = scheduler_priority_aging_secs s\<rparr>)"

section \<open>Lemmas\<close>

lemma read_value_Inr: "read_value parse ok name value dflt = Inr v \<Longrightarrow> ok v"
  by (auto simp: read_value_def split: option.splits if_splits)

lemma parse_int_range: "parse_int lo hi s = Some i \<Longrightarrow> lo \<le> i \<and> i \<le> hi"
  by (auto simp: parse_int_def in_range_def bind_eq_Some_conv split: list.splits if_splits)

lemma bounded_i64_Inr: "bounded_i64 name value dflt lo hi = Inr v \<Longrightarrow> lo \<le> v \<and> v \<le> hi"
  unfolding bounded_i64_def by (drule read_value_Inr) simp

lemma positive_Inr:
  "positive_i64 name value dflt = Inr v \<Longrightarrow> 0 < v"
  "positive_i32 name value dflt = Inr v \<Longrightarrow> 0 < v"
  "positive_usize name value dflt = Inr v \<Longrightarrow> v \<noteq> 0"
  "positive_u32 name value dflt = Inr v \<Longrightarrow> v \<noteq> 0"
  unfolding positive_i64_def positive_i32_def positive_usize_def positive_u32_def
  by (drule read_value_Inr, simp)+

lemma collect_results_Inr:
  "collect_results f xs = Inr ys \<Longrightarrow> list_all2 (\<lambda>x y. f x = Inr y) xs ys"
  by (induction xs arbitrary: ys) (auto simp: and_then_Inr_iff)

lemma parse_origins_no_wildcard:
  assumes "parse_origins parse_header value = Inr origins"
  shows "''*'' \<notin> set (comma_items value)"
proof
  assume "''*'' \<in> set (comma_items value)"
  then obtain i where i: "i < length (comma_items value)" "comma_items value ! i = ''*''"
    by (auto simp: in_set_conv_nth)
  from collect_results_Inr [OF assms [unfolded parse_origins_def]] i show False
    by (auto dest: list_all2_nthD)
qed

text \<open>What each group guarantees.\<close>

lemma read_base_Inr:
  assumes "read_base v = Inr b"
  shows "v_database_url v = Some (database_url b) \<and> 1 \<le> port b \<and> port b \<le> 65535
    \<and> min_connections (database_pool b) \<le> max_connections (database_pool b)
    \<and> (v_auto_migrate v = None \<longrightarrow> auto_migrate b = (environment b \<noteq> Production))"
proof -
  have pool: "min_connections p \<le> max_connections p" if "read_pool v = Inr p" for p
    using that by (auto simp: read_pool_def and_then_Inr_iff split: if_splits)
  obtain url where url: "v_database_url v = Some url"
    using assms by (cases "v_database_url v") (simp_all add: read_base_def)
  from assms [unfolded read_base_def url option.case and_then_Inr_iff]
  obtain env p migrate where parts: "read_environment (v_app_env v) = Inr env" "read_pool v = Inr p"
    "parse_bool ''AUTO_MIGRATE'' (v_auto_migrate v) (env \<noteq> Production) = Inr migrate"
    and rest: "(case parse_int 0 65535 (case v_port v of None \<Rightarrow> ''8080'' | Some p \<Rightarrow> p) of
             None \<Rightarrow> Inl ''PORT''
           | Some n \<Rightarrow> if n = 0 then Inl ''PORT''
               else Inr \<lparr>database_url = url, environment = env, database_pool = p,
                         auto_migrate = migrate, port = n\<rparr>) = Inr b" by blast
  from rest obtain n where n: "parse_int 0 65535 (case v_port v of None \<Rightarrow> ''8080'' | Some p \<Rightarrow> p) = Some n"
    "n \<noteq> 0" "b = \<lparr>database_url = url, environment = env, database_pool = p, auto_migrate = migrate, port = n\<rparr>"
    by (cases "parse_int 0 65535 (case v_port v of None \<Rightarrow> ''8080'' | Some p \<Rightarrow> p)") (simp_all split: if_splits)
  show ?thesis
    using url parts(3) pool [OF parts(2)] parse_int_range [OF n(1)] n(2) by (auto simp: n(3) parse_bool_def)
qed

lemma read_sessions_Inr:
  assumes "read_sessions parse_net v = Inr s"
  shows "0 < session_idle_timeout_secs s \<and> session_idle_timeout_secs s \<le> session_ttl_secs s
    \<and> 0 < persistent_session_idle_timeout_secs s
    \<and> persistent_session_idle_timeout_secs s \<le> persistent_session_ttl_secs s
    \<and> 0 < login_max_failures s \<and> 0 < login_lockout_secs s"
  using assms
  by (auto simp: read_sessions_def and_then_Inr_iff dest!: positive_Inr split: if_splits)

lemma read_web_Inr:
  assumes "read_web parse_header decode64 dev_key env v = Inr w"
  shows "(env = Production \<longrightarrow> allowed_origins w \<noteq> []
      \<and> (\<exists>k. v_mfa_encryption_key v = Some k \<and> k \<noteq> [] \<and> decode64 k = Some (mfa_encryption_key w)))
    \<and> ''*'' \<notin> set (comma_items (v_cors_allowed_origins v))
    \<and> length (mfa_encryption_key w) = 32 \<and> valid_service_name (service_name w)"
  using assms
  by (auto simp: read_web_def and_then_Inr_iff read_mfa_key_def Let_def
      dest!: parse_origins_no_wildcard split: if_splits option.splits)

lemma read_run_Inr:
  "read_run v = Inr r \<Longrightarrow> harness_command r \<noteq> [] \<and> CHR ''/'' \<notin> set (harness_command r)
     \<and> harness_max_concurrency r \<noteq> 0 \<and> 0 < run_max_duration_secs r"
  by (auto simp: read_run_def Let_def and_then_Inr_iff dest!: positive_Inr split: if_splits)

lemma read_push_Inr:
  "read_push v = Inr p \<Longrightarrow> starts_with ''/'' (run_workspace_root p)
     \<and> \<not> sublist ''..'' (run_workspace_root p) \<and> length (run_workspace_root p) \<le> 512"
proof -
  let ?root = "value_or ''/tmp/devrail-workspaces'' (v_run_workspace_root v)"
  assume ok: "read_push v = Inr p"
  let ?bad = "\<not> starts_with ''/'' ?root \<or> contains_str ''..'' ?root \<or> length ?root > 512"
  have good: "\<not> ?bad"
    using ok unfolding read_push_def Let_def by (cases ?bad) simp_all
  have "run_workspace_root p = ?root"
    using ok unfolding read_push_def Let_def if_not_P [OF good] and_then_Inr_iff
    by (elim exE conjE) (auto split: if_split_asm)
  with good show ?thesis by (simp add: contains_str_iff)
qed

lemma read_scheduler_Inr:
  assumes "read_scheduler v = Inr s"
  shows "1 \<le> scheduler_poll_secs s \<and> scheduler_poll_secs s < scheduler_claim_lease_secs s
    \<and> scheduler_poll_secs s < scheduler_stall_secs s
    \<and> 1 \<le> scheduler_retry_base_secs s \<and> scheduler_retry_base_secs s \<le> scheduler_retry_max_secs s
    \<and> scheduler_retry_max_secs s \<le> 604800
    \<and> 0 \<le> scheduler_retry_jitter_percent s \<and> scheduler_retry_jitter_percent s \<le> 100
    \<and> 60 \<le> scheduler_priority_aging_secs s"
  using assms
  by (auto simp: read_scheduler_def and_then_Inr_iff dest!: bounded_i64_Inr split: if_splits)

lemma from_values_Inr:
  assumes "from_values parse_net parse_header decode64 dev_key v = Inr c"
  shows "read_base v = Inr (base_part c)" and "read_sessions parse_net v = Inr (session_part c)"
    and "read_web parse_header decode64 dev_key (environment (base_part c)) v = Inr (web_part c)"
    and "read_run v = Inr (run_part c)" and "read_scheduler v = Inr (scheduler_part c)"
    and "read_push v = Inr (push_part c)"
  using assms by (auto simp: from_values_def and_then_Inr_iff)

section \<open>Properties\<close>

text \<open>Production safety: a configuration accepted for production names explicit CORS origins and
  takes its 32-byte MFA key from the environment (the built-in development key is never used
  there); in every environment the wildcard origin is refused, idle timeouts do not exceed the
  session lifetimes, the pool bounds are consistent, the Harness command is a bare name and the
  workspace root an absolute path without \<^verbatim>\<open>..\<close>.\<close>

theorem accepted_config_is_safe:
  assumes "from_values parse_net parse_header decode64 dev_key v = Inr c"
  shows "(environment (base_part c) = Production \<longrightarrow> allowed_origins (web_part c) \<noteq> []
            \<and> (\<exists>k. v_mfa_encryption_key v = Some k \<and> k \<noteq> []
                 \<and> decode64 k = Some (mfa_encryption_key (web_part c))))
       \<and> length (mfa_encryption_key (web_part c)) = 32
       \<and> ''*'' \<notin> set (comma_items (v_cors_allowed_origins v))
       \<and> session_idle_timeout_secs (session_part c) \<le> session_ttl_secs (session_part c)
       \<and> persistent_session_idle_timeout_secs (session_part c) \<le> persistent_session_ttl_secs (session_part c)
       \<and> min_connections (database_pool (base_part c)) \<le> max_connections (database_pool (base_part c))
       \<and> 1 \<le> port (base_part c) \<and> port (base_part c) \<le> 65535
       \<and> CHR ''/'' \<notin> set (harness_command (run_part c))
       \<and> starts_with ''/'' (run_workspace_root (push_part c))
       \<and> \<not> sublist ''..'' (run_workspace_root (push_part c))"
  using read_base_Inr [OF from_values_Inr(1) [OF assms]] read_sessions_Inr [OF from_values_Inr(2) [OF assms]]
    read_web_Inr [OF from_values_Inr(3) [OF assms]] read_run_Inr [OF from_values_Inr(4) [OF assms]]
    read_push_Inr [OF from_values_Inr(6) [OF assms]]
  by blast

text \<open>An environment with nothing set but the database.\<close>

definition example_values :: "rstr option \<Rightarrow> config_values" where
  "example_values url = \<lparr>v_database_url = url, v_db_max_connections = None, v_db_min_connections = None, v_db_acquire_timeout_secs = None, v_db_connect_timeout_secs = None, v_db_idle_timeout_secs = None, v_db_max_lifetime_secs = None, v_db_statement_timeout_ms = None, v_auto_migrate = None, v_port = None, v_session_ttl_secs = None, v_session_idle_timeout_secs = None, v_persistent_session_ttl_secs = None, v_persistent_session_idle_timeout_secs = None, v_max_sessions_per_user = None, v_login_max_failures = None, v_login_ip_max_failures = None, v_login_account_ip_max_failures = None, v_login_failure_window_secs = None, v_login_lockout_secs = None, v_trusted_proxy_cidrs = None, v_app_env = None, v_cors_allowed_origins = None, v_log_format = None, v_service_name = None, v_mfa_encryption_key = None, v_webauthn_rp_id = None, v_webauthn_rp_origin = None, v_webauthn_rp_name = None, v_harness_command = None, v_harness_max_concurrency = None, v_run_max_duration_secs = None, v_run_workspace_root = None, v_run_graceful_interrupt_secs = None, v_scheduler_poll_secs = None, v_scheduler_claim_lease_secs = None, v_scheduler_retry_base_secs = None, v_scheduler_retry_max_secs = None, v_scheduler_retry_jitter_percent = None, v_scheduler_stall_secs = None, v_scheduler_priority_aging_secs = None, v_workflow_reload_secs = None, v_workflow_reload_jitter_percent = None, v_web_push_public_key = None, v_web_push_private_key = None, v_web_push_subject = None\<rparr>"

definition example_from_values :: "config_values \<Rightarrow> rstr + (rstr, rstr) app_config" where
  "example_from_values = from_values Some Some Some (replicate 32 CHR ''k'')"

lemma example_config_ok: "is_ok (example_from_values (example_values (Some ''postgres'')))"
  by code_simp

definition production_values :: config_values where
  "production_values = (example_values (Some ''postgres''))
     \<lparr>v_app_env := Some ''production'', v_cors_allowed_origins := Some ''https://a.example, https://b.example'',
      v_mfa_encryption_key := Some (replicate 32 CHR ''m'')\<rparr>"

lemma production_config_ok: "is_ok (example_from_values production_values)"
  by code_simp

theorem accepted_config_is_safe_witness:
  "\<exists>c. example_from_values production_values = Inr c
     \<and> environment (base_part c) = Production \<and> allowed_origins (web_part c) \<noteq> []"
proof -
  obtain c where c: "from_values Some Some Some (replicate 32 CHR ''k'') production_values = Inr c"
    using production_config_ok by (auto simp: is_ok_iff example_from_values_def)
  have "case_sum (\<lambda>_. False) (\<lambda>c. environment (base_part c) = Production) (example_from_values production_values)"
    by code_simp
  with c have "environment (base_part c) = Production" by (simp add: example_from_values_def)
  with accepted_config_is_safe [OF c] c show ?thesis by (auto simp: example_from_values_def)
qed

text \<open>C33. An accepted configuration gives the scheduler a sound policy: both the claim lease and the
  stall timeout exceed the poll interval, the ageing period is at least a minute, and for every
  attempt and every random seed the retry delay is defined and lies between one second and a
  week.\<close>

theorem accepted_config_gives_sound_policy:
  assumes "from_values parse_net parse_header decode64 dev_key v = Inr c"
  shows "sp_poll_interval (policy_of_config c) < sp_claim_lease_seconds (policy_of_config c)
       \<and> sp_poll_interval (policy_of_config c) < sp_stall_timeout (policy_of_config c)
       \<and> 60 \<le> sp_priority_aging_seconds (policy_of_config c)
       \<and> (\<forall>attempt seed. \<exists>d. retry_delay_with_seed attempt (policy_of_config c) seed = Some d
            \<and> 1 \<le> d \<and> d \<le> 604800)"
proof -
  note s = read_scheduler_Inr [OF from_values_Inr(5) [OF assms]]
  then have ok: "retry_policy_ok (policy_of_config c)"
    by (simp add: retry_policy_ok_def policy_of_config_def Let_def i64_max_def)
  have "\<exists>d. retry_delay_with_seed attempt (policy_of_config c) seed = Some d \<and> 1 \<le> d \<and> d \<le> 604800"
    for attempt seed
  proof -
    obtain d where "retry_delay_with_seed attempt (policy_of_config c) seed = Some d" "1 \<le> d"
      "d \<le> sp_retry_max_seconds (policy_of_config c)"
      using retry_delay_range [OF ok] .
    with s show ?thesis by (auto simp: policy_of_config_def Let_def)
  qed
  with s show ?thesis by (simp add: policy_of_config_def Let_def)
qed

theorem accepted_config_gives_sound_policy_witness:
  "\<exists>c. example_from_values production_values = Inr c
     \<and> sp_poll_interval (policy_of_config c) < sp_claim_lease_seconds (policy_of_config c)
     \<and> (\<forall>attempt seed. \<exists>d. retry_delay_with_seed attempt (policy_of_config c) seed = Some d
            \<and> 1 \<le> d \<and> d \<le> 604800)"
proof -
  obtain c where c: "from_values Some Some Some (replicate 32 CHR ''k'') production_values = Inr c"
    using production_config_ok by (auto simp: is_ok_iff example_from_values_def)
  with accepted_config_gives_sound_policy [OF c] show ?thesis by (auto simp: example_from_values_def)
qed

text \<open>The defaults agree: with nothing but \<^verbatim>\<open>DATABASE_URL\<close> set, the configuration is accepted and
  yields exactly \<^verbatim>\<open>SchedulerPolicy::default()\<close>.\<close>

theorem default_environment_gives_default_policy:
  "case_sum (\<lambda>_. False) (\<lambda>c. policy_of_config c = default_policy \<and> environment (base_part c) = Development)
     (example_from_values (example_values (Some ''postgres'')))"
  by code_simp

lemma parse_digits_show_nat: "parse_digits (show_nat n) = Some n"
proof -
  have "\<not> list_ex (\<lambda>c. \<not> is_ascii_digit c) (show_nat n)"
    using show_nat_digits by (auto simp: list_ex_iff)
  then show ?thesis by (simp add: parse_digits_def read_show_nat)
qed

lemma show_nat_sign: "show_nat n \<noteq> CHR ''-'' # s" "show_nat n \<noteq> CHR ''+'' # s"
  using show_nat_digits [of "CHR ''-''" n] show_nat_digits [of "CHR ''+''" n]
  by (auto simp: is_ascii_digit_def)

text \<open>Reading back a printed integer: every number of the range, negative ones included for a
  signed type, is parsed to itself.\<close>

theorem parse_int_show_int:
  assumes "lo \<le> i" and "i \<le> hi"
  shows "parse_int lo hi (show_int i) = Some i"
proof (cases "i < 0")
  case True
  with assms show ?thesis
    by (simp add: parse_int_def show_int_def parse_digits_show_nat in_range_def)
next
  case False
  obtain c cs where digits: "show_nat (nat i) = c # cs" by (cases "show_nat (nat i)") simp_all
  with show_nat_sign [of "nat i"] have "c \<noteq> CHR ''-''" "c \<noteq> CHR ''+''" by auto
  with digits False assms parse_digits_show_nat [of "nat i"] show ?thesis
    by (simp add: parse_int_def show_int_def in_range_def)
qed

theorem parse_int_show_int_witness: "parse_int i64_min i64_max (show_int (- 42)) = Some (- 42)"
  by (rule parse_int_show_int) (simp_all add: i64_min_def i64_max_def)

end
