(* ===== verification/Requests.thy ===== *)
theory Requests
  imports Leases
begin

text \<open>
  The work queues of \<^verbatim>\<open>backend/src/repositories/devrail_continuations.rs\<close> and
  \<^verbatim>\<open>backend/src/repositories/devrail_repairs.rs\<close>: continuation requests, repair requests and the
  gate reruns of a repair. The two request tables have the same claim columns and the same
  claim statements up to the table's name; \<open>request_row\<close> holds these columns and the two row
  types extend it. Each table is a list of rows.
\<close>

section \<open>Rows\<close>

datatype request_status =
    Req_Pending | Req_Claimed | Req_Dispatched | Req_Running | Req_Succeeded | Req_Completed | Req_Failed
  | Req_Cancelled | Req_HandedOff | Req_Rejected

record request_row =
  q_id :: int
  q_organization_id :: int
  q_department_id :: "int option"
  q_owner_user_id :: int
  q_project_id :: int
  q_task_id :: int
  q_source_run_id :: int
  q_root_run_id :: int
  q_changeset_digest :: "rstr option"
  q_idempotency_key :: rstr
  q_status :: request_status
  q_status_version :: int
  q_claim_owner :: "rstr option"
  q_claim_token :: "uuid option"
  q_claim_expires_at :: "timestamp option"
  q_dispatch_attempts :: int
  q_next_attempt_at :: "timestamp option"
  q_child_run_id :: "int option"
  q_result_code :: "rstr option"
  q_created_at :: timestamp
  q_updated_at :: timestamp
  q_claimed_at :: "timestamp option"
  q_dispatched_at :: "timestamp option"
  q_completed_at :: "timestamp option"
  q_cancelled_at :: "timestamp option"

record repair_request = request_row +
  q_diagnosis_id :: int
  q_failure_evidence_ref :: rstr
  q_failure_evidence_digest :: rstr
  q_repair_sequence :: int
  q_risk_category :: rstr
  q_strategy_version :: rstr
  q_cost_units :: int
  q_handoff_reason :: "rstr option"

record continuation_request = request_row +
  q_source_turn_id :: rstr
  q_requested_by_user_id :: int
  q_trigger_type :: rstr
  q_evidence_ref :: rstr
  q_evidence_digest :: rstr
  q_evidence_observed_at :: timestamp
  q_evidence_expires_at :: "timestamp option"
  q_redacted_context :: rstr
  q_context_summary :: rstr
  q_input_digest :: rstr
  q_continuation_sequence :: int
  q_chain_depth :: int
  q_prior_task_status :: task_status
  q_policy_version :: rstr
  q_rejected_at :: "timestamp option"

datatype gate_status = Gate_Pending | Gate_Running | Gate_Passed | Gate_Failed | Gate_Cancelled

record gate_rerun =
  g_id :: int
  g_organization_id :: int
  g_department_id :: "int option"
  g_owner_user_id :: int
  g_project_id :: int
  g_task_id :: int
  g_repair_request_id :: int
  g_child_run_id :: "int option"
  g_gate_id :: rstr
  g_changeset_digest :: rstr
  g_idempotency_key :: rstr
  g_status :: gate_status
  g_claim_owner :: "rstr option"
  g_claim_token :: "uuid option"
  g_claim_expires_at :: "timestamp option"
  g_result_code :: "rstr option"
  g_log_ref :: "rstr option"
  g_summary :: "rstr option"
  g_duration_ms :: "int option"
  g_created_at :: timestamp
  g_updated_at :: timestamp
  g_started_at :: "timestamp option"
  g_completed_at :: "timestamp option"

text \<open>A worker's credential: its name and its claim token.\<close>

type_synonym credential = "rstr \<times> uuid"

section \<open>The statements of a request table\<close>

definition coalesce :: "'a option \<Rightarrow> 'a \<Rightarrow> 'a option" where
  "coalesce x y = (case x of None \<Rightarrow> Some y | Some z \<Rightarrow> Some z)"

definition request_claimable :: "timestamp \<Rightarrow> 'a request_row_scheme \<Rightarrow> bool" where
  "request_claimable now r =
     (q_status r = Req_Pending \<and> (case q_next_attempt_at r of None \<Rightarrow> True | Some at \<Rightarrow> at \<le> now))"

definition request_cred :: "'a request_row_scheme \<Rightarrow> credential option" where
  "request_cred r =
     (if q_status r = Req_Claimed
      then (case (q_claim_owner r, q_claim_token r) of (Some w, Some t) \<Rightarrow> Some (w, t) | _ \<Rightarrow> None)
      else None)"

definition request_on_claim ::
  "int \<Rightarrow> timestamp \<Rightarrow> credential \<Rightarrow> 'a request_row_scheme \<Rightarrow> 'a request_row_scheme" where
  "request_on_claim lease now c r =
     r\<lparr>q_status := Req_Claimed, q_status_version := q_status_version r + 1,
       q_claim_owner := Some (fst c), q_claim_token := Some (snd c),
       q_claim_expires_at := Some (now + seconds (clamp 10 3600 lease)),
       q_claimed_at := coalesce (q_claimed_at r) now,
       q_dispatch_attempts := q_dispatch_attempts r + 1, q_updated_at := now\<rparr>"

definition request_on_renew :: "int \<Rightarrow> timestamp \<Rightarrow> 'a request_row_scheme \<Rightarrow> 'a request_row_scheme" where
  "request_on_renew lease now r =
     r\<lparr>q_claim_expires_at := Some (now + seconds (clamp 10 3600 lease)), q_updated_at := now\<rparr>"

text \<open>Back to pending; \<open>at\<close> is when the next attempt is due.\<close>

definition request_on_release ::
  "timestamp \<Rightarrow> timestamp \<Rightarrow> 'a request_row_scheme \<Rightarrow> 'a request_row_scheme" where
  "request_on_release at now r =
     r\<lparr>q_status := Req_Pending, q_status_version := q_status_version r + 1, q_claim_owner := None,
       q_claim_token := None, q_claim_expires_at := None, q_next_attempt_at := Some at,
       q_updated_at := now\<rparr>"

definition claim_pending ::
  "timestamp \<Rightarrow> int set \<Rightarrow> credential \<Rightarrow> int \<Rightarrow> int \<Rightarrow> 'a request_row_scheme list \<Rightarrow>
   'a request_row_scheme list \<times> int list" where
  "claim_pending now locked c limit lease =
     claim_rows q_id (request_claimable now) (\<lambda>r. (q_created_at r, q_id r)) (request_on_claim lease now c)
       locked (clamp 1 100 limit)"

definition renew_claim ::
  "timestamp \<Rightarrow> int \<Rightarrow> credential \<Rightarrow> int \<Rightarrow> 'a request_row_scheme list \<Rightarrow> 'a request_row_scheme list \<times> bool" where
  "renew_claim now i c lease =
     update_one (\<lambda>r. q_id r = i \<and> request_cred r = Some c \<and> unexpired q_claim_expires_at now r)
       (request_on_renew lease now)"

definition release_claim ::
  "timestamp \<Rightarrow> int \<Rightarrow> credential \<Rightarrow> int \<Rightarrow> 'a request_row_scheme list \<Rightarrow> 'a request_row_scheme list \<times> bool" where
  "release_claim now i c backoff =
     update_one (\<lambda>r. q_id r = i \<and> request_cred r = Some c)
       (request_on_release (now + seconds (clamp 0 3600 backoff)) now)"

definition expired_request :: "timestamp \<Rightarrow> 'a request_row_scheme \<Rightarrow> bool" where
  "expired_request now r = (q_status r = Req_Claimed \<and> expired q_claim_expires_at now r)"

definition sweep_order :: "'a request_row_scheme \<Rightarrow> timestamp \<times> int" where
  "sweep_order r = (case q_claim_expires_at r of None \<Rightarrow> 0 | Some e \<Rightarrow> e, q_id r)"

definition release_expired_claims ::
  "timestamp \<Rightarrow> int set \<Rightarrow> int \<Rightarrow> 'a request_row_scheme list \<Rightarrow> 'a request_row_scheme list \<times> nat" where
  "release_expired_claims now locked limit rows =
     (let r = claim_rows q_id (expired_request now) sweep_order (request_on_release now now) locked
                (clamp 1 500 limit) rows
      in (fst r, length (snd r)))"

section \<open>The statements of the gate reruns\<close>

definition gate_cred :: "gate_rerun \<Rightarrow> credential option" where
  "gate_cred g =
     (if g_status g = Gate_Running
      then (case (g_claim_owner g, g_claim_token g) of (Some w, Some t) \<Rightarrow> Some (w, t) | _ \<Rightarrow> None)
      else None)"

definition gate_on_claim :: "int \<Rightarrow> timestamp \<Rightarrow> credential \<Rightarrow> gate_rerun \<Rightarrow> gate_rerun" where
  "gate_on_claim lease now c g =
     g\<lparr>g_status := Gate_Running, g_claim_owner := Some (fst c), g_claim_token := Some (snd c),
       g_claim_expires_at := Some (now + seconds (clamp 10 3600 lease)),
       g_started_at := coalesce (g_started_at g) now, g_updated_at := now\<rparr>"

definition gate_on_renew :: "int \<Rightarrow> timestamp \<Rightarrow> gate_rerun \<Rightarrow> gate_rerun" where
  "gate_on_renew lease now g =
     g\<lparr>g_claim_expires_at := Some (now + seconds (clamp 10 3600 lease)), g_updated_at := now\<rparr>"

definition gate_on_release :: "timestamp \<Rightarrow> gate_rerun \<Rightarrow> gate_rerun" where
  "gate_on_release now g =
     g\<lparr>g_status := Gate_Pending, g_claim_owner := None, g_claim_token := None,
       g_claim_expires_at := None, g_updated_at := now\<rparr>"

definition claim_gate_reruns ::
  "timestamp \<Rightarrow> int set \<Rightarrow> credential \<Rightarrow> int \<Rightarrow> int \<Rightarrow> gate_rerun list \<Rightarrow> gate_rerun list \<times> int list" where
  "claim_gate_reruns now locked c limit lease =
     claim_rows g_id (\<lambda>g. g_status g = Gate_Pending) (\<lambda>g. (g_created_at g, g_id g)) (gate_on_claim lease now c)
       locked (clamp 1 100 limit)"

definition renew_gate_rerun_claim ::
  "timestamp \<Rightarrow> int \<Rightarrow> credential \<Rightarrow> int \<Rightarrow> gate_rerun list \<Rightarrow> gate_rerun list \<times> bool" where
  "renew_gate_rerun_claim now i c lease =
     update_one (\<lambda>g. g_id g = i \<and> gate_cred g = Some c \<and> unexpired g_claim_expires_at now g)
       (gate_on_renew lease now)"

definition release_gate_rerun_claim ::
  "timestamp \<Rightarrow> int \<Rightarrow> credential \<Rightarrow> gate_rerun list \<Rightarrow> gate_rerun list \<times> bool" where
  "release_gate_rerun_claim now i c =
     update_one (\<lambda>g. g_id g = i \<and> gate_cred g = Some c) (gate_on_release now)"

definition release_expired_gate_rerun_claims ::
  "timestamp \<Rightarrow> int set \<Rightarrow> int \<Rightarrow> gate_rerun list \<Rightarrow> gate_rerun list \<times> nat" where
  "release_expired_gate_rerun_claims now locked limit rows =
     (let r = claim_rows g_id (\<lambda>g. g_status g = Gate_Running \<and> expired g_claim_expires_at now g)
                (\<lambda>g. (case g_claim_expires_at g of None \<Rightarrow> 0 | Some e \<Rightarrow> e, g_id g)) (gate_on_release now)
                locked (clamp 1 500 limit) rows
      in (fst r, length (snd r)))"

section \<open>Both tables keep the lease contract\<close>

interpretation request_leases: row_leases q_id request_cred q_claim_expires_at request_claimable
    "\<lambda>r. (q_created_at r, q_id r)" expired_request sweep_order "request_on_claim lease" "request_on_renew lease"
    "\<lambda>now. request_on_release (now + seconds (clamp 0 3600 backoff)) now" "\<lambda>now. request_on_release now now"
    locked "clamp 1 100 limit" "clamp 1 500 sweep_limit"
  for lease backoff limit sweep_limit :: int and locked :: "timestamp \<Rightarrow> int set"
  by unfold_locales
    (auto simp: request_on_claim_def request_on_renew_def request_on_release_def request_cred_def
       request_claimable_def expired_request_def split: option.splits)

interpretation gate_leases: row_leases g_id gate_cred g_claim_expires_at "\<lambda>now g. g_status g = Gate_Pending"
    "\<lambda>g. (g_created_at g, g_id g)" "\<lambda>now g. g_status g = Gate_Running \<and> expired g_claim_expires_at now g"
    "\<lambda>g. (case g_claim_expires_at g of None \<Rightarrow> 0 | Some e \<Rightarrow> e, g_id g)"
    "gate_on_claim lease" "gate_on_renew lease" gate_on_release gate_on_release
    locked "clamp 1 100 limit" "clamp 1 500 sweep_limit"
  for lease limit sweep_limit :: int and locked :: "timestamp \<Rightarrow> int set"
  by unfold_locales
    (auto simp: gate_on_claim_def gate_on_renew_def gate_on_release_def gate_cred_def split: option.splits)

text \<open>The operations of the two tables in the shape of the contract.\<close>

abbreviation request_claim ::
  "(timestamp \<Rightarrow> int set) \<Rightarrow> int \<Rightarrow> int \<Rightarrow> timestamp \<Rightarrow> credential \<Rightarrow> 'a request_row_scheme list \<Rightarrow>
   'a request_row_scheme list \<times> int list" where
  "request_claim locked limit lease \<equiv> \<lambda>now c. claim_pending now (locked now) c limit lease"

abbreviation request_renew ::
  "int \<Rightarrow> timestamp \<Rightarrow> credential \<Rightarrow> int \<Rightarrow> 'a request_row_scheme list \<Rightarrow> 'a request_row_scheme list \<times> bool" where
  "request_renew lease \<equiv> \<lambda>now c i. renew_claim now i c lease"

abbreviation request_release ::
  "int \<Rightarrow> timestamp \<Rightarrow> credential \<Rightarrow> int \<Rightarrow> 'a request_row_scheme list \<Rightarrow> 'a request_row_scheme list \<times> bool" where
  "request_release backoff \<equiv> \<lambda>now c i. release_claim now i c backoff"

abbreviation request_sweep ::
  "(timestamp \<Rightarrow> int set) \<Rightarrow> int \<Rightarrow> timestamp \<Rightarrow> 'a request_row_scheme list \<Rightarrow> 'a request_row_scheme list" where
  "request_sweep locked limit \<equiv> \<lambda>now rows. fst (release_expired_claims now (locked now) limit rows)"

abbreviation gate_claim ::
  "(timestamp \<Rightarrow> int set) \<Rightarrow> int \<Rightarrow> int \<Rightarrow> timestamp \<Rightarrow> credential \<Rightarrow> gate_rerun list \<Rightarrow> gate_rerun list \<times> int list" where
  "gate_claim locked limit lease \<equiv> \<lambda>now c. claim_gate_reruns now (locked now) c limit lease"

abbreviation gate_renew ::
  "int \<Rightarrow> timestamp \<Rightarrow> credential \<Rightarrow> int \<Rightarrow> gate_rerun list \<Rightarrow> gate_rerun list \<times> bool" where
  "gate_renew lease \<equiv> \<lambda>now c i. renew_gate_rerun_claim now i c lease"

abbreviation gate_release :: "timestamp \<Rightarrow> credential \<Rightarrow> int \<Rightarrow> gate_rerun list \<Rightarrow> gate_rerun list \<times> bool" where
  "gate_release \<equiv> \<lambda>now c i. release_gate_rerun_claim now i c"

abbreviation gate_sweep :: "(timestamp \<Rightarrow> int set) \<Rightarrow> int \<Rightarrow> timestamp \<Rightarrow> gate_rerun list \<Rightarrow> gate_rerun list" where
  "gate_sweep locked limit \<equiv> \<lambda>now rows. fst (release_expired_gate_rerun_claims now (locked now) limit rows)"

lemma request_ops:
  "request_leases.claim_op lease locked limit = request_claim locked limit lease"
  "request_leases.renew_op lease = request_renew lease"
  "request_leases.release_op backoff = request_release backoff"
  "request_leases.sweep_op locked sweep_limit = request_sweep locked sweep_limit"
  by (simp_all add: fun_eq_iff request_leases.claim_op_def request_leases.renew_op_def
        request_leases.release_op_def request_leases.sweep_op_def claim_pending_def renew_claim_def
        release_claim_def release_expired_claims_def Let_def)

lemma gate_ops:
  "gate_leases.claim_op lease locked limit = gate_claim locked limit lease"
  "gate_leases.renew_op lease = gate_renew lease"
  "gate_leases.release_op = gate_release"
  "gate_leases.sweep_op locked sweep_limit = gate_sweep locked sweep_limit"
  by (simp_all add: fun_eq_iff gate_leases.claim_op_def gate_leases.renew_op_def
        gate_leases.release_op_def gate_leases.sweep_op_def claim_gate_reruns_def renew_gate_rerun_claim_def
        release_gate_rerun_claim_def release_expired_gate_rerun_claims_def Let_def)

lemmas request_exclusive = request_leases.live_lease_is_exclusive [unfolded request_ops
    request_leases.table_ok_def]
lemmas gate_exclusive = gate_leases.live_lease_is_exclusive [unfolded gate_ops gate_leases.table_ok_def]

definition request_holder :: "'a request_row_scheme list \<Rightarrow> int \<Rightarrow> credential option" where
  "request_holder rows i = Option.bind (find (\<lambda>r. q_id r = i) rows) request_cred"

definition gate_holder :: "gate_rerun list \<Rightarrow> int \<Rightarrow> credential option" where
  "gate_holder rows i = Option.bind (find (\<lambda>g. g_id g = i) rows) gate_cred"

lemma holders: "request_leases.holder_of = request_holder" "gate_leases.holder_of = gate_holder"
  by (simp_all add: fun_eq_iff request_holder_def gate_holder_def request_leases.holder_of_def
        gate_leases.holder_of_def)

section \<open>Claims move rows between pending and claimed\<close>

text \<open>\<open>requeues rows rows'\<close>: rows go back and forth between pending and claimed.\<close>

definition requeues :: "'a request_row_scheme list \<Rightarrow> 'a request_row_scheme list \<Rightarrow> bool" where
  "requeues rows rows' = (\<exists>P f. rows' = update_where P f rows
     \<and> (\<forall>r \<in> set rows. P r \<longrightarrow> q_status r \<in> {Req_Pending, Req_Claimed} \<and> q_status (f r) \<in> {Req_Pending, Req_Claimed})
     \<and> (\<forall>r. q_id (f r) = q_id r \<and> q_organization_id (f r) = q_organization_id r \<and> q_task_id (f r) = q_task_id r
           \<and> q_child_run_id (f r) = q_child_run_id r \<and> request_row.more (f r) = request_row.more r))"

lemma selected_row:
  assumes "distinct (map key rows)" and "r \<in> set rows" and "key r \<in> set (select_rows key P order locked limit rows)"
  shows "P r"
proof -
  obtain x where x: "find (\<lambda>x. key x = key r) rows = Some x" "P x"
    using select_rows_sound [OF assms(1,3)] by blast
  then have "x = r" using find_distinct_iff [OF assms(1), of "key r" x] assms(1,2)
    by (auto simp: distinct_map dest: inj_onD)
  with x(2) show ?thesis by simp
qed

lemma queue_statements_requeue:
  fixes rows :: "'a request_row_scheme list"
  assumes "distinct (map q_id rows)"
  shows "requeues rows (fst (claim_pending now locked c limit lease rows))"
    and "requeues rows (fst (renew_claim now k c lease rows))"
    and "requeues rows (fst (release_claim now k c backoff rows))"
    and "requeues rows (fst (release_expired_claims now locked limit rows))"
proof -
  let ?ids = "select_rows q_id (request_claimable now) (\<lambda>r. (q_created_at r, q_id r)) locked (clamp 1 100 limit) rows"
  have "q_status r = Req_Pending" if "r \<in> set rows" "q_id r \<in> set ?ids" for r
    using selected_row [OF assms that] by (simp add: request_claimable_def)
  then show "requeues rows (fst (claim_pending now locked c limit lease rows))"
    unfolding requeues_def claim_pending_def claim_rows_def Let_def fst_conv
    by (intro exI [of _ "\<lambda>r. q_id r \<in> set ?ids"] exI [of _ "request_on_claim lease now c"])
      (simp add: request_on_claim_def)
  show "requeues rows (fst (renew_claim now k c lease rows))"
    unfolding requeues_def renew_claim_def update_one_def fst_conv
    by (rule exI, rule exI [of _ "request_on_renew lease now"])
      (auto simp: request_on_renew_def request_cred_def split: if_splits)
  show "requeues rows (fst (release_claim now k c backoff rows))"
    unfolding requeues_def release_claim_def update_one_def fst_conv
    by (rule exI, rule exI [of _ "request_on_release (now + seconds (clamp 0 3600 backoff)) now"])
      (auto simp: request_on_release_def request_cred_def split: if_splits)
  let ?old = "select_rows q_id (expired_request now) sweep_order locked (clamp 1 500 limit) rows"
  have "q_status r = Req_Claimed" if "r \<in> set rows" "q_id r \<in> set ?old" for r
    using selected_row [OF assms that] by (simp add: expired_request_def)
  then show "requeues rows (fst (release_expired_claims now locked limit rows))"
    unfolding requeues_def release_expired_claims_def claim_rows_def Let_def fst_conv
    by (intro exI [of _ "\<lambda>r. q_id r \<in> set ?old"] exI [of _ "request_on_release now now"])
      (simp add: request_on_release_def)
qed

section \<open>A small queue\<close>

definition example_request :: "int \<Rightarrow> timestamp \<Rightarrow> repair_request" where
  "example_request i created =
     \<lparr>q_id = i, q_organization_id = 1, q_department_id = Some 10, q_owner_user_id = 100, q_project_id = 5,
      q_task_id = i, q_source_run_id = i, q_root_run_id = i, q_changeset_digest = None,
      q_idempotency_key = ''key'', q_status = Req_Pending, q_status_version = 1, q_claim_owner = None,
      q_claim_token = None, q_claim_expires_at = None, q_dispatch_attempts = 0, q_next_attempt_at = None,
      q_child_run_id = None, q_result_code = None, q_created_at = created, q_updated_at = created,
      q_claimed_at = None, q_dispatched_at = None, q_completed_at = None, q_cancelled_at = None,
      q_diagnosis_id = i, q_failure_evidence_ref = ''ref'', q_failure_evidence_digest = ''d'',
      q_repair_sequence = 1, q_risk_category = ''low_risk'', q_strategy_version = ''v1'', q_cost_units = 1,
      q_handoff_reason = None\<rparr>"

definition example_gate :: "int \<Rightarrow> gate_rerun" where
  "example_gate i =
     \<lparr>g_id = i, g_organization_id = 1, g_department_id = Some 10, g_owner_user_id = 100, g_project_id = 5,
      g_task_id = 1, g_repair_request_id = 1, g_child_run_id = None, g_gate_id = ''tests'',
      g_changeset_digest = ''d'', g_idempotency_key = ''k'', g_status = Gate_Pending, g_claim_owner = None,
      g_claim_token = None, g_claim_expires_at = None, g_result_code = None, g_log_ref = None,
      g_summary = None, g_duration_ms = None, g_created_at = 0, g_updated_at = 0, g_started_at = None,
      g_completed_at = None\<rparr>"

section \<open>Properties\<close>

lemma request_claim_given:
  assumes "distinct (map q_id rows)" and "i \<in> set (snd (claim_pending now lk c limit lease rows))"
  shows "request_leases.holder_of (fst (claim_pending now lk c limit lease rows)) i = Some c"
    and "T < now + seconds (clamp 10 3600 lease) \<Longrightarrow>
      request_leases.lease_live (fst (claim_pending now lk c limit lease rows)) T i"
    and "distinct (map q_id (fst (claim_pending now lk c limit lease rows)))"
proof -
  have eq: "claim_pending now lk c limit lease = request_leases.claim_op lease (\<lambda>_. lk) limit now c"
    by (simp add: request_ops)
  obtain r where r: "find (\<lambda>r. q_id r = i) rows = Some r"
    using select_rows_sound [OF assms(1), of i "request_claimable now" "\<lambda>r. (q_created_at r, q_id r)" lk
        "clamp 1 100 limit"] assms(2) by (auto simp: claim_pending_def claim_rows_def Let_def)
  show "request_leases.holder_of (fst (claim_pending now lk c limit lease rows)) i = Some c"
    unfolding eq using assms
    by (intro request_leases.claim_given) (simp_all add: request_leases.table_ok_def eq)
  show "request_leases.lease_live (fst (claim_pending now lk c limit lease rows)) T i"
    if "T < now + seconds (clamp 10 3600 lease)"
    using r that assms(2) unfolding eq
    by (simp add: request_leases.lease_live_def request_leases.find_claimed unexpired_def request_on_claim_def)
  show "distinct (map q_id (fst (claim_pending now lk c limit lease rows)))"
    using assms(1)
    by (simp add: claim_pending_def claim_rows_def Let_def update_where_keeps request_on_claim_def)
qed

text \<open>C15. Exclusive work on continuation and repair requests: a request handed out by
  \<open>claim_pending\<close> stays claimed by the same worker and token until its lease (between ten seconds
  and an hour) is over, whatever claims, renewals, releases and expiry sweeps other workers run
  meanwhile, each with its own row locks and limits. The statement holds for both request tables.\<close>

theorem claimed_request_stays_claimed:
  fixes rows :: "'a request_row_scheme list"
  assumes "distinct (map q_id rows)" and "i \<in> set (snd (claim_pending now lk c n lease rows))"
    and "\<forall>(at, op) \<in> set ops. at < now + seconds (clamp 10 3600 lease) \<and> by_others c op"
  shows "request_holder (lease_run (request_claim locked limit lease') (request_renew lease')
            (request_release backoff) (request_sweep locked sweep_limit) ops
            (fst (claim_pending now lk c n lease rows))) i = Some c"
proof -
  let ?T = "now + seconds (clamp 10 3600 lease) - 1"
  have "\<forall>(at, op) \<in> set ops. at \<le> ?T \<and> by_others c op" using assms(3) by auto
  then show ?thesis
    using request_exclusive [of "fst (claim_pending now lk c n lease rows)" i c ?T ops locked limit lease'
        backoff sweep_limit] request_claim_given [OF assms(1,2)]
    unfolding holders by simp
qed

theorem claimed_request_stays_claimed_witness:
  "let rows = [example_request 1 0, example_request 2 1];
       claimed = fst (claim_pending 10 {} (''a'', 7) 1 10 rows)
   in request_holder (lease_run (request_claim (\<lambda>_. {}) 5 10) (request_renew 10) (request_release 3)
        (request_sweep (\<lambda>_. {}) 5)
        [(20, Claim (''b'', 8)), (30, Renew (''b'', 8) 1), (40, Release (''b'', 8) 1), (50, Expire)] claimed) 1
      = Some (''a'', 7)"
  unfolding Let_def
  by (rule claimed_request_stays_claimed) code_simp+

lemma gate_claim_given:
  assumes "distinct (map g_id rows)" and "i \<in> set (snd (claim_gate_reruns now lk c limit lease rows))"
  shows "gate_leases.holder_of (fst (claim_gate_reruns now lk c limit lease rows)) i = Some c"
    and "T < now + seconds (clamp 10 3600 lease) \<Longrightarrow>
      gate_leases.lease_live (fst (claim_gate_reruns now lk c limit lease rows)) T i"
    and "distinct (map g_id (fst (claim_gate_reruns now lk c limit lease rows)))"
proof -
  have eq: "claim_gate_reruns now lk c limit lease = gate_leases.claim_op lease (\<lambda>_. lk) limit now c"
    by (simp add: gate_ops)
  obtain r where r: "find (\<lambda>r. g_id r = i) rows = Some r"
    using select_rows_sound [OF assms(1), of i "\<lambda>g. g_status g = Gate_Pending" "\<lambda>g. (g_created_at g, g_id g)" lk
        "clamp 1 100 limit"] assms(2) by (auto simp: claim_gate_reruns_def claim_rows_def Let_def)
  show "gate_leases.holder_of (fst (claim_gate_reruns now lk c limit lease rows)) i = Some c"
    unfolding eq using assms
    by (intro gate_leases.claim_given) (simp_all add: gate_leases.table_ok_def eq)
  show "gate_leases.lease_live (fst (claim_gate_reruns now lk c limit lease rows)) T i"
    if "T < now + seconds (clamp 10 3600 lease)"
    using r that assms(2) unfolding eq
    by (simp add: gate_leases.lease_live_def gate_leases.find_claimed unexpired_def gate_on_claim_def)
  show "distinct (map g_id (fst (claim_gate_reruns now lk c limit lease rows)))"
    using assms(1)
    by (simp add: claim_gate_reruns_def claim_rows_def Let_def update_where_keeps gate_on_claim_def)
qed

text \<open>Exclusive execution of gate reruns: a gate handed out by \<open>claim_gate_reruns\<close> stays with the
  same worker and token until its lease is over, whatever claims, renewals, releases and expiry sweeps
  run under other credentials meanwhile; so two workers never run one gate under live leases.\<close>

theorem claimed_gate_stays_claimed:
  assumes "distinct (map g_id rows)" and "i \<in> set (snd (claim_gate_reruns now lk c n lease rows))"
    and "\<forall>(at, op) \<in> set ops. at < now + seconds (clamp 10 3600 lease) \<and> by_others c op"
  shows "gate_holder (lease_run (gate_claim locked limit lease') (gate_renew lease') gate_release
            (gate_sweep locked sweep_limit) ops (fst (claim_gate_reruns now lk c n lease rows))) i = Some c"
proof -
  let ?T = "now + seconds (clamp 10 3600 lease) - 1"
  have "\<forall>(at, op) \<in> set ops. at \<le> ?T \<and> by_others c op" using assms(3) by auto
  then show ?thesis
    using gate_exclusive [of "fst (claim_gate_reruns now lk c n lease rows)" i c ?T ops locked limit lease'
        sweep_limit] gate_claim_given [OF assms(1,2)]
    unfolding holders by simp
qed

theorem claimed_gate_stays_claimed_witness:
  "let claimed = fst (claim_gate_reruns 10 {} (''a'', 7) 1 10 [example_gate 1, example_gate 2])
   in gate_holder (lease_run (gate_claim (\<lambda>_. {}) 5 10) (gate_renew 10) gate_release
        (gate_sweep (\<lambda>_. {}) 5)
        [(20, Claim (''b'', 8)), (30, Renew (''b'', 8) 1), (40, Release (''b'', 8) 1), (50, Expire)] claimed) 1
      = Some (''a'', 7)"
  unfolding Let_def
  by (rule claimed_gate_stays_claimed) code_simp+

lemma swept_row:
  assumes "distinct (map q_id rows)" and "find (\<lambda>r. q_id r = i) rows = Some r"
  shows "find (\<lambda>r. q_id r = i) (fst (release_expired_claims now locked limit rows)) =
     Some (if i \<in> set (select_rows q_id (expired_request now) sweep_order locked (clamp 1 500 limit) rows)
           then request_on_release now now r else r)"
  using assms(2) find_key_id [OF assms(2)]
  by (simp add: release_expired_claims_def claim_rows_def Let_def find_key_update_where request_on_release_def)

text \<open>Crash recovery of claims: an expiry sweep returns every request whose lease ran out to the
  queue (pending, no claim columns, due at once, version raised) and leaves every other row exactly
  as it is, live claims included; it takes at most its limit (one to five hundred), and when it took
  fewer no expired claim is left but those locked by another transaction.\<close>

theorem sweep_recovers_expired_claims:
  assumes "distinct (map q_id rows)" and "find (\<lambda>r. q_id r = i) rows = Some r"
    and "release_expired_claims now locked limit rows = (rows', n)"
  shows "n \<le> nat (clamp 1 500 limit)
    \<and> (find (\<lambda>r. q_id r = i) rows' = Some r
        \<or> (expired_request now r \<and> i \<notin> locked
            \<and> find (\<lambda>r. q_id r = i) rows' = Some (request_on_release now now r)))
    \<and> (n < nat (clamp 1 500 limit) \<and> expired_request now r \<and> i \<notin> locked \<longrightarrow>
         find (\<lambda>r. q_id r = i) rows' = Some (request_on_release now now r))"
proof -
  let ?ids = "select_rows q_id (expired_request now) sweep_order locked (clamp 1 500 limit) rows"
  have n: "n = length ?ids" and rows': "rows' = fst (release_expired_claims now locked limit rows)"
    using assms(3) by (auto simp: release_expired_claims_def claim_rows_def Let_def)
  have r: "r \<in> set rows" "q_id r = i" using assms(2) by (auto simp: find_Some_iff)
  have "expired_request now r \<and> i \<notin> locked" if sel: "i \<in> set ?ids"
  proof -
    obtain r' where "r' \<in> set rows" "expired_request now r'" "q_id r' \<notin> locked" "q_id r' = i"
      using subsetD [OF select_rows_range sel] by auto
    moreover from this r assms(1) have "r' = r" by (auto simp: distinct_map dest: inj_onD)
    ultimately show ?thesis by simp
  qed
  moreover have "i \<in> set ?ids" if "n < nat (clamp 1 500 limit)" "expired_request now r" "i \<notin> locked"
    using select_rows_complete [OF that(1) [unfolded n]] that(2,3) r by blast
  ultimately show ?thesis
    using select_rows_bound n unfolding rows' swept_row [OF assms(1,2)] by auto
qed

theorem sweep_recovers_expired_claims_witness:
  "let r = request_on_claim 10 0 (''a'', 7) (example_request 1 0);
       out = release_expired_claims (seconds 11) {} 5 [r]
   in snd out \<le> nat (clamp 1 500 5)
    \<and> (find (\<lambda>r. q_id r = 1) (fst out) = Some r
        \<or> (expired_request (seconds 11) r \<and> 1 \<notin> ({} :: int set)
            \<and> find (\<lambda>r. q_id r = 1) (fst out) = Some (request_on_release (seconds 11) (seconds 11) r)))
    \<and> (snd out < nat (clamp 1 500 5) \<and> expired_request (seconds 11) r \<and> 1 \<notin> ({} :: int set) \<longrightarrow>
         find (\<lambda>r. q_id r = 1) (fst out) = Some (request_on_release (seconds 11) (seconds 11) r))
    \<and> expired_request (seconds 11) r \<and> snd out = 1"
  unfolding Let_def
  using sweep_recovers_expired_claims [of "[request_on_claim 10 0 (''a'', 7) (example_request 1 0)]" 1
      "request_on_claim 10 0 (''a'', 7) (example_request 1 0)" "seconds 11" "{}" 5]
  by (simp add: request_on_claim_def example_request_def expired_request_def expired_def clamp_def
      seconds_def release_expired_claims_def claim_rows_def select_rows_def Let_def)

end
