(* ===== verification/Evidence.thy ===== *)
theory Evidence
  imports Store Errors
begin

text \<open>
  The checks on repair evidence in \<^verbatim>\<open>backend/src/repositories/devrail_repairs.rs\<close>: digests,
  identifiers, references, and the scan for secrets in texts and JSON values, with
  \<^verbatim>\<open>validate_diagnosis\<close> and \<^verbatim>\<open>validate_request\<close>. The size of a serialised JSON value
  (\<^verbatim>\<open>serde_json::to_vec\<close>) is the parameter \<open>json_len\<close>.
\<close>

section \<open>JSON values\<close>

text \<open>\<^verbatim>\<open>serde_json::Value\<close>; a number is an integer or a number written with a fraction or an
  exponent, kept as its text.\<close>

datatype json =
    J_Null
  | J_Bool bool
  | J_Int int
  | J_Float rstr
  | J_String rstr
  | J_Array "json list"
  | J_Object "(rstr \<times> json) list"

fun as_array :: "json \<Rightarrow> json list option" where
  "as_array (J_Array vs) = Some vs"
| "as_array _ = None"

fun as_str :: "json \<Rightarrow> rstr option" where
  "as_str (J_String s) = Some s"
| "as_str _ = None"

fun as_i64 :: "json \<Rightarrow> int option" where
  "as_i64 (J_Int i) = (if in_i64 i then Some i else None)"
| "as_i64 _ = None"

fun json_get :: "json \<Rightarrow> rstr \<Rightarrow> json option" where
  "json_get (J_Object kvs) k = map_of kvs k"
| "json_get _ k = None"

section \<open>Identifiers and references\<close>

definition valid_digest :: "rstr \<Rightarrow> bool" where
  "valid_digest value =
     (length value = 64 \<and> list_all (\<lambda>c. is_ascii_hexdigit c \<and> \<not> is_ascii_uppercase c) value)"

definition valid_identifier :: "rstr \<Rightarrow> nat \<Rightarrow> bool" where
  "valid_identifier value max_bytes =
     (value \<noteq> [] \<and> length value \<le> max_bytes
      \<and> list_all (\<lambda>c. is_ascii_lowercase c \<or> is_ascii_digit c
           \<or> c \<in> {CHR ''-'', CHR ''_'', CHR ''.'', CHR '':''}) value)"

definition safe_reference :: "rstr \<Rightarrow> nat \<Rightarrow> bool" where
  "safe_reference value max_bytes =
     (value \<noteq> [] \<and> length value \<le> max_bytes
      \<and> \<not> starts_with ''/'' value \<and> \<not> starts_with ''~/'' value
      \<and> \<not> contains_str ''..'' value \<and> CHR 0x5C \<notin> set value
      \<and> \<not> list_ex is_ascii_control value)"

section \<open>Secrets\<close>

definition secret_markers :: "rstr list" where
  "secret_markers = [''password'', ''passwd'', ''token'', ''authorization'', ''cookie'', ''database_url'',
     ''private_key'', ''secret'']"

definition output_markers :: "rstr list" where
  "output_markers = [''headers'', ''command'', ''stdout'', ''stderr'', ''raw_log'', ''raw_output'']"

definition sensitive_line :: "rstr \<Rightarrow> bool" where
  "sensitive_line line =
     (let trimmed = trim line
      in starts_with ''/'' trimmed \<or> starts_with ''~/'' trimmed
        \<or> contains_str [CHR '':'', CHR 0x5C] trimmed
        \<or> list_ex (\<lambda>marker. contains_str marker (to_ascii_lowercase trimmed)
             \<and> (CHR ''='' \<in> set trimmed \<or> CHR '':'' \<in> set trimmed)) secret_markers)"

definition sensitive_text :: "rstr \<Rightarrow> bool" where
  "sensitive_text value =
     (let lower = to_ascii_lowercase value
      in contains_str ''begin rsa private key'' lower
        \<or> contains_str ''begin openssh private key'' lower
        \<or> list_ex sensitive_line (str_lines value))"

definition sensitive_key :: "rstr \<Rightarrow> bool" where
  "sensitive_key key =
     list_ex (\<lambda>marker. contains_str marker (to_ascii_lowercase key)) (secret_markers @ output_markers)"

fun sensitive_json :: "json \<Rightarrow> bool" where
  "sensitive_json (J_Object kvs) = list_ex (\<lambda>kv. sensitive_key (fst kv) \<or> sensitive_json (snd kv)) kvs"
| "sensitive_json (J_Array vs) = list_ex sensitive_json vs"
| "sensitive_json (J_String s) = sensitive_text s"
| "sensitive_json _ = False"

section \<open>Diagnoses and requests\<close>

record new_repair_diagnosis =
  nd_evidence_ref :: rstr
  nd_evidence_digest :: rstr
  nd_evidence_observed_at :: timestamp
  nd_evidence_expires_at :: "timestamp option"
  nd_affected_gates :: json
  nd_error_summary :: rstr
  nd_structured_error :: json
  nd_log_ref :: "rstr option"
  nd_changeset_digest :: "rstr option"
  nd_environment_summary :: json

record new_repair_request =
  nr_actor :: actor_context
  nr_task_id :: int
  nr_source_run_id :: int
  nr_idempotency_key :: rstr
  nr_risk_category :: rstr
  nr_strategy_version :: rstr
  nr_policy_snapshot :: json
  nr_max_repairs :: int
  nr_cost_units :: int
  nr_retry_of_request_id :: "int option"
  nr_diagnosis :: new_repair_diagnosis

definition is_some_and :: "'a option \<Rightarrow> ('a \<Rightarrow> bool) \<Rightarrow> bool" where
  "is_some_and x P = (case x of None \<Rightarrow> False | Some y \<Rightarrow> P y)"

lemma is_some_and_iff: "is_some_and x P \<longleftrightarrow> (\<exists>v. x = Some v \<and> P v)"
  by (cases x) (simp_all add: is_some_and_def)

definition gate_identifier :: "json \<Rightarrow> bool" where
  "gate_identifier gate = is_some_and (as_str gate) (\<lambda>value. valid_identifier value 64)"

definition validate_diagnosis ::
  "(json \<Rightarrow> int) \<Rightarrow> timestamp \<Rightarrow> new_repair_diagnosis \<Rightarrow> sqlx_error + unit" where
  "validate_diagnosis json_len now i =
    (if \<not> safe_reference (nd_evidence_ref i) 256
        \<or> \<not> valid_digest (nd_evidence_digest i)
        \<or> nd_evidence_observed_at i > now
        \<or> is_some_and (nd_evidence_expires_at i) (\<lambda>v. v \<le> nd_evidence_observed_at i \<or> v \<le> now)
        \<or> nd_error_summary i = [] \<or> length (nd_error_summary i) > 512
        \<or> sensitive_text (nd_error_summary i)
        \<or> is_some_and (nd_log_ref i) (\<lambda>v. \<not> safe_reference v 256)
        \<or> is_some_and (nd_changeset_digest i) (\<lambda>v. \<not> valid_digest v)
        \<or> sensitive_json (nd_affected_gates i)
        \<or> sensitive_json (nd_structured_error i)
        \<or> sensitive_json (nd_environment_summary i)
        \<or> json_len (nd_affected_gates i) > 4096
        \<or> json_len (nd_structured_error i) > 16 * 1024
        \<or> json_len (nd_environment_summary i) > 8 * 1024
     then Inl (Protocol ''repair_diagnosis_invalid'')
     else case as_array (nd_affected_gates i) of
       None \<Rightarrow> Inl (Protocol ''repair_diagnosis_without_gates'')
     | Some gates \<Rightarrow>
         if gates = [] \<or> length gates > 16 \<or> list_ex (\<lambda>g. \<not> gate_identifier g) gates
         then Inl (Protocol ''repair_gate_identifier_invalid'')
         else Inr ())"

definition risk_categories :: "rstr list" where
  "risk_categories = [''low_risk'', ''logical_change'', ''dependency_change'', ''remote_write'',
     ''security_change'', ''forbidden'']"

definition validate_request ::
  "(json \<Rightarrow> int) \<Rightarrow> timestamp \<Rightarrow> new_repair_request \<Rightarrow> sqlx_error + unit" where
  "validate_request json_len now i =
    (if \<not> valid_identifier (nr_idempotency_key i) 160
        \<or> \<not> valid_identifier (nr_risk_category i) 32
        \<or> \<not> valid_identifier (nr_strategy_version i) 128
        \<or> nr_risk_category i \<notin> set risk_categories
        \<or> \<not> (1 \<le> nr_max_repairs i \<and> nr_max_repairs i \<le> 5)
        \<or> nr_cost_units i = 0
        \<or> json_len (nr_policy_snapshot i) > 16 * 1024
        \<or> sensitive_json (nr_policy_snapshot i)
     then Inl (Protocol ''repair_request_invalid'')
     else validate_diagnosis json_len now (nr_diagnosis i))"

section \<open>What the scan finds\<close>

text \<open>All object keys and all texts of a value, at any depth.\<close>

fun json_keys :: "json \<Rightarrow> rstr set" where
  "json_keys (J_Object kvs) = fst ` set kvs \<union> (\<Union>kv \<in> set kvs. json_keys (snd kv))"
| "json_keys (J_Array vs) = (\<Union>v \<in> set vs. json_keys v)"
| "json_keys _ = {}"

fun json_texts :: "json \<Rightarrow> rstr set" where
  "json_texts (J_Object kvs) = (\<Union>kv \<in> set kvs. json_texts (snd kv))"
| "json_texts (J_Array vs) = (\<Union>v \<in> set vs. json_texts v)"
| "json_texts (J_String s) = {s}"
| "json_texts _ = {}"

lemma sensitive_json_iff:
  "sensitive_json v \<longleftrightarrow> (\<exists>k \<in> json_keys v. sensitive_key k) \<or> (\<exists>s \<in> json_texts v. sensitive_text s)"
  by (induction v rule: sensitive_json.induct) (auto simp: list_ex_iff)

lemma validate_diagnosis_Inr:
  "validate_diagnosis json_len now i = Inr () \<longleftrightarrow>
     safe_reference (nd_evidence_ref i) 256 \<and> valid_digest (nd_evidence_digest i)
     \<and> nd_evidence_observed_at i \<le> now
     \<and> (\<forall>v. nd_evidence_expires_at i = Some v \<longrightarrow> nd_evidence_observed_at i < v \<and> now < v)
     \<and> nd_error_summary i \<noteq> [] \<and> length (nd_error_summary i) \<le> 512
     \<and> \<not> sensitive_text (nd_error_summary i)
     \<and> (\<forall>v. nd_log_ref i = Some v \<longrightarrow> safe_reference v 256)
     \<and> (\<forall>v. nd_changeset_digest i = Some v \<longrightarrow> valid_digest v)
     \<and> \<not> sensitive_json (nd_affected_gates i) \<and> \<not> sensitive_json (nd_structured_error i)
     \<and> \<not> sensitive_json (nd_environment_summary i)
     \<and> json_len (nd_affected_gates i) \<le> 4096 \<and> json_len (nd_structured_error i) \<le> 16 * 1024
     \<and> json_len (nd_environment_summary i) \<le> 8 * 1024
     \<and> (\<exists>gates. as_array (nd_affected_gates i) = Some gates \<and> gates \<noteq> [] \<and> length gates \<le> 16
          \<and> (\<forall>g \<in> set gates. gate_identifier g))"
proof (cases "as_array (nd_affected_gates i)")
  case None
  then show ?thesis by (simp add: validate_diagnosis_def)
next
  case (Some gates)
  show ?thesis
    unfolding validate_diagnosis_def guard_Inr_iff is_some_and_iff list_ex_iff Some option.case
      option.inject de_Morgan_disj not_ex not_not not_less not_le
    by auto
qed

end
