(* ===== verification/Repairs.thy ===== *)
theory Repairs
  imports Requests Evidence Scope
begin

text \<open>
  The life of a controlled repair, \<^verbatim>\<open>backend/src/repositories/devrail_repairs.rs\<close>: creation from
  a failed run, dispatch, the result of the child run, the gate reruns and their verdict,
  approvals, hand-off to a person and cancellation. Every function runs inside a transaction of
  its caller, which an error rolls back, so the model returns either the error or the new state.
  \<open>now\<close> is the time of the transaction, \<open>clock\<close> the wall clock of the process, \<open>trace\<close> the trace
  identifier of the audit entry.
\<close>

section \<open>Tables\<close>

text \<open>\<open>dg_evidence\<close> are the ten snapshot columns of a diagnosis.\<close>

record repair_diagnosis =
  dg_id :: int
  dg_organization_id :: int
  dg_department_id :: "int option"
  dg_owner_user_id :: int
  dg_project_id :: int
  dg_task_id :: int
  dg_source_run_id :: int
  dg_evidence :: new_repair_diagnosis

datatype approval_status = Ap_Pending | Ap_Approved | Ap_Rejected | Ap_Expired | Ap_Withdrawn

record repair_approval =
  ap_id :: int
  ap_organization_id :: int
  ap_department_id :: "int option"
  ap_owner_user_id :: int
  ap_project_id :: int
  ap_task_id :: int
  ap_repair_request_id :: int
  ap_idempotency_key :: rstr
  ap_risk_category :: rstr
  ap_policy_version :: rstr
  ap_status :: approval_status
  ap_requested_by :: int
  ap_decided_by :: "int option"
  ap_decision_reason :: "rstr option"
  ap_expires_at :: timestamp
  ap_created_at :: timestamp
  ap_updated_at :: timestamp

record repair_handoff =
  hf_organization_id :: int
  hf_department_id :: "int option"
  hf_owner_user_id :: int
  hf_project_id :: int
  hf_task_id :: int
  hf_repair_request_id :: int
  hf_reason_code :: rstr
  hf_recommendation :: rstr

text \<open>The columns of \<^verbatim>\<open>devrail_run_handoffs\<close> and \<^verbatim>\<open>devrail_task_workspaces\<close> the statements use.\<close>

record run_handoff =
  rh_organization_id :: int
  rh_source_run_id :: int
  rh_changeset_digest :: rstr
  rh_evidence_status :: rstr
  rh_validated_at :: "timestamp option"

record workspace_row =
  w_id :: int
  w_organization_id :: int
  w_department_id :: "int option"
  w_owner_user_id :: int
  w_task_id :: int
  w_run_id :: "int option"
  w_attempt :: int
  w_workspace_key :: rstr
  w_relative_path :: rstr
  w_path_digest :: rstr
  w_repository_id :: "int option"
  w_environment_id :: "int option"
  w_base_commit :: "rstr option"
  w_snapshot_digest :: "rstr option"
  w_lifecycle_status :: rstr
  w_cleanup_status :: rstr
  w_cleanup_attempts :: int
  w_next_cleanup_at :: "timestamp option"
  w_last_hook :: "rstr option"
  w_error_summary :: "rstr option"
  w_updated_at :: timestamp
  w_cleaned_at :: "timestamp option"

record repair_store =
  base :: db
  repair_requests :: "repair_request list"
  repair_diagnoses :: "repair_diagnosis list"
  repair_gate_reruns :: "gate_rerun list"
  repair_approvals :: "repair_approval list"
  repair_handoffs :: "repair_handoff list"
  run_handoffs :: "run_handoff list"
  task_workspaces :: "workspace_row list"

section \<open>Shared statements\<close>

text \<open>\<^verbatim>\<open>scoped\<close>: unlike \<^verbatim>\<open>scope_sql\<close> of the task tables, even the widest scope stays within
  the actor's organization.\<close>

definition scoped :: "actor_context \<Rightarrow> db \<Rightarrow> int \<times> int \<times> int option \<Rightarrow> bool" where
  "scoped actor db row = (case row of (org, owner, dept) \<Rightarrow>
     org = organization_id actor
     \<and> (data_scope actor = Scope_All \<or> data_scope actor = Scope_Organization
        \<or> (data_scope actor = Scope_SelfOnly \<and> owner = user_id actor)
        \<or> (data_scope actor = Scope_Department \<and> dept \<noteq> None \<and> dept = department_id actor)
        \<or> (data_scope actor = Scope_DepartmentAndChildren
           \<and> (\<exists>d \<in> set (visible_departments actor db). dept = Some d))))"

lemma scoped_departments: "departments db' = departments db \<Longrightarrow> scoped actor db' = scoped actor db"
  by (simp add: fun_eq_iff scoped_def visible_departments_def department_edges_def)

definition request_scope :: "'a request_row_scheme \<Rightarrow> int \<times> int \<times> int option" where
  "request_scope r = (q_organization_id r, q_owner_user_id r, q_department_id r)"

definition approval_scope :: "repair_approval \<Rightarrow> int \<times> int \<times> int option" where
  "approval_scope a = (ap_organization_id a, ap_owner_user_id a, ap_department_id a)"

definition find_request :: "repair_store \<Rightarrow> int \<Rightarrow> repair_request option" where
  "find_request s i = find (\<lambda>r. q_id r = i) (repair_requests s)"

definition find_by_id_in_connection :: "repair_store \<Rightarrow> actor_context \<Rightarrow> int \<Rightarrow> repair_request option" where
  "find_by_id_in_connection s actor i =
     find (\<lambda>r. q_id r = i \<and> scoped actor (base s) (request_scope r)) (repair_requests s)"

definition fetch_task :: "db \<Rightarrow> int \<Rightarrow> int \<Rightarrow> sqlx_error + task_row" where
  "fetch_task db task_id org =
     (case find (\<lambda>t. t_id t = task_id \<and> t_organization_id t = org) (tasks db) of
        None \<Rightarrow> Inl RowNotFound | Some t \<Rightarrow> Inr t)"

definition task_link :: "repair_request \<Rightarrow> rstr" where
  "task_link r = ''/devrail/projects/'' @ show_int (q_project_id r) @ ''/tasks/'' @ show_int (q_task_id r)"

text \<open>The notification is inserted unless the recipient has one under the same key, read back,
  and announced in the outbox. \<open>o_source\<close> stands for the payload's text, which the
  notification, the summary and the link determine.\<close>

definition lifecycle_notification ::
  "repair_request \<Rightarrow> rstr \<Rightarrow> rstr \<Rightarrow> rstr \<Rightarrow> rstr \<Rightarrow> db \<Rightarrow> sqlx_error + db" where
  "lifecycle_notification r event_type level summary deep_link db =
     (let source_key = ''repair:'' @ show_int (q_id r) @ '':'' @ event_type;
          rows = insert_absent notification_key
            [\<lparr>n_organization_id = q_organization_id r, n_department_id = q_department_id r,
              n_recipient_user_id = q_owner_user_id r, n_event_type = event_type, n_level = level,
              n_resource_type = ''devrail_repair_request'', n_resource_id = q_id r,
              n_source_key = source_key\<rparr>] (notifications db)
      in if \<not> list_ex (\<lambda>n. n_organization_id n = q_organization_id r
              \<and> n_recipient_user_id n = q_owner_user_id r \<and> n_source_key n = source_key) rows
         then Inl RowNotFound
         else Inr (outbox \<lparr>o_organization_id = q_organization_id r, o_event_type = event_type,
                o_aggregate_type = ''devrail_repair_request'', o_aggregate_id = q_id r,
                o_source = source_key @ ''|'' @ summary @ ''|'' @ deep_link\<rparr>
              (db\<lparr>notifications := rows\<rparr>)))"

text \<open>The task event, the audit entry and the notification every transition ends with.\<close>

record repair_notice =
  no_event :: rstr
  no_event_key :: rstr
  no_audit_action :: rstr
  no_audit_target :: rstr
  no_audit_id :: int
  no_type :: rstr
  no_level :: rstr
  no_summary :: rstr
  no_link :: rstr

definition report_repair ::
  "rstr \<Rightarrow> actor_context \<Rightarrow> repair_request \<Rightarrow> repair_notice \<Rightarrow> repair_store \<Rightarrow> sqlx_error + repair_store" where
  "report_repair trace actor r n s =
     and_then (fetch_task (base s) (q_task_id r) (q_organization_id r)) (\<lambda>task.
     and_then (lifecycle_notification r (no_type n) (no_level n) (no_summary n) (no_link n)
       (record_audit \<lparr>a_organization_id = organization_id actor, a_department_id = department_id actor,
            a_action = no_audit_action n, a_target_type = no_audit_target n,
            a_target_id = no_audit_id n, a_reason = [], a_trace_id = trace\<rparr>
         (append_task_event (t_organization_id task) (t_id task) (no_event n) (no_event_key n) (base s))))
     (\<lambda>db. Inr (s\<lparr>base := db\<rparr>)))"

text \<open>The notice of a transition of a request: \<open>what\<close> is its name in the task event and the
  notification type, \<open>action\<close> its name in the audit log.\<close>

definition request_notice :: "repair_request \<Rightarrow> rstr \<Rightarrow> rstr \<Rightarrow> rstr \<Rightarrow> rstr \<Rightarrow> rstr \<Rightarrow> repair_notice" where
  "request_notice r what action level summary link =
     \<lparr>no_event = ''repair.'' @ what, no_event_key = ''repair:'' @ show_int (q_id r) @ '':'' @ what,
      no_audit_action = ''devrail.repair.'' @ action, no_audit_target = ''devrail_repair_request'',
      no_audit_id = q_id r, no_type = ''devrail.repair.'' @ what, no_level = level,
      no_summary = summary, no_link = link\<rparr>"

text \<open>An update of exactly one task row, else the transaction fails.\<close>

definition project_task ::
  "(task_row \<Rightarrow> bool) \<Rightarrow> (task_row \<Rightarrow> task_row) \<Rightarrow> rstr \<Rightarrow> repair_store \<Rightarrow> sqlx_error + repair_store" where
  "project_task P f err s =
     (if length (rows_where P (tasks (base s))) \<noteq> 1 then Inl (Protocol err)
      else Inr (s\<lparr>base := update_tasks P f (base s)\<rparr>))"

text \<open>The shape of the transitions: the selected rows \<open>P\<close> are updated by \<open>f\<close>, the task is projected,
  \<open>extra\<close> statements follow, and the transition is reported.\<close>

definition move_request ::
  "(repair_request \<Rightarrow> bool) \<Rightarrow> (repair_request \<Rightarrow> repair_request) \<Rightarrow> (repair_request \<Rightarrow> task_row \<Rightarrow> bool) \<Rightarrow>
   (task_row \<Rightarrow> task_row) \<Rightarrow> rstr \<Rightarrow> (repair_request \<Rightarrow> repair_store \<Rightarrow> repair_store) \<Rightarrow>
   (repair_request \<Rightarrow> repair_notice) \<Rightarrow> rstr \<Rightarrow> actor_context \<Rightarrow> repair_request \<Rightarrow> repair_store \<Rightarrow>
   sqlx_error + repair_store \<times> repair_request option" where
  "move_request P f Q g err extra notice trace actor r0 s =
     (let r = f r0
      in and_then (project_task (Q r) g err (s\<lparr>repair_requests := update_where P f (repair_requests s)\<rparr>))
         (\<lambda>s1. and_then (report_repair trace actor r (notice r) (extra r s1)) (\<lambda>s2. Inr (s2, Some r))))"

definition insert_handoff :: "repair_request \<Rightarrow> rstr \<Rightarrow> rstr \<Rightarrow> repair_store \<Rightarrow> repair_store" where
  "insert_handoff r reason recommendation s =
     s\<lparr>repair_handoffs := insert_absent
         (\<lambda>h. (hf_organization_id h, hf_repair_request_id h, hf_reason_code h))
         [\<lparr>hf_organization_id = q_organization_id r, hf_department_id = q_department_id r,
           hf_owner_user_id = q_owner_user_id r, hf_project_id = q_project_id r, hf_task_id = q_task_id r,
           hf_repair_request_id = q_id r, hf_reason_code = reason, hf_recommendation = recommendation\<rparr>]
         (repair_handoffs s)\<rparr>"

text \<open>The table constraint on result and reason codes, \<^verbatim>\<open>^[a-z][a-z0-9_]{0,63}$\<close>.\<close>

definition result_code_check :: "rstr \<Rightarrow> bool" where
  "result_code_check code = (case code of [] \<Rightarrow> False
     | c # cs \<Rightarrow> is_ascii_lowercase c \<and> length cs \<le> 63
         \<and> list_all (\<lambda>c. is_ascii_lowercase c \<or> is_ascii_digit c \<or> c = CHR ''_'') cs)"

definition diagnosis_of :: "repair_store \<Rightarrow> repair_request \<Rightarrow> repair_diagnosis option" where
  "diagnosis_of s r = find (\<lambda>d. dg_id d = q_diagnosis_id r \<and> dg_organization_id d = q_organization_id r)
     (repair_diagnoses s)"

definition run_evidence :: "repair_store \<Rightarrow> int \<Rightarrow> int \<Rightarrow> run_handoff option" where
  "run_evidence s org run = find (\<lambda>h. rh_source_run_id h = run \<and> rh_organization_id h = org
     \<and> rh_evidence_status h = ''available'' \<and> rh_validated_at h \<noteq> None) (run_handoffs s)"

text \<open>\<^verbatim>\<open>mark_cleanup_pending_for_run\<close> of \<^verbatim>\<open>repositories/devrail_workspaces.rs\<close>.\<close>

definition mark_cleanup_pending_for_run ::
  "timestamp \<Rightarrow> int \<Rightarrow> int \<Rightarrow> rstr \<Rightarrow> repair_store \<Rightarrow> repair_store" where
  "mark_cleanup_pending_for_run now org run hook s =
     s\<lparr>task_workspaces := update_where
         (\<lambda>w. w_organization_id w = org \<and> w_run_id w = Some run \<and> w_lifecycle_status w \<noteq> ''cleaned'')
         (\<lambda>w. w\<lparr>w_lifecycle_status := ''cleanup_pending'', w_cleanup_status := ''pending'',
               w_last_hook := Some hook, w_updated_at := now\<rparr>) (task_workspaces s)\<rparr>"

section \<open>Creation\<close>

definition create_diagnosis ::
  "actor_context \<Rightarrow> task_row \<Rightarrow> int \<Rightarrow> new_repair_diagnosis \<Rightarrow> repair_store \<Rightarrow>
   sqlx_error + repair_store \<times> repair_diagnosis" where
  "create_diagnosis actor task source_run i s =
     (case find (\<lambda>d. dg_organization_id d = organization_id actor \<and> dg_source_run_id d = source_run
             \<and> nd_evidence_ref (dg_evidence d) = nd_evidence_ref i) (repair_diagnoses s) of
        None \<Rightarrow>
          (let d = \<lparr>dg_id = next_serial dg_id (repair_diagnoses s), dg_organization_id = organization_id actor,
                    dg_department_id = t_department_id task, dg_owner_user_id = t_owner_user_id task,
                    dg_project_id = t_project_id task, dg_task_id = t_id task,
                    dg_source_run_id = source_run, dg_evidence = i\<rparr>
           in Inr (s\<lparr>repair_diagnoses := repair_diagnoses s @ [d]\<rparr>, d))
      | Some d \<Rightarrow>
          if dg_evidence d \<noteq> i then Inl (Protocol ''repair_diagnosis_is_immutable'') else Inr (s, d))"

text \<open>The row an earlier request of the same identity left: the key's own row first.\<close>

definition existing_requests :: "new_repair_request \<Rightarrow> repair_store \<Rightarrow> repair_request list" where
  "existing_requests i s =
     sort_key (\<lambda>r. (if q_idempotency_key r = nr_idempotency_key i then 0 else 1 :: int, q_id r))
       (filter (\<lambda>r. q_task_id r = nr_task_id i
           \<and> (q_idempotency_key r = nr_idempotency_key i
              \<or> (nr_retry_of_request_id i = None \<and> q_source_run_id r = nr_source_run_id i
                 \<and> q_failure_evidence_ref r = nd_evidence_ref (nr_diagnosis i)))
           \<and> scoped (nr_actor i) (base s) (request_scope r)) (repair_requests s))"

definition conflicting_request :: "new_repair_request \<Rightarrow> repair_request \<Rightarrow> bool" where
  "conflicting_request i r =
     (q_source_run_id r \<noteq> nr_source_run_id i
      \<or> q_failure_evidence_digest r \<noteq> nd_evidence_digest (nr_diagnosis i)
      \<or> q_risk_category r \<noteq> nr_risk_category i
      \<or> (q_idempotency_key r = nr_idempotency_key i
         \<and> q_failure_evidence_ref r \<noteq> nd_evidence_ref (nr_diagnosis i)))"

text \<open>The task and the failed run the request starts from.\<close>

definition repair_source :: "new_repair_request \<Rightarrow> repair_store \<Rightarrow> (task_row \<times> run_row) option" where
  "repair_source i s =
     find (\<lambda>(t, r). r_task_id r = t_id t \<and> r_organization_id r = t_organization_id t
          \<and> t_id t = nr_task_id i \<and> r_id r = nr_source_run_id i
          \<and> scoped (nr_actor i) (base s) (task_scope t)
          \<and> scoped (nr_actor i) (base s) (r_organization_id r, r_owner_user_id r, r_department_id r))
       (List.product (tasks (base s)) (runs (base s)))"

definition live_run :: "int \<Rightarrow> int \<Rightarrow> run_row \<Rightarrow> bool" where
  "live_run task org r = (r_task_id r = task \<and> r_organization_id r = org
     \<and> r_status r \<in> {Run_Starting, Run_Active, Run_AwaitingApproval})"

definition repairs_of :: "int \<Rightarrow> int \<Rightarrow> repair_store \<Rightarrow> repair_request list" where
  "repairs_of org task s =
     filter (\<lambda>r. q_organization_id r = org \<and> q_task_id r = task) (repair_requests s)"

definition max_cost_units :: "new_repair_request \<Rightarrow> int" where
  "max_cost_units i =
     (case Option.bind (json_get (nr_policy_snapshot i) ''max_cost_units'') as_i64 of
        None \<Rightarrow> nr_max_repairs i | Some n \<Rightarrow> n)"

definition over_budget :: "new_repair_request \<Rightarrow> repair_request list \<Rightarrow> bool" where
  "over_budget i previous =
     (max_cost_units i \<le> 0
      \<or> sat64 (sum_list (map q_cost_units previous) + nr_cost_units i) > max_cost_units i)"

definition startable :: "new_repair_request \<Rightarrow> task_row \<Rightarrow> bool" where
  "startable i t =
     ((t_status t = Task_Failed \<and> nr_retry_of_request_id i = None)
      \<or> (t_status t = Task_RepairHandoff \<and> nr_retry_of_request_id i = t_current_repair_request_id t))"

text \<open>The same test inside the \<^verbatim>\<open>UPDATE\<close>, where a comparison with a null identifier is not true.\<close>

definition startable_sql :: "new_repair_request \<Rightarrow> task_row \<Rightarrow> bool" where
  "startable_sql i t =
     ((t_status t = Task_Failed \<and> nr_retry_of_request_id i = None)
      \<or> (t_status t = Task_RepairHandoff \<and> t_current_repair_request_id t \<noteq> None
          \<and> t_current_repair_request_id t = nr_retry_of_request_id i))"

definition new_request_row ::
  "timestamp \<Rightarrow> new_repair_request \<Rightarrow> task_row \<Rightarrow> run_row \<Rightarrow> repair_diagnosis \<Rightarrow> int \<Rightarrow> int \<Rightarrow> repair_request" where
  "new_request_row now i t run d rid sequence =
     \<lparr>q_id = rid, q_organization_id = organization_id (nr_actor i), q_department_id = t_department_id t,
      q_owner_user_id = t_owner_user_id t, q_project_id = t_project_id t, q_task_id = nr_task_id i,
      q_source_run_id = nr_source_run_id i,
      q_root_run_id = (case r_root_run_id run of None \<Rightarrow> r_id run | Some root \<Rightarrow> root),
      q_changeset_digest = nd_changeset_digest (nr_diagnosis i),
      q_idempotency_key = nr_idempotency_key i, q_status = Req_Pending, q_status_version = 1,
      q_claim_owner = None, q_claim_token = None, q_claim_expires_at = None, q_dispatch_attempts = 0,
      q_next_attempt_at = None, q_child_run_id = None, q_result_code = None, q_created_at = now,
      q_updated_at = now, q_claimed_at = None, q_dispatched_at = None, q_completed_at = None,
      q_cancelled_at = None, q_diagnosis_id = dg_id d,
      q_failure_evidence_ref = nd_evidence_ref (nr_diagnosis i),
      q_failure_evidence_digest = nd_evidence_digest (nr_diagnosis i), q_repair_sequence = sequence,
      q_risk_category = nr_risk_category i, q_strategy_version = nr_strategy_version i,
      q_cost_units = nr_cost_units i, q_handoff_reason = None\<rparr>"

definition unique_request :: "repair_request \<Rightarrow> repair_request list \<Rightarrow> bool" where
  "unique_request r rows =
     (\<not> list_ex (\<lambda>q. q_organization_id q = q_organization_id r \<and> q_task_id q = q_task_id r
         \<and> (q_idempotency_key q = q_idempotency_key r
            \<or> (q_source_run_id q = q_source_run_id r \<and> q_repair_sequence q = q_repair_sequence r))) rows)"

text \<open>The second half of \<^verbatim>\<open>create_or_get\<close>, from the diagnosis on.\<close>

definition insert_request ::
  "timestamp \<Rightarrow> rstr \<Rightarrow> new_repair_request \<Rightarrow> task_row \<Rightarrow> run_row \<Rightarrow> nat \<Rightarrow> repair_store \<Rightarrow>
   sqlx_error + repair_store \<times> repair_request \<times> bool" where
  "insert_request now trace i t run count s =
     and_then (create_diagnosis (nr_actor i) t (nr_source_run_id i) (nr_diagnosis i) s) (\<lambda>(s1, d).
     if int count + 1 > 32767 then Inl (Protocol ''repair_sequence_out_of_range'')
     else if nr_cost_units i > 2147483647 then Inl (Protocol ''repair_cost_invalid'')
     else
       let r = new_request_row now i t run d (next_serial q_id (repair_requests s1)) (int count + 1);
           s2 = s1\<lparr>repair_requests := repair_requests s1 @ [r]\<rparr>
       in if \<not> unique_request r (repair_requests s1) then Inl (Database UniqueViolation)
          else and_then (project_task
            (\<lambda>x. t_id x = nr_task_id i \<and> t_organization_id x = organization_id (nr_actor i)
               \<and> t_revision x = t_revision t \<and> startable_sql i x
               \<and> \<not> list_ex (live_run (nr_task_id i) (organization_id (nr_actor i))) (runs (base s)))
            (\<lambda>x. x\<lparr>t_status := Task_RepairPending, t_current_repair_request_id := Some (q_id r),
                  t_revision := t_revision x + 1, t_updated_at := now\<rparr>)
            ''task_changed_during_repair_creation'' s2)
          (\<lambda>s3. case find_by_id_in_connection s3 (nr_actor i) (q_id r) of
             None \<Rightarrow> Inl RowNotFound
           | Some row \<Rightarrow>
               and_then (report_repair trace (nr_actor i) row
                 (request_notice row ''created'' ''create'' ''info'' ''diagnosis_saved'' (task_link row)) s3)
               (\<lambda>s4. Inr (s4, row, True))))"

definition create_or_get ::
  "(json \<Rightarrow> int) \<Rightarrow> timestamp \<Rightarrow> timestamp \<Rightarrow> rstr \<Rightarrow> new_repair_request \<Rightarrow> repair_store \<Rightarrow>
   sqlx_error + repair_store \<times> repair_request \<times> bool" where
  "create_or_get json_len clock now trace i s =
     and_then (validate_request json_len clock i) (\<lambda>_.
     case existing_requests i s of
       r # _ \<Rightarrow> if conflicting_request i r then Inl (Protocol ''repair_key_of_another_request'')
                 else Inr (s, r, False)
     | [] \<Rightarrow>
       (case repair_source i s of
          None \<Rightarrow> Inl RowNotFound
        | Some (t, run) \<Rightarrow>
            let org = organization_id (nr_actor i);
                previous = repairs_of org (nr_task_id i) s
            in if \<not> startable i t \<or> r_status run \<noteq> Run_Failed
               then Inl (Protocol ''repair_source_not_failed'')
               else if list_ex (live_run (nr_task_id i) org) (runs (base s))
               then Inl (Protocol ''task_has_active_run'')
               else if int (length previous) \<ge> nr_max_repairs i
               then Inl (Protocol ''repair_count_limit'')
               else if over_budget i previous then Inl (Protocol ''repair_cost_limit'')
               else insert_request now trace i t run (length previous) s))"

section \<open>Dispatch and the child run\<close>

definition dispatchable :: "timestamp \<Rightarrow> actor_context \<Rightarrow> int \<Rightarrow> credential \<Rightarrow> repair_request \<Rightarrow> bool" where
  "dispatchable now actor i c r =
     (q_id r = i \<and> q_organization_id r = organization_id actor \<and> request_cred r = Some c
      \<and> unexpired q_claim_expires_at now r)"

definition on_dispatch :: "timestamp \<Rightarrow> int \<Rightarrow> repair_request \<Rightarrow> repair_request" where
  "on_dispatch now child r =
     r\<lparr>q_status := Req_Dispatched, q_status_version := q_status_version r + 1,
       q_child_run_id := Some child, q_claim_owner := None, q_claim_token := None,
       q_claim_expires_at := None, q_dispatched_at := coalesce (q_dispatched_at r) now,
       q_updated_at := now\<rparr>"

text \<open>The task waits for this request, whose child run is about to start.\<close>

definition awaits_repair :: "repair_request \<Rightarrow> task_row \<Rightarrow> bool" where
  "awaits_repair r t = (t_id t = q_task_id r \<and> t_organization_id t = q_organization_id r
     \<and> t_status t = Task_RepairPending \<and> t_current_repair_request_id t = Some (q_id r))"

definition child_starting :: "repair_request \<Rightarrow> int \<Rightarrow> db \<Rightarrow> bool" where
  "child_starting r child db = list_ex (\<lambda>x. r_id x = child \<and> r_organization_id x = q_organization_id r
     \<and> r_task_id x = q_task_id r \<and> r_repair_request_id x = Some (q_id r) \<and> r_status x = Run_Starting) (runs db)"

definition mark_dispatched ::
  "timestamp \<Rightarrow> rstr \<Rightarrow> actor_context \<Rightarrow> int \<Rightarrow> credential \<Rightarrow> int \<Rightarrow> repair_store \<Rightarrow>
   sqlx_error + repair_store \<times> repair_request option" where
  "mark_dispatched now trace actor i c child s =
     (case find (dispatchable now actor i c) (repair_requests s) of
        None \<Rightarrow> Inr (s, None)
      | Some r0 \<Rightarrow>
          if list_ex (\<lambda>r. q_child_run_id r = Some child \<and> q_id r \<noteq> i) (repair_requests s)
          then Inl (Database UniqueViolation)
          else if \<not> list_ex (\<lambda>x. r_id x = child \<and> r_organization_id x = q_organization_id r0) (runs (base s))
          then Inl (Database ForeignKeyViolation)
          else
            move_request (dispatchable now actor i c) (on_dispatch now child)
              (\<lambda>r t. awaits_repair r t \<and> child_starting r child (base s))
              (\<lambda>t. t\<lparr>t_status := Task_RepairRunning, t_revision := t_revision t + 1, t_updated_at := now\<rparr>)
              ''task_changed_during_repair_dispatch'' (\<lambda>_. id)
              (\<lambda>r. request_notice r ''dispatched'' ''dispatch'' ''info'' ''repair_dispatched''
                 (''/devrail/runs/'' @ show_int child)) trace actor r0 s)"

text \<open>The result of a child run that ended, \<open>outcome\<close> being \<^verbatim>\<open>succeeded\<close>, \<^verbatim>\<open>failed\<close> or
  \<^verbatim>\<open>cancelled\<close>.\<close>

definition end_task :: "timestamp \<Rightarrow> task_status \<Rightarrow> task_row \<Rightarrow> task_row" where
  "end_task now status t =
     t\<lparr>t_status := status, t_revision := t_revision t + 1, t_scheduler_claim_token := None,
       t_scheduler_claimed_at := None, t_scheduler_retry_at := None, t_scheduler_last_error := None,
       t_updated_at := now\<rparr>"

definition runs_repair :: "repair_request \<Rightarrow> task_row \<Rightarrow> bool" where
  "runs_repair r t = (t_id t = q_task_id r \<and> t_organization_id t = q_organization_id r
     \<and> t_status t = Task_RepairRunning \<and> t_current_repair_request_id t = Some (q_id r))"

definition completable :: "actor_context \<Rightarrow> int \<Rightarrow> db \<Rightarrow> repair_request \<Rightarrow> bool" where
  "completable actor child db r =
     (q_child_run_id r = Some child \<and> q_organization_id r = organization_id actor
      \<and> q_status r \<in> {Req_Dispatched, Req_Running}
      \<and> list_ex (\<lambda>x. r_id x = child \<and> r_organization_id x = organization_id actor
           \<and> r_status x \<in> {Run_Completed, Run_Failed, Run_Cancelled}) (runs db))"

definition child_outcome :: "rstr \<Rightarrow> request_status" where
  "child_outcome outcome = (if outcome = ''succeeded'' then Req_Succeeded
     else if outcome = ''cancelled'' then Req_Cancelled else Req_Failed)"

definition on_end :: "timestamp \<Rightarrow> request_status \<Rightarrow> rstr option \<Rightarrow> repair_request \<Rightarrow> repair_request" where
  "on_end now status result_code r =
     r\<lparr>q_status := status, q_status_version := q_status_version r + 1, q_result_code := result_code,
       q_completed_at := coalesce (q_completed_at r) now, q_updated_at := now\<rparr>"

definition complete_for_child_run ::
  "timestamp \<Rightarrow> rstr \<Rightarrow> actor_context \<Rightarrow> int \<Rightarrow> rstr \<Rightarrow> rstr \<Rightarrow> repair_store \<Rightarrow>
   sqlx_error + repair_store \<times> repair_request option" where
  "complete_for_child_run now trace actor child result_code outcome s =
    (if outcome \<notin> {''succeeded'', ''failed'', ''cancelled''} \<or> \<not> valid_identifier result_code 64
     then Inl (Protocol ''repair_child_outcome_invalid'')
     else
       let won = (outcome = ''succeeded'')
       in case find (completable actor child (base s)) (repair_requests s) of
            None \<Rightarrow> Inr (s, None)
          | Some r0 \<Rightarrow>
              if \<not> result_code_check result_code then Inl (Database CheckViolation)
              else move_request (completable actor child (base s))
                (on_end now (child_outcome outcome) (Some result_code)) runs_repair
                (end_task now (if won then Task_Succeeded else Task_RepairHandoff))
                ''task_changed_during_repair_completion''
                (\<lambda>r. if won then id else insert_handoff r ''gate_failed'' ''child_run_failed'')
                (\<lambda>r. request_notice r ''completed'' ''complete'' (if won then ''success'' else ''warning'')
                   (if won then ''repair_finished'' else ''repair_needs_person'') (task_link r))
                trace actor r0 s)"

section \<open>Gate reruns\<close>

record new_gate_rerun =
  ng_request_id :: int
  ng_gate_id :: rstr
  ng_changeset_digest :: rstr
  ng_idempotency_key :: rstr
  ng_child_run_id :: "int option"

definition finished_request :: "request_status \<Rightarrow> bool" where
  "finished_request st = (st \<in> {Req_Succeeded, Req_Failed, Req_Cancelled, Req_HandedOff, Req_Rejected})"

definition names_gate :: "repair_diagnosis \<Rightarrow> rstr \<Rightarrow> bool" where
  "names_gate d gate = is_some_and (as_array (nd_affected_gates (dg_evidence d)))
     (\<lambda>vs. list_ex (\<lambda>v. as_str v = Some gate) vs)"

text \<open>The evidence a rerun is bound to: that of the child run when there is one, else that of the
  request.\<close>

definition check_changeset ::
  "actor_context \<Rightarrow> new_gate_rerun \<Rightarrow> repair_request \<Rightarrow> repair_store \<Rightarrow> sqlx_error + unit" where
  "check_changeset actor i r s =
     (case ng_child_run_id i of
        Some child \<Rightarrow>
          if \<not> list_ex (\<lambda>x. r_id x = child \<and> r_organization_id x = organization_id actor
                \<and> r_repair_request_id x = Some (ng_request_id i) \<and> r_status x = Run_Completed)
              (runs (base s))
          then Inl (Protocol ''child_evidence_missing'')
          else (case run_evidence s (organization_id actor) child of
                  None \<Rightarrow> Inl (Protocol ''child_evidence_missing'')
                | Some h \<Rightarrow> if rh_changeset_digest h \<noteq> ng_changeset_digest i
                            then Inl (Protocol ''child_changeset_differs'') else Inr ())
      | None \<Rightarrow>
          if is_some_and (q_changeset_digest r) (\<lambda>v. v \<noteq> ng_changeset_digest i)
          then Inl (Protocol ''request_changeset_differs'') else Inr ())"

definition new_gate_row :: "timestamp \<Rightarrow> actor_context \<Rightarrow> new_gate_rerun \<Rightarrow> repair_request \<Rightarrow> int \<Rightarrow> gate_rerun" where
  "new_gate_row now actor i r gid =
     \<lparr>g_id = gid, g_organization_id = organization_id actor, g_department_id = q_department_id r,
      g_owner_user_id = q_owner_user_id r, g_project_id = q_project_id r, g_task_id = q_task_id r,
      g_repair_request_id = ng_request_id i, g_child_run_id = ng_child_run_id i,
      g_gate_id = ng_gate_id i, g_changeset_digest = ng_changeset_digest i,
      g_idempotency_key = ng_idempotency_key i, g_status = Gate_Pending, g_claim_owner = None,
      g_claim_token = None, g_claim_expires_at = None, g_result_code = None, g_log_ref = None,
      g_summary = None, g_duration_ms = None, g_created_at = now, g_updated_at = now,
      g_started_at = None, g_completed_at = None\<rparr>"

text \<open>The row of the idempotency key, else the row of the gate and changeset, else a new row.\<close>

definition insert_gate ::
  "timestamp \<Rightarrow> actor_context \<Rightarrow> new_gate_rerun \<Rightarrow> repair_request \<Rightarrow> repair_store \<Rightarrow>
   sqlx_error + repair_store \<times> gate_rerun \<times> bool" where
  "insert_gate now actor i r s =
        (case find (\<lambda>g. g_organization_id g = organization_id actor
                \<and> g_idempotency_key g = ng_idempotency_key i) (repair_gate_reruns s) of
           Some g \<Rightarrow>
             if g_repair_request_id g \<noteq> ng_request_id i \<or> g_gate_id g \<noteq> ng_gate_id i
                \<or> g_changeset_digest g \<noteq> ng_changeset_digest i \<or> g_child_run_id g \<noteq> ng_child_run_id i
             then Inl (Protocol ''gate_rerun_identity_differs'') else Inr (s, g, False)
         | None \<Rightarrow>
             (case find (\<lambda>g. g_organization_id g = organization_id actor
                    \<and> g_repair_request_id g = ng_request_id i \<and> g_gate_id g = ng_gate_id i
                    \<and> g_changeset_digest g = ng_changeset_digest i) (repair_gate_reruns s) of
                None \<Rightarrow>
                  (let g = new_gate_row now actor i r (next_serial g_id (repair_gate_reruns s))
                   in Inr (s\<lparr>repair_gate_reruns := repair_gate_reruns s @ [g]\<rparr>, g, True))
              | Some g \<Rightarrow>
                  if g_idempotency_key g \<noteq> ng_idempotency_key i \<or> g_child_run_id g \<noteq> ng_child_run_id i
                  then Inl (Protocol ''gate_rerun_identity_differs'') else Inr (s, g, False)))"

definition create_gate_rerun ::
  "timestamp \<Rightarrow> actor_context \<Rightarrow> new_gate_rerun \<Rightarrow> repair_store \<Rightarrow>
   sqlx_error + repair_store \<times> gate_rerun \<times> bool" where
  "create_gate_rerun now actor i s =
    (if \<not> valid_identifier (ng_gate_id i) 64 \<or> \<not> valid_digest (ng_changeset_digest i)
        \<or> \<not> valid_identifier (ng_idempotency_key i) 256
     then Inl (Protocol ''gate_rerun_invalid'')
     else case find (\<lambda>r. q_id r = ng_request_id i \<and> q_organization_id r = organization_id actor
                 \<and> diagnosis_of s r \<noteq> None) (repair_requests s) of
       None \<Rightarrow> Inl RowNotFound
     | Some r \<Rightarrow>
       if finished_request (q_status r) then Inl (Protocol ''repair_request_finished'')
       else if \<not> is_some_and (diagnosis_of s r) (\<lambda>d. names_gate d (ng_gate_id i))
       then Inl (Protocol ''gate_not_in_diagnosis'')
       else and_then (check_changeset actor i r s) (\<lambda>_. insert_gate now actor i r s))"

definition gate_key :: "int \<Rightarrow> rstr \<Rightarrow> rstr \<Rightarrow> rstr" where
  "gate_key i gate digest = ''repair:'' @ show_int i @ '':gate:'' @ gate @ '':'' @ digest"

fun create_gates ::
  "timestamp \<Rightarrow> actor_context \<Rightarrow> int \<Rightarrow> rstr \<Rightarrow> int \<Rightarrow> json list \<Rightarrow> repair_store \<Rightarrow> sqlx_error + repair_store" where
  "create_gates now actor i digest child [] s = Inr s"
| "create_gates now actor i digest child (v # vs) s =
     (if \<not> gate_identifier v then Inl (Protocol ''repair_gate_identifier_invalid'')
      else let gate = (case as_str v of None \<Rightarrow> [] | Some g \<Rightarrow> g)
           in and_then (create_gate_rerun now actor
                \<lparr>ng_request_id = i, ng_gate_id = gate, ng_changeset_digest = digest,
                 ng_idempotency_key = gate_key i gate digest, ng_child_run_id = Some child\<rparr> s)
              (\<lambda>(s1, _). create_gates now actor i digest child vs s1))"

definition gate_source :: "actor_context \<Rightarrow> int \<Rightarrow> repair_store \<Rightarrow> repair_request option" where
  "gate_source actor child s =
     find (\<lambda>r. q_child_run_id r = Some child \<and> q_organization_id r = organization_id actor
          \<and> q_status r \<in> {Req_Dispatched, Req_Running}
          \<and> list_ex (\<lambda>x. r_id x = child \<and> r_organization_id x = q_organization_id r
               \<and> r_status x = Run_Completed) (runs (base s))
          \<and> diagnosis_of s r \<noteq> None \<and> run_evidence s (q_organization_id r) child \<noteq> None)
       (repair_requests s)"

definition on_start_gates :: "timestamp \<Rightarrow> repair_request \<Rightarrow> repair_request" where
  "on_start_gates now r =
     r\<lparr>q_status := Req_Running, q_status_version := q_status_version r + 1, q_updated_at := now\<rparr>"

definition start_gates :: "timestamp \<Rightarrow> actor_context \<Rightarrow> int \<Rightarrow> repair_store \<Rightarrow> repair_store" where
  "start_gates now actor i s =
     s\<lparr>repair_requests := update_where
         (\<lambda>r. q_id r = i \<and> q_organization_id r = organization_id actor
            \<and> q_status r \<in> {Req_Dispatched, Req_Running})
         (on_start_gates now)
         (repair_requests s)\<rparr>"

definition begin_gate_reruns_for_child_run ::
  "timestamp \<Rightarrow> actor_context \<Rightarrow> int \<Rightarrow> repair_store \<Rightarrow> sqlx_error + repair_store \<times> bool" where
  "begin_gate_reruns_for_child_run now actor child s =
     (case gate_source actor child s of
        None \<Rightarrow> Inr (s, False)
      | Some r \<Rightarrow>
        (case (diagnosis_of s r, run_evidence s (q_organization_id r) child) of
           (Some d, Some h) \<Rightarrow>
             if \<not> valid_digest (rh_changeset_digest h) then Inl (Protocol ''child_changeset_invalid'')
             else (case as_array (nd_affected_gates (dg_evidence d)) of
                     None \<Rightarrow> Inl (Protocol ''repair_diagnosis_without_gates'')
                   | Some gates \<Rightarrow>
                       if gates = [] then Inl (Protocol ''repair_diagnosis_without_gates'')
                       else and_then (create_gates now actor (q_id r) (rh_changeset_digest h) child gates
                              (start_gates now actor (q_id r) s))
                            (\<lambda>s1. Inr (s1, True)))
         | _ \<Rightarrow> Inr (s, False)))"

record completed_gate_rerun =
  cg_id :: int
  cg_credential :: credential
  cg_status :: rstr
  cg_result_code :: "rstr option"
  cg_summary :: "rstr option"
  cg_log_ref :: "rstr option"
  cg_duration_ms :: "int option"

definition gate_verdict :: "rstr \<Rightarrow> gate_status" where
  "gate_verdict st = (if st = ''passed'' then Gate_Passed else if st = ''failed'' then Gate_Failed
     else Gate_Cancelled)"

definition complete_gate_rerun ::
  "timestamp \<Rightarrow> completed_gate_rerun \<Rightarrow> repair_store \<Rightarrow> sqlx_error + repair_store \<times> gate_rerun option" where
  "complete_gate_rerun now i s =
    (if cg_status i \<notin> {''passed'', ''failed'', ''cancelled''}
        \<or> is_some_and (cg_result_code i) (\<lambda>v. \<not> valid_identifier v 64)
        \<or> is_some_and (cg_summary i) (\<lambda>v. length v > 512 \<or> sensitive_text v)
        \<or> is_some_and (cg_log_ref i) (\<lambda>v. \<not> safe_reference v 256)
        \<or> is_some_and (cg_duration_ms i) (\<lambda>v. \<not> (0 \<le> v \<and> v \<le> 86400000))
     then Inl (Protocol ''gate_result_invalid'')
     else
       let P = (\<lambda>g. g_id g = cg_id i \<and> gate_cred g = Some (cg_credential i));
           f = (\<lambda>g. g\<lparr>g_status := gate_verdict (cg_status i), g_result_code := cg_result_code i,
                  g_summary := cg_summary i, g_log_ref := cg_log_ref i, g_duration_ms := cg_duration_ms i,
                  g_claim_owner := None, g_claim_token := None, g_claim_expires_at := None,
                  g_completed_at := coalesce (g_completed_at g) now, g_updated_at := now\<rparr>)
       in Inr (s\<lparr>repair_gate_reruns := update_where P f (repair_gate_reruns s)\<rparr>,
               map_option f (find P (repair_gate_reruns s))))"

definition gates_of :: "int \<Rightarrow> int \<Rightarrow> repair_store \<Rightarrow> gate_rerun list" where
  "gates_of org i s =
     filter (\<lambda>g. g_organization_id g = org \<and> g_repair_request_id g = i) (repair_gate_reruns s)"

definition gates_running :: "actor_context \<Rightarrow> int \<Rightarrow> repair_request \<Rightarrow> bool" where
  "gates_running actor i r =
     (q_id r = i \<and> q_organization_id r = organization_id actor \<and> q_status r = Req_Running)"

definition finalize_gate_reruns ::
  "timestamp \<Rightarrow> rstr \<Rightarrow> actor_context \<Rightarrow> int \<Rightarrow> repair_store \<Rightarrow>
   sqlx_error + repair_store \<times> repair_request option" where
  "finalize_gate_reruns now trace actor i s =
     (let statuses = map g_status (gates_of (organization_id actor) i s);
          won = list_all (\<lambda>st. st = Gate_Passed) statuses
      in case find (gates_running actor i) (repair_requests s) of
           None \<Rightarrow> Inr (s, None)
         | Some r0 \<Rightarrow>
             if statuses = [] \<or> list_ex (\<lambda>st. st \<in> {Gate_Pending, Gate_Running}) statuses
             then Inr (s, None)
             else move_request (gates_running actor i)
               (on_end now (if won then Req_Succeeded else Req_HandedOff)
                  (if won then None else Some ''gate_failed'')) runs_repair
               (end_task now (if won then Task_Succeeded else Task_RepairHandoff))
               ''task_changed_during_gate_projection''
               (\<lambda>r s1. (case q_child_run_id r of None \<Rightarrow> id
                   | Some child \<Rightarrow>
                       mark_cleanup_pending_for_run now (q_organization_id r) child ''after_gate_rerun'')
                  (if won then s1 else insert_handoff r ''gate_failed'' ''gates_failed'' s1))
               (\<lambda>r. request_notice r ''gates_completed'' ''gates_complete''
                  (if won then ''success'' else ''warning'')
                  (if won then ''gates_passed'' else ''gates_failed'') (task_link r))
               trace actor r0 s)"

section \<open>Approvals\<close>

record new_repair_approval =
  na_request_id :: int
  na_idempotency_key :: rstr
  na_risk_category :: rstr
  na_policy_version :: rstr
  na_requested_by :: int
  na_expires_at :: timestamp

definition create_approval ::
  "timestamp \<Rightarrow> timestamp \<Rightarrow> actor_context \<Rightarrow> new_repair_approval \<Rightarrow> repair_store \<Rightarrow>
   sqlx_error + repair_store \<times> repair_approval \<times> bool" where
  "create_approval clock now actor i s =
    (if \<not> valid_identifier (na_idempotency_key i) 160 \<or> \<not> valid_identifier (na_policy_version i) 128
        \<or> na_risk_category i \<notin> {''logical_change'', ''dependency_change'', ''remote_write'', ''security_change''}
        \<or> na_expires_at i \<le> clock
     then Inl (Protocol ''repair_approval_invalid'')
     else case find (\<lambda>r. q_id r = na_request_id i \<and> q_organization_id r = organization_id actor)
            (repair_requests s) of
       None \<Rightarrow> Inl RowNotFound
     | Some r \<Rightarrow>
       (case find (\<lambda>a. ap_organization_id a = organization_id actor
               \<and> ap_repair_request_id a = na_request_id i \<and> ap_idempotency_key a = na_idempotency_key i)
             (repair_approvals s) of
          None \<Rightarrow>
            (let a = \<lparr>ap_id = next_serial ap_id (repair_approvals s),
                      ap_organization_id = organization_id actor, ap_department_id = q_department_id r,
                      ap_owner_user_id = q_owner_user_id r, ap_project_id = q_project_id r,
                      ap_task_id = q_task_id r, ap_repair_request_id = na_request_id i,
                      ap_idempotency_key = na_idempotency_key i, ap_risk_category = na_risk_category i,
                      ap_policy_version = na_policy_version i, ap_status = Ap_Pending,
                      ap_requested_by = na_requested_by i, ap_decided_by = None,
                      ap_decision_reason = None, ap_expires_at = na_expires_at i, ap_created_at = now,
                      ap_updated_at = now\<rparr>
             in Inr (s\<lparr>repair_approvals := repair_approvals s @ [a]\<rparr>, a, True))
        | Some a \<Rightarrow>
            if ap_risk_category a \<noteq> na_risk_category i \<or> ap_policy_version a \<noteq> na_policy_version i
            then Inl (Protocol ''repair_approval_identity_differs'') else Inr (s, a, False)))"

definition approval_decision :: "rstr \<Rightarrow> approval_status" where
  "approval_decision d = (if d = ''approved'' then Ap_Approved
     else if d = ''rejected'' then Ap_Rejected else Ap_Withdrawn)"

definition decidable_approval ::
  "timestamp \<Rightarrow> actor_context \<Rightarrow> rstr \<Rightarrow> int \<Rightarrow> repair_store \<Rightarrow> repair_approval \<Rightarrow> bool" where
  "decidable_approval now actor decision i s a =
     (ap_id a = i \<and> ap_status a = Ap_Pending \<and> ap_expires_at a > now
      \<and> (decision \<noteq> ''withdrawn'' \<or> ap_requested_by a = user_id actor)
      \<and> scoped actor (base s) (approval_scope a))"

definition decide_approval ::
  "timestamp \<Rightarrow> rstr \<Rightarrow> actor_context \<Rightarrow> int \<Rightarrow> rstr \<Rightarrow> rstr option \<Rightarrow> repair_store \<Rightarrow>
   sqlx_error + repair_store \<times> repair_approval option" where
  "decide_approval now trace actor i decision reason s =
    (if decision \<notin> {''approved'', ''rejected'', ''withdrawn''}
        \<or> is_some_and reason (\<lambda>v. length v > 512 \<or> sensitive_text v)
     then Inl (Protocol ''repair_decision_invalid'')
     else
       let P = decidable_approval now actor decision i s;
           f = (\<lambda>a. a\<lparr>ap_status := approval_decision decision, ap_decided_by := Some (user_id actor),
                  ap_decision_reason := reason, ap_updated_at := now\<rparr>)
       in case find P (repair_approvals s) of
            None \<Rightarrow> Inr (s, None)
          | Some a0 \<Rightarrow>
              let s1 = s\<lparr>repair_approvals := update_where P f (repair_approvals s)\<rparr>
              in (case find_by_id_in_connection s1 actor (ap_repair_request_id a0) of
                    None \<Rightarrow> Inl RowNotFound
                  | Some r \<Rightarrow>
                      and_then (report_repair trace actor r
                        \<lparr>no_event = ''repair.approval_decided'',
                         no_event_key = ''repair:'' @ show_int (q_id r) @ '':approval:'' @ show_int (ap_id a0)
                            @ '':'' @ decision,
                         no_audit_action = ''devrail.repair.approval.'' @ decision,
                         no_audit_target = ''devrail_repair_approval'', no_audit_id = ap_id a0,
                         no_type = ''devrail.repair.approval_'' @ decision,
                         no_level = (if decision = ''approved'' then ''success'' else ''warning''),
                         no_summary = ''approval_'' @ decision, no_link = task_link r\<rparr> s1)
                      (\<lambda>s2. Inr (s2, Some (f a0)))))"

definition approval_satisfied :: "timestamp \<Rightarrow> int \<Rightarrow> rstr \<Rightarrow> repair_store \<Rightarrow> bool" where
  "approval_satisfied now i risk s =
     (risk = ''low_risk''
      \<or> list_ex (\<lambda>a. ap_repair_request_id a = i \<and> ap_risk_category a = risk
           \<and> ap_status a = Ap_Approved \<and> ap_expires_at a > now) (repair_approvals s))"

definition approval_is_current :: "timestamp \<Rightarrow> actor_context \<Rightarrow> int \<Rightarrow> rstr \<Rightarrow> repair_store \<Rightarrow> bool" where
  "approval_is_current now actor i risk s =
     (risk = ''low_risk''
      \<or> list_ex (\<lambda>a. ap_repair_request_id a = i \<and> ap_risk_category a = risk
           \<and> ap_status a = Ap_Approved \<and> ap_expires_at a > now
           \<and> scoped actor (base s) (approval_scope a)) (repair_approvals s))"

definition dispatch_evidence_is_current :: "timestamp \<Rightarrow> actor_context \<Rightarrow> int \<Rightarrow> repair_store \<Rightarrow> bool" where
  "dispatch_evidence_is_current now actor i s =
     list_ex (\<lambda>r. q_id r = i \<and> scoped actor (base s) (request_scope r)
       \<and> list_ex (\<lambda>d. dg_id d = q_diagnosis_id r \<and> dg_organization_id d = q_organization_id r
            \<and> q_changeset_digest r \<noteq> None
            \<and> nd_changeset_digest (dg_evidence d) = q_changeset_digest r
            \<and> is_some_and (nd_evidence_expires_at (dg_evidence d)) (\<lambda>e. e > now)
            \<and> scoped actor (base s) (dg_organization_id d, dg_owner_user_id d, dg_department_id d)
            \<and> list_ex (\<lambda>h. rh_source_run_id h = q_source_run_id r
                 \<and> rh_organization_id h = q_organization_id r \<and> rh_evidence_status h = ''available''
                 \<and> rh_validated_at h \<noteq> None \<and> Some (rh_changeset_digest h) = q_changeset_digest r)
               (run_handoffs s)) (repair_diagnoses s)) (repair_requests s)"

section \<open>Hand-off and cancellation\<close>

definition transferable :: "actor_context \<Rightarrow> int \<Rightarrow> db \<Rightarrow> repair_request \<Rightarrow> bool" where
  "transferable actor i db r =
     (q_id r = i \<and> q_status r \<in> {Req_Pending, Req_Claimed, Req_Dispatched, Req_Running}
      \<and> scoped actor db (request_scope r))"

definition on_handoff :: "timestamp \<Rightarrow> rstr \<Rightarrow> repair_request \<Rightarrow> repair_request" where
  "on_handoff now reason r =
     r\<lparr>q_status := Req_HandedOff, q_status_version := q_status_version r + 1,
       q_handoff_reason := Some reason, q_result_code := Some reason, q_claim_owner := None,
       q_claim_token := None, q_claim_expires_at := None,
       q_completed_at := coalesce (q_completed_at r) now, q_updated_at := now\<rparr>"

definition in_repair :: "repair_request \<Rightarrow> task_row \<Rightarrow> bool" where
  "in_repair r t = (t_id t = q_task_id r \<and> t_organization_id t = q_organization_id r
     \<and> t_status t \<in> {Task_RepairPending, Task_RepairRunning})"

definition handoff ::
  "timestamp \<Rightarrow> rstr \<Rightarrow> actor_context \<Rightarrow> int \<Rightarrow> rstr \<Rightarrow> rstr \<Rightarrow> repair_store \<Rightarrow>
   sqlx_error + repair_store \<times> repair_request option" where
  "handoff now trace actor i reason recommendation s =
    (if \<not> valid_identifier reason 64 \<or> recommendation = [] \<or> length recommendation > 512
        \<or> sensitive_text recommendation
     then Inl (Protocol ''repair_handoff_invalid'')
     else
       let P = transferable actor i (base s);
           f = on_handoff now reason
       in case find P (repair_requests s) of
            None \<Rightarrow> Inr (s, None)
          | Some r0 \<Rightarrow>
              if \<not> result_code_check reason then Inl (Database CheckViolation)
              else
                let r = f r0;
                    s1 = insert_handoff r reason recommendation
                           (s\<lparr>repair_requests := update_where P f (repair_requests s)\<rparr>)
                in if length (rows_where (in_repair r) (tasks (base s1))) > 1
                   then Inl (Protocol ''repair_task_projection_not_unique'')
                   else and_then (report_repair trace actor r
                     ((request_notice r ''handed_off'' ''handoff'' ''warning'' ''repair_stopped'' (task_link r))
                       \<lparr>no_event_key := ''repair:'' @ show_int (q_id r) @ '':handoff:'' @ reason\<rparr>)
                     (s1\<lparr>base := update_tasks (in_repair r)
                        (\<lambda>t. t\<lparr>t_status := Task_RepairHandoff, t_revision := t_revision t + 1,
                              t_current_repair_request_id := Some (q_id r), t_updated_at := now\<rparr>) (base s1)\<rparr>))
                   (\<lambda>s2. Inr (s2, Some r)))"

definition cancellable :: "actor_context \<Rightarrow> int \<Rightarrow> db \<Rightarrow> repair_request \<Rightarrow> bool" where
  "cancellable actor i db r =
     (q_id r = i \<and> q_status r \<in> {Req_Pending, Req_Claimed} \<and> scoped actor db (request_scope r))"

definition on_cancel :: "timestamp \<Rightarrow> repair_request \<Rightarrow> repair_request" where
  "on_cancel now r =
     r\<lparr>q_status := Req_Cancelled, q_status_version := q_status_version r + 1,
       q_result_code := Some ''cancelled'', q_claim_owner := None, q_claim_token := None,
       q_claim_expires_at := None, q_cancelled_at := coalesce (q_cancelled_at r) now,
       q_completed_at := coalesce (q_completed_at r) now, q_updated_at := now\<rparr>"

definition cancel ::
  "timestamp \<Rightarrow> rstr \<Rightarrow> actor_context \<Rightarrow> int \<Rightarrow> repair_store \<Rightarrow> sqlx_error + repair_store \<times> repair_request option" where
  "cancel now trace actor i s =
     (case find (cancellable actor i (base s)) (repair_requests s) of
        None \<Rightarrow> Inr (s, None)
      | Some r0 \<Rightarrow>
          move_request (cancellable actor i (base s)) (on_cancel now) awaits_repair
            (\<lambda>t. t\<lparr>t_status := Task_Failed, t_revision := t_revision t + 1,
                  t_current_repair_request_id := None, t_updated_at := now\<rparr>)
            ''task_changed_during_repair_cancellation'' (\<lambda>_. id)
            (\<lambda>r. request_notice r ''cancelled'' ''cancel'' ''warning'' ''repair_cancelled'' (task_link r))
            trace actor r0 s)"

section \<open>What the callers compose\<close>

text \<open>The supervisor's terminal transaction for a repair run
  (\<^verbatim>\<open>backend/src/workers/harness_supervisor.rs\<close>): a completed run starts the gate reruns, or
  fails the repair when its evidence is not usable; any other end is recorded as such. A repair
  run is never retried, so a run that did not complete is cancelled or failed.\<close>

definition settle_repair_child ::
  "timestamp \<Rightarrow> rstr \<Rightarrow> actor_context \<Rightarrow> int \<Rightarrow> run_status \<Rightarrow> rstr \<Rightarrow> repair_store \<Rightarrow> sqlx_error + repair_store" where
  "settle_repair_child now trace actor child status reason s =
     (if status = Run_Completed
      then and_then (begin_gate_reruns_for_child_run now actor child s) (\<lambda>(s1, begun).
             if begun then Inr s1
             else and_then (complete_for_child_run now trace actor child ''gate_evidence_invalid'' ''failed'' s1)
                    (\<lambda>(s2, _). Inr s2))
      else and_then (complete_for_child_run now trace actor child
               (if reason = ''hook_failure_circuit_open'' then ''hook_failure_circuit_open''
                else if reason = ''quality_gate_failed'' then ''gate_failed'' else ''manual_handoff'')
               (if status = Run_Cancelled then ''cancelled'' else ''failed'') s)
             (\<lambda>(s1, _). Inr s1))"

text \<open>The transaction that ends \<^verbatim>\<open>execute_gate_rerun\<close> of \<^verbatim>\<open>backend/src/services/devrail_repairs.rs\<close>:
  the gate's result and, with it, the verdict on the repair.\<close>

definition record_gate_result ::
  "timestamp \<Rightarrow> rstr \<Rightarrow> actor_context \<Rightarrow> int \<Rightarrow> completed_gate_rerun \<Rightarrow> repair_store \<Rightarrow> api_error + repair_store" where
  "record_gate_result now trace actor request_id i s =
     (case complete_gate_rerun now i s of
        Inl e \<Rightarrow> Inl (db_error e)
      | Inr (s1, None) \<Rightarrow> Inl (Conflict ''gate_result_lost_claim'')
      | Inr (s1, Some _) \<Rightarrow>
          (case finalize_gate_reruns now trace actor request_id s1 of
             Inl e \<Rightarrow> Inl (db_error e)
           | Inr (s2, _) \<Rightarrow> Inr s2))"

text \<open>The approval endpoints: a refusal or a withdrawal hands the repair to a person.\<close>

definition decide_approval_service ::
  "timestamp \<Rightarrow> rstr \<Rightarrow> actor_context \<Rightarrow> int \<Rightarrow> rstr \<Rightarrow> rstr option \<Rightarrow> repair_store \<Rightarrow> api_error + repair_store" where
  "decide_approval_service now trace actor i decision reason s =
     (case decide_approval now trace actor i decision reason s of
        Inl e \<Rightarrow> Inl (db_error e)
      | Inr (s1, None) \<Rightarrow> Inl (Conflict ''repair_approval_not_pending'')
      | Inr (s1, Some a) \<Rightarrow>
          if decision \<in> {''rejected'', ''withdrawn''}
          then (case handoff now trace actor (ap_repair_request_id a)
                   (if decision = ''rejected'' then ''approval_rejected'' else ''approval_expired'')
                   ''approval_refused'' s1 of
                  Inl e \<Rightarrow> Inl (db_error e)
                | Inr (s2, _) \<Rightarrow> Inr s2)
          else Inr s1)"

definition withdraw_approval ::
  "timestamp \<Rightarrow> rstr \<Rightarrow> actor_context \<Rightarrow> int \<Rightarrow> rstr option \<Rightarrow> repair_store \<Rightarrow> api_error + repair_store" where
  "withdraw_approval now trace actor i reason s =
     (case decide_approval now trace actor i ''withdrawn'' reason s of
        Inl e \<Rightarrow> Inl (db_error e)
      | Inr (s1, None) \<Rightarrow> Inl (Conflict ''only_requester_withdraws_pending_approval'')
      | Inr (s1, Some a) \<Rightarrow>
          (case handoff now trace actor (ap_repair_request_id a) ''approval_expired'' ''approval_withdrawn'' s1 of
             Inl e \<Rightarrow> Inl (db_error e)
           | Inr (s2, _) \<Rightarrow> Inr s2))"

definition cancel_service ::
  "timestamp \<Rightarrow> rstr \<Rightarrow> actor_context \<Rightarrow> int \<Rightarrow> repair_store \<Rightarrow> api_error + repair_store" where
  "cancel_service now trace actor i s =
     (case cancel now trace actor i s of
        Inl e \<Rightarrow> Inl (db_error e)
      | Inr (s1, None) \<Rightarrow> Inl (Conflict ''repair_not_cancellable'')
      | Inr (s1, Some _) \<Rightarrow> Inr s1)"

definition handoff_service ::
  "timestamp \<Rightarrow> rstr \<Rightarrow> actor_context \<Rightarrow> int \<Rightarrow> rstr \<Rightarrow> rstr \<Rightarrow> repair_store \<Rightarrow> api_error + repair_store" where
  "handoff_service now trace actor i reason recommendation s =
     (case handoff now trace actor i (trim reason) (trim recommendation) s of
        Inl e \<Rightarrow> Inl (db_error e)
      | Inr (s1, None) \<Rightarrow> Inl (Conflict ''repair_not_transferable'')
      | Inr (s1, Some _) \<Rightarrow> Inr s1)"

end
