(* ===== verification/Repair_Flow.thy ===== *)
theory Repair_Flow
  imports Repairs
begin

text \<open>
  The repair lifecycle as a state machine: the step relation of everything that writes the repair
  tables, and the invariants every reachable state has.
\<close>

section \<open>Consistency of requests and tasks\<close>

text \<open>The status a request in progress demands of its task.\<close>

fun expected_task :: "request_status \<Rightarrow> task_status option" where
  "expected_task Req_Pending = Some Task_RepairPending"
| "expected_task Req_Claimed = Some Task_RepairPending"
| "expected_task Req_Dispatched = Some Task_RepairRunning"
| "expected_task Req_Running = Some Task_RepairRunning"
| "expected_task _ = None"

definition under_repair :: "repair_request \<Rightarrow> task_row \<Rightarrow> bool" where
  "under_repair r t = (t_id t = q_task_id r \<and> t_organization_id t = q_organization_id r
     \<and> t_current_repair_request_id t = Some (q_id r) \<and> expected_task (q_status r) = Some (t_status t))"

definition tasks_follow :: "task_row list \<Rightarrow> repair_request list \<Rightarrow> bool" where
  "tasks_follow ts rs = (\<forall>r \<in> set rs. expected_task (q_status r) \<noteq> None \<longrightarrow> (\<exists>t \<in> set ts. under_repair r t))"

text \<open>The primary keys, and the unique constraint on the child run.\<close>

definition children_unique :: "repair_request list \<Rightarrow> bool" where
  "children_unique rs = (\<forall>q \<in> set rs. \<forall>r \<in> set rs. q_child_run_id q \<noteq> None
     \<longrightarrow> q_child_run_id q = q_child_run_id r \<longrightarrow> q_id q = q_id r)"

definition repair_keys :: "repair_store \<Rightarrow> bool" where
  "repair_keys s = (keys_ok (base s) \<and> distinct (map q_id (repair_requests s))
     \<and> children_unique (repair_requests s) \<and> distinct (map g_id (repair_gate_reruns s)))"

lemma active_request:
  "expected_task st \<noteq> None \<longleftrightarrow> st \<in> {Req_Pending, Req_Claimed, Req_Dispatched, Req_Running}"
  by (cases st) simp_all

text \<open>\<open>moves s s' r r'\<close>: the row \<open>r\<close>, which was in progress, becomes \<open>r'\<close>, no other repair row
  changes, only the task of \<open>r\<close> may change, and that in the way \<open>r'\<close> demands.\<close>

definition moves :: "repair_store \<Rightarrow> repair_store \<Rightarrow> repair_request \<Rightarrow> repair_request \<Rightarrow> bool" where
  "moves s s' r r' =
     (r \<in> set (repair_requests s) \<and> expected_task (q_status r) \<noteq> None
      \<and> q_id r' = q_id r \<and> q_organization_id r' = q_organization_id r \<and> q_task_id r' = q_task_id r
      \<and> q_diagnosis_id r' = q_diagnosis_id r
      \<and> (q_child_run_id r' = q_child_run_id r
          \<or> (\<forall>q \<in> set (repair_requests s). q_id q \<noteq> q_id r \<longrightarrow> q_child_run_id q \<noteq> q_child_run_id r'))
      \<and> repair_requests s' = update_where (\<lambda>q. q_id q = q_id r) (\<lambda>_. r') (repair_requests s)
      \<and> repair_diagnoses s' = repair_diagnoses s \<and> repair_gate_reruns s' = repair_gate_reruns s
      \<and> repair_approvals s' = repair_approvals s
      \<and> runs (base s') = runs (base s)
      \<and> (\<exists>Q g. tasks (base s') = update_where Q g (tasks (base s))
            \<and> (\<forall>t. Q t \<longrightarrow> t_id t = q_task_id r) \<and> (\<forall>t. t_id (g t) = t_id t))
      \<and> (expected_task (q_status r') \<noteq> None \<longrightarrow> (\<exists>t \<in> set (tasks (base s')). under_repair r' t)))"

lemma report_repair_frame:
  assumes "report_repair trace actor r n s = Inr s'"
  shows "\<exists>db. s' = s\<lparr>base := db\<rparr> \<and> tasks db = tasks (base s) \<and> runs db = runs (base s)
      \<and> departments db = departments (base s)"
  using assms
  by (auto simp: report_repair_def and_then_Inr_iff lifecycle_notification_def Let_def outbox_def
        record_audit_def append_task_event_def split: if_splits)

lemma project_task_Inr:
  assumes "project_task P f err s = Inr s'"
  shows "s' = s\<lparr>base := update_tasks P f (base s)\<rparr>" and "\<exists>t \<in> set (tasks (base s)). P t"
proof -
  show "s' = s\<lparr>base := update_tasks P f (base s)\<rparr>"
    using assms by (auto simp: project_task_def split: if_splits)
  have "length (rows_where P (tasks (base s))) = 1"
    using assms by (auto simp: project_task_def split: if_splits)
  then have "rows_where P (tasks (base s)) \<noteq> []" by (metis length_0_conv zero_neq_one)
  then show "\<exists>t \<in> set (tasks (base s)). P t" by (auto simp: rows_where_def filter_empty_conv)
qed

lemma moves_keys:
  assumes "moves s s' r r'" and "repair_keys s"
  shows "repair_keys s'"
proof -
  obtain Q g where "tasks (base s') = update_where Q g (tasks (base s))" "\<forall>t. t_id (g t) = t_id t"
    using assms(1) by (auto simp: moves_def)
  then have "map t_id (tasks (base s')) = map t_id (tasks (base s))" by (simp add: update_where_keeps)
  moreover have "map q_id (repair_requests s') = map q_id (repair_requests s)"
    using assms(1) by (auto simp: moves_def update_where_def)
  moreover have "children_unique (repair_requests s')"
  proof -
    have r: "r \<in> set (repair_requests s)" "q_id r' = q_id r"
      "repair_requests s' = update_where (\<lambda>q. q_id q = q_id r) (\<lambda>_. r') (repair_requests s)"
      and child: "q_child_run_id r' = q_child_run_id r
        \<or> (\<forall>q \<in> set (repair_requests s). q_id q \<noteq> q_id r \<longrightarrow> q_child_run_id q \<noteq> q_child_run_id r')"
      using assms(1) by (auto simp: moves_def)
    have old: "children_unique (repair_requests s)" using assms(2) by (simp add: repair_keys_def)
    have "q_child_run_id q \<noteq> q_child_run_id r'"
      if "q \<in> set (repair_requests s)" "q_id q \<noteq> q_id r" "q_child_run_id q \<noteq> None" for q
      using child old that r(1) unfolding children_unique_def by metis
    moreover have "q = r' \<or> (q \<in> set (repair_requests s) \<and> q_id q \<noteq> q_id r)"
      if "q \<in> set (repair_requests s')" for q
      using that r(3) by (auto simp: set_update_where)
    ultimately show ?thesis using old r(2) unfolding children_unique_def by metis
  qed
  ultimately show ?thesis using assms by (simp add: repair_keys_def keys_ok_def moves_def)
qed

lemma moves_follow:
  assumes "moves s s' r r'" and "repair_keys s" and "tasks_follow (tasks (base s)) (repair_requests s)"
  shows "tasks_follow (tasks (base s')) (repair_requests s')"
  unfolding tasks_follow_def
proof (intro ballI impI)
  fix q assume q: "q \<in> set (repair_requests s')" "expected_task (q_status q) \<noteq> None"
  obtain Q g where Q: "tasks (base s') = update_where Q g (tasks (base s))" "\<forall>t. Q t \<longrightarrow> t_id t = q_task_id r"
    using assms(1) by (auto simp: moves_def)
  have r: "r \<in> set (repair_requests s)" "expected_task (q_status r) \<noteq> None"
    using assms(1) by (auto simp: moves_def)
  have "q = r' \<or> (q \<in> set (repair_requests s) \<and> q_id q \<noteq> q_id r)"
    using q(1) assms(1) by (auto simp: moves_def set_update_where)
  then show "\<exists>t \<in> set (tasks (base s')). under_repair q t"
  proof
    assume "q = r'"
    with q(2) assms(1) show ?thesis by (auto simp: moves_def)
  next
    assume old: "q \<in> set (repair_requests s) \<and> q_id q \<noteq> q_id r"
    obtain t where t: "t \<in> set (tasks (base s))" "under_repair q t"
      using assms(3) old q(2) unfolding tasks_follow_def by blast
    obtain u where u: "u \<in> set (tasks (base s))" "under_repair r u"
      using assms(3) r unfolding tasks_follow_def by blast
    have "t \<noteq> u" using t(2) u(2) old by (auto simp: under_repair_def)
    then have "t_id t \<noteq> t_id u"
      using t(1) u(1) assms(2) by (auto simp: repair_keys_def keys_ok_def distinct_map dest: inj_onD)
    then have "\<not> Q t" using Q(2) u(2) by (auto simp: under_repair_def)
    then have "t \<in> set (tasks (base s'))" using Q(1) t(1) by (simp add: set_update_where)
    with t(2) show ?thesis by blast
  qed
qed

section \<open>Every transition is a move\<close>

lemma movesI:
  assumes "repair_keys s" and "find P (repair_requests s) = Some r"
    and "\<And>q. q \<in> set (repair_requests s) \<Longrightarrow> P q \<Longrightarrow> q_id q = q_id r"
    and "expected_task (q_status r) \<noteq> None"
    and "q_id (f r) = q_id r" "q_organization_id (f r) = q_organization_id r" "q_task_id (f r) = q_task_id r"
      "q_diagnosis_id (f r) = q_diagnosis_id r"
    and "q_child_run_id (f r) = q_child_run_id r
      \<or> (\<forall>q \<in> set (repair_requests s). q_id q \<noteq> q_id r \<longrightarrow> q_child_run_id q \<noteq> q_child_run_id (f r))"
    and "repair_requests s' = update_where P f (repair_requests s)"
    and "repair_diagnoses s' = repair_diagnoses s" "repair_gate_reruns s' = repair_gate_reruns s"
      "repair_approvals s' = repair_approvals s" "runs (base s') = runs (base s)"
    and "tasks (base s') = update_where Q g (tasks (base s))"
    and "\<And>t. Q t \<Longrightarrow> t_id t = q_task_id r" and "\<And>t. t_id (g t) = t_id t"
    and "expected_task (q_status (f r)) \<noteq> None \<Longrightarrow> \<exists>t \<in> set (tasks (base s')). under_repair (f r) t"
  shows "moves s s' r (f r)"
proof -
  have r: "r \<in> set (repair_requests s)" "P r" using assms(2) by (auto simp: find_Some_iff)
  have "P q \<longleftrightarrow> q_id q = q_id r" if "q \<in> set (repair_requests s)" for q
  proof
    assume "q_id q = q_id r"
    then have "q = r" using that r(1) assms(1) by (auto simp: repair_keys_def distinct_map dest: inj_onD)
    with r(2) show "P q" by simp
  qed (rule assms(3) [OF that])
  then have "update_where P f (repair_requests s) =
      update_where (\<lambda>q. q \<in> set (repair_requests s) \<and> q_id q = q_id r) f (repair_requests s)"
    by (auto simp: update_where_def)
  also have "\<dots> = update_where (\<lambda>q. q_id q = q_id r) (\<lambda>_. f r) (repair_requests s)"
    using assms(1) r(1) by (intro update_where_single) (auto simp: repair_keys_def)
  finally have rows: "repair_requests s' = update_where (\<lambda>q. q_id q = q_id r) (\<lambda>_. f r) (repair_requests s)"
    using assms(10) by simp
  have only: "\<exists>Q g. tasks (base s') = update_where Q g (tasks (base s))
      \<and> (\<forall>t. Q t \<longrightarrow> t_id t = q_task_id r) \<and> (\<forall>t. t_id (g t) = t_id t)"
    using assms(15-17) by blast
  show ?thesis
    unfolding moves_def using r(1) rows only assms(4-9,11-14,18) by (intro conjI) simp_all
qed

lemma on_dispatch_simps [simp]:
  "q_id (on_dispatch now child r) = q_id r" "q_organization_id (on_dispatch now child r) = q_organization_id r"
  "q_task_id (on_dispatch now child r) = q_task_id r" "q_diagnosis_id (on_dispatch now child r) = q_diagnosis_id r"
  "q_child_run_id (on_dispatch now child r) = Some child" "q_status (on_dispatch now child r) = Req_Dispatched"
  by (simp_all add: on_dispatch_def)

lemma on_end_simps [simp]:
  "q_id (on_end now st code r) = q_id r" "q_organization_id (on_end now st code r) = q_organization_id r"
  "q_task_id (on_end now st code r) = q_task_id r" "q_diagnosis_id (on_end now st code r) = q_diagnosis_id r"
  "q_child_run_id (on_end now st code r) = q_child_run_id r" "q_status (on_end now st code r) = st"
  by (simp_all add: on_end_def)

lemma on_handoff_simps [simp]:
  "q_id (on_handoff now reason r) = q_id r" "q_organization_id (on_handoff now reason r) = q_organization_id r"
  "q_task_id (on_handoff now reason r) = q_task_id r" "q_diagnosis_id (on_handoff now reason r) = q_diagnosis_id r"
  "q_child_run_id (on_handoff now reason r) = q_child_run_id r" "q_status (on_handoff now reason r) = Req_HandedOff"
  by (simp_all add: on_handoff_def)

lemma on_cancel_simps [simp]:
  "q_id (on_cancel now r) = q_id r" "q_organization_id (on_cancel now r) = q_organization_id r"
  "q_task_id (on_cancel now r) = q_task_id r" "q_diagnosis_id (on_cancel now r) = q_diagnosis_id r"
  "q_child_run_id (on_cancel now r) = q_child_run_id r" "q_status (on_cancel now r) = Req_Cancelled"
  by (simp_all add: on_cancel_def)

text \<open>A transition in the shape of \<open>move_request\<close> is a move, provided the extra statements leave the
  tables of the move alone and the task is left as the new row demands.\<close>

lemma move_request_moves:
  assumes "move_request P f Q g err extra notice trace actor r s = Inr (s', res)"
    and "repair_keys s" and "find P (repair_requests s) = Some r"
    and "\<And>q. q \<in> set (repair_requests s) \<Longrightarrow> P q \<Longrightarrow> q_id q = q_id r"
    and "expected_task (q_status r) \<noteq> None"
    and "q_id (f r) = q_id r" "q_organization_id (f r) = q_organization_id r" "q_task_id (f r) = q_task_id r"
      "q_diagnosis_id (f r) = q_diagnosis_id r"
    and "q_child_run_id (f r) = q_child_run_id r
      \<or> (\<forall>q \<in> set (repair_requests s). q_id q \<noteq> q_id r \<longrightarrow> q_child_run_id q \<noteq> q_child_run_id (f r))"
    and "\<And>t. Q (f r) t \<Longrightarrow> t_id t = q_task_id r" and "\<And>t. t_id (g t) = t_id t"
    and "\<And>t. Q (f r) t \<Longrightarrow> expected_task (q_status (f r)) \<noteq> None \<Longrightarrow> under_repair (f r) (g t)"
    and "\<And>x. base (extra (f r) x) = base x" "\<And>x. repair_requests (extra (f r) x) = repair_requests x"
      "\<And>x. repair_diagnoses (extra (f r) x) = repair_diagnoses x"
      "\<And>x. repair_gate_reruns (extra (f r) x) = repair_gate_reruns x"
      "\<And>x. repair_approvals (extra (f r) x) = repair_approvals x"
  shows "moves s s' r (f r)"
proof -
  let ?s = "s\<lparr>repair_requests := update_where P f (repair_requests s)\<rparr>"
  obtain s1 where p: "project_task (Q (f r)) g err ?s = Inr s1"
    and rep: "report_repair trace actor (f r) (notice (f r)) (extra (f r) s1) = Inr s'"
    using assms(1) by (auto simp: move_request_def Let_def and_then_Inr_iff)
  note s1 = project_task_Inr [OF p]
  obtain db where db: "s' = (extra (f r) s1)\<lparr>base := db\<rparr>" "tasks db = tasks (base s1)" "runs db = runs (base s1)"
    using report_repair_frame [OF rep] by (auto simp: assms(14))
  obtain t where t: "t \<in> set (tasks (base s))" "Q (f r) t" using s1(2) by auto
  then have "g t \<in> set (tasks (base s'))" by (auto simp: db s1(1) set_update_where)
  with t(2) assms(13) have linked: "expected_task (q_status (f r)) \<noteq> None \<Longrightarrow>
      \<exists>t \<in> set (tasks (base s')). under_repair (f r) t" by blast
  show ?thesis
    by (rule movesI [OF assms(2-5), where Q = "Q (f r)" and g = g])
      (use assms(6-12) linked in \<open>simp_all add: db s1(1) assms(14-18)\<close>)
qed

lemma mark_dispatched_outcome:
  assumes "mark_dispatched now trace actor i c child s = Inr (s', res)" and "repair_keys s"
  shows "s' = s \<or> (\<exists>r. moves s s' r (on_dispatch now child r))"
proof (cases "find (dispatchable now actor i c) (repair_requests s)")
  case None
  with assms(1) show ?thesis by (simp add: mark_dispatched_def)
next
  case (Some r)
  have r: "q_id r = i" "q_status r = Req_Claimed"
    using Some by (auto simp: find_Some_iff dispatchable_def request_cred_def split: if_splits)
  have uniq: "\<not> list_ex (\<lambda>r. q_child_run_id r = Some child \<and> q_id r \<noteq> i) (repair_requests s)"
    using assms(1) Some by (simp add: mark_dispatched_def split: if_splits)
  have mv: "move_request (dispatchable now actor i c) (on_dispatch now child)
      (\<lambda>r t. awaits_repair r t \<and> child_starting r child (base s))
      (\<lambda>t. t\<lparr>t_status := Task_RepairRunning, t_revision := t_revision t + 1, t_updated_at := now\<rparr>)
      ''task_changed_during_repair_dispatch'' (\<lambda>_. id)
      (\<lambda>r. request_notice r ''dispatched'' ''dispatch'' ''info'' ''repair_dispatched''
         (''/devrail/runs/'' @ show_int child)) trace actor r s = Inr (s', res)"
    using assms(1) Some by (simp add: mark_dispatched_def split: if_splits)
  have "moves s s' r (on_dispatch now child r)"
    by (rule move_request_moves [OF mv assms(2) Some])
      (use r uniq in \<open>auto simp: dispatchable_def awaits_repair_def under_repair_def list_ex_iff\<close>)
  then show ?thesis by blast
qed

lemma complete_for_child_run_outcome:
  assumes "complete_for_child_run now trace actor child code outcome s = Inr (s', res)" and "repair_keys s"
  shows "s' = s \<or> (\<exists>r. moves s s' r (on_end now (child_outcome outcome) (Some code) r))"
proof (cases "find (completable actor child (base s)) (repair_requests s)")
  case None
  with assms(1) show ?thesis by (simp add: complete_for_child_run_def Let_def split: if_splits)
next
  case (Some r)
  have r: "r \<in> set (repair_requests s)" "completable actor child (base s) r"
    using Some by (auto simp: find_Some_iff)
  have same: "q_id q = q_id r" if "q \<in> set (repair_requests s)" "completable actor child (base s) q" for q
  proof -
    have "children_unique (repair_requests s)" using assms(2) by (simp add: repair_keys_def)
    moreover have "q_child_run_id q = Some child" "q_child_run_id r = Some child"
      using that(2) r(2) by (simp_all add: completable_def)
    ultimately show ?thesis using that(1) r(1) unfolding children_unique_def by fastforce
  qed
  have ends: "expected_task (child_outcome outcome) = None" by (simp add: child_outcome_def)
  obtain Q g err extra notice where mv: "move_request (completable actor child (base s))
        (on_end now (child_outcome outcome) (Some code)) runs_repair g err extra notice trace actor r s = Inr (s', res)"
    and extra: "extra = (\<lambda>r. if outcome = ''succeeded'' then id
        else insert_handoff r ''gate_failed'' ''child_run_failed'')"
      "g = end_task now (if outcome = ''succeeded'' then Task_Succeeded else Task_RepairHandoff)"
    using assms(1) Some by (simp add: complete_for_child_run_def Let_def split: if_splits)
  have "moves s s' r (on_end now (child_outcome outcome) (Some code) r)"
    by (rule move_request_moves [OF mv assms(2) Some same])
      (use r ends in \<open>auto simp: completable_def runs_repair_def extra end_task_def insert_handoff_def\<close>)
  then show ?thesis by blast
qed

lemma finalize_gate_reruns_outcome:
  assumes "finalize_gate_reruns now trace actor i s = Inr (s', res)" and "repair_keys s"
  shows "s' = s \<or> (\<exists>r won. moves s s' r (on_end now (if won then Req_Succeeded else Req_HandedOff)
            (if won then None else Some ''gate_failed'') r)
      \<and> q_status r = Req_Running
      \<and> (won \<longleftrightarrow> (\<forall>g \<in> set (gates_of (q_organization_id r) (q_id r) s). g_status g = Gate_Passed))
      \<and> gates_of (q_organization_id r) (q_id r) s \<noteq> [])"
proof (cases "find (gates_running actor i) (repair_requests s)")
  case None
  with assms(1) show ?thesis by (simp add: finalize_gate_reruns_def Let_def)
next
  case (Some r)
  define won where "won = list_all (\<lambda>st. st = Gate_Passed) (map g_status (gates_of (organization_id actor) i s))"
  have r: "gates_running actor i r" using Some by (auto simp: find_Some_iff)
  show ?thesis
  proof (cases "s' = s")
    case False
    then obtain extra notice where mv: "move_request (gates_running actor i)
          (on_end now (if won then Req_Succeeded else Req_HandedOff) (if won then None else Some ''gate_failed''))
          runs_repair (end_task now (if won then Task_Succeeded else Task_RepairHandoff))
          ''task_changed_during_gate_projection'' extra notice trace actor r s = Inr (s', res)"
      and extra: "extra = (\<lambda>r s1. (case q_child_run_id r of None \<Rightarrow> id
                   | Some child \<Rightarrow>
                       mark_cleanup_pending_for_run now (q_organization_id r) child ''after_gate_rerun'')
                  (if won then s1 else insert_handoff r ''gate_failed'' ''gates_failed'' s1))"
      and ne: "gates_of (organization_id actor) i s \<noteq> []"
      using assms(1) Some unfolding finalize_gate_reruns_def Let_def won_def [symmetric]
      by (simp split: if_splits)
    have frame: "base (extra r x) = base x" "repair_requests (extra r x) = repair_requests x"
        "repair_diagnoses (extra r x) = repair_diagnoses x" "repair_gate_reruns (extra r x) = repair_gate_reruns x"
        "repair_approvals (extra r x) = repair_approvals x" for r x
      by (simp_all add: extra insert_handoff_def mark_cleanup_pending_for_run_def split: option.split)
    have "moves s s' r (on_end now (if won then Req_Succeeded else Req_HandedOff)
        (if won then None else Some ''gate_failed'') r)"
      by (rule move_request_moves [OF mv assms(2) Some])
        (use r in \<open>auto simp: frame gates_running_def runs_repair_def end_task_def\<close>)
    moreover have "q_organization_id r = organization_id actor" "q_id r = i" "q_status r = Req_Running"
      using r by (simp_all add: gates_running_def)
    ultimately show ?thesis using ne
      by (intro disjI2 exI [of _ r] exI [of _ won]) (simp add: won_def list_all_iff)
  qed simp
qed

lemma cancel_outcome:
  assumes "cancel now trace actor i s = Inr (s', res)" and "repair_keys s"
  shows "s' = s \<or> (\<exists>r. moves s s' r (on_cancel now r))"
proof (cases "find (cancellable actor i (base s)) (repair_requests s)")
  case None
  with assms(1) show ?thesis by (simp add: cancel_def)
next
  case (Some r)
  have r: "cancellable actor i (base s) r" using Some by (auto simp: find_Some_iff)
  obtain g err notice where mv: "move_request (cancellable actor i (base s)) (on_cancel now) awaits_repair
      g err (\<lambda>_. id) notice trace actor r s = Inr (s', res)"
    and g: "\<And>t. t_id (g t) = t_id t"
    using assms(1) Some by (simp add: cancel_def)
  have "moves s s' r (on_cancel now r)"
    by (rule move_request_moves [OF mv assms(2) Some])
      (use r in \<open>auto simp: cancellable_def awaits_repair_def g\<close>)
  then show ?thesis by blast
qed

lemma handoff_outcome:
  assumes "handoff now trace actor i reason recommendation s = Inr (s', res)" and "repair_keys s"
  shows "s' = s \<or> (\<exists>r. moves s s' r (on_handoff now reason r))"
proof (cases "find (transferable actor i (base s)) (repair_requests s)")
  case None
  with assms(1) show ?thesis by (simp add: handoff_def Let_def split: if_splits)
next
  case (Some r)
  let ?r = "on_handoff now reason r"
  let ?g = "\<lambda>t. t\<lparr>t_status := Task_RepairHandoff, t_revision := t_revision t + 1,
              t_current_repair_request_id := Some (q_id ?r), t_updated_at := now\<rparr>"
  have r: "transferable actor i (base s) r" using Some by (auto simp: find_Some_iff)
  obtain s1 n where s1: "s1 = insert_handoff ?r reason recommendation (s\<lparr>repair_requests :=
        update_where (transferable actor i (base s)) (on_handoff now reason) (repair_requests s)\<rparr>)"
    and rep: "report_repair trace actor ?r n (s1\<lparr>base := update_tasks (in_repair ?r) ?g (base s1)\<rparr>) = Inr s'"
    using assms(1) Some by (auto simp: handoff_def Let_def and_then_Inr_iff split: if_splits)
  obtain db where db: "s' = s1\<lparr>base := db\<rparr>" "tasks db = update_where (in_repair ?r) ?g (tasks (base s))"
      "runs db = runs (base s)"
    using report_repair_frame [OF rep] by (auto simp: s1 insert_handoff_def)
  have "moves s s' r ?r"
    by (rule movesI [OF assms(2) Some, where Q = "in_repair ?r" and g = ?g])
      (use r in \<open>auto simp: db s1 insert_handoff_def in_repair_def transferable_def\<close>)
  then show ?thesis by blast
qed

section \<open>Starting the gate reruns\<close>

lemma on_start_gates_simps [simp]:
  "q_id (on_start_gates now r) = q_id r" "q_organization_id (on_start_gates now r) = q_organization_id r"
  "q_task_id (on_start_gates now r) = q_task_id r" "q_diagnosis_id (on_start_gates now r) = q_diagnosis_id r"
  "q_child_run_id (on_start_gates now r) = q_child_run_id r" "q_status (on_start_gates now r) = Req_Running"
  by (simp_all add: on_start_gates_def)

lemma start_gates_moves:
  assumes "repair_keys s" and "tasks_follow (tasks (base s)) (repair_requests s)"
    and "r \<in> set (repair_requests s)" "q_organization_id r = organization_id actor"
      "q_status r \<in> {Req_Dispatched, Req_Running}"
  shows "moves s (start_gates now actor (q_id r) s) r (on_start_gates now r)"
proof -
  let ?P = "\<lambda>x. q_id x = q_id r \<and> q_organization_id x = organization_id actor
      \<and> q_status x \<in> {Req_Dispatched, Req_Running}"
  have "find ?P (repair_requests s) \<noteq> None" using assms(3-5) by (auto simp: find_None_iff)
  then obtain x where x: "find ?P (repair_requests s) = Some x" by blast
  then have "x \<in> set (repair_requests s)" "q_id x = q_id r" by (auto simp: find_Some_iff)
  then have same: "x = r"
    using assms(1,3) by (auto simp: repair_keys_def distinct_map dest: inj_onD)
  obtain t where t: "t \<in> set (tasks (base s))" "under_repair r t"
    using assms(2,3,5) unfolding tasks_follow_def by fastforce
  then have "under_repair (on_start_gates now r) t"
    using assms(5) by (auto simp: under_repair_def)
  with t(1) have linked: "\<exists>t \<in> set (tasks (base (start_gates now actor (q_id r) s))).
      under_repair (on_start_gates now r) t"
    by (auto simp: start_gates_def)
  show ?thesis
    by (rule movesI [OF assms(1) x [unfolded same], where Q = "\<lambda>_. False" and g = id])
      (use assms(5) linked in \<open>auto simp: start_gates_def update_where_none\<close>)
qed

lemma create_gate_rerun_outcome:
  assumes "create_gate_rerun now actor i s = Inr (s', g, new)"
  shows "\<exists>gs. s' = s\<lparr>repair_gate_reruns := repair_gate_reruns s @ gs\<rparr>
    \<and> (gs = [] \<or> gs = [g] \<and> g_id g = next_serial g_id (repair_gate_reruns s))
    \<and> g \<in> set (repair_gate_reruns s')
    \<and> g_organization_id g = organization_id actor \<and> g_repair_request_id g = ng_request_id i
    \<and> g_gate_id g = ng_gate_id i"
proof -
  let ?key = "\<lambda>g. g_organization_id g = organization_id actor \<and> g_idempotency_key g = ng_idempotency_key i"
  let ?same = "\<lambda>g. g_organization_id g = organization_id actor \<and> g_repair_request_id g = ng_request_id i
      \<and> g_gate_id g = ng_gate_id i \<and> g_changeset_digest g = ng_changeset_digest i"
  obtain r where "insert_gate now actor i r s = Inr (s', g, new)"
    using assms unfolding create_gate_rerun_def
    by (cases "find (\<lambda>r. q_id r = ng_request_id i \<and> q_organization_id r = organization_id actor
          \<and> diagnosis_of s r \<noteq> None) (repair_requests s)")
      (auto simp: and_then_Inr_iff split: if_splits)
  note r = this [unfolded insert_gate_def]
  show ?thesis
  proof (cases "find ?key (repair_gate_reruns s)")
    case (Some x)
    then have x: "x \<in> set (repair_gate_reruns s)" "?key x" by (auto simp: find_Some_iff)
    from r Some have "s' = s" "g = x" "g_repair_request_id x = ng_request_id i" "g_gate_id x = ng_gate_id i"
      by (simp_all split: if_splits)
    with x show ?thesis by (intro exI [of _ "[]"]) simp
  next
    case nokey: None
    show ?thesis
    proof (cases "find ?same (repair_gate_reruns s)")
      case (Some x)
      then have x: "x \<in> set (repair_gate_reruns s)" "?same x" by (auto simp: find_Some_iff)
      from r nokey Some have "s' = s" "g = x" by (simp_all split: if_splits)
      with x show ?thesis by (intro exI [of _ "[]"]) simp
    next
      case None
      from r nokey None have g: "g = new_gate_row now actor i r (next_serial g_id (repair_gate_reruns s))"
          "s' = s\<lparr>repair_gate_reruns := repair_gate_reruns s @ [g]\<rparr>" by (auto simp: Let_def)
      have "g_organization_id g = organization_id actor" "g_repair_request_id g = ng_request_id i"
          "g_gate_id g = ng_gate_id i" "g_id g = next_serial g_id (repair_gate_reruns s)"
        by (simp_all add: g(1) new_gate_row_def)
      with g(2) show ?thesis by (intro exI [of _ "[g]"]) simp
    qed
  qed
qed

lemma create_gates_outcome:
  assumes "create_gates now actor i digest child vs s = Inr s'"
  shows "\<exists>gs. s' = s\<lparr>repair_gate_reruns := repair_gate_reruns s @ gs\<rparr>
    \<and> (\<forall>g \<in> set gs. g_organization_id g = organization_id actor \<and> g_repair_request_id g = i)
    \<and> (distinct (map g_id (repair_gate_reruns s)) \<longrightarrow> distinct (map g_id (repair_gate_reruns s @ gs)))
    \<and> (\<forall>v \<in> set vs. \<exists>g \<in> set (repair_gate_reruns s'). g_organization_id g = organization_id actor
         \<and> g_repair_request_id g = i \<and> as_str v = Some (g_gate_id g))"
  using assms
proof (induction vs arbitrary: s)
  case Nil
  then show ?case by (intro exI [of _ "[]"]) simp
next
  case (Cons v vs)
  obtain gate where gate: "as_str v = Some gate"
    using Cons.prems by (cases "as_str v") (simp_all add: gate_identifier_def is_some_and_def)
  let ?i = "\<lparr>ng_request_id = i, ng_gate_id = gate, ng_changeset_digest = digest,
      ng_idempotency_key = gate_key i gate digest, ng_child_run_id = Some child\<rparr>"
  obtain s1 g new where one: "create_gate_rerun now actor ?i s = Inr (s1, g, new)"
    and rest: "create_gates now actor i digest child vs s1 = Inr s'"
    using Cons.prems gate by (auto simp: Let_def and_then_Inr_iff split: if_splits prod.splits)
  obtain gs1 where gs1: "s1 = s\<lparr>repair_gate_reruns := repair_gate_reruns s @ gs1\<rparr>"
      "gs1 = [] \<or> gs1 = [g] \<and> g_id g = next_serial g_id (repair_gate_reruns s)"
      "g \<in> set (repair_gate_reruns s1)" "g_organization_id g = organization_id actor"
      "g_repair_request_id g = i" "g_gate_id g = gate"
    using create_gate_rerun_outcome [OF one] unfolding new_gate_rerun.select_convs by blast
  obtain gs2 where gs2: "s' = s1\<lparr>repair_gate_reruns := repair_gate_reruns s1 @ gs2\<rparr>"
      "\<forall>g \<in> set gs2. g_organization_id g = organization_id actor \<and> g_repair_request_id g = i"
      "distinct (map g_id (repair_gate_reruns s1)) \<longrightarrow> distinct (map g_id (repair_gate_reruns s1 @ gs2))"
      "\<forall>v \<in> set vs. \<exists>g \<in> set (repair_gate_reruns s'). g_organization_id g = organization_id actor
         \<and> g_repair_request_id g = i \<and> as_str v = Some (g_gate_id g)"
    using Cons.IH [OF rest] by blast
  have "g \<in> set (repair_gate_reruns s')" using gs1(3) gs2(1) by simp
  then have "\<exists>g \<in> set (repair_gate_reruns s'). g_organization_id g = organization_id actor
         \<and> g_repair_request_id g = i \<and> as_str v = Some (g_gate_id g)"
    using gs1(4-6) gate by blast
  moreover have "s' = s\<lparr>repair_gate_reruns := repair_gate_reruns s @ (gs1 @ gs2)\<rparr>"
    using gs1(1) gs2(1) by simp
  moreover have "\<forall>g \<in> set (gs1 @ gs2). g_organization_id g = organization_id actor \<and> g_repair_request_id g = i"
    using gs1(2,4,5) gs2(2) by auto
  moreover have "distinct (map g_id (repair_gate_reruns s @ (gs1 @ gs2)))"
    if "distinct (map g_id (repair_gate_reruns s))"
  proof -
    have "distinct (map g_id (repair_gate_reruns s1))"
      using that gs1(1,2) next_serial_greater [of _ "repair_gate_reruns s" g_id] by fastforce
    with gs2(3) gs1(1) show ?thesis by simp
  qed
  ultimately show ?case using gs2(4) by (intro exI [of _ "gs1 @ gs2"]) simp
qed

text \<open>\<open>covered ds gs r\<close>: every gate the diagnosis of \<open>r\<close> names has a rerun.\<close>

definition covered :: "repair_diagnosis list \<Rightarrow> gate_rerun list \<Rightarrow> repair_request \<Rightarrow> bool" where
  "covered ds gs r =
     (\<exists>d vs. find (\<lambda>d. dg_id d = q_diagnosis_id r \<and> dg_organization_id d = q_organization_id r) ds = Some d
        \<and> as_array (nd_affected_gates (dg_evidence d)) = Some vs \<and> vs \<noteq> []
        \<and> (\<forall>v \<in> set vs. \<exists>g \<in> set gs. g_organization_id g = q_organization_id r
              \<and> g_repair_request_id g = q_id r \<and> as_str v = Some (g_gate_id g)))"

lemma begin_gate_reruns_outcome:
  assumes "begin_gate_reruns_for_child_run now actor child s = Inr (s', begun)"
  shows "(\<not> begun \<and> s' = s)
    \<or> (\<exists>r gs. begun \<and> r \<in> set (repair_requests s) \<and> q_organization_id r = organization_id actor
         \<and> q_status r \<in> {Req_Dispatched, Req_Running}
         \<and> s' = (start_gates now actor (q_id r) s)\<lparr>repair_gate_reruns := repair_gate_reruns s @ gs\<rparr>
         \<and> (\<forall>g \<in> set gs. g_organization_id g = organization_id actor \<and> g_repair_request_id g = q_id r)
         \<and> (distinct (map g_id (repair_gate_reruns s)) \<longrightarrow> distinct (map g_id (repair_gate_reruns s @ gs)))
         \<and> covered (repair_diagnoses s) (repair_gate_reruns s') r)"
proof (cases "gate_source actor child s")
  case None
  with assms show ?thesis by (simp add: begin_gate_reruns_for_child_run_def)
next
  case (Some r)
  have r: "r \<in> set (repair_requests s)" "q_organization_id r = organization_id actor"
      "q_status r \<in> {Req_Dispatched, Req_Running}"
    using Some by (auto simp: gate_source_def find_Some_iff)
  have "diagnosis_of s r \<noteq> None" "run_evidence s (q_organization_id r) child \<noteq> None"
    using Some unfolding gate_source_def find_Some_iff by blast+
  then obtain d h where dh: "diagnosis_of s r = Some d" "run_evidence s (q_organization_id r) child = Some h"
    by blast
  obtain vs where vs: "as_array (nd_affected_gates (dg_evidence d)) = Some vs" "vs \<noteq> []" "begun"
    and gates: "create_gates now actor (q_id r) (rh_changeset_digest h) child vs
        (start_gates now actor (q_id r) s) = Inr s'"
    using assms Some dh
    by (cases "as_array (nd_affected_gates (dg_evidence d))")
      (auto simp: begin_gate_reruns_for_child_run_def and_then_Inr_iff split: if_splits)
  obtain gs where gs: "s' = (start_gates now actor (q_id r) s)\<lparr>repair_gate_reruns := repair_gate_reruns s @ gs\<rparr>"
      "\<forall>g \<in> set gs. g_organization_id g = organization_id actor \<and> g_repair_request_id g = q_id r"
      "distinct (map g_id (repair_gate_reruns s)) \<longrightarrow> distinct (map g_id (repair_gate_reruns s @ gs))"
      "\<forall>v \<in> set vs. \<exists>g \<in> set (repair_gate_reruns s'). g_organization_id g = organization_id actor
         \<and> g_repair_request_id g = q_id r \<and> as_str v = Some (g_gate_id g)"
    using create_gates_outcome [OF gates] by (auto simp: start_gates_def)
  have "covered (repair_diagnoses s) (repair_gate_reruns s') r"
    unfolding covered_def using dh(1) vs(1,2) gs(4) r(2) by (auto simp: diagnosis_of_def)
  with r vs(3) gs(1-3) show ?thesis by blast
qed

section \<open>Creation\<close>

lemma create_diagnosis_outcome:
  "create_diagnosis actor t run i s = Inr (s', d) \<Longrightarrow>
   \<exists>ds. s' = s\<lparr>repair_diagnoses := repair_diagnoses s @ ds\<rparr>"
  by (auto simp: create_diagnosis_def Let_def split: option.splits if_splits
      intro: exI [of _ "[]"])

lemma new_request_row_simps [simp]:
  "q_id (new_request_row now i t run d rid n) = rid"
  "q_status (new_request_row now i t run d rid n) = Req_Pending"
  "q_organization_id (new_request_row now i t run d rid n) = organization_id (nr_actor i)"
  "q_task_id (new_request_row now i t run d rid n) = nr_task_id i"
  "q_child_run_id (new_request_row now i t run d rid n) = None"
  "q_cost_units (new_request_row now i t run d rid n) = nr_cost_units i"
  by (simp_all add: new_request_row_def)

text \<open>A created request: a fresh pending row, whose task, failed or handed to a person before, now
  waits for it, within the count of its policy.\<close>

definition adds_request :: "repair_store \<Rightarrow> repair_store \<Rightarrow> repair_request \<Rightarrow> bool" where
  "adds_request s s' r =
     (repair_requests s' = repair_requests s @ [r] \<and> q_id r = next_serial q_id (repair_requests s)
      \<and> q_status r = Req_Pending \<and> q_child_run_id r = None
      \<and> (\<exists>ds. repair_diagnoses s' = repair_diagnoses s @ ds)
      \<and> repair_gate_reruns s' = repair_gate_reruns s \<and> repair_approvals s' = repair_approvals s
      \<and> runs (base s') = runs (base s)
      \<and> (\<exists>Q g. tasks (base s') = update_where Q g (tasks (base s))
           \<and> (\<forall>t. Q t \<longrightarrow> t_id t = q_task_id r \<and> t_status t \<in> {Task_Failed, Task_RepairHandoff})
           \<and> (\<forall>t. t_id (g t) = t_id t))
      \<and> (\<exists>t \<in> set (tasks (base s')). under_repair r t)
      \<and> length (repairs_of (q_organization_id r) (q_task_id r) s) < 5)"

lemma find_appended:
  assumes "distinct (map q_id (rows @ [r]))" and "find (\<lambda>x. q_id x = q_id r \<and> P x) (rows @ [r]) = Some x"
  shows "x = r"
proof -
  have "x \<in> set (rows @ [r])" "q_id x = q_id r" using find_SomeD [OF assms(2)] by simp_all
  with assms(1) show ?thesis by (auto simp: image_iff)
qed

lemma insert_request_adds:
  assumes "insert_request now trace i t run (length (repairs_of (organization_id (nr_actor i)) (nr_task_id i) s)) s
      = Inr (s', r, created)"
    and "length (repairs_of (organization_id (nr_actor i)) (nr_task_id i) s) < 5" and "repair_keys s"
  shows "created \<and> adds_request s s' r"
proof -
  let ?n = "int (length (repairs_of (organization_id (nr_actor i)) (nr_task_id i) s)) + 1"
  let ?Q = "\<lambda>x. t_id x = nr_task_id i \<and> t_organization_id x = organization_id (nr_actor i)
      \<and> t_revision x = t_revision t \<and> startable_sql i x
      \<and> \<not> list_ex (live_run (nr_task_id i) (organization_id (nr_actor i))) (runs (base s))"
  obtain s1 d where diag: "create_diagnosis (nr_actor i) t (nr_source_run_id i) (nr_diagnosis i) s = Inr (s1, d)"
    using assms(1) by (auto simp: insert_request_def and_then_Inr_iff)
  obtain ds where ds: "s1 = s\<lparr>repair_diagnoses := repair_diagnoses s @ ds\<rparr>"
    using create_diagnosis_outcome [OF diag] by blast
  define q where "q = new_request_row now i t run d (next_serial q_id (repair_requests s)) ?n"
  let ?g = "\<lambda>x. x\<lparr>t_status := Task_RepairPending, t_current_repair_request_id := Some (q_id q),
                  t_revision := t_revision x + 1, t_updated_at := now\<rparr>"
  obtain s3 n where p: "project_task ?Q ?g ''task_changed_during_repair_creation''
        (s1\<lparr>repair_requests := repair_requests s @ [q]\<rparr>) = Inr s3"
    and found: "find_by_id_in_connection s3 (nr_actor i) (q_id q) = Some r"
    and rep: "report_repair trace (nr_actor i) r n s3 = Inr s'" and new: "created"
    using assms(1) diag
    by (auto simp: insert_request_def and_then_Inr_iff Let_def q_def [symmetric] ds
        split: if_splits option.splits)
  note s3 = project_task_Inr [OF p]
  obtain db where db: "s' = s3\<lparr>base := db\<rparr>" "tasks db = tasks (base s3)" "runs db = runs (base s3)"
    using report_repair_frame [OF rep] by blast
  have fresh: "distinct (map q_id (repair_requests s @ [q]))"
    using assms(3) next_serial_greater [of _ "repair_requests s" q_id]
    by (fastforce simp: repair_keys_def q_def)
  have r: "r = q"
    using found by (intro find_appended [OF fresh]) (simp add: find_by_id_in_connection_def s3(1))
  obtain x where x: "x \<in> set (tasks (base s))" "?Q x" using s3(2) by (auto simp: ds)
  have "?g x \<in> set (tasks (base s'))" using x by (auto simp: db s3(1) ds set_update_where)
  moreover have "under_repair q (?g x)" using x(2) by (simp add: under_repair_def q_def)
  ultimately have linked: "\<exists>t \<in> set (tasks (base s')). under_repair q t" by blast
  have only: "\<exists>Q g. tasks (base s') = update_where Q g (tasks (base s))
      \<and> (\<forall>t. Q t \<longrightarrow> t_id t = q_task_id q \<and> t_status t \<in> {Task_Failed, Task_RepairHandoff})
      \<and> (\<forall>t. t_id (g t) = t_id t)"
    by (rule exI [of _ ?Q], rule exI [of _ ?g]) (auto simp: db s3(1) ds q_def startable_sql_def)
  have "adds_request s s' q"
    unfolding adds_request_def using linked only assms(2)
    by (intro conjI) (simp_all add: db s3(1) ds, simp_all add: q_def)
  with new r show ?thesis by simp
qed

lemma create_or_get_outcome:
  assumes "create_or_get json_len clock now trace i s = Inr (s', r, created)" and "repair_keys s"
  shows "(s' = s \<and> \<not> created \<and> r \<in> set (repair_requests s)) \<or> (created \<and> adds_request s s' r)"
proof -
  have valid: "validate_request json_len clock i = Inr ()"
    using assms(1) by (auto simp: create_or_get_def and_then_Inr_iff)
  then have five: "nr_max_repairs i \<le> 5" by (simp add: validate_request_def split: if_splits)
  show ?thesis
  proof (cases "existing_requests i s")
    case (Cons x xs)
    then have "x \<in> set (existing_requests i s)" by simp
    then have "x \<in> set (repair_requests s)" by (simp add: existing_requests_def)
    with assms(1) valid Cons show ?thesis by (auto simp: create_or_get_def split: if_splits)
  next
    case Nil
    let ?prev = "repairs_of (organization_id (nr_actor i)) (nr_task_id i) s"
    obtain t run where "repair_source i s = Some (t, run)"
      and "insert_request now trace i t run (length ?prev) s = Inr (s', r, created)"
      and "int (length ?prev) < nr_max_repairs i"
      using assms(1) valid Nil
      by (cases "repair_source i s") (auto simp: create_or_get_def Let_def split: if_splits)
    with five insert_request_adds [of now trace i t run s s' r created] assms(2) show ?thesis by simp
  qed
qed

end
