(* ===== verification/Repair_Invariants.thy ===== *)
theory Repair_Invariants
  imports Repair_Flow
begin

text \<open>
  The repair tables as a state machine. \<open>repair_step\<close> has one rule for every transaction that
  writes them: creation, the claims of the dispatcher, dispatch, the end of the child run, the
  gate reruns, approvals, hand-off and cancellation; and one rule for the rest of the system,
  which may do anything to the task database except move a task under repair.
\<close>

section \<open>The step relation\<close>

definition undisturbed :: "db \<Rightarrow> db \<Rightarrow> bool" where
  "undisturbed db db' = (keys_ok db'
     \<and> (\<forall>t \<in> set (tasks db). t_status t \<in> {Task_RepairPending, Task_RepairRunning} \<longrightarrow>
          (\<exists>u \<in> set (tasks db'). t_id u = t_id t \<and> t_organization_id u = t_organization_id t \<and> t_status u = t_status t
             \<and> t_current_repair_request_id u = t_current_repair_request_id t)))"

inductive repair_op :: "repair_store \<Rightarrow> repair_store \<Rightarrow> bool" where
  create: "create_or_get json_len clock now trace i s = Inr (s', r, created) \<Longrightarrow> repair_op s s'"
| claim: "repair_op s (s\<lparr>repair_requests := fst (claim_pending now locked c limit lease (repair_requests s))\<rparr>)"
| renew: "repair_op s (s\<lparr>repair_requests := fst (renew_claim now k c lease (repair_requests s))\<rparr>)"
| release: "repair_op s (s\<lparr>repair_requests := fst (release_claim now k c backoff (repair_requests s))\<rparr>)"
| sweep: "repair_op s (s\<lparr>repair_requests := fst (release_expired_claims now locked limit (repair_requests s))\<rparr>)"
| dispatch: "mark_dispatched now trace actor k c child s = Inr (s', res) \<Longrightarrow> repair_op s s'"
| settle: "settle_repair_child now trace actor child status reason s = Inr s' \<Longrightarrow> repair_op s s'"
| gate_claim: "repair_op s (s\<lparr>repair_gate_reruns :=
     fst (claim_gate_reruns now locked c limit lease (repair_gate_reruns s))\<rparr>)"
| gate_renew: "repair_op s (s\<lparr>repair_gate_reruns :=
     fst (renew_gate_rerun_claim now k c lease (repair_gate_reruns s))\<rparr>)"
| gate_release: "repair_op s (s\<lparr>repair_gate_reruns :=
     fst (release_gate_rerun_claim now k c (repair_gate_reruns s))\<rparr>)"
| gate_sweep: "repair_op s (s\<lparr>repair_gate_reruns :=
     fst (release_expired_gate_rerun_claims now locked limit (repair_gate_reruns s))\<rparr>)"
| gate_result: "record_gate_result now trace actor k result s = Inr s' \<Longrightarrow> repair_op s s'"
| approval: "create_approval clock now actor input s = Inr (s', a, new) \<Longrightarrow> repair_op s s'"
| decide: "decide_approval_service now trace actor k decision why s = Inr s' \<Longrightarrow> repair_op s s'"
| withdraw: "withdraw_approval now trace actor k why s = Inr s' \<Longrightarrow> repair_op s s'"
| cancelled: "cancel_service now trace actor k s = Inr s' \<Longrightarrow> repair_op s s'"
| transferred: "handoff now trace actor k code recommendation s = Inr (s', res) \<Longrightarrow> repair_op s s'"

inductive repair_step :: "repair_store \<Rightarrow> repair_store \<Rightarrow> bool" where
  own: "repair_op s s' \<Longrightarrow> repair_step s s'"
| elsewhere: "undisturbed (base s) db \<Longrightarrow>
     repair_step s (s\<lparr>base := db, run_handoffs := hs, task_workspaces := ws\<rparr>)"

section \<open>The invariant\<close>

definition all_passed :: "gate_rerun list \<Rightarrow> repair_request \<Rightarrow> bool" where
  "all_passed gs r = (\<forall>g \<in> set gs. g_organization_id g = q_organization_id r
     \<and> g_repair_request_id g = q_id r \<longrightarrow> g_status g = Gate_Passed)"

definition gate_verdicts :: "repair_diagnosis list \<Rightarrow> gate_rerun list \<Rightarrow> repair_request \<Rightarrow> bool" where
  "gate_verdicts ds gs r =
     ((q_status r \<in> {Req_Running, Req_Succeeded} \<longrightarrow> covered ds gs r)
      \<and> (q_status r = Req_Succeeded \<longrightarrow> all_passed gs r))"

definition within_budget :: "repair_request list \<Rightarrow> bool" where
  "within_budget rs = (\<forall>org task.
     length (filter (\<lambda>r. q_organization_id r = org \<and> q_task_id r = task) rs) \<le> 5)"

definition repair_inv :: "repair_store \<Rightarrow> bool" where
  "repair_inv s = (repair_keys s \<and> tasks_follow (tasks (base s)) (repair_requests s)
     \<and> (\<forall>r \<in> set (repair_requests s). gate_verdicts (repair_diagnoses s) (repair_gate_reruns s) r)
     \<and> within_budget (repair_requests s))"

text \<open>The rows that are over.\<close>

definition over :: "repair_request \<Rightarrow> bool" where
  "over r = (expected_task (q_status r) = None)"

text \<open>\<open>survives s s'\<close>: what every step promises, the invariant and the rows that are over. \<open>calm s s'\<close>:
  the tasks that neither failed nor are under repair stay as they are, which the statements on the
  repair tables promise to the rest of the system.\<close>

definition survives :: "repair_store \<Rightarrow> repair_store \<Rightarrow> bool" where
  "survives s s' = (repair_inv s' \<and> {r \<in> set (repair_requests s). over r} \<subseteq> set (repair_requests s'))"

definition calm :: "repair_store \<Rightarrow> repair_store \<Rightarrow> bool" where
  "calm s s' = (\<forall>t \<in> set (tasks (base s)).
     t_status t \<notin> {Task_Failed, Task_RepairPending, Task_RepairRunning, Task_RepairHandoff} \<longrightarrow> t \<in> set (tasks (base s')))"

definition keeps :: "repair_store \<Rightarrow> repair_store \<Rightarrow> bool" where
  "keeps s s' = (survives s s' \<and> calm s s')"

lemma calm_same: "tasks (base s') = tasks (base s) \<Longrightarrow> calm s s'"
  by (simp add: calm_def)

lemma survives_trans: "survives s s1 \<Longrightarrow> survives s1 s2 \<Longrightarrow> survives s s2"
  by (auto simp: survives_def)

lemma keeps_trans: "keeps s s1 \<Longrightarrow> keeps s1 s2 \<Longrightarrow> keeps s s2"
  by (auto simp: keeps_def survives_def calm_def)

lemma keeps_refl: "repair_inv s \<Longrightarrow> keeps s s"
  by (simp add: keeps_def survives_def calm_def)

lemma keeps_inv: "keeps s s' \<Longrightarrow> repair_inv s'"
  by (simp add: keeps_def survives_def)

text \<open>What the verdicts read of a row.\<close>

lemma verdicts_cong:
  "q_id r' = q_id r \<Longrightarrow> q_organization_id r' = q_organization_id r \<Longrightarrow> q_diagnosis_id r' = q_diagnosis_id r \<Longrightarrow>
   covered ds gs r' = covered ds gs r \<and> all_passed gs r' = all_passed gs r"
  by (simp add: covered_def all_passed_def)

lemma covered_more_diagnoses: "covered ds gs r \<Longrightarrow> covered (ds @ ds') gs r"
  by (force simp: covered_def find_append)

lemma covered_gates:
  assumes "covered ds gs r"
    and "\<And>g. g \<in> set gs \<Longrightarrow> \<exists>g' \<in> set gs'. g_organization_id g' = g_organization_id g
           \<and> g_repair_request_id g' = g_repair_request_id g \<and> g_gate_id g' = g_gate_id g"
  shows "covered ds gs' r"
proof -
  obtain d vs where d: "find (\<lambda>d. dg_id d = q_diagnosis_id r \<and> dg_organization_id d = q_organization_id r) ds = Some d"
      "as_array (nd_affected_gates (dg_evidence d)) = Some vs" "vs \<noteq> []"
      "\<forall>v \<in> set vs. \<exists>g \<in> set gs. g_organization_id g = q_organization_id r
          \<and> g_repair_request_id g = q_id r \<and> as_str v = Some (g_gate_id g)"
    using assms(1) unfolding covered_def by blast
  have "\<exists>g \<in> set gs'. g_organization_id g = q_organization_id r \<and> g_repair_request_id g = q_id r
      \<and> as_str v = Some (g_gate_id g)" if "v \<in> set vs" for v
    using d(4) that assms(2) by metis
  with d(1-3) show ?thesis unfolding covered_def by blast
qed

section \<open>Steps on the request queue\<close>

lemma children_unique_cong:
  assumes "map (\<lambda>r. (q_id r, q_child_run_id r)) rs' = map (\<lambda>r. (q_id r, q_child_run_id r)) rs"
  shows "children_unique rs' = children_unique rs"
proof -
  have eq: "children_unique xs \<longleftrightarrow> (\<forall>x \<in> set (map (\<lambda>r. (q_id r, q_child_run_id r)) xs).
      \<forall>y \<in> set (map (\<lambda>r. (q_id r, q_child_run_id r)) xs). snd x \<noteq> None \<longrightarrow> snd x = snd y \<longrightarrow> fst x = fst y)"
    for xs by (simp add: children_unique_def)
  show ?thesis unfolding eq assms ..
qed

lemma within_budget_cong:
  assumes "map (\<lambda>q. (q_organization_id q, q_task_id q)) rs' = map (\<lambda>q. (q_organization_id q, q_task_id q)) rs"
  shows "within_budget rs' = within_budget rs"
proof -
  have eq: "length (filter (\<lambda>r. q_organization_id r = org \<and> q_task_id r = task) xs) =
      length (filter (\<lambda>x. x = (org, task)) (map (\<lambda>q. (q_organization_id q, q_task_id q)) xs))" for xs org task
    by (simp add: filter_map comp_def)
  show ?thesis unfolding within_budget_def eq assms ..
qed

lemma requeue_keeps:
  assumes "repair_inv s" and "requeues (repair_requests s) rows'"
  shows "keeps s (s\<lparr>repair_requests := rows'\<rparr>)"
proof -
  obtain P f where rows': "rows' = update_where P f (repair_requests s)"
    and P: "\<And>r. r \<in> set (repair_requests s) \<Longrightarrow> P r \<Longrightarrow>
       q_status r \<in> {Req_Pending, Req_Claimed} \<and> q_status (f r) \<in> {Req_Pending, Req_Claimed}"
    and f: "\<And>r. q_id (f r) = q_id r" "\<And>r. q_organization_id (f r) = q_organization_id r"
      "\<And>r. q_task_id (f r) = q_task_id r" "\<And>r. q_child_run_id (f r) = q_child_run_id r"
    using assms(2) unfolding requeues_def by blast
  have row: "\<exists>r \<in> set (repair_requests s). r' = r \<or> (r' = f r \<and> P r)" if "r' \<in> set rows'" for r'
    using that by (auto simp: rows' update_where_def split: if_splits)
  have keys: "map q_id rows' = map q_id (repair_requests s)" by (simp add: rows' update_where_keeps f)
  have "map (\<lambda>r. (q_id r, q_child_run_id r)) rows' = map (\<lambda>r. (q_id r, q_child_run_id r)) (repair_requests s)"
    by (simp add: rows' update_where_keeps f)
  from children_unique_cong [OF this] have "children_unique rows'"
    using assms(1) by (simp add: repair_inv_def repair_keys_def)
  then have "repair_keys (s\<lparr>repair_requests := rows'\<rparr>)"
    using assms(1) keys by (simp add: repair_inv_def repair_keys_def)
  moreover have "tasks_follow (tasks (base s)) rows'"
    unfolding tasks_follow_def
  proof (intro ballI impI)
    fix r' assume r': "r' \<in> set rows'" "expected_task (q_status r') \<noteq> None"
    obtain r where r: "r \<in> set (repair_requests s)" "r' = r \<or> (r' = f r \<and> P r)" using row [OF r'(1)] by blast
    then have "expected_task (q_status r') = expected_task (q_status r)" using P [OF r(1)] by auto
    moreover from this obtain t where "t \<in> set (tasks (base s))" "under_repair r t"
      using assms(1) r(1) r'(2) unfolding repair_inv_def tasks_follow_def by metis
    ultimately show "\<exists>t \<in> set (tasks (base s)). under_repair r' t"
      using r(2) by (auto simp: under_repair_def f)
  qed
  moreover have "gate_verdicts (repair_diagnoses s) (repair_gate_reruns s) r'" if r': "r' \<in> set rows'" for r'
  proof -
    obtain r where r: "r \<in> set (repair_requests s)" "r' = r \<or> (r' = f r \<and> P r)" using row [OF r'] by blast
    have "gate_verdicts (repair_diagnoses s) (repair_gate_reruns s) r" using assms(1) r(1) by (simp add: repair_inv_def)
    with r(2) P [OF r(1)] show ?thesis by (auto simp: gate_verdicts_def)
  qed
  moreover have "within_budget rows'"
  proof -
    have "map (\<lambda>q. (q_organization_id q, q_task_id q)) rows' =
        map (\<lambda>q. (q_organization_id q, q_task_id q)) (repair_requests s)"
      by (simp add: rows' update_where_keeps f)
    from within_budget_cong [OF this] show ?thesis using assms(1) by (simp add: repair_inv_def)
  qed
  moreover have "{r \<in> set (repair_requests s). over r} \<subseteq> set rows'"
  proof
    fix r assume r: "r \<in> {r \<in> set (repair_requests s). over r}"
    then have "\<not> P r" using P [of r] by (auto simp: over_def)
    with r show "r \<in> set rows'" by (simp add: rows' set_update_where)
  qed
  ultimately show ?thesis by (simp add: keeps_def survives_def calm_def repair_inv_def)
qed

section \<open>Steps on the gate reruns\<close>

definition regates :: "gate_rerun list \<Rightarrow> gate_rerun list \<Rightarrow> bool" where
  "regates gs gs' = (\<exists>P f. gs' = update_where P f gs
     \<and> (\<forall>g \<in> set gs. P g \<longrightarrow> g_status g \<noteq> Gate_Passed)
     \<and> (\<forall>g. g_organization_id (f g) = g_organization_id g \<and> g_repair_request_id (f g) = g_repair_request_id g
           \<and> g_gate_id (f g) = g_gate_id g \<and> g_id (f g) = g_id g))"

lemma gate_statements_regate:
  assumes "distinct (map g_id gs)"
  shows "regates gs (fst (claim_gate_reruns now locked c limit lease gs))"
    and "regates gs (fst (renew_gate_rerun_claim now k c lease gs))"
    and "regates gs (fst (release_gate_rerun_claim now k c gs))"
    and "regates gs (fst (release_expired_gate_rerun_claims now locked limit gs))"
proof -
  let ?P = "\<lambda>g. g_status g = Gate_Pending"
  let ?ids = "select_rows g_id ?P (\<lambda>g. (g_created_at g, g_id g)) locked (clamp 1 100 limit) gs"
  have "g_status g = Gate_Pending" if "g \<in> set gs" "g_id g \<in> set ?ids" for g
    by (rule selected_row [OF assms that])
  then show "regates gs (fst (claim_gate_reruns now locked c limit lease gs))"
    unfolding regates_def claim_gate_reruns_def claim_rows_def Let_def fst_conv
    by (intro exI [of _ "\<lambda>g. g_id g \<in> set ?ids"] exI [of _ "gate_on_claim lease now c"])
      (simp add: gate_on_claim_def)
  show "regates gs (fst (renew_gate_rerun_claim now k c lease gs))"
    unfolding regates_def renew_gate_rerun_claim_def update_one_def fst_conv
    by (rule exI, rule exI [of _ "gate_on_renew lease now"])
      (auto simp: gate_on_renew_def gate_cred_def split: if_splits)
  show "regates gs (fst (release_gate_rerun_claim now k c gs))"
    unfolding regates_def release_gate_rerun_claim_def update_one_def fst_conv
    by (rule exI, rule exI [of _ "gate_on_release now"])
      (auto simp: gate_on_release_def gate_cred_def split: if_splits)
  let ?R = "\<lambda>g. g_status g = Gate_Running \<and> expired g_claim_expires_at now g"
  let ?old = "select_rows g_id ?R (\<lambda>g. (case g_claim_expires_at g of None \<Rightarrow> 0 | Some e \<Rightarrow> e, g_id g))
      locked (clamp 1 500 limit) gs"
  have "g_status g = Gate_Running" if "g \<in> set gs" "g_id g \<in> set ?old" for g
    using selected_row [OF assms that] by simp
  then show "regates gs (fst (release_expired_gate_rerun_claims now locked limit gs))"
    unfolding regates_def release_expired_gate_rerun_claims_def claim_rows_def Let_def fst_conv
    by (intro exI [of _ "\<lambda>g. g_id g \<in> set ?old"] exI [of _ "gate_on_release now"])
      (simp add: gate_on_release_def)
qed

lemma regate_verdicts:
  assumes "regates gs gs'" and "gate_verdicts ds gs r"
  shows "gate_verdicts ds gs' r"
proof -
  obtain P f where gs': "gs' = update_where P f gs" and P: "\<And>g. g \<in> set gs \<Longrightarrow> P g \<Longrightarrow> g_status g \<noteq> Gate_Passed"
    and f: "\<And>g. g_organization_id (f g) = g_organization_id g" "\<And>g. g_repair_request_id (f g) = g_repair_request_id g"
      "\<And>g. g_gate_id (f g) = g_gate_id g"
    using assms(1) unfolding regates_def by blast
  have "covered ds gs' r" if "covered ds gs r"
  proof (rule covered_gates [OF that])
    fix g assume "g \<in> set gs"
    then have "(if P g then f g else g) \<in> set gs'" by (auto simp: gs' update_where_def)
    then show "\<exists>g' \<in> set gs'. g_organization_id g' = g_organization_id g
        \<and> g_repair_request_id g' = g_repair_request_id g \<and> g_gate_id g' = g_gate_id g"
      by (rule bexI [rotated]) (simp add: f)
  qed
  moreover have "all_passed gs' r" if "all_passed gs r"
    using that P by (fastforce simp: all_passed_def gs' set_update_where f)
  ultimately show ?thesis using assms(2) by (auto simp: gate_verdicts_def)
qed

lemma regate_keeps:
  assumes "repair_inv s" and "regates (repair_gate_reruns s) gs'"
  shows "keeps s (s\<lparr>repair_gate_reruns := gs'\<rparr>)"
proof -
  have "map g_id gs' = map g_id (repair_gate_reruns s)"
    using assms(2) by (auto simp: regates_def update_where_keeps)
  then show ?thesis
    using assms(1) regate_verdicts [OF assms(2)]
    by (simp add: keeps_def survives_def calm_def repair_inv_def repair_keys_def)
qed

section \<open>Moves, creation and the rest of the system\<close>

lemma move_calm:
  assumes "repair_inv s" and "moves s s' r r'"
  shows "calm s s'"
proof -
  obtain Q g where Q: "tasks (base s') = update_where Q g (tasks (base s))" "\<And>t. Q t \<Longrightarrow> t_id t = q_task_id r"
    using assms(2) by (auto simp: moves_def)
  obtain u where u: "u \<in> set (tasks (base s))" "under_repair r u"
    using assms unfolding repair_inv_def tasks_follow_def moves_def by blast
  have inj: "inj_on t_id (set (tasks (base s)))"
    using assms(1) by (simp add: repair_inv_def repair_keys_def keys_ok_def distinct_map)
  have "t = u" if "t \<in> set (tasks (base s))" "Q t" for t
    using inj_onD [OF inj _ that(1) u(1)] Q(2) [OF that(2)] u(2) by (simp add: under_repair_def)
  moreover have "t_status u \<in> {Task_RepairPending, Task_RepairRunning}"
    using u(2) by (cases "q_status r") (auto simp: under_repair_def)
  ultimately show ?thesis unfolding calm_def Q(1) set_update_where by auto
qed

lemma move_keeps:
  assumes "repair_inv s" and "moves s s' r r'"
    and "gate_verdicts (repair_diagnoses s) (repair_gate_reruns s) r'"
  shows "keeps s s'"
proof -
  have eqs: "repair_requests s' = update_where (\<lambda>q. q_id q = q_id r) (\<lambda>_. r') (repair_requests s)"
      "repair_diagnoses s' = repair_diagnoses s" "repair_gate_reruns s' = repair_gate_reruns s"
      "q_organization_id r' = q_organization_id r" "q_task_id r' = q_task_id r" "q_id r' = q_id r"
      "r \<in> set (repair_requests s)" "\<not> over r"
    using assms(2) by (auto simp: moves_def over_def)
  have same: "q = r" if "q \<in> set (repair_requests s)" "q_id q = q_id r" for q
    using that eqs(7) assms(1) by (auto simp: repair_inv_def repair_keys_def distinct_map dest: inj_onD)
  have "repair_keys s'" "tasks_follow (tasks (base s')) (repair_requests s')"
    using assms(1,2) moves_keys moves_follow unfolding repair_inv_def by blast+
  moreover have "gate_verdicts (repair_diagnoses s') (repair_gate_reruns s') q" if "q \<in> set (repair_requests s')" for q
    using that assms(1,3) by (auto simp: eqs(1-3) set_update_where repair_inv_def)
  moreover have "within_budget (repair_requests s')"
  proof -
    have "map (\<lambda>q. (q_organization_id q, q_task_id q)) (repair_requests s') =
        map (\<lambda>q. (q_organization_id q, q_task_id q)) (repair_requests s)"
      using same eqs(4,5) by (auto simp: eqs(1) update_where_def)
    from within_budget_cong [OF this] show ?thesis using assms(1) by (simp add: repair_inv_def)
  qed
  moreover have "{q \<in> set (repair_requests s). over q} \<subseteq> set (repair_requests s')"
    using same eqs(8) by (auto simp: eqs(1) set_update_where)
  ultimately show ?thesis using move_calm [OF assms(1,2)] by (simp add: keeps_def survives_def repair_inv_def)
qed

text \<open>A row whose new status claims nothing about its gates.\<close>

lemma move_keeps_plain:
  assumes "repair_inv s" and "moves s s' r r'" and "q_status r' \<notin> {Req_Running, Req_Succeeded}"
  shows "keeps s s'"
  using assms(3) by (intro move_keeps [OF assms(1,2)]) (simp add: gate_verdicts_def)

lemma add_keeps:
  assumes "repair_inv s" and "adds_request s s' r"
  shows "keeps s s'"
proof -
  obtain ds where eqs: "repair_requests s' = repair_requests s @ [r]" "q_id r = next_serial q_id (repair_requests s)"
      "q_status r = Req_Pending" "q_child_run_id r = None" "repair_diagnoses s' = repair_diagnoses s @ ds"
      "repair_gate_reruns s' = repair_gate_reruns s" "runs (base s') = runs (base s)"
      "\<exists>t \<in> set (tasks (base s')). under_repair r t"
      "length (repairs_of (q_organization_id r) (q_task_id r) s) < 5"
    using assms(2) by (auto simp: adds_request_def)
  obtain Q g where Q: "tasks (base s') = update_where Q g (tasks (base s))" "\<forall>t. t_id (g t) = t_id t"
      "\<forall>t. Q t \<longrightarrow> t_id t = q_task_id r \<and> t_status t \<in> {Task_Failed, Task_RepairHandoff}"
    using assms(2) by (auto simp: adds_request_def)
  have "map t_id (tasks (base s')) = map t_id (tasks (base s))" by (simp add: Q(1,2) update_where_keeps)
  moreover have "distinct (map q_id (repair_requests s'))"
    using assms(1) next_serial_greater [of _ "repair_requests s" q_id]
    by (fastforce simp: repair_inv_def repair_keys_def eqs(1,2))
  moreover have "children_unique (repair_requests s')"
  proof -
    have "children_unique (repair_requests s)" using assms(1) by (simp add: repair_inv_def repair_keys_def)
    moreover have "q \<in> set (repair_requests s)"
      if "q \<in> set (repair_requests s')" "q_child_run_id q \<noteq> None" for q
      using that eqs(4) by (auto simp: eqs(1))
    ultimately show ?thesis unfolding children_unique_def by metis
  qed
  ultimately have "repair_keys s'" using assms(1) by (simp add: repair_inv_def repair_keys_def keys_ok_def eqs)
  moreover have "tasks_follow (tasks (base s')) (repair_requests s')"
    unfolding tasks_follow_def
  proof (intro ballI impI)
    fix q assume q: "q \<in> set (repair_requests s')" "expected_task (q_status q) \<noteq> None"
    show "\<exists>t \<in> set (tasks (base s')). under_repair q t"
    proof (cases "q = r")
      case False
      with q obtain t where t: "t \<in> set (tasks (base s))" "under_repair q t"
        using assms(1) unfolding repair_inv_def tasks_follow_def eqs(1) by auto
      then have "t_status t \<in> {Task_RepairPending, Task_RepairRunning}"
        by (cases "q_status q") (auto simp: under_repair_def)
      then have "\<not> Q t" using Q(3) by fastforce
      then have "t \<in> set (tasks (base s'))" using t(1) by (simp add: Q(1) set_update_where)
      with t(2) show ?thesis by blast
    qed (use eqs(8) in simp)
  qed
  moreover have "gate_verdicts (repair_diagnoses s') (repair_gate_reruns s') q" if "q \<in> set (repair_requests s')" for q
    using that assms(1) eqs(3) covered_more_diagnoses
    by (auto simp: eqs(1,5,6) repair_inv_def gate_verdicts_def)
  moreover have "within_budget (repair_requests s')"
    using assms(1) eqs(9) by (auto simp: repair_inv_def within_budget_def eqs(1) repairs_of_def)
  moreover have "calm s s'" using Q(3) by (auto simp: calm_def Q(1) set_update_where)
  ultimately show ?thesis by (auto simp: keeps_def survives_def repair_inv_def eqs(1))
qed

lemma elsewhere_survives:
  assumes "repair_inv s" and "undisturbed (base s) db"
  shows "survives s (s\<lparr>base := db, run_handoffs := hs, task_workspaces := ws\<rparr>)"
proof -
  have "tasks_follow (tasks db) (repair_requests s)"
    unfolding tasks_follow_def
  proof (intro ballI impI)
    fix q assume "q \<in> set (repair_requests s)" and q: "expected_task (q_status q) \<noteq> None"
    then obtain t where t: "t \<in> set (tasks (base s))" "under_repair q t"
      using assms(1) unfolding repair_inv_def tasks_follow_def by blast
    then have "t_status t \<in> {Task_RepairPending, Task_RepairRunning}"
      by (cases "q_status q") (auto simp: under_repair_def)
    with t assms(2) obtain u where "u \<in> set (tasks db)" "t_id u = t_id t" "t_organization_id u = t_organization_id t"
        "t_status u = t_status t" "t_current_repair_request_id u = t_current_repair_request_id t"
      unfolding undisturbed_def by blast
    with t(2) show "\<exists>t \<in> set (tasks db). under_repair q t" by (auto simp: under_repair_def)
  qed
  with assms show ?thesis by (simp add: survives_def repair_inv_def repair_keys_def undisturbed_def)
qed

lemma begin_keeps:
  assumes "begin_gate_reruns_for_child_run now actor child s = Inr (s', begun)" and "repair_inv s"
  shows "keeps s s'"
proof (cases begun)
  case False
  with begin_gate_reruns_outcome [OF assms(1)] assms(2) show ?thesis by (auto intro: keeps_refl)
next
  case True
  then obtain r gs where r: "r \<in> set (repair_requests s)" "q_organization_id r = organization_id actor"
      "q_status r \<in> {Req_Dispatched, Req_Running}"
    and s': "s' = (start_gates now actor (q_id r) s)\<lparr>repair_gate_reruns := repair_gate_reruns s @ gs\<rparr>"
    and gs: "\<forall>g \<in> set gs. g_organization_id g = organization_id actor \<and> g_repair_request_id g = q_id r"
      "distinct (map g_id (repair_gate_reruns s)) \<longrightarrow> distinct (map g_id (repair_gate_reruns s @ gs))"
    and cov: "covered (repair_diagnoses s) (repair_gate_reruns s') r"
    using begin_gate_reruns_outcome [OF assms(1)] by blast
  define s1 where "s1 = s\<lparr>repair_gate_reruns := repair_gate_reruns s @ gs\<rparr>"
  have s'1: "s' = start_gates now actor (q_id r) s1" by (simp add: s' s1_def start_gates_def)
  have verdicts: "gate_verdicts (repair_diagnoses s) (repair_gate_reruns s @ gs) q"
    if q: "q \<in> set (repair_requests s)" for q
  proof -
    have old: "gate_verdicts (repair_diagnoses s) (repair_gate_reruns s) q"
      using q assms(2) by (simp add: repair_inv_def)
    have "covered (repair_diagnoses s) (repair_gate_reruns s @ gs) q"
      if "covered (repair_diagnoses s) (repair_gate_reruns s) q"
      by (rule covered_gates [OF that]) auto
    moreover have "q_id q \<noteq> q_id r" if "q_status q = Req_Succeeded"
    proof
      assume "q_id q = q_id r"
      then have "q = r" using q r(1) assms(2)
        by (auto simp: repair_inv_def repair_keys_def distinct_map dest: inj_onD)
      with that r(3) show False by simp
    qed
    ultimately show ?thesis using old gs(1) by (auto simp: gate_verdicts_def all_passed_def)
  qed
  have inv1: "repair_inv s1"
    using assms(2) verdicts gs(2) by (simp add: s1_def repair_inv_def repair_keys_def)
  have "moves s1 s' r (on_start_gates now r)"
    unfolding s'1
    by (rule start_gates_moves) (use inv1 r in \<open>simp_all add: repair_inv_def s1_def\<close>)
  moreover have "gate_verdicts (repair_diagnoses s1) (repair_gate_reruns s1) (on_start_gates now r)"
    using cov by (simp add: gate_verdicts_def s' s1_def covered_def)
  ultimately have "keeps s1 s'" by (rule move_keeps [OF inv1])
  moreover have "keeps s s1" using inv1 by (simp add: keeps_def survives_def calm_def s1_def)
  ultimately show ?thesis by (blast intro: keeps_trans)
qed

section \<open>Every step keeps the invariant\<close>

lemma frame_keeps:
  assumes "repair_inv s" and "repair_requests s' = repair_requests s" "repair_diagnoses s' = repair_diagnoses s"
    "repair_gate_reruns s' = repair_gate_reruns s" "tasks (base s') = tasks (base s)" "runs (base s') = runs (base s)"
  shows "keeps s s'"
  using assms by (simp add: keeps_def survives_def calm_def repair_inv_def repair_keys_def keys_ok_def)

lemma complete_keeps:
  assumes "complete_for_child_run now trace actor child code outcome s = Inr (s', res)" and "repair_inv s"
    and "outcome \<noteq> ''succeeded''"
  shows "keeps s s'"
proof -
  have keys: "repair_keys s" using assms(2) by (simp add: repair_inv_def)
  have "child_outcome outcome \<notin> {Req_Running, Req_Succeeded}" using assms(3) by (simp add: child_outcome_def)
  with complete_for_child_run_outcome [OF assms(1) keys] assms(2) show ?thesis
    by (auto intro: keeps_refl move_keeps_plain)
qed

lemma settle_keeps:
  assumes "settle_repair_child now trace actor child status reason s = Inr s'" and "repair_inv s"
  shows "keeps s s'"
proof (cases "status = Run_Completed")
  case True
  obtain s1 begun where s1: "begin_gate_reruns_for_child_run now actor child s = Inr (s1, begun)"
    and rest: "s' = s1 \<or> (\<exists>res. complete_for_child_run now trace actor child ''gate_evidence_invalid'' ''failed'' s1
        = Inr (s', res))"
    using assms(1) True by (auto simp: settle_repair_child_def and_then_Inr_iff split: if_splits)
  have k: "keeps s s1" by (rule begin_keeps [OF s1 assms(2)])
  then have "repair_inv s1" by (rule keeps_inv)
  with rest have "keeps s1 s'" by (auto intro: keeps_refl complete_keeps)
  with k show ?thesis by (rule keeps_trans)
next
  case False
  then obtain code outcome res where "complete_for_child_run now trace actor child code outcome s = Inr (s', res)"
      "outcome \<noteq> ''succeeded''"
    using assms(1) by (auto simp: settle_repair_child_def and_then_Inr_iff split: if_splits)
  with assms(2) show ?thesis by (blast intro: complete_keeps)
qed

lemma finalize_keeps:
  assumes "finalize_gate_reruns now trace actor k s = Inr (s', res)" and "repair_inv s"
  shows "keeps s s'"
proof (cases "s' = s")
  case True
  with assms(2) show ?thesis by (simp add: keeps_refl)
next
  case False
  have keys: "repair_keys s" using assms(2) by (simp add: repair_inv_def)
  obtain r won where mv: "moves s s' r (on_end now (if won then Req_Succeeded else Req_HandedOff)
            (if won then None else Some ''gate_failed'') r)"
    and r: "q_status r = Req_Running"
    and won: "won \<longleftrightarrow> (\<forall>g \<in> set (gates_of (q_organization_id r) (q_id r) s). g_status g = Gate_Passed)"
    using finalize_gate_reruns_outcome [OF assms(1) keys] False by blast
  have "gate_verdicts (repair_diagnoses s) (repair_gate_reruns s) r"
    using mv assms(2) by (auto simp: moves_def repair_inv_def)
  with r have "covered (repair_diagnoses s) (repair_gate_reruns s) r" by (simp add: gate_verdicts_def)
  then have "gate_verdicts (repair_diagnoses s) (repair_gate_reruns s)
      (on_end now (if won then Req_Succeeded else Req_HandedOff) (if won then None else Some ''gate_failed'') r)"
    using won by (auto simp: gate_verdicts_def covered_def all_passed_def gates_of_def)
  with mv show ?thesis by (rule move_keeps [OF assms(2)])
qed

lemma gate_result_keeps:
  assumes "record_gate_result now trace actor k result s = Inr s'" and "repair_inv s"
  shows "keeps s s'"
proof -
  obtain s1 g where s1: "complete_gate_rerun now result s = Inr (s1, Some g)"
    using assms(1) by (auto simp: record_gate_result_def split: sum.splits option.splits)
  then obtain res where fin: "finalize_gate_reruns now trace actor k s1 = Inr (s', res)"
    using assms(1) by (auto simp: record_gate_result_def split: sum.splits)
  obtain P f where "s1 = s\<lparr>repair_gate_reruns := update_where P f (repair_gate_reruns s)\<rparr>"
      "\<And>g. P g \<Longrightarrow> g_status g = Gate_Running"
      "\<And>g. g_organization_id (f g) = g_organization_id g \<and> g_repair_request_id (f g) = g_repair_request_id g
         \<and> g_gate_id (f g) = g_gate_id g \<and> g_id (f g) = g_id g"
    using s1 by (auto simp: complete_gate_rerun_def Let_def gate_cred_def split: if_splits)
  then have k: "keeps s s1"
    using regate_keeps [OF assms(2), of "update_where P f (repair_gate_reruns s)"]
    by (fastforce simp: regates_def)
  then have "repair_inv s1" by (rule keeps_inv)
  with fin have "keeps s1 s'" by (rule finalize_keeps)
  with k show ?thesis by (rule keeps_trans)
qed

lemma handoff_keeps:
  assumes "handoff now trace actor k code recommendation s = Inr (s', res)" and "repair_inv s"
  shows "keeps s s'"
proof -
  have keys: "repair_keys s" using assms(2) by (simp add: repair_inv_def)
  from handoff_outcome [OF assms(1) keys] assms(2) show ?thesis
    by (auto intro: keeps_refl move_keeps_plain)
qed

lemma decide_keeps:
  assumes "decide_approval now trace actor k decision why s = Inr (s', res)" and "repair_inv s"
  shows "keeps s s'"
proof (cases "find (decidable_approval now actor decision k s) (repair_approvals s)")
  case None
  with assms show ?thesis by (auto simp: decide_approval_def Let_def split: if_splits intro: keeps_refl)
next
  case (Some a)
  then obtain as r n where rep: "report_repair trace actor r n (s\<lparr>repair_approvals := as\<rparr>) = Inr s'"
    using assms(1)
    by (auto simp: decide_approval_def Let_def and_then_Inr_iff split: if_splits option.splits)
  show ?thesis
    using report_repair_frame [OF rep] by (auto intro!: frame_keeps [OF assms(2)])
qed

lemma decide_service_keeps:
  assumes "decide_approval_service now trace actor k decision why s = Inr s'" and "repair_inv s"
  shows "keeps s s'"
proof -
  obtain s1 a where s1: "decide_approval now trace actor k decision why s = Inr (s1, Some a)"
    using assms(1) by (auto simp: decide_approval_service_def split: sum.splits option.splits)
  have k: "keeps s s1" by (rule decide_keeps [OF s1 assms(2)])
  then have "repair_inv s1" by (rule keeps_inv)
  moreover have "s' = s1 \<or> (\<exists>code res. handoff now trace actor (ap_repair_request_id a) code ''approval_refused'' s1
      = Inr (s', res))"
    using assms(1) s1 by (auto simp: decide_approval_service_def split: sum.splits if_splits)
  ultimately have "keeps s1 s'" by (auto intro: keeps_refl handoff_keeps)
  with k show ?thesis by (rule keeps_trans)
qed

lemma withdraw_keeps:
  assumes "withdraw_approval now trace actor k why s = Inr s'" and "repair_inv s"
  shows "keeps s s'"
proof -
  obtain s1 a where s1: "decide_approval now trace actor k ''withdrawn'' why s = Inr (s1, Some a)"
    using assms(1) by (auto simp: withdraw_approval_def split: sum.splits option.splits)
  have k: "keeps s s1" by (rule decide_keeps [OF s1 assms(2)])
  then have "repair_inv s1" by (rule keeps_inv)
  moreover have "\<exists>res. handoff now trace actor (ap_repair_request_id a) ''approval_expired'' ''approval_withdrawn'' s1
      = Inr (s', res)"
    using assms(1) s1 by (auto simp: withdraw_approval_def split: sum.splits)
  ultimately have "keeps s1 s'" by (auto intro: handoff_keeps)
  with k show ?thesis by (rule keeps_trans)
qed

lemma create_approval_outcome:
  assumes "create_approval clock now actor input s = Inr (s', a, new)"
  shows "\<exists>as. s' = s\<lparr>repair_approvals := as\<rparr>"
proof -
  have same: "\<exists>as. s = s\<lparr>repair_approvals := as\<rparr>" by (rule exI [of _ "repair_approvals s"]) simp
  show ?thesis
    using assms same by (auto simp: create_approval_def Let_def split: if_splits option.splits)
qed

lemma op_keeps:
  assumes "repair_op s s'" and "repair_inv s"
  shows "keeps s s'"
proof -
  have keys: "repair_keys s" "distinct (map q_id (repair_requests s))" "distinct (map g_id (repair_gate_reruns s))"
    using assms(2) by (simp_all add: repair_inv_def repair_keys_def)
  note queue = requeue_keeps [OF assms(2)] and gates = regate_keeps [OF assms(2)]
  from assms(1) show ?thesis
  proof cases
    case (create json_len clock now trace i r created)
    from create_or_get_outcome [OF create keys(1)] assms(2) show ?thesis by (auto intro: keeps_refl add_keeps)
  next
    case (claim now locked c limit lease)
    then show ?thesis by (simp add: queue queue_statements_requeue keys)
  next
    case (renew now k c lease)
    then show ?thesis by (simp add: queue queue_statements_requeue keys)
  next
    case (release now k c backoff)
    then show ?thesis by (simp add: queue queue_statements_requeue keys)
  next
    case (sweep now locked limit)
    then show ?thesis by (simp add: queue queue_statements_requeue keys)
  next
    case (dispatch now trace actor k c child res)
    from mark_dispatched_outcome [OF dispatch keys(1)] assms(2) show ?thesis
      by (auto intro: keeps_refl move_keeps_plain)
  next
    case (gate_claim now locked c limit lease)
    then show ?thesis by (simp add: gates gate_statements_regate keys)
  next
    case (gate_renew now k c lease)
    then show ?thesis by (simp add: gates gate_statements_regate keys)
  next
    case (gate_release now k c)
    then show ?thesis by (simp add: gates gate_statements_regate keys)
  next
    case (gate_sweep now locked limit)
    then show ?thesis by (simp add: gates gate_statements_regate keys)
  next
    case (approval clock now actor input a new)
    from create_approval_outcome [OF approval] show ?thesis by (auto intro!: frame_keeps [OF assms(2)])
  next
    case (cancelled now trace actor k)
    then obtain res where "cancel now trace actor k s = Inr (s', res)"
      by (auto simp: cancel_service_def split: sum.splits option.splits)
    from cancel_outcome [OF this keys(1)] assms(2) show ?thesis by (auto intro: keeps_refl move_keeps_plain)
  qed (use assms(2) in \<open>blast intro: settle_keeps gate_result_keeps decide_service_keeps withdraw_keeps handoff_keeps\<close>)+
qed

lemma step_survives: "repair_step s s' \<Longrightarrow> repair_inv s \<Longrightarrow> survives s s'"
  by (erule repair_step.cases) (auto dest: op_keeps simp: keeps_def elsewhere_survives)

lemma steps_survive:
  assumes "repair_step\<^sup>*\<^sup>* s s'" and "repair_inv s"
  shows "survives s s'"
  using assms
proof (induction rule: rtranclp_induct)
  case base
  then show ?case by (simp add: survives_def)
next
  case (step s1 s2)
  then have k: "survives s s1" by blast
  then have "repair_inv s1" by (simp add: survives_def)
  with step.hyps(2) have "survives s1 s2" by (rule step_survives)
  with k show ?case by (rule survives_trans)
qed

section \<open>Reachable states\<close>

text \<open>The state before the first repair.\<close>

definition no_repairs :: "repair_store \<Rightarrow> bool" where
  "no_repairs s = (keys_ok (base s) \<and> repair_requests s = [] \<and> repair_gate_reruns s = [])"

lemma no_repairs_inv: "no_repairs s \<Longrightarrow> repair_inv s"
  by (simp add: no_repairs_def repair_inv_def repair_keys_def tasks_follow_def within_budget_def children_unique_def)

lemma reachable_inv: "no_repairs s0 \<Longrightarrow> repair_step\<^sup>*\<^sup>* s0 s \<Longrightarrow> repair_inv s"
  using steps_survive no_repairs_inv by (auto simp: survives_def)

lemma undisturbed_runs:
  assumes "keys_ok db" and "distinct (map r_id rs)"
  shows "undisturbed db (db\<lparr>runs := rs\<rparr>)"
  using assms by (auto simp: undisturbed_def keys_ok_def)

section \<open>A small repair store\<close>

definition example_digest :: rstr where
  "example_digest = replicate 64 CHR ''a''"

definition example_diagnosis :: new_repair_diagnosis where
  "example_diagnosis =
     \<lparr>nd_evidence_ref = ''r'', nd_evidence_digest = example_digest, nd_evidence_observed_at = 0,
      nd_evidence_expires_at = Some 100, nd_affected_gates = J_Array [J_String ''t''],
      nd_error_summary = ''e'', nd_structured_error = J_Null, nd_log_ref = None,
      nd_changeset_digest = None, nd_environment_summary = J_Null\<rparr>"

definition example_repair_actor :: actor_context where
  "example_repair_actor =
     \<lparr>actor_type = User, user_id = 100, session_id = 1, organization_id = 1, department_id = Some 10,
      data_scope = Scope_Organization, permission_codes = {}\<rparr>"

definition example_repair_input :: new_repair_request where
  "example_repair_input =
     \<lparr>nr_actor = example_repair_actor, nr_task_id = 1, nr_source_run_id = 1, nr_idempotency_key = ''k1'',
      nr_risk_category = ''low_risk'', nr_strategy_version = ''v1'', nr_policy_snapshot = J_Null,
      nr_max_repairs = 2, nr_cost_units = 1, nr_retry_of_request_id = None,
      nr_diagnosis = example_diagnosis\<rparr>"

definition example_store :: repair_store where
  "example_store =
     \<lparr>base = example_db [(example_task 1)\<lparr>t_status := Task_Failed\<rparr>] [(example_run 1 1)\<lparr>r_status := Run_Failed\<rparr>],
      repair_requests = [], repair_diagnoses = [], repair_gate_reruns = [], repair_approvals = [],
      repair_handoffs = [], run_handoffs = [], task_workspaces = []\<rparr>"

definition example_creation :: "sqlx_error + repair_store \<times> repair_request \<times> bool" where
  "example_creation = create_or_get (\<lambda>_. 10) 5 5 ''trace'' example_repair_input example_store"

definition example_created :: repair_store where
  "example_created = (case example_creation of Inr (s, _) \<Rightarrow> s | Inl _ \<Rightarrow> example_store)"

definition example_created_row :: repair_request where
  "example_created_row = (case example_creation of Inr (_, r, _) \<Rightarrow> r | Inl _ \<Rightarrow> example_request 1 0)"

lemma example_creation_ok: "example_creation = Inr (example_created, example_created_row, True)"
proof -
  have "(case example_creation of Inl _ \<Rightarrow> False | Inr (_, _, new) \<Rightarrow> new)" by code_simp
  then obtain s r where creation: "example_creation = Inr (s, r, True)"
    by (auto split: sum.splits)
  show ?thesis unfolding example_created_def example_created_row_def creation by simp
qed

lemma example_no_repairs: "no_repairs example_store"
  by (simp add: no_repairs_def example_store_def example_defs keys_ok_def)

lemma example_reached: "repair_step\<^sup>*\<^sup>* example_store example_created"
  using example_creation_ok unfolding example_creation_def by (blast intro: repair_step.own repair_op.create)

lemma example_row: "example_created_row \<in> set (repair_requests example_created)"
  by code_simp

text \<open>The life of this repair up to its success: a worker claims the request, the rest of the system
  inserts the child run, the request is dispatched, the child run completes with its evidence, its
  gate is queued, claimed and passes.\<close>

definition example_child :: "run_status \<Rightarrow> run_row" where
  "example_child st = (example_run 2 1)\<lparr>r_run_kind := Repair, r_repair_request_id := Some 1, r_status := st\<rparr>"

definition right_or :: "'a \<Rightarrow> 'e + 'a \<Rightarrow> 'a" where
  "right_or x y = (case y of Inl _ \<Rightarrow> x | Inr z \<Rightarrow> z)"

definition example_claimed :: repair_store where
  "example_claimed = repair_requests_update (\<lambda>rows. fst (claim_pending 6 {} (''w'', 7) 1 60 rows)) example_created"

definition example_starting :: repair_store where
  "example_starting = base_update (runs_update (\<lambda>rs. rs @ [example_child Run_Starting])) example_claimed"

definition example_dispatched :: repair_store where
  "example_dispatched =
     fst (right_or (example_store, None) (mark_dispatched 7 ''trace'' example_repair_actor 1 (''w'', 7) 2 example_starting))"

definition example_finished :: repair_store where
  "example_finished = (base_update (\<lambda>b. b\<lparr>runs := [example_child Run_Completed]\<rparr>) example_dispatched)
    \<lparr>run_handoffs := [\<lparr>rh_organization_id = 1, rh_source_run_id = 2, rh_changeset_digest = example_digest,
        rh_evidence_status = ''available'', rh_validated_at = Some 8\<rparr>]\<rparr>"

definition example_gated :: repair_store where
  "example_gated = right_or example_store
     (settle_repair_child 9 ''trace'' example_repair_actor 2 Run_Completed ''completed'' example_finished)"

definition example_gate_claimed :: repair_store where
  "example_gate_claimed =
     repair_gate_reruns_update (\<lambda>gs. fst (claim_gate_reruns 10 {} (''g'', 8) 1 60 gs)) example_gated"

definition example_verdict :: completed_gate_rerun where
  "example_verdict = \<lparr>cg_id = 1, cg_credential = (''g'', 8), cg_status = ''passed'', cg_result_code = Some ''passed'',
     cg_summary = None, cg_log_ref = None, cg_duration_ms = Some 5\<rparr>"

definition example_succeeded :: repair_store where
  "example_succeeded = right_or example_store
     (record_gate_result 11 ''trace'' example_repair_actor 1 example_verdict example_gate_claimed)"

lemma right_or_Inr: "is_ok y \<Longrightarrow> y = Inr (right_or x y)"
  by (cases y) (simp_all add: right_or_def)

lemma right_or_pair: "is_ok y \<Longrightarrow> y = Inr (fst (right_or x y), snd (right_or x y))"
  using right_or_Inr [of y x] by simp

lemma store_updates:
  "repair_requests_update f s = s\<lparr>repair_requests := f (repair_requests s)\<rparr>"
  "repair_gate_reruns_update h s = s\<lparr>repair_gate_reruns := h (repair_gate_reruns s)\<rparr>"
  "base_update b s = s\<lparr>base := b (base s)\<rparr>"
  "runs_update k db = db\<lparr>runs := k (runs db)\<rparr>"
  by (cases s, simp) (cases s, simp, cases s, simp, cases db, simp)

lemma example_keys: "repair_step\<^sup>*\<^sup>* example_store s \<Longrightarrow> keys_ok (base s)"
  using reachable_inv [OF example_no_repairs] by (simp add: repair_inv_def repair_keys_def)

lemma example_trace: "repair_step\<^sup>*\<^sup>* example_store example_succeeded"
proof -
  have "repair_step example_created example_claimed"
    unfolding example_claimed_def by (subst store_updates(1)) (rule repair_step.own [OF repair_op.claim])
  with example_reached have claimed: "repair_step\<^sup>*\<^sup>* example_store example_claimed" by simp
  have "distinct (map r_id (runs (base example_claimed) @ [example_child Run_Starting]))" by code_simp
  from repair_step.elsewhere [OF undisturbed_runs [OF example_keys [OF claimed] this],
      where hs = "run_handoffs example_claimed" and ws = "task_workspaces example_claimed"]
  have "repair_step example_claimed example_starting"
    unfolding example_starting_def by (subst store_updates(3), subst store_updates(4)) simp
  with claimed have starting: "repair_step\<^sup>*\<^sup>* example_store example_starting" by simp
  have "is_ok (mark_dispatched 7 ''trace'' example_repair_actor 1 (''w'', 7) 2 example_starting)" by code_simp
  from right_or_pair [OF this, of "(example_store, None)"] have "repair_step example_starting example_dispatched"
    unfolding example_dispatched_def by (rule repair_step.own [OF repair_op.dispatch])
  with starting have dispatched: "repair_step\<^sup>*\<^sup>* example_store example_dispatched" by simp
  from repair_step.elsewhere [OF undisturbed_runs [OF example_keys [OF dispatched], of "[example_child Run_Completed]"],
      where ws = "task_workspaces example_dispatched"]
  have "repair_step example_dispatched example_finished"
    unfolding example_finished_def by (subst store_updates(3)) simp
  with dispatched have finished: "repair_step\<^sup>*\<^sup>* example_store example_finished" by simp
  have "is_ok (settle_repair_child 9 ''trace'' example_repair_actor 2 Run_Completed ''completed'' example_finished)"
    by code_simp
  from right_or_Inr [OF this, of example_store] have "repair_step example_finished example_gated"
    unfolding example_gated_def by (rule repair_step.own [OF repair_op.settle])
  with finished have gated: "repair_step\<^sup>*\<^sup>* example_store example_gated" by simp
  have "repair_step example_gated example_gate_claimed"
    unfolding example_gate_claimed_def by (subst store_updates(2)) (rule repair_step.own [OF repair_op.gate_claim])
  with gated have gate_claimed: "repair_step\<^sup>*\<^sup>* example_store example_gate_claimed" by simp
  have "is_ok (record_gate_result 11 ''trace'' example_repair_actor 1 example_verdict example_gate_claimed)"
    by code_simp
  from right_or_Inr [OF this, of example_store] have "repair_step example_gate_claimed example_succeeded"
    unfolding example_succeeded_def by (rule repair_step.own [OF repair_op.gate_result])
  with gate_claimed show ?thesis by simp
qed

lemma example_success:
  "repair_requests example_succeeded \<noteq> []" "q_status (hd (repair_requests example_succeeded)) = Req_Succeeded"
proof -
  have "map q_status (repair_requests example_succeeded) = [Req_Succeeded]" by code_simp
  then show "repair_requests example_succeeded \<noteq> []" "q_status (hd (repair_requests example_succeeded)) = Req_Succeeded"
    by (cases "repair_requests example_succeeded"; simp)+
qed

section \<open>Properties\<close>



text \<open>C6. Success is earned: in every reachable state a repair recorded as succeeded has a diagnosis
  that names at least one gate, for each gate it names there is a rerun of this repair that passed,
  and no rerun of the repair has any other verdict. No interleaving of workers, hand-offs, expired
  claims or late results records a success with a gate open, failed or never run.\<close>

theorem success_means_every_gate_passed:
  assumes "no_repairs s0" and "repair_step\<^sup>*\<^sup>* s0 s" and "r \<in> set (repair_requests s)"
    and "q_status r = Req_Succeeded"
  shows "\<exists>d vs. diagnosis_of s r = Some d \<and> as_array (nd_affected_gates (dg_evidence d)) = Some vs \<and> vs \<noteq> []
    \<and> (\<forall>v \<in> set vs. \<exists>g \<in> set (gates_of (q_organization_id r) (q_id r) s).
          as_str v = Some (g_gate_id g) \<and> g_status g = Gate_Passed)
    \<and> (\<forall>g \<in> set (gates_of (q_organization_id r) (q_id r) s). g_status g = Gate_Passed)"
proof -
  have "repair_inv s" by (rule reachable_inv [OF assms(1,2)])
  then have "gate_verdicts (repair_diagnoses s) (repair_gate_reruns s) r" using assms(3) by (simp add: repair_inv_def)
  then have cov: "covered (repair_diagnoses s) (repair_gate_reruns s) r" and
    passed: "all_passed (repair_gate_reruns s) r" using assms(4) by (simp_all add: gate_verdicts_def)
  obtain d vs where d: "diagnosis_of s r = Some d" "as_array (nd_affected_gates (dg_evidence d)) = Some vs" "vs \<noteq> []"
      "\<forall>v \<in> set vs. \<exists>g \<in> set (repair_gate_reruns s). g_organization_id g = q_organization_id r
          \<and> g_repair_request_id g = q_id r \<and> as_str v = Some (g_gate_id g)"
    using cov unfolding covered_def diagnosis_of_def by blast
  have all: "\<forall>g \<in> set (gates_of (q_organization_id r) (q_id r) s). g_status g = Gate_Passed"
    using passed by (simp add: all_passed_def gates_of_def)
  then have "\<forall>v \<in> set vs. \<exists>g \<in> set (gates_of (q_organization_id r) (q_id r) s).
          as_str v = Some (g_gate_id g) \<and> g_status g = Gate_Passed"
    using d(4) by (fastforce simp: gates_of_def)
  with d(1-3) all show ?thesis by blast
qed

theorem success_means_every_gate_passed_witness:
  "let s = example_succeeded; r = hd (repair_requests s)
   in \<exists>d vs. diagnosis_of s r = Some d \<and> as_array (nd_affected_gates (dg_evidence d)) = Some vs \<and> vs \<noteq> []
    \<and> (\<forall>v \<in> set vs. \<exists>g \<in> set (gates_of (q_organization_id r) (q_id r) s).
          as_str v = Some (g_gate_id g) \<and> g_status g = Gate_Passed)
    \<and> (\<forall>g \<in> set (gates_of (q_organization_id r) (q_id r) s). g_status g = Gate_Passed)"
  unfolding Let_def
  by (rule success_means_every_gate_passed [OF example_no_repairs example_trace hd_in_set [OF example_success(1)]
        example_success(2)])

text \<open>C16. What is over stays over: once a repair request has ended (succeeded, failed, cancelled, handed
  off or rejected) no later step of any kind changes a column of its row.\<close>

theorem finished_repair_is_frozen:
  assumes "no_repairs s0" and "repair_step\<^sup>*\<^sup>* s0 s" and "r \<in> set (repair_requests s)"
    and "finished_request (q_status r)" and "repair_step\<^sup>*\<^sup>* s s'"
  shows "r \<in> set (repair_requests s')"
proof -
  have "survives s s'" by (rule steps_survive [OF assms(5) reachable_inv [OF assms(1,2)]])
  moreover have "over r" using assms(4) by (auto simp: over_def finished_request_def)
  ultimately show ?thesis using assms(3) by (auto simp: survives_def)
qed

theorem finished_repair_is_frozen_witness:
  "let s = example_succeeded
   in hd (repair_requests s) \<in> set (repair_requests
        (s\<lparr>repair_requests := fst (claim_pending 20 {} (''x'', 9) 10 60 (repair_requests s))\<rparr>))"
proof -
  have over: "finished_request (q_status (hd (repair_requests example_succeeded)))"
    by (simp add: example_success(2) finished_request_def)
  show ?thesis
    unfolding Let_def
    by (rule finished_repair_is_frozen [OF example_no_repairs example_trace hd_in_set [OF example_success(1)] over])
      (rule r_into_rtranclp, rule repair_step.own [OF repair_op.claim])
qed

text \<open>C18. Repairs are bounded: whatever policies the requests carry and however often they are retried,
  a task never accumulates more than five repair requests.\<close>

theorem at_most_five_repairs:
  assumes "no_repairs s0" and "repair_step\<^sup>*\<^sup>* s0 s"
  shows "length (repairs_of org task s) \<le> 5"
  using reachable_inv [OF assms] by (simp add: repair_inv_def within_budget_def repairs_of_def)

theorem at_most_five_repairs_witness: "length (repairs_of 1 1 example_succeeded) \<le> 5"
  by (rule at_most_five_repairs [OF example_no_repairs example_trace])

end
