(* ===== verification/Repair_Replay.thy ===== *)
theory Repair_Replay
  imports Repair_Invariants
begin

text \<open>
  Repeated requests and decisions on repairs: creation is idempotent, an approval is decided once,
  and what a hand-off with an unusual reason code does.
\<close>

section \<open>Replays\<close>

lemma sort_key_first:
  assumes "sort_key f xs = y # ys" and "x \<in> set xs"
  shows "y \<in> set xs" and "f y \<le> f x"
proof -
  have set: "set (y # ys) = set xs" using assms(1) by (metis set_sort)
  then show "y \<in> set xs" by auto
  have "sorted (map f (y # ys))" using assms(1) by (metis sorted_sort_key)
  with set assms(2) show "f y \<le> f x" by auto
qed

text \<open>The row a creation leaves: visible to its actor, and the only one of its task under its key.\<close>

lemma insert_request_row:
  assumes "insert_request now trace i t run n s = Inr (s', r, created)" and "repair_keys s"
  shows "repair_requests s' = repair_requests s @ [r] \<and> scoped (nr_actor i) (base s') (request_scope r)
    \<and> (\<exists>d rid m. r = new_request_row now i t run d rid m)
    \<and> unique_request r (repair_requests s)"
proof -
  obtain s1 d where diag: "create_diagnosis (nr_actor i) t (nr_source_run_id i) (nr_diagnosis i) s = Inr (s1, d)"
    using assms(1) by (auto simp: insert_request_def and_then_Inr_iff)
  obtain ds where ds: "s1 = s\<lparr>repair_diagnoses := repair_diagnoses s @ ds\<rparr>"
    using create_diagnosis_outcome [OF diag] by blast
  define q where "q = new_request_row now i t run d (next_serial q_id (repair_requests s)) (int n + 1)"
  obtain Q g err s3 m where p: "project_task Q g err (s1\<lparr>repair_requests := repair_requests s @ [q]\<rparr>) = Inr s3"
    and found: "find_by_id_in_connection s3 (nr_actor i) (q_id q) = Some r"
    and rep: "report_repair trace (nr_actor i) r m s3 = Inr s'"
    and uniq: "unique_request q (repair_requests s)"
    using assms(1) diag
    by (auto simp: insert_request_def and_then_Inr_iff Let_def q_def [symmetric] ds
        split: if_splits option.splits)
  note s3 = project_task_Inr(1) [OF p]
  obtain db where db: "s' = s3\<lparr>base := db\<rparr>" "departments db = departments (base s3)"
    using report_repair_frame [OF rep] by blast
  have fresh: "distinct (map q_id (repair_requests s @ [q]))"
    using assms(2) next_serial_greater [of _ "repair_requests s" q_id]
    by (fastforce simp: repair_keys_def q_def)
  have r: "r = q"
    using found by (intro find_appended [OF fresh]) (simp add: find_by_id_in_connection_def s3)
  have "scoped (nr_actor i) (base s3) (request_scope r)"
    using find_SomeD [OF found [unfolded find_by_id_in_connection_def]] by simp
  then have "scoped (nr_actor i) (base s') (request_scope r)"
    using scoped_departments [OF db(2)] by (simp add: db(1))
  moreover have "repair_requests s' = repair_requests s @ [r]" by (simp add: db(1) s3 r)
  ultimately show ?thesis using uniq r q_def by blast
qed

lemma create_or_get_created:
  assumes "create_or_get json_len clock now trace i s = Inr (s', r, True)"
  shows "validate_request json_len clock i = Inr ()
    \<and> (\<exists>t run n. insert_request now trace i t run n s = Inr (s', r, True))"
proof -
  have valid: "validate_request json_len clock i = Inr ()"
    using assms by (auto simp: create_or_get_def and_then_Inr_iff)
  show ?thesis
  proof (cases "existing_requests i s")
    case (Cons x xs)
    with assms valid show ?thesis by (auto simp: create_or_get_def split: if_splits)
  next
    case Nil
    with assms valid obtain t run where "insert_request now trace i t run
        (length (repairs_of (organization_id (nr_actor i)) (nr_task_id i) s)) s = Inr (s', r, True)"
      by (cases "repair_source i s") (auto simp: create_or_get_def Let_def split: if_splits)
    with valid show ?thesis by blast
  qed
qed

text \<open>Creating a repair is idempotent: repeating a request that created a repair, at any later time
  at which it still passes validation, returns the same row, says that nothing was created and
  changes nothing, although the task has left the state the first request needed.\<close>

theorem repeated_creation_returns_the_row:
  assumes "repair_keys s" and "create_or_get json_len clock now trace i s = Inr (s', r, True)"
    and "validate_request json_len later i = Inr ()"
  shows "create_or_get json_len later now' trace' i s' = Inr (s', r, False)"
proof -
  obtain t run n where ins: "insert_request now trace i t run n s = Inr (s', r, True)"
    using create_or_get_created [OF assms(2)] by blast
  obtain d rid m where rows: "repair_requests s' = repair_requests s @ [r]"
    and vis: "scoped (nr_actor i) (base s') (request_scope r)"
    and r: "r = new_request_row now i t run d rid m"
    and uniq: "unique_request r (repair_requests s)"
    using insert_request_row [OF ins assms(1)] by blast
  have rsel: "q_task_id r = nr_task_id i" "q_idempotency_key r = nr_idempotency_key i"
      "q_organization_id r = organization_id (nr_actor i)" "\<not> conflicting_request i r"
    by (simp_all add: r new_request_row_def conflicting_request_def)
  let ?k = "\<lambda>r. (if q_idempotency_key r = nr_idempotency_key i then 0 else 1 :: int, q_id r)"
  let ?F = "filter (\<lambda>r. q_task_id r = nr_task_id i
           \<and> (q_idempotency_key r = nr_idempotency_key i
              \<or> (nr_retry_of_request_id i = None \<and> q_source_run_id r = nr_source_run_id i
                 \<and> q_failure_evidence_ref r = nd_evidence_ref (nr_diagnosis i)))
           \<and> scoped (nr_actor i) (base s') (request_scope r)) (repair_requests s')"
  have mem: "r \<in> set ?F" using rows vis rsel by simp
  moreover have "set (existing_requests i s') = set ?F" unfolding existing_requests_def by (rule set_sort)
  ultimately obtain y ys where y: "existing_requests i s' = y # ys" by (cases "existing_requests i s'") auto
  note first = sort_key_first [OF y [unfolded existing_requests_def] mem]
  have key: "q_idempotency_key y = nr_idempotency_key i" using first(2) rsel(2) by (auto split: if_splits)
  have "y = r"
  proof (rule ccontr)
    assume "y \<noteq> r"
    moreover have "y \<in> set (repair_requests s')" using first(1) unfolding set_filter by blast
    ultimately have old: "y \<in> set (repair_requests s)" using rows by simp
    have "q_task_id y = nr_task_id i" "q_organization_id y = organization_id (nr_actor i)"
      using first(1) by (simp_all add: scoped_def request_scope_def)
    with old key rsel uniq show False by (auto simp: unique_request_def list_ex_iff)
  qed
  with y rsel(4) assms(3) show ?thesis by (simp add: create_or_get_def)
qed

theorem repeated_creation_returns_the_row_witness:
  "create_or_get (\<lambda>_. 10) 6 7 ''again'' example_repair_input example_created
     = Inr (example_created, example_created_row, False)"
proof (rule repeated_creation_returns_the_row)
  show "repair_keys example_store"
    using no_repairs_inv [OF example_no_repairs] by (simp add: repair_inv_def)
  show "create_or_get (\<lambda>_. 10) 5 5 ''trace'' example_repair_input example_store
      = Inr (example_created, example_created_row, True)"
    using example_creation_ok by (simp add: example_creation_def)
  have "is_ok (validate_request (\<lambda>_. 10) 6 example_repair_input)" by code_simp
  then show "validate_request (\<lambda>_. 10) 6 example_repair_input = Inr ()" by (auto simp: is_ok_iff)
qed

section \<open>Decisions\<close>

lemma decide_approval_Some:
  assumes "decide_approval now trace actor k decision why s = Inr (s', Some a)"
  shows "\<exists>a0. find (decidable_approval now actor decision k s) (repair_approvals s) = Some a0
    \<and> a = a0\<lparr>ap_status := approval_decision decision, ap_decided_by := Some (user_id actor),
             ap_decision_reason := why, ap_updated_at := now\<rparr>
    \<and> decision \<in> {''approved'', ''rejected'', ''withdrawn''}
    \<and> repair_approvals s' = update_where (decidable_approval now actor decision k s)
        (\<lambda>a. a\<lparr>ap_status := approval_decision decision, ap_decided_by := Some (user_id actor),
              ap_decision_reason := why, ap_updated_at := now\<rparr>) (repair_approvals s)
    \<and> repair_requests s' = repair_requests s"
proof -
  have dec: "decision \<in> {''approved'', ''rejected'', ''withdrawn''}"
    using assms by (auto simp: decide_approval_def split: if_splits)
  obtain a0 where a0: "find (decidable_approval now actor decision k s) (repair_approvals s) = Some a0"
    using assms by (cases "find (decidable_approval now actor decision k s) (repair_approvals s)")
      (auto simp: decide_approval_def Let_def split: if_splits)
  let ?f = "\<lambda>a. a\<lparr>ap_status := approval_decision decision, ap_decided_by := Some (user_id actor),
              ap_decision_reason := why, ap_updated_at := now\<rparr>"
  let ?s = "s\<lparr>repair_approvals := update_where (decidable_approval now actor decision k s) ?f (repair_approvals s)\<rparr>"
  obtain r n where rep: "report_repair trace actor r n ?s = Inr s'" and a: "a = ?f a0"
    using assms a0
    by (cases "find_by_id_in_connection ?s actor (ap_repair_request_id a0)")
      (auto simp: decide_approval_def Let_def and_then_Inr_iff split: if_splits)
  have "repair_approvals s' = repair_approvals ?s" "repair_requests s' = repair_requests ?s"
    using report_repair_frame [OF rep] by auto
  with a0 a dec show ?thesis by simp
qed

text \<open>C34. An approval is decided once, in time, by someone who may: a decision the service accepts was
  taken on a pending approval of the actor's own organization and data scope that had not expired,
  a withdrawal only by its requester; it is recorded with the deciding user, and every approval
  that was already decided keeps its decision.\<close>

theorem approval_decided_once:
  assumes "decide_approval now trace actor k decision why s = Inr (s', Some a)"
  shows "(\<exists>a0 \<in> set (repair_approvals s). ap_id a0 = k \<and> ap_status a0 = Ap_Pending \<and> ap_expires_at a0 > now
        \<and> ap_organization_id a0 = organization_id actor \<and> scoped actor (base s) (approval_scope a0)
        \<and> (decision = ''withdrawn'' \<longrightarrow> ap_requested_by a0 = user_id actor)
        \<and> a = a0\<lparr>ap_status := approval_decision decision, ap_decided_by := Some (user_id actor),
                 ap_decision_reason := why, ap_updated_at := now\<rparr>)
    \<and> ap_status a \<noteq> Ap_Pending \<and> a \<in> set (repair_approvals s')
    \<and> (\<forall>b \<in> set (repair_approvals s). ap_status b \<noteq> Ap_Pending \<longrightarrow> b \<in> set (repair_approvals s'))"
proof -
  obtain a0 where a0: "find (decidable_approval now actor decision k s) (repair_approvals s) = Some a0"
      "a = a0\<lparr>ap_status := approval_decision decision, ap_decided_by := Some (user_id actor),
             ap_decision_reason := why, ap_updated_at := now\<rparr>"
      "repair_approvals s' = update_where (decidable_approval now actor decision k s)
        (\<lambda>a. a\<lparr>ap_status := approval_decision decision, ap_decided_by := Some (user_id actor),
              ap_decision_reason := why, ap_updated_at := now\<rparr>) (repair_approvals s)"
    using decide_approval_Some [OF assms] by blast
  have mem: "a0 \<in> set (repair_approvals s)" and dec: "decidable_approval now actor decision k s a0"
    using find_SomeD [OF a0(1)] by simp_all
  have "ap_organization_id a0 = organization_id actor"
    using dec by (simp add: decidable_approval_def scoped_def approval_scope_def)
  moreover have "ap_status a \<noteq> Ap_Pending" by (simp add: a0(2) approval_decision_def)
  moreover have "a \<in> set (repair_approvals s')" using mem dec a0(2,3) by (auto simp: set_update_where)
  moreover have "b \<in> set (repair_approvals s')" if "b \<in> set (repair_approvals s)" "ap_status b \<noteq> Ap_Pending" for b
    using that a0(3) by (auto simp: set_update_where decidable_approval_def)
  ultimately show ?thesis using mem dec a0(2) by (auto simp: decidable_approval_def)
qed

definition example_approval :: repair_approval where
  "example_approval =
     \<lparr>ap_id = 1, ap_organization_id = 1, ap_department_id = Some 10, ap_owner_user_id = 100, ap_project_id = 5,
      ap_task_id = 1, ap_repair_request_id = 1, ap_idempotency_key = ''k'', ap_risk_category = ''remote_write'',
      ap_policy_version = ''v'', ap_status = Ap_Pending, ap_requested_by = 100, ap_decided_by = None,
      ap_decision_reason = None, ap_expires_at = 50, ap_created_at = 0, ap_updated_at = 0\<rparr>"

definition example_awaiting :: repair_store where
  "example_awaiting = example_store\<lparr>repair_requests := [example_request 1 0], repair_approvals := [example_approval]\<rparr>"

theorem approval_decided_once_witness:
  "\<exists>s' a. decide_approval 9 ''t'' example_repair_actor 1 ''approved'' None example_awaiting = Inr (s', Some a)
    \<and> (\<exists>a0 \<in> set (repair_approvals example_awaiting). ap_id a0 = 1 \<and> ap_status a0 = Ap_Pending \<and> ap_expires_at a0 > 9
        \<and> ap_organization_id a0 = organization_id example_repair_actor
        \<and> scoped example_repair_actor (base example_awaiting) (approval_scope a0)
        \<and> (''approved'' = ''withdrawn'' \<longrightarrow> ap_requested_by a0 = user_id example_repair_actor)
        \<and> a = a0\<lparr>ap_status := approval_decision ''approved'', ap_decided_by := Some (user_id example_repair_actor),
                 ap_decision_reason := None, ap_updated_at := 9\<rparr>)
    \<and> ap_status a \<noteq> Ap_Pending \<and> a \<in> set (repair_approvals s')
    \<and> (\<forall>b \<in> set (repair_approvals example_awaiting). ap_status b \<noteq> Ap_Pending \<longrightarrow> b \<in> set (repair_approvals s'))"
proof -
  have "(case decide_approval 9 ''t'' example_repair_actor 1 ''approved'' None example_awaiting of
      Inl _ \<Rightarrow> False | Inr (_, res) \<Rightarrow> res \<noteq> None)" by code_simp
  then obtain s' a where d: "decide_approval 9 ''t'' example_repair_actor 1 ''approved'' None example_awaiting = Inr (s', Some a)"
    by (auto split: sum.splits)
  show ?thesis by (rule exI, rule exI, rule conjI [OF d approval_decided_once [OF d]])
qed

text \<open>A reason code the service accepts and the table does not: \<^verbatim>\<open>handoff\<close> checks the reason as an
  identifier, which may contain dashes, dots, colons and a leading digit, while the columns it
  is stored in only admit \<^verbatim>\<open>[a-z][a-z0-9_]*\<close>. For such a reason the hand-off of a request in progress
  is not refused as invalid input: it fails as an internal error, and the repair stays as it was.\<close>

theorem handoff_reason_outside_table_check:
  assumes "valid_identifier (trim reason) 64" and "\<not> result_code_check (trim reason)"
    and "trim recommendation \<noteq> []" and "length (trim recommendation) \<le> 512" and "\<not> sensitive_text (trim recommendation)"
    and "\<exists>r \<in> set (repair_requests s). transferable actor k (base s) r"
  shows "handoff_service now trace actor k reason recommendation s = Inl (Internal ''database_error'')"
proof -
  obtain r where "find (transferable actor k (base s)) (repair_requests s) = Some r"
    using assms(6) by (cases "find (transferable actor k (base s)) (repair_requests s)") (auto simp: find_None_iff)
  with assms(1-5) have "handoff now trace actor k (trim reason) (trim recommendation) s = Inl (Database CheckViolation)"
    by (simp add: handoff_def)
  then show ?thesis by (simp add: handoff_service_def)
qed

theorem handoff_reason_outside_table_check_witness:
  "handoff_service 9 ''t'' example_repair_actor 1 ''a-b'' ''look'' example_awaiting = Inl (Internal ''database_error'')"
proof (rule handoff_reason_outside_table_check)
  show "\<exists>r \<in> set (repair_requests example_awaiting). transferable example_repair_actor 1 (base example_awaiting) r"
    by (simp add: example_awaiting_def transferable_def example_request_def scoped_def request_scope_def
        example_repair_actor_def)
qed code_simp+

end
