(* ===== verification/Workflow.thy ===== *)
theory Workflow
  imports Evidence "HOL-Library.Word"
begin

text \<open>
  Repository workflows, \<^verbatim>\<open>backend/src/orchestration/workflow.rs\<close>: loading \<^verbatim>\<open>WORKFLOW.md\<close> from
  a controlled directory, splitting off its front matter, the checks against the platform policy,
  and rendering. The policies \<^verbatim>\<open>ContinuationPolicy\<close> and \<^verbatim>\<open>RepairPolicy\<close> are those of
  \<^verbatim>\<open>backend/src/models.rs\<close>.

  Third-party code is a parameter: \<open>yaml\<close> (\<^verbatim>\<open>serde_yaml_ng::from_str\<close>), the template engine
  (\<^verbatim>\<open>minijinja\<close>) as the variables of a template, \<open>None\<close> when it does not parse, and its
  rendering, \<open>None\<close> on an error, the serialiser (\<^verbatim>\<open>serde_json\<close>) and SHA-256. The file system
  is a parameter too, with one field for each call of \<^verbatim>\<open>tokio::fs\<close>. A path is the list of its
  components.
\<close>

section \<open>Policies\<close>

datatype trigger = UserContext | QualityGate | ReviewChanges

datatype risk_category = LowRisk | LogicalChange | DependencyChange | RemoteWrite | SecurityChange | Forbidden_Change

text \<open>The counters keep the width of the source, \<^verbatim>\<open>u16\<close> and \<^verbatim>\<open>u32\<close>.\<close>

record continuation_policy =
  cp_enabled :: bool
  cp_allowed_triggers :: "trigger set"
  cp_max_continuations :: "16 word"
  cp_max_chain_depth :: "16 word"
  cp_max_context_bytes :: int
  cp_claim_lease_seconds :: int
  cp_max_dispatch_attempts :: int
  cp_retry_base_delay_seconds :: int
  cp_retry_max_delay_seconds :: int

record repair_policy =
  rp_enabled :: bool
  rp_max_repairs :: "16 word"
  rp_max_cost_units :: "32 word"
  rp_max_diagnostic_bytes :: int
  rp_evidence_max_age_seconds :: int
  rp_claim_lease_seconds :: int
  rp_max_dispatch_attempts :: int
  rp_retry_base_delay_seconds :: int
  rp_retry_max_delay_seconds :: int
  rp_auto_categories :: "risk_category set"
  rp_approval_categories :: "risk_category set"

definition default_continuation_policy :: continuation_policy where
  "default_continuation_policy =
     \<lparr>cp_enabled = False, cp_allowed_triggers = {UserContext, QualityGate, ReviewChanges},
      cp_max_continuations = 3, cp_max_chain_depth = 3, cp_max_context_bytes = 16 * 1024,
      cp_claim_lease_seconds = 60, cp_max_dispatch_attempts = 3, cp_retry_base_delay_seconds = 5,
      cp_retry_max_delay_seconds = 300\<rparr>"

definition default_repair_policy :: repair_policy where
  "default_repair_policy =
     \<lparr>rp_enabled = False, rp_max_repairs = 2, rp_max_cost_units = 20, rp_max_diagnostic_bytes = 8 * 1024,
      rp_evidence_max_age_seconds = 3600, rp_claim_lease_seconds = 60, rp_max_dispatch_attempts = 3,
      rp_retry_base_delay_seconds = 5, rp_retry_max_delay_seconds = 300, rp_auto_categories = {LowRisk},
      rp_approval_categories = {LogicalChange, DependencyChange, RemoteWrite, SecurityChange}\<rparr>"

section \<open>Configuration and snapshots\<close>

datatype workflow_source = Source_Default | Source_Repository | Source_Legacy

fun workflow_source_as_str :: "workflow_source \<Rightarrow> rstr" where
  "workflow_source_as_str Source_Default = ''default''"
| "workflow_source_as_str Source_Repository = ''repository''"
| "workflow_source_as_str Source_Legacy = ''legacy''"

datatype execution_mode = Implementation | Review | Maintenance

datatype notification_event = Event_AwaitingApproval | Event_Succeeded | Event_Failed

record tool_policy =
  tp_allow :: "rstr set"
  tp_network :: bool
  tp_dangerous_commands_require_approval :: bool

record retry_policy =
  rt_max_attempts :: int
  rt_base_delay_seconds :: int
  rt_max_delay_seconds :: int

record workflow_hooks =
  before_run :: "rstr list"
  after_run :: "rstr list"

record workflow_config =
  wc_version :: rstr
  wc_execution_mode :: execution_mode
  wc_tools :: tool_policy
  wc_quality_gates :: "rstr list"
  wc_timeout_seconds :: int
  wc_stall_timeout_seconds :: int
  wc_retry :: retry_policy
  wc_hooks :: workflow_hooks
  wc_notifications :: "notification_event set"
  wc_continuation :: continuation_policy
  wc_repair :: repair_policy

record workflow_snapshot =
  ws_schema_version :: int
  ws_source :: workflow_source
  ws_declared_version :: rstr
  ws_digest :: rstr
  ws_config :: workflow_config
  ws_prompt_template :: rstr

text \<open>\<^verbatim>\<open>RenderedWorkflowSnapshot\<close>: the snapshot and the rendered prompt.\<close>

type_synonym rendered_workflow = "workflow_snapshot \<times> rstr"

record template_context =
  tc_task_id :: int
  tc_title :: rstr
  tc_goal :: rstr
  tc_background :: "rstr option"
  tc_acceptance_criteria :: "rstr option"
  tc_constraints :: "rstr option"
  tc_repository_name :: "rstr option"
  tc_default_branch :: "rstr option"
  tc_environment_name :: rstr
  tc_workspace_root :: rstr

record platform_policy =
  pp_allowed_tools :: "rstr set"
  pp_network_allowed :: bool
  pp_max_timeout_seconds :: int
  pp_max_stall_timeout_seconds :: int
  pp_max_attempts :: int
  pp_max_retry_delay_seconds :: int

definition secure_default :: "int \<Rightarrow> platform_policy" where
  "secure_default max_timeout_seconds =
     \<lparr>pp_allowed_tools = {''read_file'', ''search'', ''apply_patch'', ''cargo_flow''},
      pp_network_allowed = False, pp_max_timeout_seconds = max_timeout_seconds,
      pp_max_stall_timeout_seconds = 600, pp_max_attempts = 10, pp_max_retry_delay_seconds = 3600\<rparr>"

section \<open>Errors\<close>

datatype workflow_error_kind = WK_Path | WK_Size | WK_FrontMatter | WK_Schema | WK_Template | WK_Policy | WK_Io

fun workflow_error_kind_as_str :: "workflow_error_kind \<Rightarrow> rstr" where
  "workflow_error_kind_as_str WK_Path = ''path''"
| "workflow_error_kind_as_str WK_Size = ''size''"
| "workflow_error_kind_as_str WK_FrontMatter = ''front_matter''"
| "workflow_error_kind_as_str WK_Schema = ''schema''"
| "workflow_error_kind_as_str WK_Template = ''template''"
| "workflow_error_kind_as_str WK_Policy = ''policy''"
| "workflow_error_kind_as_str WK_Io = ''io''"

record workflow_error =
  we_kind :: workflow_error_kind
  we_message :: rstr
  we_candidate_digest :: "rstr option"

definition workflow_error_new :: "workflow_error_kind \<Rightarrow> rstr \<Rightarrow> workflow_error" where
  "workflow_error_new kind message = \<lparr>we_kind = kind, we_message = message, we_candidate_digest = None\<rparr>"

definition policy_error :: "rstr \<Rightarrow> workflow_error" where
  "policy_error message = workflow_error_new WK_Policy message"

section \<open>Checks\<close>

definition validate_continuation_policy :: "continuation_policy \<Rightarrow> workflow_error + unit" where
  "validate_continuation_policy p =
     (if card (cp_allowed_triggers p) > 3
         \<or> (cp_enabled p \<and> cp_allowed_triggers p = {})
         \<or> \<not> (1 \<le> cp_max_continuations p \<and> cp_max_continuations p \<le> 3)
         \<or> \<not> (1 \<le> cp_max_chain_depth p \<and> cp_max_chain_depth p \<le> 3)
         \<or> \<not> (1 \<le> cp_max_context_bytes p \<and> cp_max_context_bytes p \<le> 16 * 1024)
         \<or> \<not> (10 \<le> cp_claim_lease_seconds p \<and> cp_claim_lease_seconds p \<le> 3600)
         \<or> \<not> (1 \<le> cp_max_dispatch_attempts p \<and> cp_max_dispatch_attempts p \<le> 10)
         \<or> cp_retry_base_delay_seconds p < 1
         \<or> cp_retry_max_delay_seconds p < cp_retry_base_delay_seconds p
         \<or> cp_retry_max_delay_seconds p > 3600
      then Inl (policy_error ''continuation_policy_out_of_range'') else Inr ())"

definition validate_repair_policy :: "repair_policy \<Rightarrow> workflow_error + unit" where
  "validate_repair_policy p =
     (let auto_allowed = rp_auto_categories p \<subseteq> {LowRisk};
          approval_allowed = rp_approval_categories p \<subseteq> {LogicalChange, DependencyChange, RemoteWrite, SecurityChange}
      in if \<not> (1 \<le> rp_max_repairs p \<and> rp_max_repairs p \<le> 5)
            \<or> \<not> (1 \<le> rp_max_cost_units p \<and> rp_max_cost_units p \<le> 1000)
            \<or> \<not> (256 \<le> rp_max_diagnostic_bytes p \<and> rp_max_diagnostic_bytes p \<le> 64 * 1024)
            \<or> \<not> (60 \<le> rp_evidence_max_age_seconds p \<and> rp_evidence_max_age_seconds p \<le> 86400)
            \<or> \<not> (10 \<le> rp_claim_lease_seconds p \<and> rp_claim_lease_seconds p \<le> 3600)
            \<or> \<not> (1 \<le> rp_max_dispatch_attempts p \<and> rp_max_dispatch_attempts p \<le> 10)
            \<or> rp_retry_base_delay_seconds p < 1
            \<or> rp_retry_max_delay_seconds p < rp_retry_base_delay_seconds p
            \<or> rp_retry_max_delay_seconds p > 3600
            \<or> \<not> auto_allowed \<or> \<not> approval_allowed
         then Inl (policy_error ''repair_policy_out_of_range'') else Inr ())"

definition valid_gate_identifier :: "rstr \<Rightarrow> bool" where
  "valid_gate_identifier value =
     (value \<noteq> [] \<and> length value \<le> 64
      \<and> list_all (\<lambda>c. is_ascii_lowercase c \<or> is_ascii_digit c \<or> c = CHR ''-'') value)"

definition allowed_hooks :: "rstr list" where
  "allowed_hooks = [''cargo-flow-scope'', ''cargo-flow-verify'']"

definition allowed_template_variables :: "rstr list" where
  "allowed_template_variables =
     [''environment.name'', ''environment.workspace_root'', ''repository.default_branch'',
      ''repository.name'', ''task.acceptance_criteria'', ''task.background'', ''task.constraints'',
      ''task.goal'', ''task.id'', ''task.title'']"

definition valid_version :: "rstr \<Rightarrow> bool" where
  "valid_version v =
     (v \<noteq> [] \<and> length v \<le> 64
      \<and> list_all (\<lambda>c. is_ascii_alphanumeric c \<or> c \<in> {CHR ''.'', CHR ''_'', CHR ''-''}) v)"

definition validate_config :: "workflow_config \<Rightarrow> platform_policy \<Rightarrow> workflow_error + unit" where
  "validate_config c p =
     (if \<not> valid_version (wc_version c) then Inl (policy_error ''version'')
      else if tp_network (wc_tools c) \<and> \<not> pp_network_allowed p then Inl (policy_error ''network'')
      else if \<not> tp_dangerous_commands_require_approval (wc_tools c) then Inl (policy_error ''dangerous_commands'')
      else if tp_allow (wc_tools c) = {} \<or> \<not> tp_allow (wc_tools c) \<subseteq> pp_allowed_tools p
      then Inl (policy_error ''tools'')
      else if \<not> (60 \<le> wc_timeout_seconds c \<and> wc_timeout_seconds c \<le> pp_max_timeout_seconds p)
      then Inl (policy_error ''timeout'')
      else if \<not> (10 \<le> wc_stall_timeout_seconds c \<and> wc_stall_timeout_seconds c \<le> pp_max_stall_timeout_seconds p)
           \<or> wc_stall_timeout_seconds c \<ge> wc_timeout_seconds c
      then Inl (policy_error ''stall_timeout'')
      else if \<not> (1 \<le> rt_max_attempts (wc_retry c) \<and> rt_max_attempts (wc_retry c) \<le> pp_max_attempts p)
           \<or> rt_base_delay_seconds (wc_retry c) < 1
           \<or> rt_max_delay_seconds (wc_retry c) < rt_base_delay_seconds (wc_retry c)
           \<or> rt_max_delay_seconds (wc_retry c) > pp_max_retry_delay_seconds p
      then Inl (policy_error ''retry'')
      else if wc_quality_gates c = [] \<or> length (wc_quality_gates c) > 16
           \<or> list_ex (\<lambda>gate. \<not> valid_gate_identifier gate) (wc_quality_gates c)
      then Inl (policy_error ''quality_gates'')
      else if list_ex (\<lambda>hook. hook \<notin> set allowed_hooks) (before_run (wc_hooks c) @ after_run (wc_hooks c))
      then Inl (policy_error ''hooks'')
      else and_then (validate_continuation_policy (wc_continuation c)) (\<lambda>_.
           validate_repair_policy (wc_repair c)))"

section \<open>The text of a workflow\<close>

definition nl :: rstr where
  "nl = [char_of (10 :: nat)]"

definition crlf :: rstr where
  "crlf = [char_of (13 :: nat), char_of (10 :: nat)]"

definition strip_prefix :: "rstr \<Rightarrow> rstr \<Rightarrow> rstr option" where
  "strip_prefix pat s = (if starts_with pat s then Some (drop (length pat) s) else None)"

definition split_front_matter :: "rstr \<Rightarrow> workflow_error + rstr \<times> rstr" where
  "split_front_matter content =
     (case strip_prefix (''---'' @ nl) content of
        None \<Rightarrow> Inl (workflow_error_new WK_FrontMatter ''front_matter_missing'')
      | Some rest \<Rightarrow>
          (case split_once (nl @ ''---'' @ nl) rest of
             None \<Rightarrow> Inl (workflow_error_new WK_FrontMatter ''front_matter_open'')
           | Some (front_matter, prompt) \<Rightarrow>
               if trim prompt = [] then Inl (workflow_error_new WK_FrontMatter ''prompt_empty'')
               else Inr (front_matter, trim prompt)))"

section \<open>Parsing and rendering\<close>

record engine =
  en_yaml :: "rstr \<Rightarrow> workflow_config option"
  en_variables :: "rstr \<Rightarrow> rstr list option"
  en_render :: "rstr \<Rightarrow> template_context \<Rightarrow> rstr option"
  en_config_value :: "workflow_config \<Rightarrow> json"
  en_rendered_value :: "rendered_workflow \<Rightarrow> json"
  en_to_vec :: "json \<Rightarrow> rstr option"
  en_sha256_hex :: "rstr \<Rightarrow> rstr"

definition max_workflow_bytes :: int where
  "max_workflow_bytes = 262144"

definition candidate_digest :: "engine \<Rightarrow> rstr \<Rightarrow> rstr" where
  "candidate_digest eng content = en_sha256_hex eng content"

definition snapshot_digest :: "engine \<Rightarrow> json \<Rightarrow> workflow_error + rstr" where
  "snapshot_digest eng snapshot =
     (case en_to_vec eng snapshot of
        None \<Rightarrow> Inl (workflow_error_new WK_Schema ''snapshot_not_serialisable'')
      | Some bytes \<Rightarrow> Inr (candidate_digest eng bytes))"

definition workflow_digest :: "engine \<Rightarrow> workflow_config \<Rightarrow> rstr \<Rightarrow> workflow_error + rstr" where
  "workflow_digest eng config prompt =
     snapshot_digest eng (J_Object [(''config'', en_config_value eng config), (''prompt'', J_String prompt)])"

definition validation_context :: template_context where
  "validation_context =
     \<lparr>tc_task_id = 1, tc_title = ''task'', tc_goal = ''goal'', tc_background = Some ''background'',
      tc_acceptance_criteria = Some ''criteria'', tc_constraints = Some ''constraints'',
      tc_repository_name = Some ''repository'', tc_default_branch = Some ''main'',
      tc_environment_name = ''environment'', tc_workspace_root = ''/controlled''\<rparr>"

definition template_error :: "rstr \<Rightarrow> workflow_error" where
  "template_error message = workflow_error_new WK_Template message"

definition validate_template :: "engine \<Rightarrow> rstr \<Rightarrow> workflow_error + unit" where
  "validate_template eng prompt =
     (case en_variables eng prompt of
        None \<Rightarrow> Inl (template_error ''template_invalid'')
      | Some undeclared \<Rightarrow>
          (case find (\<lambda>v. v \<notin> set allowed_template_variables) undeclared of
             Some v \<Rightarrow> Inl (template_error (''unknown_variable '' @ v))
           | None \<Rightarrow>
               (case en_render eng prompt validation_context of
                  None \<Rightarrow> Inl (template_error ''template_invalid'')
                | Some _ \<Rightarrow> Inr ())))"

definition parse_workflow ::
  "engine \<Rightarrow> rstr \<Rightarrow> workflow_source \<Rightarrow> platform_policy \<Rightarrow> workflow_error + workflow_snapshot" where
  "parse_workflow eng content source policy =
     (if int (length content) > max_workflow_bytes then Inl (workflow_error_new WK_Size ''file_too_large'')
      else and_then (split_front_matter (replace_str crlf nl content)) (\<lambda>(front_matter, prompt).
        case en_yaml eng front_matter of
          None \<Rightarrow> Inl (workflow_error_new WK_Schema ''yaml_invalid'')
        | Some config \<Rightarrow>
            and_then (validate_config config policy) (\<lambda>_.
            and_then (validate_template eng prompt) (\<lambda>_.
            and_then (workflow_digest eng config prompt) (\<lambda>digest.
              Inr \<lparr>ws_schema_version = 1, ws_source = source, ws_declared_version = wc_version config,
                   ws_digest = digest, ws_config = config, ws_prompt_template = prompt\<rparr>)))))"

definition render_workflow ::
  "engine \<Rightarrow> workflow_snapshot \<Rightarrow> template_context \<Rightarrow> workflow_error + rendered_workflow" where
  "render_workflow eng workflow context =
     (case en_variables eng (ws_prompt_template workflow) of
        None \<Rightarrow> Inl (template_error ''template_invalid'')
      | Some _ \<Rightarrow>
          (case en_render eng (ws_prompt_template workflow) context of
             None \<Rightarrow> Inl (template_error ''template_invalid'')
           | Some prompt \<Rightarrow> Inr (workflow, prompt)))"

text \<open>\<^verbatim>\<open>serde_json::Map::insert\<close>: the value of a key already there is replaced.\<close>

fun json_insert :: "rstr \<Rightarrow> json \<Rightarrow> (rstr \<times> json) list \<Rightarrow> (rstr \<times> json) list" where
  "json_insert k v [] = [(k, v)]"
| "json_insert k v ((k', v') # kvs) = (if k = k' then (k, v) # kvs else (k', v') # json_insert k v kvs)"

fun as_object :: "json \<Rightarrow> (rstr \<times> json) list option" where
  "as_object (J_Object kvs) = Some kvs"
| "as_object _ = None"

definition task_dispatch_snapshot :: "engine \<Rightarrow> json \<Rightarrow> int \<Rightarrow> rendered_workflow \<Rightarrow> json" where
  "task_dispatch_snapshot eng task revision workflow =
     (let fields = (case as_object task of None \<Rightarrow> [] | Some kvs \<Rightarrow> kvs)
      in J_Object (json_insert ''workflow'' (en_rendered_value eng workflow)
           (json_insert ''taskRevision'' (J_Int revision) (json_insert ''schemaVersion'' (J_Int 1) fields))))"

section \<open>Loading from a repository\<close>

type_synonym path = "rstr list"

record file_metadata =
  fm_is_symlink :: bool
  fm_is_file :: bool
  fm_len :: int

datatype metadata_result = Meta file_metadata | Meta_NotFound | Meta_Error

record file_system =
  fs_canonicalize :: "path \<Rightarrow> path option"
  fs_symlink_metadata :: "path \<Rightarrow> metadata_result"
  fs_read :: "path \<Rightarrow> rstr option"

definition path_parent :: "path \<Rightarrow> path option" where
  "path_parent p = (if p = [] then None else Some (butlast p))"

definition workflow_path :: "path \<Rightarrow> path" where
  "workflow_path repository_root = repository_root @ [''WORKFLOW.md'']"

text \<open>\<^verbatim>\<open>std::str::from_utf8\<close>: no overlong forms, no surrogates, nothing above U+10FFFF.\<close>

fun valid_utf8 :: "rstr \<Rightarrow> bool" where
  "valid_utf8 [] = True"
| "valid_utf8 (a # rest) =
     (if byte a < 128 then valid_utf8 rest
      else if 194 \<le> byte a \<and> byte a \<le> 223
      then (case rest of b # r \<Rightarrow> is_continuation b \<and> valid_utf8 r | [] \<Rightarrow> False)
      else if 224 \<le> byte a \<and> byte a \<le> 239
      then (case rest of b # c # r \<Rightarrow>
              (if byte a = 224 then 160 \<le> byte b \<and> byte b \<le> 191
               else if byte a = 237 then 128 \<le> byte b \<and> byte b \<le> 159
               else is_continuation b)
              \<and> is_continuation c \<and> valid_utf8 r
            | _ \<Rightarrow> False)
      else if 240 \<le> byte a \<and> byte a \<le> 244
      then (case rest of b # c # d # r \<Rightarrow>
              (if byte a = 240 then 144 \<le> byte b \<and> byte b \<le> 191
               else if byte a = 244 then 128 \<le> byte b \<and> byte b \<le> 143
               else is_continuation b)
              \<and> is_continuation c \<and> is_continuation d \<and> valid_utf8 r
            | _ \<Rightarrow> False)
      else False)"

definition load_repository_workflow ::
  "engine \<Rightarrow> rstr \<Rightarrow> file_system \<Rightarrow> path \<Rightarrow> path \<Rightarrow> platform_policy \<Rightarrow> workflow_error + workflow_snapshot" where
  "load_repository_workflow eng default_workflow fs controlled_root repository_root policy =
     (case fs_canonicalize fs controlled_root of
        None \<Rightarrow> Inl (workflow_error_new WK_Path ''root_inaccessible'')
      | Some controlled \<Rightarrow>
     (case fs_canonicalize fs repository_root of
        None \<Rightarrow> Inl (workflow_error_new WK_Path ''repository_inaccessible'')
      | Some repository \<Rightarrow>
          if \<not> prefix controlled repository then Inl (workflow_error_new WK_Path ''outside_root'')
          else
     (case fs_symlink_metadata fs (workflow_path repository) of
        Meta_NotFound \<Rightarrow> parse_workflow eng default_workflow Source_Default policy
      | Meta_Error \<Rightarrow> Inl (workflow_error_new WK_Io ''metadata'')
      | Meta metadata \<Rightarrow>
          if fm_is_symlink metadata then Inl (workflow_error_new WK_Path ''symlink'')
          else if \<not> fm_is_file metadata then Inl (workflow_error_new WK_Path ''not_a_file'')
          else if fm_len metadata > max_workflow_bytes then Inl (workflow_error_new WK_Size ''file_too_large'')
          else
     (case fs_canonicalize fs (workflow_path repository) of
        None \<Rightarrow> Inl (workflow_error_new WK_Path ''path_invalid'')
      | Some canonical_file \<Rightarrow>
          if path_parent canonical_file \<noteq> Some repository
          then Inl (workflow_error_new WK_Path ''outside_repository'')
          else
     (case fs_read fs canonical_file of
        None \<Rightarrow> Inl (workflow_error_new WK_Io ''read'')
      | Some bytes \<Rightarrow>
          if int (length bytes) > max_workflow_bytes
          then Inl (workflow_error_new WK_Size ''file_too_large'')
          else if \<not> valid_utf8 bytes then Inl (workflow_error_new WK_FrontMatter ''not_utf8'')
          else (case parse_workflow eng bytes Source_Repository policy of
                  Inl e \<Rightarrow> Inl (e\<lparr>we_candidate_digest := Some (candidate_digest eng bytes)\<rparr>)
                | Inr w \<Rightarrow> Inr w))))))"

section \<open>What an accepted workflow promises\<close>

text \<open>The limits of the platform, as one predicate.\<close>

definition continuation_within :: "continuation_policy \<Rightarrow> bool" where
  "continuation_within p =
     (uint (cp_max_continuations p) \<in> {1..3} \<and> uint (cp_max_chain_depth p) \<in> {1..3}
      \<and> cp_max_context_bytes p \<in> {1..16384} \<and> cp_claim_lease_seconds p \<in> {10..3600}
      \<and> cp_max_dispatch_attempts p \<in> {1..10}
      \<and> 1 \<le> cp_retry_base_delay_seconds p \<and> cp_retry_base_delay_seconds p \<le> cp_retry_max_delay_seconds p
      \<and> cp_retry_max_delay_seconds p \<le> 3600
      \<and> (cp_enabled p \<longrightarrow> cp_allowed_triggers p \<noteq> {}))"

definition repair_within :: "repair_policy \<Rightarrow> bool" where
  "repair_within p =
     (uint (rp_max_repairs p) \<in> {1..5} \<and> uint (rp_max_cost_units p) \<in> {1..1000}
      \<and> rp_max_diagnostic_bytes p \<in> {256..65536} \<and> rp_evidence_max_age_seconds p \<in> {60..86400}
      \<and> rp_claim_lease_seconds p \<in> {10..3600} \<and> rp_max_dispatch_attempts p \<in> {1..10}
      \<and> 1 \<le> rp_retry_base_delay_seconds p \<and> rp_retry_base_delay_seconds p \<le> rp_retry_max_delay_seconds p
      \<and> rp_retry_max_delay_seconds p \<le> 3600
      \<and> rp_auto_categories p \<subseteq> {LowRisk} \<and> Forbidden_Change \<notin> rp_approval_categories p)"

definition config_within :: "platform_policy \<Rightarrow> workflow_config \<Rightarrow> bool" where
  "config_within p c =
     (tp_allow (wc_tools c) \<noteq> {} \<and> tp_allow (wc_tools c) \<subseteq> pp_allowed_tools p
      \<and> (tp_network (wc_tools c) \<longrightarrow> pp_network_allowed p)
      \<and> tp_dangerous_commands_require_approval (wc_tools c)
      \<and> 60 \<le> wc_timeout_seconds c \<and> wc_timeout_seconds c \<le> pp_max_timeout_seconds p
      \<and> 10 \<le> wc_stall_timeout_seconds c \<and> wc_stall_timeout_seconds c \<le> pp_max_stall_timeout_seconds p
      \<and> wc_stall_timeout_seconds c < wc_timeout_seconds c
      \<and> 1 \<le> rt_max_attempts (wc_retry c) \<and> rt_max_attempts (wc_retry c) \<le> pp_max_attempts p
      \<and> 1 \<le> rt_base_delay_seconds (wc_retry c)
      \<and> rt_base_delay_seconds (wc_retry c) \<le> rt_max_delay_seconds (wc_retry c)
      \<and> rt_max_delay_seconds (wc_retry c) \<le> pp_max_retry_delay_seconds p
      \<and> length (wc_quality_gates c) \<in> {1..16} \<and> list_all valid_gate_identifier (wc_quality_gates c)
      \<and> set (before_run (wc_hooks c)) \<union> set (after_run (wc_hooks c)) \<subseteq> set allowed_hooks
      \<and> valid_version (wc_version c)
      \<and> continuation_within (wc_continuation c) \<and> repair_within (wc_repair c))"

lemma validate_continuation_policy_Inr:
  "validate_continuation_policy p = Inr () \<Longrightarrow> continuation_within p"
  by (auto simp: validate_continuation_policy_def continuation_within_def word_le_def split: if_splits)

lemma validate_repair_policy_Inr: "validate_repair_policy p = Inr () \<Longrightarrow> repair_within p"
  by (auto simp: validate_repair_policy_def repair_within_def word_le_def split: if_splits)

lemma validate_config_Inr:
  assumes "validate_config c p = Inr ()"
  shows "config_within p c"
proof -
  have sub: "validate_continuation_policy (wc_continuation c) = Inr ()" "validate_repair_policy (wc_repair c) = Inr ()"
    using assms by (auto simp: validate_config_def and_then_Inr_iff split: if_splits)
  have "length (wc_quality_gates c) \<in> {1..16}"
    using assms by (cases "wc_quality_gates c") (auto simp: validate_config_def split: if_splits)
  moreover have "list_all valid_gate_identifier (wc_quality_gates c)"
    using assms by (auto simp: validate_config_def list_ex_iff list_all_iff split: if_splits)
  moreover have "set (before_run (wc_hooks c)) \<union> set (after_run (wc_hooks c)) \<subseteq> set allowed_hooks"
    using assms by (auto simp: validate_config_def list_ex_iff split: if_splits)
  ultimately show ?thesis
    using assms validate_continuation_policy_Inr [OF sub(1)] validate_repair_policy_Inr [OF sub(2)]
    by (simp add: validate_config_def config_within_def not_less split: if_splits)
qed

lemma parse_workflow_Inr:
  assumes "parse_workflow eng content source policy = Inr w"
  shows "\<exists>front_matter. split_front_matter (replace_str crlf nl content) = Inr (front_matter, ws_prompt_template w)
      \<and> en_yaml eng front_matter = Some (ws_config w)"
    and "validate_config (ws_config w) policy = Inr ()"
    and "validate_template eng (ws_prompt_template w) = Inr ()"
    and "workflow_digest eng (ws_config w) (ws_prompt_template w) = Inr (ws_digest w)"
    and "ws_source w = source" and "ws_declared_version w = wc_version (ws_config w)"
    and "int (length content) \<le> max_workflow_bytes"
  using assms by (auto simp: parse_workflow_def and_then_Inr_iff split: if_splits option.splits)

lemma validate_template_Inr:
  "validate_template eng prompt = Inr () \<Longrightarrow>
   \<exists>vs. en_variables eng prompt = Some vs \<and> set vs \<subseteq> set allowed_template_variables"
  by (auto simp: validate_template_def find_None_iff split: option.splits)

text \<open>A workflow is the built-in one or the content of the file directly in the repository.\<close>

definition comes_from :: "engine \<Rightarrow> rstr \<Rightarrow> file_system \<Rightarrow> path \<Rightarrow> path \<Rightarrow> platform_policy \<Rightarrow> workflow_snapshot \<Rightarrow> bool" where
  "comes_from eng default_workflow fs controlled_root repository_root policy w =
     (\<exists>controlled repository. fs_canonicalize fs controlled_root = Some controlled
        \<and> fs_canonicalize fs repository_root = Some repository \<and> prefix controlled repository
        \<and> (parse_workflow eng default_workflow Source_Default policy = Inr w
              \<and> fs_symlink_metadata fs (workflow_path repository) = Meta_NotFound
           \<or> (\<exists>m file bytes. fs_symlink_metadata fs (workflow_path repository) = Meta m
                \<and> \<not> fm_is_symlink m \<and> fm_is_file m
                \<and> fs_canonicalize fs (workflow_path repository) = Some file \<and> path_parent file = Some repository
                \<and> fs_read fs file = Some bytes \<and> int (length bytes) \<le> max_workflow_bytes \<and> valid_utf8 bytes
                \<and> parse_workflow eng bytes Source_Repository policy = Inr w)))"

lemma load_repository_workflow_Inr:
  "load_repository_workflow eng default_workflow fs controlled_root repository_root policy = Inr w \<Longrightarrow>
   comes_from eng default_workflow fs controlled_root repository_root policy w"
  unfolding comes_from_def load_repository_workflow_def
  by (auto split: option.splits if_splits metadata_result.splits sum.splits)

lemma comes_from_parsed:
  assumes "comes_from eng default_workflow fs controlled_root repository_root policy w"
  obtains content source where "parse_workflow eng content source policy = Inr w"
  using assms unfolding comes_from_def by blast

text \<open>C14. Repositories cannot widen their own rights: a workflow that is accepted keeps to the limits of
  the platform in every setting (tools, network, approval of dangerous commands, timeouts, retries,
  gates, hooks, the numbers of continuations and repairs), its template names only the ten
  published variables, and its text is the built-in one or that of a regular file directly in a
  repository under the controlled root, never of a symbolic link or of a file elsewhere.\<close>

theorem accepted_workflow_within_policy:
  assumes "load_repository_workflow eng default_workflow fs controlled_root repository_root policy = Inr w"
  shows "config_within policy (ws_config w)
    \<and> (\<exists>vs. en_variables eng (ws_prompt_template w) = Some vs \<and> set vs \<subseteq> set allowed_template_variables)
    \<and> comes_from eng default_workflow fs controlled_root repository_root policy w"
proof -
  have from_file: "comes_from eng default_workflow fs controlled_root repository_root policy w"
    by (rule load_repository_workflow_Inr [OF assms])
  then obtain content source where parsed: "parse_workflow eng content source policy = Inr w"
    by (rule comes_from_parsed)
  show ?thesis
    using validate_config_Inr [OF parse_workflow_Inr(2) [OF parsed]]
      validate_template_Inr [OF parse_workflow_Inr(3) [OF parsed]] from_file by simp
qed

definition example_config :: workflow_config where
  "example_config =
     \<lparr>wc_version = ''v1'', wc_execution_mode = Implementation,
      wc_tools = \<lparr>tp_allow = {''search''}, tp_network = False, tp_dangerous_commands_require_approval = True\<rparr>,
      wc_quality_gates = [''unit-tests''], wc_timeout_seconds = 600, wc_stall_timeout_seconds = 60,
      wc_retry = \<lparr>rt_max_attempts = 3, rt_base_delay_seconds = 5, rt_max_delay_seconds = 60\<rparr>,
      wc_hooks = \<lparr>before_run = [''cargo-flow-scope''], after_run = []\<rparr>, wc_notifications = {},
      wc_continuation = default_continuation_policy, wc_repair = default_repair_policy\<rparr>"

definition example_engine :: engine where
  "example_engine =
     \<lparr>en_yaml = (\<lambda>text. if text = ''config'' then Some example_config else None),
      en_variables = (\<lambda>_. Some [''task.title'']), en_render = (\<lambda>text _. Some text),
      en_config_value = (\<lambda>_. J_Null), en_rendered_value = (\<lambda>_. J_Null), en_to_vec = (\<lambda>_. Some ''bytes''),
      en_sha256_hex = (\<lambda>bytes. bytes)\<rparr>"

definition example_text :: rstr where
  "example_text = ''---'' @ nl @ ''config'' @ nl @ ''---'' @ nl @ ''Do {{ task.title }}''"

definition example_fs :: file_system where
  "example_fs =
     \<lparr>fs_canonicalize = Some, fs_symlink_metadata = (\<lambda>_. Meta \<lparr>fm_is_symlink = False, fm_is_file = True, fm_len = 40\<rparr>),
      fs_read = (\<lambda>_. Some example_text)\<rparr>"

definition example_workflow :: workflow_snapshot where
  "example_workflow =
     \<lparr>ws_schema_version = 1, ws_source = Source_Repository, ws_declared_version = ''v1'', ws_digest = ''bytes'',
      ws_config = example_config, ws_prompt_template = ''Do {{ task.title }}''\<rparr>"

lemma example_loaded:
  "load_repository_workflow example_engine [] example_fs [''ws''] [''ws'', ''repo''] (secure_default 3600)
     = Inr example_workflow"
  by code_simp

theorem accepted_workflow_within_policy_witness:
  "config_within (secure_default 3600) example_config
    \<and> (\<exists>vs. en_variables example_engine (ws_prompt_template example_workflow) = Some vs
          \<and> set vs \<subseteq> set allowed_template_variables)
    \<and> comes_from example_engine [] example_fs [''ws''] [''ws'', ''repo''] (secure_default 3600) example_workflow"
  using accepted_workflow_within_policy [OF example_loaded] by (simp add: example_workflow_def)

end
