(* ===== verification/Reloader.thy ===== *)
theory Reloader
  imports Workflow Repairs
begin

text \<open>
  Accepted workflow versions: the tables of \<^verbatim>\<open>backend/src/repositories/devrail_workflows.rs\<close>, the
  tick of \<^verbatim>\<open>backend/src/workers/workflow_reloader.rs\<close> that keeps them up to date with the
  repositories, and \<^verbatim>\<open>build_queue_task_artifacts\<close> of \<^verbatim>\<open>backend/src/services/devrail.rs\<close>, which
  falls back on the last accepted version when the file cannot be loaded.

  Parameters: the engine and the file system of \<open>Workflow\<close>, the serialisation of a snapshot to a
  JSON value and back (\<^verbatim>\<open>serde_json\<close>), and the length PostgreSQL gives to the text of a JSON value.
\<close>

section \<open>Tables\<close>

record workflow_environment = environment_row +
  e_name :: rstr
  e_workspace_root :: rstr
  e_network_mode :: rstr
  e_tool_policy :: json
  e_secret_refs :: "rstr list"
  e_max_duration_secs :: int
  e_created_at :: timestamp
  e_updated_at :: timestamp

record workflow_version =
  v_id :: int
  v_organization_id :: int
  v_department_id :: "int option"
  v_owner_user_id :: int
  v_environment_id :: int
  v_source :: rstr
  v_declared_version :: rstr
  v_digest :: rstr
  v_normalized_snapshot :: json
  v_prompt_body :: rstr
  v_accepted_at :: timestamp

record reload_failure =
  rf_id :: int
  rf_organization_id :: int
  rf_department_id :: "int option"
  rf_owner_user_id :: int
  rf_environment_id :: int
  rf_candidate_digest :: rstr
  rf_error_kind :: rstr
  rf_occurrence_count :: int
  rf_first_seen_at :: timestamp
  rf_last_seen_at :: timestamp

record workflow_store =
  wf_environments :: "workflow_environment list"
  workflow_versions :: "workflow_version list"
  reload_failures :: "reload_failure list"
  wf_audit_logs :: "audit_row list"

text \<open>The serialisers: \<^verbatim>\<open>serde_json::to_value\<close> and \<^verbatim>\<open>from_value\<close> on snapshots, and
  \<^verbatim>\<open>octet_length(value::text)\<close> of the database.\<close>

record serializer =
  se_to_value :: "workflow_snapshot \<Rightarrow> json option"
  se_from_value :: "json \<Rightarrow> workflow_snapshot option"
  se_text_len :: "json \<Rightarrow> int"

section \<open>Repository functions\<close>

definition list_target_organizations :: "workflow_store \<Rightarrow> int list" where
  "list_target_organizations s =
     sort (remdups (map e_organization_id (filter (\<lambda>e. e_enabled e \<and> e_archived_at e = None) (wf_environments s))))"

definition list_targets_for_organization :: "int \<Rightarrow> workflow_store \<Rightarrow> workflow_environment list" where
  "list_targets_for_organization org s =
     sort_key e_id (filter (\<lambda>e. e_organization_id e = org \<and> e_enabled e \<and> e_archived_at e = None) (wf_environments s))"

definition same_version :: "workflow_version \<Rightarrow> workflow_version \<Rightarrow> bool" where
  "same_version n v = (v_organization_id v = v_organization_id n \<and> v_environment_id v = v_environment_id n
     \<and> v_source v = v_source n \<and> v_digest v = v_digest n)"

definition version_check :: "serializer \<Rightarrow> workflow_version \<Rightarrow> bool" where
  "version_check ser v =
     (v_source v \<in> {''default'', ''repository''} \<and> valid_digest (v_digest v)
      \<and> se_text_len ser (v_normalized_snapshot v) \<le> 262144 \<and> int (length (v_prompt_body v)) \<le> 262144)"

text \<open>The conflict clause assigns the digest to itself: the row that is there stays as it is.\<close>

definition accept_version ::
  "serializer \<Rightarrow> workflow_version \<Rightarrow> workflow_store \<Rightarrow> sqlx_error + workflow_store \<times> workflow_version" where
  "accept_version ser n s =
     (if \<not> version_check ser n then Inl (Database CheckViolation)
      else case find (same_version n) (workflow_versions s) of
             Some v \<Rightarrow> Inr (s\<lparr>workflow_versions := update_where (same_version n)
                              (\<lambda>v. v\<lparr>v_digest := v_digest n\<rparr>) (workflow_versions s)\<rparr>, v)
           | None \<Rightarrow>
               let v = n\<lparr>v_id := next_serial v_id (workflow_versions s)\<rparr>
               in Inr (s\<lparr>workflow_versions := workflow_versions s @ [v]\<rparr>, v))"

definition latest_version :: "workflow_version list \<Rightarrow> workflow_version option" where
  "latest_version vs = (case sort_key (\<lambda>v. (- v_accepted_at v, - v_id v)) vs of [] \<Rightarrow> None | v # _ \<Rightarrow> Some v)"

definition last_known_good_for_target :: "int \<Rightarrow> int \<Rightarrow> workflow_store \<Rightarrow> workflow_version option" where
  "last_known_good_for_target org env s =
     latest_version (filter (\<lambda>v. v_organization_id v = org \<and> v_environment_id v = env) (workflow_versions s))"

definition last_known_good ::
  "actor_context \<Rightarrow> db \<Rightarrow> int \<Rightarrow> workflow_store \<Rightarrow> workflow_version option" where
  "last_known_good actor db env s =
     latest_version (filter (\<lambda>v. v_environment_id v = env
        \<and> scoped actor db (v_organization_id v, v_owner_user_id v, v_department_id v)) (workflow_versions s))"

definition same_failure :: "'a environment_row_scheme \<Rightarrow> rstr \<Rightarrow> rstr \<Rightarrow> reload_failure \<Rightarrow> bool" where
  "same_failure target digest kind f =
     (rf_organization_id f = e_organization_id target \<and> rf_environment_id f = e_id target
      \<and> rf_candidate_digest f = digest \<and> rf_error_kind f = kind)"

definition record_reload_failure ::
  "timestamp \<Rightarrow> workflow_environment \<Rightarrow> rstr \<Rightarrow> rstr \<Rightarrow> workflow_store \<Rightarrow> sqlx_error + workflow_store \<times> bool" where
  "record_reload_failure now target digest kind s =
     (if \<not> valid_digest digest then Inl (Database CheckViolation)
      else if list_ex (same_failure target digest kind) (reload_failures s)
      then Inr (s\<lparr>reload_failures := update_where (same_failure target digest kind)
                  (\<lambda>f. f\<lparr>rf_occurrence_count := rf_occurrence_count f + 1, rf_last_seen_at := now\<rparr>)
                  (reload_failures s)\<rparr>, False)
      else Inr (s\<lparr>reload_failures := reload_failures s @
                  [\<lparr>rf_id = next_serial rf_id (reload_failures s), rf_organization_id = e_organization_id target,
                    rf_department_id = e_department_id target, rf_owner_user_id = e_owner_user_id target,
                    rf_environment_id = e_id target, rf_candidate_digest = digest, rf_error_kind = kind,
                    rf_occurrence_count = 1, rf_first_seen_at = now, rf_last_seen_at = now\<rparr>]\<rparr>, True))"

section \<open>The reload tick\<close>

text \<open>\<^verbatim>\<open>Path::new\<close> of an absolute path.\<close>

definition path_of :: "rstr \<Rightarrow> path" where
  "path_of s = filter (\<lambda>c. c \<noteq> [] \<and> c \<noteq> ''.'') (split_on (CHR ''/'') s)"

definition environment_policy :: "workflow_environment \<Rightarrow> platform_policy" where
  "environment_policy e =
     (let p = (secure_default (e_max_duration_secs e))\<lparr>pp_network_allowed := e_network_mode e = ''allowlist''\<rparr>
      in case Option.bind (json_get (e_tool_policy e) ''allowedTools'') as_array of
           None \<Rightarrow> p
         | Some tools \<Rightarrow>
             p\<lparr>pp_allowed_tools := {t \<in> pp_allowed_tools p. t \<in> set (List.map_filter as_str tools)}\<rparr>)"

definition reload_audit :: "workflow_environment \<Rightarrow> rstr \<Rightarrow> rstr \<Rightarrow> audit_row" where
  "reload_audit target action trace =
     \<lparr>a_organization_id = e_organization_id target, a_department_id = e_department_id target, a_action = action,
      a_target_type = ''devrail_environment'', a_target_id = e_id target, a_reason = [], a_trace_id = trace\<rparr>"

definition new_version ::
  "timestamp \<Rightarrow> workflow_environment \<Rightarrow> workflow_snapshot \<Rightarrow> json \<Rightarrow> workflow_version" where
  "new_version now target w value =
     \<lparr>v_id = 0, v_organization_id = e_organization_id target, v_department_id = e_department_id target,
      v_owner_user_id = e_owner_user_id target, v_environment_id = e_id target,
      v_source = workflow_source_as_str (ws_source w), v_declared_version = ws_declared_version w,
      v_digest = ws_digest w, v_normalized_snapshot = value, v_prompt_body = ws_prompt_template w,
      v_accepted_at = now\<rparr>"

definition version_changed :: "workflow_version option \<Rightarrow> workflow_snapshot \<Rightarrow> bool" where
  "version_changed previous w =
     (case previous of None \<Rightarrow> True
      | Some v \<Rightarrow> v_digest v \<noteq> ws_digest w \<or> v_source v \<noteq> workflow_source_as_str (ws_source w)
                 \<or> v_declared_version v \<noteq> ws_declared_version w)"

definition accept_candidate ::
  "serializer \<Rightarrow> timestamp \<Rightarrow> rstr \<Rightarrow> workflow_environment \<Rightarrow> workflow_snapshot \<Rightarrow> workflow_store \<Rightarrow>
   sqlx_error + workflow_store" where
  "accept_candidate ser now trace target w s =
     (let previous = last_known_good_for_target (e_organization_id target) (e_id target) s
      in case se_to_value ser w of
           None \<Rightarrow> Inl (Protocol ''workflow snapshot serialization failed'')
         | Some value \<Rightarrow>
             and_then (accept_version ser (new_version now target w value) s) (\<lambda>(s1, _).
               Inr (if version_changed previous w
                    then s1\<lparr>wf_audit_logs := wf_audit_logs s1 @ [reload_audit target ''devrail.workflow.accept'' trace]\<rparr>
                    else s1)))"

definition record_invalid_candidate ::
  "engine \<Rightarrow> timestamp \<Rightarrow> rstr \<Rightarrow> workflow_environment \<Rightarrow> workflow_error \<Rightarrow> workflow_store \<Rightarrow>
   sqlx_error + workflow_store" where
  "record_invalid_candidate eng now trace target e s =
     (let kind = workflow_error_kind_as_str (we_kind e);
          fallback_key = show_int (e_id target) @ '':'' @ kind;
          digest = (case we_candidate_digest e of Some d \<Rightarrow> d | None \<Rightarrow> candidate_digest eng fallback_key)
      in and_then (record_reload_failure now target digest kind s) (\<lambda>(s1, first_occurrence).
           Inr (if first_occurrence
                then s1\<lparr>wf_audit_logs := wf_audit_logs s1 @ [reload_audit target ''devrail.workflow.reject'' trace]\<rparr>
                else s1)))"

text \<open>What the tick is given: the third-party code, the built-in text, the file system during the
  tick, and for each environment the time and trace of its transaction.\<close>

record reload_input =
  ri_engine :: engine
  ri_serializer :: serializer
  ri_default :: rstr
  ri_files :: file_system
  ri_root :: path
  ri_time :: "int \<Rightarrow> timestamp"
  ri_trace :: "int \<Rightarrow> rstr"

definition reload_target ::
  "reload_input \<Rightarrow> workflow_environment \<Rightarrow> workflow_store \<Rightarrow> sqlx_error + workflow_store" where
  "reload_target i target s =
     (case load_repository_workflow (ri_engine i) (ri_default i) (ri_files i) (ri_root i)
             (path_of (e_workspace_root target)) (environment_policy target) of
        Inr w \<Rightarrow> accept_candidate (ri_serializer i) (ri_time i (e_id target)) (ri_trace i (e_id target)) target w s
      | Inl e \<Rightarrow> record_invalid_candidate (ri_engine i) (ri_time i (e_id target)) (ri_trace i (e_id target)) target e s)"

text \<open>Every candidate is its own transaction; the first error ends the tick and keeps what was committed.\<close>

fun reload_targets ::
  "reload_input \<Rightarrow> workflow_environment list \<Rightarrow> workflow_store \<Rightarrow> workflow_store \<times> sqlx_error option" where
  "reload_targets i [] s = (s, None)"
| "reload_targets i (t # ts) s =
     (case reload_target i t s of Inl e \<Rightarrow> (s, Some e) | Inr s1 \<Rightarrow> reload_targets i ts s1)"

fun reload_organizations ::
  "reload_input \<Rightarrow> int list \<Rightarrow> nat \<Rightarrow> workflow_store \<Rightarrow> workflow_store \<times> (sqlx_error + nat)" where
  "reload_organizations i [] count s = (s, Inr count)"
| "reload_organizations i (org # orgs) count s =
     (let targets = list_targets_for_organization org s
      in case reload_targets i targets s of
           (s1, Some e) \<Rightarrow> (s1, Inl e)
         | (s1, None) \<Rightarrow> reload_organizations i orgs (count + length targets) s1)"

definition reload_once :: "reload_input \<Rightarrow> workflow_store \<Rightarrow> workflow_store \<times> (sqlx_error + nat)" where
  "reload_once i s = reload_organizations i (list_target_organizations s) 0 s"

text \<open>The delay before the next tick, in milliseconds, with the saturation of \<^verbatim>\<open>u64\<close>.\<close>

definition sat_u64 :: "nat \<Rightarrow> nat" where
  "sat_u64 n = min n (2 ^ 64 - 1)"

definition jittered_delay :: "nat \<Rightarrow> nat \<Rightarrow> nat \<Rightarrow> nat" where
  "jittered_delay poll_millis jitter_percent seed =
     (let base_millis = min poll_millis (2 ^ 64 - 1);
          jitter_max = sat_u64 (base_millis * min jitter_percent 100) div 100;
          jitter = (if jitter_max = 0 then 0 else seed mod sat_u64 (jitter_max + 1))
      in sat_u64 (base_millis + jitter))"

section \<open>Queueing a task\<close>

record queue_draft =
  qd_project_id :: int
  qd_repository_id :: "int option"
  qd_environment_id :: int
  qd_task_id :: int
  qd_revision :: int
  qd_title :: rstr
  qd_goal :: rstr
  qd_background :: "rstr option"
  qd_acceptance_criteria :: "rstr option"
  qd_constraints :: "rstr option"
  qd_labels :: json

record queue_artifacts =
  qa_workflow :: workflow_snapshot
  qa_dispatch_snapshot :: json
  qa_dispatch_snapshot_digest :: rstr
  qa_department_id :: "int option"
  qa_owner_user_id :: int

text \<open>The workflow of the repository, or the version accepted last.\<close>

definition queue_workflow ::
  "reload_input \<Rightarrow> actor_context \<Rightarrow> db \<Rightarrow> workflow_environment \<Rightarrow> workflow_store \<Rightarrow> api_error + workflow_snapshot" where
  "queue_workflow i actor db env s =
     (case load_repository_workflow (ri_engine i) (ri_default i) (ri_files i) (ri_root i)
             (path_of (e_workspace_root env)) (environment_policy env) of
        Inr w \<Rightarrow> Inr w
      | Inl e \<Rightarrow>
          (case last_known_good actor db (e_id env) s of
             None \<Rightarrow> Inl (Validation (we_message e))
           | Some v \<Rightarrow>
               (case se_from_value (ri_serializer i) (v_normalized_snapshot v) of
                  None \<Rightarrow> Inl (Conflict ''workflow_snapshot_invalid'')
                | Some w \<Rightarrow>
                    if ws_digest w \<noteq> v_digest v \<or> workflow_source_as_str (ws_source w) \<noteq> v_source v
                       \<or> ws_declared_version w \<noteq> v_declared_version v
                    then Inl (Conflict ''workflow_identity_mismatch'')
                    else Inr w)))"

definition json_option :: "('a \<Rightarrow> json) \<Rightarrow> 'a option \<Rightarrow> json" where
  "json_option f v = (case v of None \<Rightarrow> J_Null | Some x \<Rightarrow> f x)"

definition task_snapshot :: "queue_draft \<Rightarrow> workflow_environment \<Rightarrow> json" where
  "task_snapshot d env = J_Object
     [(''taskId'', J_Int (qd_task_id d)), (''projectId'', J_Int (qd_project_id d)),
      (''repositoryId'', json_option J_Int (qd_repository_id d)), (''environmentId'', J_Int (qd_environment_id d)),
      (''title'', J_String (qd_title d)), (''goal'', J_String (qd_goal d)),
      (''background'', json_option J_String (qd_background d)),
      (''acceptanceCriteria'', json_option J_String (qd_acceptance_criteria d)),
      (''constraints'', json_option J_String (qd_constraints d)), (''labels'', qd_labels d),
      (''workspaceRoot'', J_String (e_workspace_root env)), (''networkMode'', J_String (e_network_mode env)),
      (''toolPolicy'', e_tool_policy env)]"

text \<open>The environment and the repository (name and default branch) are looked up by the callers'
  services; their answers are the arguments \<open>environment\<close> and \<open>repository\<close>.\<close>

definition build_queue_task_artifacts ::
  "reload_input \<Rightarrow> actor_context \<Rightarrow> db \<Rightarrow> api_error + workflow_environment \<Rightarrow> (int \<Rightarrow> api_error + rstr \<times> rstr) \<Rightarrow>
   queue_draft \<Rightarrow> workflow_store \<Rightarrow> api_error + queue_artifacts" where
  "build_queue_task_artifacts i actor db environment repository d s =
     and_then environment (\<lambda>env.
       if \<not> e_enabled env then Inl (Conflict ''environment_disabled'') else
     and_then (case qd_repository_id d of None \<Rightarrow> Inr None
               | Some r \<Rightarrow> and_then (repository r) (\<lambda>x. Inr (Some x))) (\<lambda>repo.
     and_then (queue_workflow i actor db env s) (\<lambda>w.
       case render_workflow (ri_engine i) w
              \<lparr>tc_task_id = qd_task_id d, tc_title = qd_title d, tc_goal = qd_goal d,
               tc_background = qd_background d, tc_acceptance_criteria = qd_acceptance_criteria d,
               tc_constraints = qd_constraints d, tc_repository_name = map_option fst repo,
               tc_default_branch = map_option snd repo, tc_environment_name = e_name env,
               tc_workspace_root = e_workspace_root env\<rparr> of
         Inl e \<Rightarrow> Inl (Validation (we_message e))
       | Inr rendered \<Rightarrow>
           let snapshot = task_dispatch_snapshot (ri_engine i) (task_snapshot d env) (qd_revision d) rendered
           in (case snapshot_digest (ri_engine i) snapshot of
                 Inl e \<Rightarrow> Inl (Validation (we_message e))
               | Inr digest \<Rightarrow>
                   Inr \<lparr>qa_workflow = w, qa_dispatch_snapshot = snapshot, qa_dispatch_snapshot_digest = digest,
                        qa_department_id = e_department_id env, qa_owner_user_id = e_owner_user_id env\<rparr>))))"

section \<open>The version accepted last\<close>

lemma latest_version_newest:
  assumes "v \<in> set vs" and "\<And>u. u \<in> set vs \<Longrightarrow> u \<noteq> v \<Longrightarrow> v_accepted_at u < v_accepted_at v"
  shows "latest_version vs = Some v"
proof -
  let ?key = "\<lambda>v. (- v_accepted_at v, - v_id v)"
  obtain h hs where sorted: "sort_key ?key vs = h # hs"
    using assms(1) by (metis empty_iff list.set(1) neq_Nil_conv set_sort)
  have h: "h \<in> set vs" using sorted by (metis list.set_intros(1) set_sort)
  have "?key h \<le> ?key v"
  proof -
    have "v \<in> set (h # hs)" using assms(1) sorted by (metis set_sort)
    moreover have "sorted (map ?key (h # hs))" using sorted by (metis sorted_sort_key)
    ultimately show ?thesis by auto
  qed
  then have "h = v" using assms(2) [OF h] by fastforce
  with sorted show ?thesis by (simp add: latest_version_def)
qed

lemma accept_same_version:
  "update_where (same_version n) (\<lambda>v. v\<lparr>v_digest := v_digest n\<rparr>) vs = vs"
  unfolding update_where_def by (rule map_idI) (auto simp: same_version_def)

lemma accept_version_known:
  assumes "accept_version ser n s = Inr (s', v)" and "\<exists>u \<in> set (workflow_versions s). same_version n u"
  shows "workflow_versions s' = workflow_versions s"
  using assms by (auto simp: accept_version_def accept_same_version find_None_iff Let_def split: if_splits option.splits)

lemma accept_version_fresh:
  assumes "accept_version ser n s = Inr (s', v)" and "\<forall>u \<in> set (workflow_versions s). \<not> same_version n u"
  shows "workflow_versions s' = workflow_versions s @ [v]"
    and "v = n\<lparr>v_id := next_serial v_id (workflow_versions s)\<rparr>"
proof -
  have "find (same_version n) (workflow_versions s) = None" using assms(2) by (simp add: find_None_iff)
  then show "workflow_versions s' = workflow_versions s @ [v]"
    and "v = n\<lparr>v_id := next_serial v_id (workflow_versions s)\<rparr>"
    using assms(1) by (auto simp: accept_version_def Let_def split: if_splits)
qed

lemma accept_candidate_Inr:
  assumes "accept_candidate ser now trace target w s = Inr s'"
  obtains jv s1 v where "se_to_value ser w = Some jv"
    "accept_version ser (new_version now target w jv) s = Inr (s1, v)"
    "workflow_versions s' = workflow_versions s1"
    "wf_audit_logs s' = wf_audit_logs s @ (if version_changed
        (last_known_good_for_target (e_organization_id target) (e_id target) s) w
       then [reload_audit target ''devrail.workflow.accept'' trace] else [])"
proof -
  obtain jv s1 v where val: "se_to_value ser w = Some jv"
    and acc: "accept_version ser (new_version now target w jv) s = Inr (s1, v)"
    and s': "s' = (if version_changed (last_known_good_for_target (e_organization_id target) (e_id target) s) w
        then s1\<lparr>wf_audit_logs := wf_audit_logs s1 @ [reload_audit target ''devrail.workflow.accept'' trace]\<rparr> else s1)"
    using assms unfolding accept_candidate_def
    by (auto simp: Let_def and_then_Inr_iff split: option.splits)
  have "wf_audit_logs s1 = wf_audit_logs s"
    using acc by (auto simp: accept_version_def Let_def split: if_splits option.splits)
  with val acc s' that show thesis by simp
qed

lemma record_invalid_candidate_versions:
  "record_invalid_candidate eng now trace target e s = Inr s' \<Longrightarrow> workflow_versions s' = workflow_versions s"
  by (auto simp: record_invalid_candidate_def Let_def and_then_Inr_iff record_reload_failure_def split: if_splits)

abbreviation loaded :: "reload_input \<Rightarrow> workflow_environment \<Rightarrow> workflow_error + workflow_snapshot" where
  "loaded i env \<equiv> load_repository_workflow (ri_engine i) (ri_default i) (ri_files i) (ri_root i)
     (path_of (e_workspace_root env)) (environment_policy env)"

definition known_version :: "workflow_environment \<Rightarrow> workflow_snapshot \<Rightarrow> workflow_store \<Rightarrow> bool" where
  "known_version env w s = (\<exists>u \<in> set (workflow_versions s). v_organization_id u = e_organization_id env
     \<and> v_environment_id u = e_id env \<and> v_source u = workflow_source_as_str (ws_source w) \<and> v_digest u = ws_digest w)"

lemma known_version_same:
  "known_version env w s \<longleftrightarrow> (\<exists>u \<in> set (workflow_versions s). same_version (new_version now env w jv) u)"
  by (auto simp: known_version_def same_version_def new_version_def)

lemma latest_at_end:
  assumes "\<forall>u \<in> set vs. v_accepted_at u < v_accepted_at v" and "P v"
  shows "latest_version (filter P (vs @ [v])) = Some v"
  by (rule latest_version_newest) (use assms in auto)

section \<open>Publication and fallback\<close>

text \<open>A small installation: one environment, two accepted versions, the repository back at the first.\<close>

definition example_wf_environment :: workflow_environment where
  "example_wf_environment =
     \<lparr>e_id = 1, e_organization_id = 1, e_department_id = None, e_owner_user_id = 1, e_project_id = 1,
      e_enabled = True, e_archived_at = None, e_name = ''dev'', e_workspace_root = ''/ws/repo'',
      e_network_mode = ''off'', e_tool_policy = J_Object [],
      e_secret_refs = [], e_max_duration_secs = 3600, e_created_at = 0, e_updated_at = 0\<rparr>"

definition example_wf_digest :: "char \<Rightarrow> rstr" where
  "example_wf_digest c = replicate 64 c"

definition example_snapshot :: "workflow_config \<Rightarrow> workflow_snapshot" where
  "example_snapshot config = example_workflow\<lparr>ws_digest := example_wf_digest (CHR ''a''), ws_config := config\<rparr>"

definition example_networked :: workflow_config where
  "example_networked = example_config\<lparr>wc_tools := (wc_tools example_config)\<lparr>tp_network := True\<rparr>\<rparr>"

definition example_input :: "workflow_config \<Rightarrow> reload_input" where
  "example_input config =
     \<lparr>ri_engine = example_engine\<lparr>en_yaml := (\<lambda>text. if text = ''config'' then Some config else None),
                                en_sha256_hex := (\<lambda>_. example_wf_digest (CHR ''a''))\<rparr>,
      ri_serializer = \<lparr>se_to_value = (\<lambda>w. Some (J_String (ws_digest w))),
                      se_from_value = (\<lambda>_. Some (example_snapshot config)), se_text_len = (\<lambda>_. 100)\<rparr>,
      ri_default = [], ri_files = example_fs, ri_root = [''ws''], ri_time = (\<lambda>_. 9), ri_trace = (\<lambda>_. ''t'')\<rparr>"

definition example_version :: "int \<Rightarrow> char \<Rightarrow> workflow_version" where
  "example_version n c =
     \<lparr>v_id = n, v_organization_id = 1, v_department_id = None, v_owner_user_id = 1, v_environment_id = 1,
      v_source = ''repository'', v_declared_version = ''v1'', v_digest = example_wf_digest c,
      v_normalized_snapshot = J_Null, v_prompt_body = ''Do'', v_accepted_at = n\<rparr>"

definition example_versions :: "workflow_version list \<Rightarrow> workflow_store" where
  "example_versions vs =
     \<lparr>wf_environments = [example_wf_environment], workflow_versions = vs, reload_failures = [], wf_audit_logs = []\<rparr>"

definition example_wf_actor :: actor_context where
  "example_wf_actor =
     \<lparr>actor_type = User, user_id = 1, session_id = 1, organization_id = 1, department_id = None,
      data_scope = Scope_Organization, permission_codes = {}\<rparr>"

lemma example_candidate: "loaded (example_input example_config) example_wf_environment = Inr (example_snapshot example_config)"
  by code_simp

text \<open>C35. The reloader publishes what is valid and keeps what was published: a candidate that cannot be
  loaded leaves every version as it was; a valid candidate seen for the first time becomes the
  version the environment falls back on, and no earlier version is lost.\<close>

theorem reload_publishes_new_candidates:
  assumes "reload_target i env s = Inr s'"
    and "\<forall>u \<in> set (workflow_versions s). v_accepted_at u < ri_time i (e_id env)"
  shows "case loaded i env of
      Inl _ \<Rightarrow> workflow_versions s' = workflow_versions s
    | Inr w \<Rightarrow> set (workflow_versions s) \<subseteq> set (workflow_versions s')
        \<and> (\<not> known_version env w s \<longrightarrow>
             (\<exists>v. last_known_good_for_target (e_organization_id env) (e_id env) s' = Some v
                \<and> v_digest v = ws_digest w \<and> v_declared_version v = ws_declared_version w
                \<and> v_source v = workflow_source_as_str (ws_source w)
                \<and> se_to_value (ri_serializer i) w = Some (v_normalized_snapshot v)))"
proof (cases "loaded i env")
  case (Inl e)
  then show ?thesis using assms(1) by (auto simp: reload_target_def dest: record_invalid_candidate_versions)
next
  case (Inr w)
  then have acc: "accept_candidate (ri_serializer i) (ri_time i (e_id env)) (ri_trace i (e_id env)) env w s = Inr s'"
    using assms(1) by (simp add: reload_target_def)
  obtain jv s1 v where jv: "se_to_value (ri_serializer i) w = Some jv"
    and av: "accept_version (ri_serializer i) (new_version (ri_time i (e_id env)) env w jv) s = Inr (s1, v)"
    and vs: "workflow_versions s' = workflow_versions s1"
    by (rule accept_candidate_Inr [OF acc])
  show ?thesis
  proof (cases "known_version env w s")
    case True
    then have "workflow_versions s' = workflow_versions s"
      using accept_version_known [OF av] vs known_version_same by simp
    with True Inr show ?thesis by simp
  next
    case False
    then have fresh: "\<forall>u \<in> set (workflow_versions s). \<not> same_version (new_version (ri_time i (e_id env)) env w jv) u"
      using known_version_same by blast
    note new = accept_version_fresh [OF av fresh]
    have at: "v_accepted_at v = ri_time i (e_id env)" "v_organization_id v = e_organization_id env"
        "v_environment_id v = e_id env"
      by (simp_all add: new(2) new_version_def)
    have "last_known_good_for_target (e_organization_id env) (e_id env) s' = Some v"
      unfolding last_known_good_for_target_def vs new(1) by (rule latest_at_end) (use assms(2) at in auto)
    with new vs jv Inr show ?thesis by (auto simp: new_version_def)
  qed
qed

theorem reload_publishes_new_candidates_witness:
  "\<exists>s'. reload_target (example_input example_config) example_wf_environment (example_versions [example_version 2 (CHR ''b'')])
        = Inr s'
    \<and> example_version 2 (CHR ''b'') \<in> set (workflow_versions s')
    \<and> (\<exists>v. last_known_good_for_target 1 1 s' = Some v \<and> v_digest v = example_wf_digest (CHR ''a''))"
proof -
  let ?s = "example_versions [example_version 2 (CHR ''b'')]"
  have "is_ok (reload_target (example_input example_config) example_wf_environment ?s)" by code_simp
  then obtain s' where s': "reload_target (example_input example_config) example_wf_environment ?s = Inr s'"
    by (auto simp: is_ok_iff)
  have "\<forall>u \<in> set (workflow_versions ?s). v_accepted_at u < ri_time (example_input example_config) (e_id example_wf_environment)"
    by code_simp
  note published = reload_publishes_new_candidates [OF s' this]
  have "\<not> known_version example_wf_environment (example_snapshot example_config) ?s" by code_simp
  moreover have "e_organization_id example_wf_environment = 1" "e_id example_wf_environment = 1"
      "ws_digest (example_snapshot example_config) = example_wf_digest (CHR ''a'')"
      "set (workflow_versions ?s) = {example_version 2 (CHR ''b'')}"
    by (simp_all add: example_wf_environment_def example_snapshot_def example_versions_def)
  ultimately show ?thesis using published s' by (auto simp: example_candidate)
qed

text \<open>A reverted workflow is not restored: when a repository goes back to a text that was accepted
  before, the candidate is valid and is accepted, yet the version the environment falls back on
  stays the newer one that the repository no longer has, because accepting a known version does
  not renew its time; and every further tick records the same acceptance in the audit log again.\<close>

theorem reverted_workflow_is_not_restored:
  assumes "loaded i env = Inr w" and "known_version env w s"
    and "last_known_good_for_target (e_organization_id env) (e_id env) s = Some b" and "v_digest b \<noteq> ws_digest w"
    and "reload_target i env s = Inr s'"
  shows "last_known_good_for_target (e_organization_id env) (e_id env) s' = Some b
    \<and> wf_audit_logs s' = wf_audit_logs s @ [reload_audit env ''devrail.workflow.accept'' (ri_trace i (e_id env))]"
proof -
  have acc: "accept_candidate (ri_serializer i) (ri_time i (e_id env)) (ri_trace i (e_id env)) env w s = Inr s'"
    using assms(1,5) by (simp add: reload_target_def)
  obtain jv s1 v where av: "accept_version (ri_serializer i) (new_version (ri_time i (e_id env)) env w jv) s = Inr (s1, v)"
    and vs: "workflow_versions s' = workflow_versions s1"
    and audit: "wf_audit_logs s' = wf_audit_logs s @ (if version_changed
        (last_known_good_for_target (e_organization_id env) (e_id env) s) w
       then [reload_audit env ''devrail.workflow.accept'' (ri_trace i (e_id env))] else [])"
    by (rule accept_candidate_Inr [OF acc])
  have "workflow_versions s' = workflow_versions s"
    using accept_version_known [OF av] vs assms(2) known_version_same by simp
  moreover have "version_changed (Some b) w" using assms(4) by (simp add: version_changed_def)
  ultimately show ?thesis using assms(3) audit by (simp add: last_known_good_for_target_def)
qed

theorem reverted_workflow_is_not_restored_witness:
  "\<exists>s'. reload_target (example_input example_config) example_wf_environment
          (example_versions [example_version 1 (CHR ''a''), example_version 2 (CHR ''b'')]) = Inr s'
    \<and> last_known_good_for_target 1 1 s' = Some (example_version 2 (CHR ''b''))
    \<and> length (wf_audit_logs s') = 1"
proof -
  let ?s = "example_versions [example_version 1 (CHR ''a''), example_version 2 (CHR ''b'')]"
  have "is_ok (reload_target (example_input example_config) example_wf_environment ?s)" by code_simp
  then obtain s' where s': "reload_target (example_input example_config) example_wf_environment ?s = Inr s'"
    by (auto simp: is_ok_iff)
  have known: "known_version example_wf_environment (example_snapshot example_config) ?s" by code_simp
  have good: "last_known_good_for_target (e_organization_id example_wf_environment) (e_id example_wf_environment) ?s
      = Some (example_version 2 (CHR ''b''))" by code_simp
  have other: "v_digest (example_version 2 (CHR ''b'')) \<noteq> ws_digest (example_snapshot example_config)" by code_simp
  show ?thesis
    using reverted_workflow_is_not_restored [OF example_candidate known good other s'] s'
    by (simp add: example_wf_environment_def example_versions_def)
qed

text \<open>The fallback is not checked against the policy of today: when the network of an environment is
  switched off, a workflow that asks for the network is refused by the loader, and the task is
  then queued with the version accepted last, which may be that very workflow.\<close>

theorem fallback_ignores_the_current_policy:
  assumes "loaded i env = Inl e" and "last_known_good actor db (e_id env) s = Some v"
    and "se_from_value (ri_serializer i) (v_normalized_snapshot v) = Some w"
    and "ws_digest w = v_digest v" and "workflow_source_as_str (ws_source w) = v_source v"
    and "ws_declared_version w = v_declared_version v"
    and "tp_network (wc_tools (ws_config w))" and "e_network_mode env \<noteq> ''allowlist''"
  shows "queue_workflow i actor db env s = Inr w \<and> \<not> config_within (environment_policy env) (ws_config w)"
proof
  show "queue_workflow i actor db env s = Inr w" using assms(1-6) by (simp add: queue_workflow_def)
  have "\<not> pp_network_allowed (environment_policy env)"
    using assms(8) by (simp add: environment_policy_def Let_def split: option.splits)
  with assms(7) show "\<not> config_within (environment_policy env) (ws_config w)" by (simp add: config_within_def)
qed

theorem fallback_ignores_the_current_policy_witness:
  "queue_workflow (example_input example_networked) example_wf_actor (example_db [] []) example_wf_environment
      (example_versions [example_version 1 (CHR ''a'')]) = Inr (example_snapshot example_networked)
    \<and> \<not> config_within (environment_policy example_wf_environment) example_networked"
proof -
  let ?i = "example_input example_networked" and ?s = "example_versions [example_version 1 (CHR ''a'')]"
  have "\<not> is_ok (loaded ?i example_wf_environment)" by code_simp
  then obtain e where e: "loaded ?i example_wf_environment = Inl e"
    by (cases "loaded ?i example_wf_environment") (auto simp del: split_paired_Ex)
  have good: "last_known_good example_wf_actor (example_db [] []) (e_id example_wf_environment) ?s = Some (example_version 1 (CHR ''a''))"
    by code_simp
  have config: "ws_config (example_snapshot example_networked) = example_networked" by (simp add: example_snapshot_def)
  have "queue_workflow ?i example_wf_actor (example_db [] []) example_wf_environment ?s = Inr (example_snapshot example_networked)
      \<and> \<not> config_within (environment_policy example_wf_environment) (ws_config (example_snapshot example_networked))"
    by (rule fallback_ignores_the_current_policy [OF e good])
      (simp_all add: example_input_def example_snapshot_def example_version_def example_workflow_def
        example_networked_def example_wf_environment_def)
  then show ?thesis unfolding config .
qed

text \<open>One oversized workflow ends the tick: the check on the stored snapshot fails the transaction of its
  environment, and the environments after it are not looked at.\<close>

lemma oversized_workflow_stops_the_tick:
  assumes "loaded i env = Inr w" and "se_to_value (ri_serializer i) w = Some jv"
    and "se_text_len (ri_serializer i) jv > 262144"
  shows "reload_targets i (env # envs) s = (s, Some (Database CheckViolation))"
  using assms
  by (simp add: reload_target_def accept_candidate_def accept_version_def version_check_def new_version_def)

lemma jittered_delay_bounds:
  assumes "p < 2 ^ 63"
  shows "p \<le> jittered_delay p j seed \<and> jittered_delay p j seed \<le> 2 * p"
proof -
  have le: "sat_u64 (p * min j 100) div 100 \<le> p"
  proof -
    have "sat_u64 (p * min j 100) \<le> p * 100" by (simp add: sat_u64_def min.coboundedI1)
    then show ?thesis using div_le_mono [of "sat_u64 (p * min j 100)" "p * 100" 100] by simp
  qed
  have base: "min p (2 ^ 64 - 1) = p" using assms by simp
  have "seed mod sat_u64 (m + 1) \<le> m" if "m \<noteq> 0" "m \<le> p" for m
  proof -
    have "sat_u64 (m + 1) = m + 1" using that assms by (simp add: sat_u64_def)
    then show ?thesis by (metis add.commute le_add1 less_Suc_eq_le mod_less_divisor plus_1_eq_Suc zero_less_Suc)
  qed
  then have jit: "(if m = 0 then 0 else seed mod sat_u64 (m + 1)) \<le> p" if "m \<le> p" for m
    using that by (auto intro: order_trans)
  have "sat_u64 (p + x) = p + x" if "x \<le> p" for x using that assms by (simp add: sat_u64_def)
  with jit [OF le] show ?thesis unfolding jittered_delay_def Let_def base by simp
qed

end
