(* ===== verification/Continuations.thy ===== *)
theory Continuations
  imports Repairs Workflow
begin

text \<open>
  The life of a continuation, \<^verbatim>\<open>backend/src/repositories/devrail_continuations.rs\<close> and
  \<^verbatim>\<open>backend/src/services/devrail_continuations.rs\<close>: hand-off evidence of a finished run, the
  request a user or a quality gate makes to carry on from it, dispatch, the end of the child run,
  cancellation and rejection. Every repository function runs inside a transaction of its caller.
  Claims, renewals, releases and the sweep are those of \<open>Requests\<close>; the table's foreign keys are
  not modelled.
\<close>

section \<open>Hand-off evidence\<close>

text \<open>\<^verbatim>\<open>devrail_run_handoffs\<close>, with the columns \<open>Repairs\<close> does not read.\<close>

record run_handoff_row = run_handoff +
  rh_id :: int
  rh_department_id :: "int option"
  rh_owner_user_id :: int
  rh_project_id :: int
  rh_task_id :: int
  rh_task_snapshot_id :: int
  rh_repository_id :: int
  rh_environment_id :: "int option"
  rh_task_snapshot_digest :: rstr
  rh_workflow_snapshot_digest :: rstr
  rh_environment_snapshot_digest :: "rstr option"
  rh_repository_identity :: rstr
  rh_repository_identity_digest :: rstr
  rh_base_commit :: rstr
  rh_head_commit :: "rstr option"
  rh_branch_ref :: "rstr option"
  rh_changeset_ref :: "rstr option"
  rh_tool_versions :: json
  rh_error_code :: "rstr option"

definition safe_ref :: "rstr option \<Rightarrow> bool" where
  "safe_ref v = (case v of None \<Rightarrow> True
     | Some value \<Rightarrow> value \<noteq> [] \<and> \<not> starts_with ''/'' value \<and> \<not> starts_with ''~/'' value
         \<and> \<not> contains_str ''..'' value \<and> CHR 0x5C \<notin> set value)"

fun handoff_sensitive_json :: "json \<Rightarrow> bool" where
  "handoff_sensitive_json (J_Object kvs) =
     list_ex (\<lambda>kv. list_ex (\<lambda>marker. contains_str marker (to_ascii_lowercase (fst kv))) secret_markers
        \<or> handoff_sensitive_json (snd kv)) kvs"
| "handoff_sensitive_json (J_Array vs) = list_ex handoff_sensitive_json vs"
| "handoff_sensitive_json (J_String s) = sensitive_text s"
| "handoff_sensitive_json _ = False"

definition valid_commit :: "rstr \<Rightarrow> bool" where
  "valid_commit value = (7 \<le> length value \<and> length value \<le> 128
     \<and> list_all (\<lambda>c. is_ascii_hexdigit c \<and> \<not> is_ascii_uppercase c) value)"

definition validate_handoff :: "run_handoff_row \<Rightarrow> sqlx_error + unit" where
  "validate_handoff i =
     (if list_ex (\<lambda>d. \<not> valid_digest d) [rh_task_snapshot_digest i, rh_workflow_snapshot_digest i,
          rh_repository_identity_digest i, rh_changeset_digest i]
      then Inl (Protocol ''handoff_digest_invalid'')
      else if is_some_and (rh_environment_snapshot_digest i) (\<lambda>d. \<not> valid_digest d)
      then Inl (Protocol ''handoff_environment_digest_invalid'')
      else if \<not> valid_commit (rh_base_commit i) \<or> is_some_and (rh_head_commit i) (\<lambda>v. \<not> valid_commit v)
           \<or> \<not> safe_ref (rh_head_commit i) \<or> \<not> safe_ref (rh_branch_ref i) \<or> \<not> safe_ref (rh_changeset_ref i)
           \<or> rh_head_commit i = None \<and> rh_changeset_ref i = None
      then Inl (Protocol ''handoff_reference_invalid'')
      else if rh_evidence_status i = ''available'' \<and> (rh_validated_at i = None \<or> rh_error_code i \<noteq> None)
      then Inl (Protocol ''handoff_not_validated'')
      else if rh_evidence_status i \<notin> {''available'', ''missing'', ''invalid''}
      then Inl (Protocol ''handoff_status_invalid'')
      else if rh_repository_identity i = [] \<or> length (rh_repository_identity i) > 256
           \<or> sensitive_text (rh_repository_identity i) \<or> handoff_sensitive_json (rh_tool_versions i)
      then Inl (Protocol ''handoff_sensitive'')
      else Inr ())"

text \<open>The comparison of a repeated hand-off: everything but the row's owner and the time of the
  validation.\<close>

definition evidence_only :: "run_handoff_row \<Rightarrow> run_handoff_row" where
  "evidence_only h = h\<lparr>rh_id := 0, rh_organization_id := 0, rh_department_id := None, rh_owner_user_id := 0,
     rh_validated_at := None\<rparr>"

definition same_evidence :: "run_handoff_row \<Rightarrow> run_handoff_row \<Rightarrow> bool" where
  "same_evidence h i = (evidence_only h = evidence_only i
     \<and> (rh_validated_at h \<noteq> None \<longleftrightarrow> rh_validated_at i \<noteq> None))"

definition varchar :: "nat \<Rightarrow> rstr \<Rightarrow> bool" where
  "varchar n s = (chars_count s \<le> n)"

definition handoff_check :: "run_handoff_row \<Rightarrow> bool" where
  "handoff_check h =
     ((rh_evidence_status h = ''available'' \<and> rh_validated_at h \<noteq> None \<and> rh_error_code h = None)
      \<or> (rh_evidence_status h \<noteq> ''available'' \<and> is_some_and (rh_error_code h) result_code_check))"

section \<open>Requests\<close>

record continuation_store =
  cbase :: db
  continuation_requests :: "continuation_request list"
  handoffs :: "run_handoff_row list"

definition create_handoff ::
  "actor_context \<Rightarrow> run_handoff_row \<Rightarrow> continuation_store \<Rightarrow> sqlx_error + continuation_store \<times> run_handoff_row \<times> bool" where
  "create_handoff actor i s =
     and_then (validate_handoff i) (\<lambda>_.
     case find (\<lambda>h. rh_organization_id h = organization_id actor \<and> rh_source_run_id h = rh_source_run_id i) (handoffs s) of
       Some h \<Rightarrow> if same_evidence h i then Inr (s, h, False) else Inl (Protocol ''handoff_is_immutable'')
     | None \<Rightarrow>
         let row = i\<lparr>rh_id := next_serial rh_id (handoffs s), rh_organization_id := organization_id actor,
                     rh_department_id := department_id actor, rh_owner_user_id := user_id actor\<rparr>
         in if \<not> (is_some_and (rh_branch_ref i) (varchar 256) \<or> rh_branch_ref i = None)
               \<or> \<not> (is_some_and (rh_changeset_ref i) (varchar 256) \<or> rh_changeset_ref i = None)
            then Inl (Database OtherViolation)
            else if \<not> handoff_check row then Inl (Database CheckViolation)
            else if list_ex (\<lambda>h. rh_source_run_id h = rh_source_run_id i) (handoffs s)
            then Inl (Database UniqueViolation)
            else Inr (s\<lparr>handoffs := handoffs s @ [row]\<rparr>, row, True))"

definition has_valid_handoff :: "actor_context \<Rightarrow> int \<Rightarrow> continuation_store \<Rightarrow> bool" where
  "has_valid_handoff actor run s =
     list_ex (\<lambda>h. rh_organization_id h = organization_id actor \<and> rh_source_run_id h = run
        \<and> rh_evidence_status h = ''available'' \<and> rh_validated_at h \<noteq> None) (handoffs s)"

definition find_handoff :: "actor_context \<Rightarrow> int \<Rightarrow> continuation_store \<Rightarrow> run_handoff_row option" where
  "find_handoff actor run s =
     find (\<lambda>h. rh_source_run_id h = run
        \<and> scoped actor (cbase s) (rh_organization_id h, rh_owner_user_id h, rh_department_id h)) (handoffs s)"

text \<open>\<^verbatim>\<open>NewContinuation\<close>.\<close>

record new_continuation =
  nc_actor :: actor_context
  nc_project_id :: int
  nc_task_id :: int
  nc_source_run_id :: int
  nc_root_run_id :: int
  nc_source_turn_id :: rstr
  nc_requested_by_user_id :: int
  nc_trigger_type :: rstr
  nc_evidence_ref :: rstr
  nc_evidence_digest :: rstr
  nc_evidence_observed_at :: timestamp
  nc_evidence_expires_at :: "timestamp option"
  nc_changeset_digest :: "rstr option"
  nc_redacted_context :: rstr
  nc_context_summary :: rstr
  nc_input_digest :: rstr
  nc_idempotency_key :: rstr
  nc_continuation_sequence :: int
  nc_chain_depth :: int
  nc_prior_task_status :: task_status
  nc_expected_task_revision :: int
  nc_policy_version :: rstr

definition continuation_link :: "'a request_row_scheme \<Rightarrow> rstr" where
  "continuation_link r = ''/devrail/projects/'' @ show_int (q_project_id r) @ ''/tasks/'' @ show_int (q_task_id r)"

definition run_link :: "int \<Rightarrow> rstr" where
  "run_link run = ''/devrail/runs/'' @ show_int run"

text \<open>The task event, the audit entry and the outbox row every transition ends with.\<close>

definition report_continuation ::
  "rstr \<Rightarrow> actor_context \<Rightarrow> continuation_request \<Rightarrow> rstr \<Rightarrow> rstr \<Rightarrow> rstr \<Rightarrow> db \<Rightarrow> sqlx_error + db" where
  "report_continuation trace actor r what action link db =
     and_then (fetch_task db (q_task_id r) (q_organization_id r)) (\<lambda>task.
       Inr (outbox \<lparr>o_organization_id = q_organization_id r, o_event_type = ''devrail.continuation.'' @ what,
              o_aggregate_type = ''devrail_continuation_request'', o_aggregate_id = q_id r, o_source = what @ ''|'' @ link\<rparr>
         (record_audit \<lparr>a_organization_id = organization_id actor, a_department_id = department_id actor,
              a_action = ''devrail.continuation.'' @ action, a_target_type = ''devrail_continuation_request'',
              a_target_id = q_id r, a_reason = [], a_trace_id = trace\<rparr>
           (append_task_event (t_organization_id task) (t_id task) (''continuation.'' @ what)
              (''continuation:'' @ show_int (q_id r) @ '':'' @ what) db))))"

definition notify_created :: "continuation_request \<Rightarrow> db \<Rightarrow> sqlx_error + db" where
  "notify_created r db =
     (let key = ''continuation:'' @ show_int (q_id r) @ '':created'';
          rows = insert_absent notification_key
            [\<lparr>n_organization_id = q_organization_id r, n_department_id = q_department_id r,
              n_recipient_user_id = q_requested_by_user_id r, n_event_type = ''devrail.continuation.created'',
              n_level = ''info'', n_resource_type = ''devrail_task'', n_resource_id = q_task_id r,
              n_source_key = key\<rparr>] (notifications db)
      in if \<not> list_ex (\<lambda>n. n_organization_id n = q_organization_id r
              \<and> n_recipient_user_id n = q_requested_by_user_id r \<and> n_source_key n = key) rows
         then Inl RowNotFound else Inr (db\<lparr>notifications := rows\<rparr>))"

definition existing_continuations :: "new_continuation \<Rightarrow> continuation_store \<Rightarrow> continuation_request list" where
  "existing_continuations i s =
     sort_key (\<lambda>r. (if q_idempotency_key r = nc_idempotency_key i then 0 else 1 :: int, q_id r))
       (filter (\<lambda>r. q_organization_id r = organization_id (nc_actor i) \<and> q_task_id r = nc_task_id i
           \<and> (q_idempotency_key r = nc_idempotency_key i
              \<or> (q_source_run_id r = nc_source_run_id i \<and> q_trigger_type r = nc_trigger_type i
                 \<and> q_evidence_ref r = nc_evidence_ref i))
           \<and> scoped (nc_actor i) (cbase s) (request_scope r)) (continuation_requests s))"

definition conflicting_continuation :: "new_continuation \<Rightarrow> continuation_request \<Rightarrow> bool" where
  "conflicting_continuation i r =
     (q_source_run_id r \<noteq> nc_source_run_id i \<or> q_input_digest r \<noteq> nc_input_digest i
      \<or> q_evidence_digest r \<noteq> nc_evidence_digest i \<or> q_trigger_type r \<noteq> nc_trigger_type i
      \<or> q_idempotency_key r = nc_idempotency_key i \<and> q_evidence_ref r \<noteq> nc_evidence_ref i)"

definition continuation_source :: "new_continuation \<Rightarrow> continuation_store \<Rightarrow> (task_row \<times> run_row) option" where
  "continuation_source i s =
     find (\<lambda>(t, r). r_task_id r = t_id t \<and> r_organization_id r = t_organization_id t
          \<and> t_id t = nc_task_id i \<and> r_id r = nc_source_run_id i
          \<and> scoped (nc_actor i) (cbase s) (task_scope t)
          \<and> scoped (nc_actor i) (cbase s) (r_organization_id r, r_owner_user_id r, r_department_id r))
       (List.product (tasks (cbase s)) (runs (cbase s)))"

definition busy_task :: "int \<Rightarrow> db \<Rightarrow> bool" where
  "busy_task task db = list_ex (\<lambda>r. r_task_id r = task
     \<and> r_status r \<in> {Run_Starting, Run_Active, Run_AwaitingApproval}) (runs db)"

definition source_mismatch :: "new_continuation \<Rightarrow> task_row \<Rightarrow> run_row \<Rightarrow> bool" where
  "source_mismatch i t run =
     (t_status t \<noteq> nc_prior_task_status i \<or> t_revision t \<noteq> nc_expected_task_revision i
      \<or> t_status t \<notin> {Task_Succeeded, Task_Failed} \<or> r_status run \<notin> {Run_Completed, Run_Failed}
      \<or> r_root_run_id run \<noteq> Some (nc_root_run_id i) \<or> r_turn_id run \<noteq> Some (nc_source_turn_id i))"

definition new_continuation_row ::
  "timestamp \<Rightarrow> new_continuation \<Rightarrow> task_row \<Rightarrow> int \<Rightarrow> continuation_request" where
  "new_continuation_row now i t rid =
     \<lparr>q_id = rid, q_organization_id = organization_id (nc_actor i), q_department_id = t_department_id t,
      q_owner_user_id = t_owner_user_id t, q_project_id = nc_project_id i, q_task_id = nc_task_id i,
      q_source_run_id = nc_source_run_id i, q_root_run_id = nc_root_run_id i,
      q_changeset_digest = nc_changeset_digest i, q_idempotency_key = nc_idempotency_key i,
      q_status = Req_Pending, q_status_version = 1, q_claim_owner = None, q_claim_token = None,
      q_claim_expires_at = None, q_dispatch_attempts = 0, q_next_attempt_at = None, q_child_run_id = None,
      q_result_code = None, q_created_at = now, q_updated_at = now, q_claimed_at = None,
      q_dispatched_at = None, q_completed_at = None, q_cancelled_at = None,
      q_source_turn_id = nc_source_turn_id i, q_requested_by_user_id = nc_requested_by_user_id i,
      q_trigger_type = nc_trigger_type i, q_evidence_ref = nc_evidence_ref i,
      q_evidence_digest = nc_evidence_digest i, q_evidence_observed_at = nc_evidence_observed_at i,
      q_evidence_expires_at = nc_evidence_expires_at i, q_redacted_context = nc_redacted_context i,
      q_context_summary = nc_context_summary i, q_input_digest = nc_input_digest i,
      q_continuation_sequence = nc_continuation_sequence i, q_chain_depth = nc_chain_depth i,
      q_prior_task_status = nc_prior_task_status i, q_policy_version = nc_policy_version i,
      q_rejected_at = None\<rparr>"

text \<open>The constraints of the table: text columns of bounded length, checks, unique keys.\<close>

definition continuation_lengths :: "continuation_request \<Rightarrow> bool" where
  "continuation_lengths r =
     (varchar 256 (q_source_turn_id r) \<and> varchar 24 (q_trigger_type r) \<and> varchar 256 (q_evidence_ref r)
      \<and> varchar 256 (q_context_summary r) \<and> varchar 128 (q_idempotency_key r) \<and> varchar 128 (q_policy_version r))"

definition continuation_check :: "continuation_request \<Rightarrow> bool" where
  "continuation_check r =
     (q_trigger_type r \<in> {''user_context'', ''quality_gate'', ''review_changes''}
      \<and> valid_digest (q_evidence_digest r)
      \<and> (q_changeset_digest r = None \<or> is_some_and (q_changeset_digest r) valid_digest)
      \<and> length (q_redacted_context r) \<le> 16384 \<and> valid_digest (q_input_digest r)
      \<and> 0 < q_continuation_sequence r \<and> 1 \<le> q_chain_depth r \<and> q_chain_depth r \<le> 32
      \<and> q_prior_task_status r \<in> {Task_Succeeded, Task_Failed}
      \<and> (q_evidence_expires_at r = None
          \<or> is_some_and (q_evidence_expires_at r) (\<lambda>e. e > q_evidence_observed_at r)))"

definition unique_continuation :: "continuation_request \<Rightarrow> continuation_request list \<Rightarrow> bool" where
  "unique_continuation r rows =
     (\<not> list_ex (\<lambda>q. q_organization_id q = q_organization_id r \<and> q_task_id q = q_task_id r
         \<and> (q_idempotency_key q = q_idempotency_key r
            \<or> q_continuation_sequence q = q_continuation_sequence r
            \<or> (q_source_run_id q = q_source_run_id r \<and> q_trigger_type q = q_trigger_type r
                \<and> q_evidence_ref q = q_evidence_ref r))) rows)"

definition find_continuation :: "continuation_store \<Rightarrow> actor_context \<Rightarrow> int \<Rightarrow> continuation_request option" where
  "find_continuation s actor i =
     find (\<lambda>r. q_id r = i \<and> scoped actor (cbase s) (request_scope r)) (continuation_requests s)"

definition find_continuation_of_task ::
  "continuation_store \<Rightarrow> actor_context \<Rightarrow> int \<Rightarrow> int \<Rightarrow> continuation_request option" where
  "find_continuation_of_task s actor i task =
     find (\<lambda>r. q_id r = i \<and> q_task_id r = task \<and> scoped actor (cbase s) (request_scope r)) (continuation_requests s)"

definition find_by_idempotency ::
  "continuation_store \<Rightarrow> actor_context \<Rightarrow> int \<Rightarrow> rstr \<Rightarrow> continuation_request option" where
  "find_by_idempotency s actor run key =
     find (\<lambda>r. q_source_run_id r = run \<and> q_idempotency_key r = key \<and> scoped actor (cbase s) (request_scope r))
       (continuation_requests s)"

definition to_pending :: "timestamp \<Rightarrow> task_row \<Rightarrow> task_row" where
  "to_pending now t = t\<lparr>t_status := Task_ContinuationPending, t_revision := t_revision t + 1, t_updated_at := now\<rparr>"

definition insert_continuation ::
  "timestamp \<Rightarrow> rstr \<Rightarrow> new_continuation \<Rightarrow> task_row \<Rightarrow> continuation_store \<Rightarrow>
   sqlx_error + continuation_store \<times> continuation_request \<times> bool" where
  "insert_continuation now trace i t s =
     (let r = new_continuation_row now i t (next_serial q_id (continuation_requests s));
          waits = (\<lambda>x. t_id x = nc_task_id i \<and> t_organization_id x = organization_id (nc_actor i)
             \<and> t_revision x = nc_expected_task_revision i \<and> t_status x = nc_prior_task_status i
             \<and> \<not> busy_task (nc_task_id i) (cbase s))
      in if \<not> continuation_lengths r then Inl (Database OtherViolation)
         else if \<not> continuation_check r then Inl (Database CheckViolation)
         else if \<not> unique_continuation r (continuation_requests s) then Inl (Database UniqueViolation)
         else if length (rows_where waits (tasks (cbase s))) \<noteq> 1
         then Inl (Protocol ''task_changed_during_continuation_creation'')
         else and_then (report_continuation trace (nc_actor i) r ''created'' ''create'' (continuation_link r)
                (update_tasks waits (to_pending now) (cbase s))) (\<lambda>db.
              and_then (notify_created r db) (\<lambda>db'.
                let s' = s\<lparr>cbase := db', continuation_requests := continuation_requests s @ [r]\<rparr>
                in case find_continuation_of_task s' (nc_actor i) (q_id r) (nc_task_id i) of
                     None \<Rightarrow> Inl RowNotFound
                   | Some row \<Rightarrow> Inr (s', row, True))))"

definition continuation_create ::
  "timestamp \<Rightarrow> rstr \<Rightarrow> new_continuation \<Rightarrow> continuation_store \<Rightarrow>
   sqlx_error + continuation_store \<times> continuation_request \<times> bool" where
  "continuation_create now trace i s =
     (case existing_continuations i s of
        r # _ \<Rightarrow> if conflicting_continuation i r then Inl (Protocol ''continuation_key_of_another_request'')
                  else Inr (s, r, False)
      | [] \<Rightarrow>
          (case continuation_source i s of
             None \<Rightarrow> Inl RowNotFound
           | Some (t, run) \<Rightarrow>
               if source_mismatch i t run then Inl (Protocol ''continuation_source_mismatch'')
               else if busy_task (nc_task_id i) (cbase s) then Inl (Protocol ''task_has_active_run'')
               else insert_continuation now trace i t s))"

section \<open>Transitions\<close>

text \<open>The selected row changes by \<open>f\<close>, exactly one task \<open>Q r\<close> changes by \<open>g r\<close>, and the transition is
  reported.\<close>

definition move_continuation ::
  "(continuation_request \<Rightarrow> bool) \<Rightarrow> (continuation_request \<Rightarrow> continuation_request) \<Rightarrow>
   (continuation_request \<Rightarrow> task_row \<Rightarrow> bool) \<Rightarrow> (continuation_request \<Rightarrow> task_row \<Rightarrow> task_row) \<Rightarrow> rstr \<Rightarrow>
   rstr \<Rightarrow> rstr \<Rightarrow> (continuation_request \<Rightarrow> rstr) \<Rightarrow> rstr \<Rightarrow> actor_context \<Rightarrow> continuation_request \<Rightarrow>
   continuation_store \<Rightarrow> sqlx_error + continuation_store \<times> continuation_request option" where
  "move_continuation P f Q g err what action link trace actor r0 s =
     (let r = f r0
      in if length (rows_where (Q r) (tasks (cbase s))) \<noteq> 1 then Inl (Protocol err)
         else and_then (report_continuation trace actor r what action (link r) (update_tasks (Q r) (g r) (cbase s)))
           (\<lambda>db. Inr (s\<lparr>cbase := db, continuation_requests := update_where P f (continuation_requests s)\<rparr>, Some r)))"

definition awaits_continuation :: "continuation_request \<Rightarrow> task_row \<Rightarrow> bool" where
  "awaits_continuation r t = (t_id t = q_task_id r \<and> t_organization_id t = q_organization_id r
     \<and> t_status t = Task_ContinuationPending)"

definition restore_task :: "timestamp \<Rightarrow> continuation_request \<Rightarrow> task_row \<Rightarrow> task_row" where
  "restore_task now r t = t\<lparr>t_status := q_prior_task_status r, t_revision := t_revision t + 1, t_updated_at := now\<rparr>"

definition continuation_cancellable :: "actor_context \<Rightarrow> int \<Rightarrow> db \<Rightarrow> continuation_request \<Rightarrow> bool" where
  "continuation_cancellable actor i db r =
     (q_id r = i \<and> scoped actor db (request_scope r) \<and> q_status r \<in> {Req_Pending, Req_Claimed})"

definition drop_claim :: "'a request_row_scheme \<Rightarrow> 'a request_row_scheme" where
  "drop_claim r = r\<lparr>q_claim_owner := None, q_claim_token := None, q_claim_expires_at := None\<rparr>"

definition continuation_on_cancel :: "timestamp \<Rightarrow> continuation_request \<Rightarrow> continuation_request" where
  "continuation_on_cancel now r = (drop_claim r)\<lparr>q_status := Req_Cancelled, q_status_version := q_status_version r + 1,
     q_cancelled_at := coalesce (q_cancelled_at r) now, q_updated_at := now\<rparr>"

definition continuation_cancel ::
  "timestamp \<Rightarrow> rstr \<Rightarrow> actor_context \<Rightarrow> int \<Rightarrow> continuation_store \<Rightarrow>
   sqlx_error + continuation_store \<times> continuation_request option" where
  "continuation_cancel now trace actor i s =
     (case find (continuation_cancellable actor i (cbase s)) (continuation_requests s) of
        None \<Rightarrow> Inr (s, None)
      | Some r \<Rightarrow>
          move_continuation (continuation_cancellable actor i (cbase s)) (continuation_on_cancel now)
            awaits_continuation (restore_task now) ''task_changed_during_continuation_cancel''
            ''cancelled'' ''cancel'' continuation_link trace actor r s)"

definition continuation_on_dispatch :: "timestamp \<Rightarrow> int \<Rightarrow> continuation_request \<Rightarrow> continuation_request" where
  "continuation_on_dispatch now child r = (drop_claim r)\<lparr>q_status := Req_Dispatched,
     q_status_version := q_status_version r + 1, q_child_run_id := Some child,
     q_dispatched_at := coalesce (q_dispatched_at r) now, q_updated_at := now\<rparr>"

definition continuation_dispatchable :: "timestamp \<Rightarrow> int \<Rightarrow> credential \<Rightarrow> continuation_request \<Rightarrow> bool" where
  "continuation_dispatchable now i c r =
     (q_id r = i \<and> request_cred r = Some c \<and> unexpired q_claim_expires_at now r)"

definition continuation_child_starting :: "continuation_request \<Rightarrow> int \<Rightarrow> db \<Rightarrow> bool" where
  "continuation_child_starting r child db = list_ex (\<lambda>x. r_id x = child \<and> r_organization_id x = q_organization_id r
     \<and> r_task_id x = q_task_id r \<and> r_continuation_request_id x = Some (q_id r) \<and> r_status x = Run_Starting) (runs db)"

definition continuation_mark_dispatched ::
  "timestamp \<Rightarrow> rstr \<Rightarrow> actor_context \<Rightarrow> int \<Rightarrow> credential \<Rightarrow> int \<Rightarrow> continuation_store \<Rightarrow>
   sqlx_error + continuation_store \<times> continuation_request option" where
  "continuation_mark_dispatched now trace actor i c child s =
     (case find (continuation_dispatchable now i c) (continuation_requests s) of
        None \<Rightarrow> Inr (s, None)
      | Some r \<Rightarrow>
          if list_ex (\<lambda>q. q_child_run_id q = Some child \<and> q_id q \<noteq> i) (continuation_requests s)
          then Inl (Database UniqueViolation)
          else if \<not> list_ex (\<lambda>x. r_id x = child \<and> r_organization_id x = q_organization_id r) (runs (cbase s))
          then Inl (Database ForeignKeyViolation)
          else move_continuation (continuation_dispatchable now i c) (continuation_on_dispatch now child)
            (\<lambda>r t. awaits_continuation r t \<and> continuation_child_starting r child (cbase s))
            (\<lambda>r t. t\<lparr>t_status := Task_Running, t_revision := t_revision t + 1, t_updated_at := now\<rparr>)
            ''task_changed_during_continuation_dispatch'' ''dispatched'' ''dispatch'' (\<lambda>_. run_link child) trace actor r s)"

text \<open>The run and its ancestors. The recursive query follows the parents; a run's parent was
  created before it, so the chain ends. A row is used once here, which makes the function total.\<close>

function run_lineage :: "run_row list \<Rightarrow> int \<Rightarrow> run_row list" where
  "run_lineage rs i =
     (case find (\<lambda>r. r_id r = i) rs of
        None \<Rightarrow> []
      | Some r \<Rightarrow>
          r # (case r_parent_run_id r of None \<Rightarrow> [] | Some p \<Rightarrow> run_lineage (filter (\<lambda>x. r_id x \<noteq> i) rs) p))"
  by pat_completeness auto
termination
  by (relation "measure (\<lambda>(rs, i). length rs)")
    (auto simp: length_filter_less dest: find_SomeD)

declare run_lineage.simps [simp del]

definition finished_run :: "run_row \<Rightarrow> bool" where
  "finished_run r = (r_status r \<in> {Run_Completed, Run_Failed, Run_Cancelled})"

text \<open>The dispatched requests of the lineage, that of the run itself first.\<close>

definition matched_requests :: "int \<Rightarrow> continuation_store \<Rightarrow> int list" where
  "matched_requests child s =
     map snd (sort_key id (concat (map (\<lambda>x. map (\<lambda>q. (if r_id x = child then 0 else 1 :: int, q_id q))
        (filter (\<lambda>q. q_status q = Req_Dispatched \<and> r_continuation_request_id x = Some (q_id q)) (continuation_requests s)))
      (filter finished_run (run_lineage (runs (cbase s)) child)))))"

definition continuation_on_complete :: "timestamp \<Rightarrow> rstr \<Rightarrow> continuation_request \<Rightarrow> continuation_request" where
  "continuation_on_complete now code r = r\<lparr>q_status := Req_Completed, q_status_version := q_status_version r + 1,
     q_result_code := Some code, q_completed_at := coalesce (q_completed_at r) now, q_updated_at := now\<rparr>"

definition runs_or_queued :: "continuation_request \<Rightarrow> task_row \<Rightarrow> bool" where
  "runs_or_queued r t = (t_id t = q_task_id r \<and> t_organization_id t = q_organization_id r
     \<and> t_status t \<in> {Task_Running, Task_Queued})"

definition continuation_complete_for_child_run ::
  "timestamp \<Rightarrow> rstr \<Rightarrow> actor_context \<Rightarrow> int \<Rightarrow> rstr \<Rightarrow> task_status \<Rightarrow> continuation_store \<Rightarrow>
   sqlx_error + continuation_store \<times> continuation_request option" where
  "continuation_complete_for_child_run now trace actor child code status s =
     (if status \<notin> {Task_Succeeded, Task_Failed, Task_Cancelled} then Inl (Protocol ''continuation_child_status'')
      else case matched_requests child s of
             [] \<Rightarrow> Inr (s, None)
           | k # _ \<Rightarrow>
               (case find (\<lambda>q. q_id q = k) (continuation_requests s) of
                  None \<Rightarrow> Inr (s, None)
                | Some r \<Rightarrow>
                    if \<not> result_code_check code then Inl (Database CheckViolation)
                    else move_continuation (\<lambda>q. q_id q = k) (continuation_on_complete now code) runs_or_queued
                      (\<lambda>r. end_task now status) ''task_changed_during_continuation_completion''
                      ''completed'' ''complete'' (\<lambda>_. run_link child) trace actor r s))"

definition continuation_on_reject :: "timestamp \<Rightarrow> rstr \<Rightarrow> continuation_request \<Rightarrow> continuation_request" where
  "continuation_on_reject now code r = (drop_claim r)\<lparr>q_status := Req_Rejected,
     q_status_version := q_status_version r + 1, q_result_code := Some code, q_updated_at := now,
     q_rejected_at := coalesce (q_rejected_at r) now\<rparr>"

definition continuation_reject_claim ::
  "timestamp \<Rightarrow> rstr \<Rightarrow> actor_context \<Rightarrow> int \<Rightarrow> credential \<Rightarrow> rstr \<Rightarrow> continuation_store \<Rightarrow>
   sqlx_error + continuation_store \<times> continuation_request option" where
  "continuation_reject_claim now trace actor i c code s =
     (case find (\<lambda>r. q_id r = i \<and> request_cred r = Some c) (continuation_requests s) of
        None \<Rightarrow> Inr (s, None)
      | Some r \<Rightarrow>
          if \<not> result_code_check code then Inl (Database CheckViolation)
          else move_continuation (\<lambda>r. q_id r = i \<and> request_cred r = Some c) (continuation_on_reject now code)
            awaits_continuation (restore_task now) ''task_changed_during_continuation_reject''
            ''rejected'' ''reject'' continuation_link trace actor r s)"

section \<open>The service\<close>

text \<open>Third-party code: \<open>sv_digest\<close> is the hexadecimal SHA-256, \<open>sv_policy\<close> reads the continuation
  policy out of a task's dispatch snapshot (\<^verbatim>\<open>serde_json\<close>), the default when there is none.\<close>

record continuation_services =
  sv_digest :: "rstr \<Rightarrow> rstr"
  sv_policy :: "rstr \<Rightarrow> continuation_policy option"

definition valid_idempotency_key :: "rstr \<Rightarrow> bool" where
  "valid_idempotency_key value =
     (value \<noteq> [] \<and> length value \<le> 128
      \<and> list_all (\<lambda>c. is_ascii_alphanumeric c \<or> c \<in> {CHR ''.'', CHR '':'', CHR ''_'', CHR ''-''}) value)"

definition contains_sensitive_input :: "rstr \<Rightarrow> bool" where
  "contains_sensitive_input value =
     (list_ex (\<lambda>marker. contains_str marker (to_ascii_lowercase value))
        (secret_markers @ [''begin rsa private key'', ''begin openssh private key''])
      \<or> list_ex (\<lambda>line. let trimmed = trim_start line
           in starts_with ''/'' trimmed \<or> starts_with ''~/'' trimmed
             \<or> contains_str [CHR 0x5C, CHR ''.'', CHR 0x5C] trimmed \<or> contains_str [CHR '':'', CHR 0x5C] trimmed)
          (str_lines value))"

fun trigger_code :: "trigger \<Rightarrow> rstr" where
  "trigger_code UserContext = ''user_context''"
| "trigger_code QualityGate = ''quality_gate''"
| "trigger_code ReviewChanges = ''review_changes''"

definition find_run :: "actor_context \<Rightarrow> db \<Rightarrow> int \<Rightarrow> run_row option" where
  "find_run actor db i =
     find (\<lambda>r. r_id r = i \<and> scoped actor db (r_organization_id r, r_owner_user_id r, r_department_id r)) (runs db)"

text \<open>What a service has gathered before it opens its transaction; the sequence and the depth are
  filled in there.\<close>

record prepared =
  pc_policy :: continuation_policy
  pc_input :: new_continuation

text \<open>The outcome of the checks: a request made before, or a new one.\<close>

datatype preparation = Replayed continuation_request | Prepared prepared

definition source_of ::
  "continuation_services \<Rightarrow> actor_context \<Rightarrow> int \<Rightarrow> continuation_store \<Rightarrow>
   api_error + run_row \<times> task_row \<times> continuation_policy" where
  "source_of sv actor run s =
     (case find_run actor (cbase s) run of
        None \<Rightarrow> Inl (NotFound ''run'')
      | Some r \<Rightarrow>
          (case find_task_by_id actor (cbase s) (r_task_id r) of
             None \<Rightarrow> Inl (NotFound ''task'')
           | Some t \<Rightarrow>
               (case sv_policy sv (t_dispatch_snapshot t) of
                  None \<Rightarrow> Inl (Conflict ''continuation_policy_unavailable'')
                | Some p \<Rightarrow> Inr (r, t, p))))"

definition root_of :: "run_row \<Rightarrow> int" where
  "root_of r = (case r_root_run_id r of None \<Rightarrow> r_id r | Some root \<Rightarrow> root)"

definition prepare_user_context ::
  "continuation_services \<Rightarrow> timestamp \<Rightarrow> actor_context \<Rightarrow> int \<Rightarrow> rstr \<Rightarrow> rstr \<Rightarrow> continuation_store \<Rightarrow>
   api_error + preparation" where
  "prepare_user_context sv clock actor run raw_key raw_input s =
     (let key = trim raw_key; input = trim raw_input; input_digest = sv_digest sv input in
      if \<not> valid_idempotency_key key then Inl (Validation ''idempotency_key'')
      else case find_by_idempotency s actor run key of
        Some r \<Rightarrow> if q_input_digest r \<noteq> input_digest then Inl (Conflict ''key_of_another_request'') else Inr (Replayed r)
      | None \<Rightarrow>
          if input = [] then Inl (Validation ''context_empty'')
          else if contains_sensitive_input input then Inl (Validation ''context_sensitive'')
          else and_then (source_of sv actor run s) (\<lambda>(r, t, p).
            if \<not> cp_enabled p then Inl (Conflict ''continuation_disabled'')
            else if UserContext \<notin> cp_allowed_triggers p then Inl (Conflict ''trigger_not_allowed'')
            else if int (length input) > cp_max_context_bytes p then Inl (Validation ''context_too_long'')
            else if r_status r \<notin> {Run_Completed, Run_Failed} then Inl (Conflict ''source_run_not_finished'')
            else if t_status t \<notin> {Task_Succeeded, Task_Failed} then Inl (Conflict ''task_status'')
            else case r_turn_id r of
              None \<Rightarrow> Inl (Conflict ''source_run_without_turn'')
            | Some turn \<Rightarrow>
                if \<not> has_valid_handoff actor run s then Inl (Conflict ''handoff_missing'')
                else
                  let evidence_ref = ''user:'' @ show_int (user_id actor) @ '':'' @ key
                  in Inr (Prepared \<lparr>pc_policy = p, pc_input =
                     \<lparr>nc_actor = actor, nc_project_id = t_project_id t, nc_task_id = t_id t,
                      nc_source_run_id = run, nc_root_run_id = root_of r, nc_source_turn_id = turn,
                      nc_requested_by_user_id = user_id actor, nc_trigger_type = ''user_context'',
                      nc_evidence_ref = evidence_ref,
                      nc_evidence_digest = sv_digest sv (show_int run @ '':'' @ evidence_ref @ '':'' @ input_digest),
                      nc_evidence_observed_at = clock, nc_evidence_expires_at = None, nc_changeset_digest = None,
                      nc_redacted_context = input,
                      nc_context_summary = ''user_context_bytes:'' @ show_nat (length input),
                      nc_input_digest = input_digest, nc_idempotency_key = key, nc_continuation_sequence = 0,
                      nc_chain_depth = 0, nc_prior_task_status = t_status t,
                      nc_expected_task_revision = t_revision t, nc_policy_version = t_workflow_version t\<rparr>\<rparr>)))"

record trusted_evidence =
  te_trigger :: trigger
  te_stable_evidence_ref :: rstr
  te_evidence_observed_at :: timestamp
  te_evidence_expires_at :: timestamp
  te_changeset_digest :: rstr
  te_redacted_context :: rstr
  te_context_summary :: rstr

definition prepare_trusted_evidence ::
  "continuation_services \<Rightarrow> timestamp \<Rightarrow> actor_context \<Rightarrow> int \<Rightarrow> trusted_evidence \<Rightarrow> continuation_store \<Rightarrow>
   api_error + preparation" where
  "prepare_trusted_evidence sv clock actor run e s =
     (if actor_type actor \<noteq> System then Inl (Forbidden ''system_only'')
      else if te_trigger e = UserContext then Inl (Forbidden ''user_context_not_trusted'')
      else if \<not> valid_idempotency_key (te_stable_evidence_ref e) \<or> \<not> valid_digest (te_changeset_digest e)
      then Inl (Validation ''evidence_identity'')
      else if te_evidence_expires_at e \<le> te_evidence_observed_at e \<or> te_evidence_expires_at e \<le> clock
      then Inl (Conflict ''evidence_expired'')
      else
        let context = trim (te_redacted_context e); summary = trim (te_context_summary e)
        in if context = [] \<or> summary = [] \<or> length summary > 256 \<or> contains_sensitive_input context
              \<or> contains_sensitive_input summary
           then Inl (Validation ''evidence_content'')
           else
             let trigger = trigger_code (te_trigger e);
                 key = trigger @ '':'' @ sv_digest sv (te_stable_evidence_ref e);
                 input_digest = sv_digest sv context
             in case find_by_idempotency s actor run key of
                  Some r \<Rightarrow>
                    if q_input_digest r \<noteq> input_digest \<or> q_changeset_digest r \<noteq> Some (te_changeset_digest e)
                    then Inl (Conflict ''evidence_of_another_request'') else Inr (Replayed r)
                | None \<Rightarrow> and_then (source_of sv actor run s) (\<lambda>(r, t, p).
                    if \<not> cp_enabled p \<or> te_trigger e \<notin> cp_allowed_triggers p then Inl (Conflict ''trigger_not_allowed'')
                    else if int (length context) > cp_max_context_bytes p then Inl (Validation ''context_too_long'')
                    else if r_status r \<notin> {Run_Completed, Run_Failed} \<or> t_status t \<notin> {Task_Succeeded, Task_Failed}
                    then Inl (Conflict ''source_status'')
                    else case r_turn_id r of
                      None \<Rightarrow> Inl (Conflict ''source_run_without_turn'')
                    | Some turn \<Rightarrow>
                        (case find_handoff actor run s of
                           None \<Rightarrow> Inl (Conflict ''handoff_missing'')
                         | Some h \<Rightarrow>
                             if rh_evidence_status h \<noteq> ''available'' \<or> rh_validated_at h = None
                                \<or> rh_changeset_digest h \<noteq> te_changeset_digest e
                             then Inl (Conflict ''changeset_mismatch'')
                             else Inr (Prepared \<lparr>pc_policy = p, pc_input =
                               \<lparr>nc_actor = actor, nc_project_id = t_project_id t, nc_task_id = t_id t,
                                nc_source_run_id = run, nc_root_run_id = root_of r, nc_source_turn_id = turn,
                                nc_requested_by_user_id = user_id actor, nc_trigger_type = trigger,
                                nc_evidence_ref = te_stable_evidence_ref e,
                                nc_evidence_digest = sv_digest sv (show_int run @ '':'' @ te_stable_evidence_ref e
                                   @ '':'' @ te_changeset_digest e @ '':'' @ input_digest),
                                nc_evidence_observed_at = te_evidence_observed_at e,
                                nc_evidence_expires_at = Some (te_evidence_expires_at e),
                                nc_changeset_digest = Some (te_changeset_digest e), nc_redacted_context = context,
                                nc_context_summary = summary, nc_input_digest = input_digest,
                                nc_idempotency_key = key, nc_continuation_sequence = 0, nc_chain_depth = 0,
                                nc_prior_task_status = t_status t, nc_expected_task_revision = t_revision t,
                                nc_policy_version = t_workflow_version t\<rparr>\<rparr>))))"

text \<open>\<^verbatim>\<open>(COALESCE(MAX(..), 0) + 1)::smallint\<close>.\<close>

definition next_smallint :: "int list \<Rightarrow> sqlx_error + int" where
  "next_smallint xs = (let n = foldr max xs 0 + 1 in if n > 32767 then Inl (Database OtherViolation) else Inr n)"

definition next_sequence_in_connection :: "actor_context \<Rightarrow> int \<Rightarrow> continuation_store \<Rightarrow> sqlx_error + int" where
  "next_sequence_in_connection actor task s =
     (if \<not> list_ex (\<lambda>t. t_id t = task \<and> t_organization_id t = organization_id actor) (tasks (cbase s))
      then Inl RowNotFound
      else next_smallint (map q_continuation_sequence (filter (\<lambda>r. q_organization_id r = organization_id actor
             \<and> q_task_id r = task) (continuation_requests s))))"

definition next_chain_depth_in_connection :: "actor_context \<Rightarrow> int \<Rightarrow> continuation_store \<Rightarrow> sqlx_error + int" where
  "next_chain_depth_in_connection actor root s =
     next_smallint (map q_chain_depth (filter (\<lambda>r. q_organization_id r = organization_id actor
        \<and> q_root_run_id r = root) (continuation_requests s)))"

fun create_error :: "sqlx_error \<Rightarrow> api_error" where
  "create_error RowNotFound = NotFound ''run''"
| "create_error (Protocol message) = Conflict message"
| "create_error e = db_error e"

text \<open>The transaction both services end with. \<^verbatim>\<open>policy.max_continuations as i16\<close> reads the 16 bits as a
  signed number.\<close>

definition commit_continuation ::
  "timestamp \<Rightarrow> rstr \<Rightarrow> prepared \<Rightarrow> continuation_store \<Rightarrow> api_error + continuation_store \<times> continuation_request" where
  "commit_continuation now trace p s =
     (let i = pc_input p in
      and_then (map_err db_error (next_sequence_in_connection (nc_actor i) (nc_task_id i) s)) (\<lambda>sequence.
        if sequence > sint (cp_max_continuations (pc_policy p)) then Inl (Conflict ''continuation_count_limit'') else
      and_then (map_err db_error (next_chain_depth_in_connection (nc_actor i) (nc_root_run_id i) s)) (\<lambda>depth.
        if depth > sint (cp_max_chain_depth (pc_policy p)) then Inl (Conflict ''continuation_chain_limit'') else
      and_then (map_err create_error (continuation_create now trace
          (i\<lparr>nc_continuation_sequence := sequence, nc_chain_depth := depth\<rparr>) s)) (\<lambda>(s', row, _). Inr (s', row)))))"

definition create_user_context ::
  "continuation_services \<Rightarrow> timestamp \<Rightarrow> timestamp \<Rightarrow> rstr \<Rightarrow> actor_context \<Rightarrow> int \<Rightarrow> rstr \<Rightarrow> rstr \<Rightarrow>
   continuation_store \<Rightarrow> api_error + continuation_store \<times> continuation_request" where
  "create_user_context sv clock now trace actor run key input s =
     and_then (prepare_user_context sv clock actor run key input s) (\<lambda>p.
       case p of Replayed r \<Rightarrow> Inr (s, r) | Prepared q \<Rightarrow> commit_continuation now trace q s)"

definition continuation_cancel_service ::
  "timestamp \<Rightarrow> rstr \<Rightarrow> actor_context \<Rightarrow> int \<Rightarrow> continuation_store \<Rightarrow>
   api_error + continuation_store \<times> continuation_request" where
  "continuation_cancel_service now trace actor i s =
     (case find_continuation s actor i of
        None \<Rightarrow> Inl (NotFound ''continuation'')
      | Some r \<Rightarrow>
          if q_status r = Req_Dispatched \<or> q_child_run_id r \<noteq> None then Inl (Conflict ''continuation_dispatched'')
          else (case continuation_cancel now trace actor i s of
                  Inl e \<Rightarrow> Inl (db_error e)
                | Inr (_, None) \<Rightarrow> Inl (Conflict ''continuation_not_cancellable'')
                | Inr (s', Some row) \<Rightarrow> Inr (s', row)))"

text \<open>The hand-off evidence of a finished run, with the repository's identity as one text. What the
  workspace holds is gathered outside and arrives as \<open>evidence\<close>.\<close>

record handoff_source_row =
  hs_organization_id :: int
  hs_owner_user_id :: int
  hs_repository_id :: int
  hs_repository_name :: rstr
  hs_repository_remote_url :: rstr

definition repository_identity :: "handoff_source_row \<Rightarrow> rstr" where
  "repository_identity h = ''repository:'' @ show_int (hs_repository_id h) @ '':'' @ hs_repository_name h @ '':''
     @ hs_repository_remote_url h"

definition persist_handoff ::
  "continuation_services \<Rightarrow> actor_context \<Rightarrow> int \<Rightarrow> handoff_source_row option \<Rightarrow> api_error + run_handoff_row \<Rightarrow>
   timestamp \<Rightarrow> continuation_store \<Rightarrow> api_error + continuation_store \<times> bool" where
  "persist_handoff sv actor run source evidence clock s =
     (case source of
        None \<Rightarrow> Inr (s, False)
      | Some h \<Rightarrow>
          if hs_organization_id h \<noteq> organization_id actor \<or> hs_owner_user_id h \<noteq> user_id actor then Inr (s, False)
          else and_then evidence (\<lambda>e.
            let row = e\<lparr>rh_source_run_id := run, rh_repository_id := hs_repository_id h,
                        rh_repository_identity := repository_identity h,
                        rh_repository_identity_digest := sv_digest sv (repository_identity h),
                        rh_evidence_status := ''available'', rh_error_code := None, rh_validated_at := Some clock\<rparr>
            in and_then (map_err db_error (create_handoff actor row s)) (\<lambda>(s', _, created).
                 Inr (s', created \<or> has_valid_handoff actor run s'))))"

end
