(* ===== verification/Continuation_Flow.thy ===== *)
theory Continuation_Flow
  imports Continuations
begin

text \<open>
  The invariant of the continuation tables and the step relation of everything that writes them:
  a request that is not yet dispatched holds its task in \<^verbatim>\<open>continuation_pending\<close>, alone, and the
  requests of a task are numbered from one to at most three.
\<close>

section \<open>The invariant\<close>

definition open_continuation :: "continuation_request \<Rightarrow> bool" where
  "open_continuation r = (q_status r \<in> {Req_Pending, Req_Claimed})"

definition of_task :: "int \<Rightarrow> int \<Rightarrow> continuation_request list \<Rightarrow> continuation_request list" where
  "of_task org task rows = filter (\<lambda>r. q_organization_id r = org \<and> q_task_id r = task) rows"

definition numbered :: "continuation_request list \<Rightarrow> bool" where
  "numbered rows = (\<forall>org task. let xs = of_task org task rows
     in map q_continuation_sequence xs = [1..int (length xs)] \<and> length xs \<le> 3)"

definition row_ok :: "continuation_request \<Rightarrow> bool" where
  "row_ok r = (q_prior_task_status r \<in> {Task_Succeeded, Task_Failed}
     \<and> (q_child_run_id r \<noteq> None \<longleftrightarrow> q_status r \<in> {Req_Dispatched, Req_Completed}))"

definition cont_inv :: "continuation_store \<Rightarrow> bool" where
  "cont_inv s =
     (keys_ok (cbase s) \<and> distinct (map q_id (continuation_requests s))
      \<and> (\<forall>r \<in> set (continuation_requests s). open_continuation r \<longrightarrow> (\<exists>t \<in> set (tasks (cbase s)). awaits_continuation r t))
      \<and> (\<forall>q \<in> set (continuation_requests s). \<forall>r \<in> set (continuation_requests s).
           open_continuation q \<and> open_continuation r \<and> q_task_id q = q_task_id r \<longrightarrow> q = r)
      \<and> numbered (continuation_requests s) \<and> (\<forall>r \<in> set (continuation_requests s). row_ok r))"

lemma cont_invD:
  assumes "cont_inv s"
  shows "distinct (map t_id (tasks (cbase s)))" and "distinct (map q_id (continuation_requests s))"
    and "r \<in> set (continuation_requests s) \<Longrightarrow> open_continuation r \<Longrightarrow> \<exists>t \<in> set (tasks (cbase s)). awaits_continuation r t"
    and "q \<in> set (continuation_requests s) \<Longrightarrow> r \<in> set (continuation_requests s) \<Longrightarrow> open_continuation q \<Longrightarrow>
      open_continuation r \<Longrightarrow> q_task_id q = q_task_id r \<Longrightarrow> q = r"
    and "numbered (continuation_requests s)" and "r \<in> set (continuation_requests s) \<Longrightarrow> row_ok r"
  using assms by (auto simp: cont_inv_def keys_ok_def)

lemma numbered_cong:
  assumes "map (\<lambda>q. (q_organization_id q, q_task_id q, q_continuation_sequence q)) rs' =
     map (\<lambda>q. (q_organization_id q, q_task_id q, q_continuation_sequence q)) rs"
  shows "numbered rs' = numbered rs"
proof -
  let ?k = "\<lambda>q. (q_organization_id q, q_task_id q, q_continuation_sequence q)"
  have eq: "map q_continuation_sequence (of_task org task xs) =
      map (snd \<circ> snd) (filter (\<lambda>(o', t', _). o' = org \<and> t' = task) (map ?k xs))" for xs org task
    by (simp add: of_task_def filter_map comp_def)
  have len: "length (of_task org task xs) = length (map q_continuation_sequence (of_task org task xs))" for xs org task
    by simp
  show ?thesis unfolding numbered_def Let_def len eq assms ..
qed

section \<open>Rows that end\<close>

text \<open>\<open>settles s s' r r'\<close>: the row \<open>r\<close> becomes \<open>r'\<close>, which is no longer open; the only task that may
  change is that of \<open>r\<close>, and it was waiting only if \<open>r\<close> was open.\<close>

definition settles :: "continuation_store \<Rightarrow> continuation_store \<Rightarrow> continuation_request \<Rightarrow> continuation_request \<Rightarrow> bool" where
  "settles s s' r r' =
     (r \<in> set (continuation_requests s) \<and> \<not> open_continuation r' \<and> row_ok r'
      \<and> q_id r' = q_id r \<and> q_organization_id r' = q_organization_id r \<and> q_task_id r' = q_task_id r
      \<and> q_continuation_sequence r' = q_continuation_sequence r
      \<and> continuation_requests s' = update_where (\<lambda>q. q_id q = q_id r) (\<lambda>_. r') (continuation_requests s)
      \<and> runs (cbase s') = runs (cbase s)
      \<and> (\<exists>Q g. tasks (cbase s') = update_where Q g (tasks (cbase s)) \<and> (\<forall>t. t_id (g t) = t_id t)
           \<and> (\<forall>t. Q t \<longrightarrow> t_id t = q_task_id r \<and> (t_status t = Task_ContinuationPending \<longrightarrow> open_continuation r))))"

lemma settled_rows:
  assumes "settles s s' r r'" and "q \<in> set (continuation_requests s')"
  shows "q = r' \<or> (q \<in> set (continuation_requests s) \<and> q_id q \<noteq> q_id r)"
  using assms by (auto simp: settles_def set_update_where)

lemma settles_inv:
  assumes "cont_inv s" and "settles s s' r r'"
  shows "cont_inv s'"
proof -
  note inv = cont_invD [OF assms(1)]
  obtain Q g where Q: "tasks (cbase s') = update_where Q g (tasks (cbase s))" "\<And>t. t_id (g t) = t_id t"
      "\<And>t. Q t \<Longrightarrow> t_id t = q_task_id r" "\<And>t. Q t \<Longrightarrow> t_status t = Task_ContinuationPending \<Longrightarrow> open_continuation r"
    using assms(2) by (auto simp: settles_def)
  have r: "r \<in> set (continuation_requests s)" "\<not> open_continuation r'" "row_ok r'" "q_id r' = q_id r"
      "q_organization_id r' = q_organization_id r" "q_task_id r' = q_task_id r"
      "q_continuation_sequence r' = q_continuation_sequence r"
      "continuation_requests s' = update_where (\<lambda>q. q_id q = q_id r) (\<lambda>_. r') (continuation_requests s)"
    using assms(2) by (auto simp: settles_def)
  have same: "q = r" if "q \<in> set (continuation_requests s)" "q_id q = q_id r" for q
    using that r(1) inv(2) by (auto simp: distinct_map dest: inj_onD)
  have "map t_id (tasks (cbase s')) = map t_id (tasks (cbase s))" using Q(1,2) by (simp add: update_where_keeps)
  then have keys: "keys_ok (cbase s')" using assms by (simp add: keys_ok_def cont_inv_def settles_def)
  let ?k = "\<lambda>q. (q_organization_id q, q_task_id q, q_continuation_sequence q)"
  have "map q_id (continuation_requests s') = map q_id (continuation_requests s)"
    unfolding r(8) by (auto simp: update_where_def r(4))
  then have ids: "distinct (map q_id (continuation_requests s'))" using inv(2) by simp
  have "map ?k (continuation_requests s') = map ?k (continuation_requests s)"
    unfolding r(8) by (auto simp: update_where_def r(5-7) dest: same)
  from numbered_cong [OF this] have num: "numbered (continuation_requests s')" using inv(5) by simp
  have waits: "\<exists>t \<in> set (tasks (cbase s')). awaits_continuation q t"
    if q: "q \<in> set (continuation_requests s')" "open_continuation q" for q
  proof -
    have old: "q \<in> set (continuation_requests s)" "q \<noteq> r" using settled_rows [OF assms(2) q(1)] q(2) r(2) by auto
    obtain t where t: "t \<in> set (tasks (cbase s))" "awaits_continuation q t" using inv(3) [OF old(1) q(2)] by blast
    have "\<not> Q t"
    proof
      assume "Q t"
      then have "open_continuation r" "q_task_id q = q_task_id r" using Q(3,4) t(2) by (auto simp: awaits_continuation_def)
      then show False using inv(4) [OF old(1) r(1) q(2)] old(2) by blast
    qed
    with t show ?thesis by (auto simp: Q(1) set_update_where)
  qed
  have single: "p = q" if "p \<in> set (continuation_requests s')" "q \<in> set (continuation_requests s')"
      "open_continuation p" "open_continuation q" "q_task_id p = q_task_id q" for p q
    using settled_rows [OF assms(2) that(1)] settled_rows [OF assms(2) that(2)] r(2) inv(4) that(3-5) by blast
  have ok: "row_ok q" if "q \<in> set (continuation_requests s')" for q
    using settled_rows [OF assms(2) that] r(3) inv(6) by blast
  show ?thesis
    unfolding cont_inv_def using keys ids waits single num ok by blast
qed

section \<open>Every transition settles a row\<close>

lemma report_continuation_frame:
  assumes "report_continuation trace actor r what action link db = Inr db'"
  shows "tasks db' = tasks db \<and> runs db' = runs db \<and> departments db' = departments db"
  using assms by (auto simp: report_continuation_def and_then_Inr_iff outbox_def record_audit_def append_task_event_def)

lemma notify_created_frame:
  "notify_created r db = Inr db' \<Longrightarrow> tasks db' = tasks db \<and> runs db' = runs db \<and> departments db' = departments db"
  by (auto simp: notify_created_def Let_def split: if_splits)

lemma move_continuation_Inr:
  assumes "move_continuation P f Q g err what action link trace actor r s = Inr (s', res)"
  shows "res = Some (f r)" and "continuation_requests s' = update_where P f (continuation_requests s)"
    and "tasks (cbase s') = update_where (Q (f r)) (g (f r)) (tasks (cbase s))"
    and "runs (cbase s') = runs (cbase s)" and "departments (cbase s') = departments (cbase s)"
    and "handoffs s' = handoffs s" and "\<exists>t \<in> set (tasks (cbase s)). Q (f r) t"
proof -
  have one: "length (rows_where (Q (f r)) (tasks (cbase s))) = 1"
    using assms by (auto simp: move_continuation_def Let_def split: if_splits)
  obtain db where rep: "report_continuation trace actor (f r) what action (link (f r))
        (update_tasks (Q (f r)) (g (f r)) (cbase s)) = Inr db"
    and s': "s' = s\<lparr>cbase := db, continuation_requests := update_where P f (continuation_requests s)\<rparr>"
    and res: "res = Some (f r)"
    using assms by (auto simp: move_continuation_def Let_def and_then_Inr_iff split: if_splits)
  note frame = report_continuation_frame [OF rep]
  show "res = Some (f r)" by (rule res)
  show "continuation_requests s' = update_where P f (continuation_requests s)"
    and "tasks (cbase s') = update_where (Q (f r)) (g (f r)) (tasks (cbase s))"
    and "runs (cbase s') = runs (cbase s)" and "departments (cbase s') = departments (cbase s)"
    and "handoffs s' = handoffs s"
    using frame by (simp_all add: s' update_tasks_def Let_def)
  have "rows_where (Q (f r)) (tasks (cbase s)) \<noteq> []" using one by auto
  then show "\<exists>t \<in> set (tasks (cbase s)). Q (f r) t" by (auto simp: rows_where_def filter_empty_conv)
qed

lemma move_continuation_settles:
  assumes "move_continuation P f Q g err what action link trace actor r s = Inr (s', res)"
    and "cont_inv s" and "find P (continuation_requests s) = Some r" and "\<And>q. P q \<Longrightarrow> q_id q = q_id r"
    and "\<not> open_continuation (f r)" and "row_ok (f r)"
    and "q_id (f r) = q_id r" "q_organization_id (f r) = q_organization_id r" "q_task_id (f r) = q_task_id r"
      "q_continuation_sequence (f r) = q_continuation_sequence r"
    and "\<And>t. t_id (g (f r) t) = t_id t"
    and "\<And>t. Q (f r) t \<Longrightarrow> t_id t = q_task_id r"
    and "\<And>t. Q (f r) t \<Longrightarrow> t_status t = Task_ContinuationPending \<Longrightarrow> open_continuation r"
  shows "settles s s' r (f r)"
proof -
  note out = move_continuation_Inr [OF assms(1)]
  have r: "r \<in> set (continuation_requests s)" "P r" using find_SomeD [OF assms(3)] by simp_all
  have "update_where P f (continuation_requests s) =
      update_where (\<lambda>q. q_id q = q_id r) (\<lambda>_. f r) (continuation_requests s)"
  proof (rule update_where_single)
    show "distinct (map q_id (continuation_requests s))" by (rule cont_invD(2) [OF assms(2)])
  qed (fact r | rule assms(4), assumption)+
  then show ?thesis
    unfolding settles_def out(2-4) using r(1) assms(5-13) by (intro conjI exI [of _ "Q (f r)"] exI [of _ "g (f r)"]) auto
qed

lemma cancel_settles:
  assumes "continuation_cancel now trace actor i s = Inr (s', res)" and "cont_inv s"
  shows "s' = s \<and> res = None \<or> (\<exists>r. settles s s' r (continuation_on_cancel now r) \<and> open_continuation r \<and> q_id r = i
      \<and> res = Some (continuation_on_cancel now r) \<and> scoped actor (cbase s) (request_scope r)
      \<and> tasks (cbase s') = update_where (awaits_continuation r) (restore_task now r) (tasks (cbase s)))"
proof (cases "find (continuation_cancellable actor i (cbase s)) (continuation_requests s)")
  case None
  with assms(1) show ?thesis by (simp add: continuation_cancel_def)
next
  case (Some r)
  have r: "r \<in> set (continuation_requests s)" "continuation_cancellable actor i (cbase s) r"
    using find_SomeD [OF Some] by simp_all
  have ok: "row_ok r" by (rule cont_invD(6) [OF assms(2) r(1)])
  have mv: "move_continuation (continuation_cancellable actor i (cbase s)) (continuation_on_cancel now)
      awaits_continuation (restore_task now) ''task_changed_during_continuation_cancel''
      ''cancelled'' ''cancel'' continuation_link trace actor r s = Inr (s', res)"
    using assms(1) Some by (simp add: continuation_cancel_def)
  have keep: "awaits_continuation (continuation_on_cancel now r) = awaits_continuation r"
      "restore_task now (continuation_on_cancel now r) = restore_task now r"
    by (simp_all add: fun_eq_iff awaits_continuation_def restore_task_def continuation_on_cancel_def drop_claim_def)
  have "settles s s' r (continuation_on_cancel now r)"
    by (rule move_continuation_settles [OF mv assms(2) Some])
      (use r(2) ok in \<open>auto simp: continuation_cancellable_def continuation_on_cancel_def drop_claim_def
         open_continuation_def row_ok_def awaits_continuation_def restore_task_def\<close>)
  then show ?thesis
    using move_continuation_Inr(1,3) [OF mv] r(2) unfolding keep
    by (auto simp: continuation_cancellable_def open_continuation_def)
qed

lemma reject_settles:
  assumes "continuation_reject_claim now trace actor i c code s = Inr (s', res)" and "cont_inv s"
  shows "s' = s \<and> res = None \<or> (\<exists>r. settles s s' r (continuation_on_reject now code r) \<and> open_continuation r \<and> q_id r = i
      \<and> res = Some (continuation_on_reject now code r) \<and> request_cred r = Some c
      \<and> tasks (cbase s') = update_where (awaits_continuation r) (restore_task now r) (tasks (cbase s)))"
proof (cases "find (\<lambda>r. q_id r = i \<and> request_cred r = Some c) (continuation_requests s)")
  case None
  with assms(1) show ?thesis by (simp add: continuation_reject_claim_def)
next
  case (Some r)
  have r: "r \<in> set (continuation_requests s)" "q_id r = i" "request_cred r = Some c" using find_SomeD [OF Some] by simp_all
  have claimed: "q_status r = Req_Claimed" using r(3) by (auto simp: request_cred_def split: if_splits)
  have ok: "row_ok r" by (rule cont_invD(6) [OF assms(2) r(1)])
  have mv: "move_continuation (\<lambda>r. q_id r = i \<and> request_cred r = Some c) (continuation_on_reject now code)
      awaits_continuation (restore_task now) ''task_changed_during_continuation_reject''
      ''rejected'' ''reject'' continuation_link trace actor r s = Inr (s', res)"
    using assms(1) Some by (simp add: continuation_reject_claim_def split: if_splits)
  have keep: "awaits_continuation (continuation_on_reject now code r) = awaits_continuation r"
      "restore_task now (continuation_on_reject now code r) = restore_task now r"
    by (simp_all add: fun_eq_iff awaits_continuation_def restore_task_def continuation_on_reject_def drop_claim_def)
  have "settles s s' r (continuation_on_reject now code r)"
    by (rule move_continuation_settles [OF mv assms(2) Some])
      (use r ok claimed in \<open>auto simp: continuation_on_reject_def drop_claim_def
         open_continuation_def row_ok_def awaits_continuation_def restore_task_def\<close>)
  then show ?thesis
    using move_continuation_Inr(1,3) [OF mv] r claimed unfolding keep by (auto simp: open_continuation_def)
qed

lemma dispatch_settles:
  assumes "continuation_mark_dispatched now trace actor i c child s = Inr (s', res)" and "cont_inv s"
  shows "s' = s \<or> (\<exists>r. settles s s' r (continuation_on_dispatch now child r))"
proof (cases "find (continuation_dispatchable now i c) (continuation_requests s)")
  case None
  with assms(1) show ?thesis by (simp add: continuation_mark_dispatched_def)
next
  case (Some r)
  have r: "r \<in> set (continuation_requests s)" "continuation_dispatchable now i c r" using find_SomeD [OF Some] by simp_all
  have claimed: "q_status r = Req_Claimed"
    using r(2) by (auto simp: continuation_dispatchable_def request_cred_def split: if_splits)
  have ok: "row_ok r" by (rule cont_invD(6) [OF assms(2) r(1)])
  have mv: "move_continuation (continuation_dispatchable now i c) (continuation_on_dispatch now child)
      (\<lambda>r t. awaits_continuation r t \<and> continuation_child_starting r child (cbase s))
      (\<lambda>r t. t\<lparr>t_status := Task_Running, t_revision := t_revision t + 1, t_updated_at := now\<rparr>)
      ''task_changed_during_continuation_dispatch'' ''dispatched'' ''dispatch'' (\<lambda>_. run_link child) trace actor r s
     = Inr (s', res)"
    using assms(1) Some by (simp add: continuation_mark_dispatched_def split: if_splits)
  have "settles s s' r (continuation_on_dispatch now child r)"
    by (rule move_continuation_settles [OF mv assms(2) Some])
      (use r(2) ok claimed in \<open>auto simp: continuation_dispatchable_def continuation_on_dispatch_def drop_claim_def
         open_continuation_def row_ok_def awaits_continuation_def\<close>)
  then show ?thesis by blast
qed

lemma matched_request_dispatched:
  assumes "matched_requests child s = k # ks"
  shows "\<exists>q \<in> set (continuation_requests s). q_id q = k \<and> q_status q = Req_Dispatched"
proof -
  have "k \<in> set (matched_requests child s)" using assms by simp
  then show ?thesis by (auto simp: matched_requests_def)
qed

lemma complete_settles:
  assumes "continuation_complete_for_child_run now trace actor child code status s = Inr (s', res)" and "cont_inv s"
  shows "s' = s \<or> (\<exists>r. settles s s' r (continuation_on_complete now code r) \<and> q_status r = Req_Dispatched
      \<and> tasks (cbase s') = update_where (runs_or_queued r) (end_task now status) (tasks (cbase s)))"
proof (cases "matched_requests child s")
  case Nil
  with assms(1) show ?thesis by (simp add: continuation_complete_for_child_run_def split: if_splits)
next
  case (Cons k ks)
  obtain q where q: "q \<in> set (continuation_requests s)" "q_id q = k" "q_status q = Req_Dispatched"
    using matched_request_dispatched [OF Cons] by blast
  obtain r where f: "find (\<lambda>q. q_id q = k) (continuation_requests s) = Some r"
    using q(1,2) by (cases "find (\<lambda>q. q_id q = k) (continuation_requests s)") (auto simp: find_None_iff)
  have rk: "r \<in> set (continuation_requests s)" "q_id r = k" using find_SomeD [OF f] by simp_all
  have "r = q" using rk q(1,2) cont_invD(2) [OF assms(2)] by (auto simp: distinct_map dest: inj_onD)
  with q have dispatched: "q_status r = Req_Dispatched" by simp
  have ok: "row_ok r" by (rule cont_invD(6) [OF assms(2) rk(1)])
  have mv: "move_continuation (\<lambda>q. q_id q = k) (continuation_on_complete now code) runs_or_queued
      (\<lambda>r. end_task now status) ''task_changed_during_continuation_completion''
      ''completed'' ''complete'' (\<lambda>_. run_link child) trace actor r s = Inr (s', res)"
    using assms(1) Cons f by (simp add: continuation_complete_for_child_run_def split: if_splits)
  have keep: "runs_or_queued (continuation_on_complete now code r) = runs_or_queued r"
    by (simp add: fun_eq_iff runs_or_queued_def continuation_on_complete_def)
  have "settles s s' r (continuation_on_complete now code r)"
    by (rule move_continuation_settles [OF mv assms(2) f])
      (use rk ok dispatched in \<open>auto simp: continuation_on_complete_def open_continuation_def row_ok_def
         runs_or_queued_def end_task_def\<close>)
  then show ?thesis using move_continuation_Inr(3) [OF mv] dispatched unfolding keep by blast
qed

section \<open>Claims\<close>

lemma sequence_of_more:
  fixes r r' :: continuation_request
  assumes "request_row.more r = request_row.more r'"
  shows "q_continuation_sequence r = q_continuation_sequence r' \<and> q_prior_task_status r = q_prior_task_status r'"
  using assms by (cases r, cases r') simp

lemma requeue_inv:
  assumes "cont_inv s" and "requeues (continuation_requests s) rows'"
  shows "cont_inv (s\<lparr>continuation_requests := rows'\<rparr>)"
proof -
  note inv = cont_invD [OF assms(1)]
  obtain P f where rows': "rows' = update_where P f (continuation_requests s)"
    and P: "\<And>r. r \<in> set (continuation_requests s) \<Longrightarrow> P r \<Longrightarrow>
       q_status r \<in> {Req_Pending, Req_Claimed} \<and> q_status (f r) \<in> {Req_Pending, Req_Claimed}"
    and f: "\<And>r. q_id (f r) = q_id r" "\<And>r. q_organization_id (f r) = q_organization_id r"
      "\<And>r. q_task_id (f r) = q_task_id r" "\<And>r. q_child_run_id (f r) = q_child_run_id r"
      "\<And>r. request_row.more (f r) = request_row.more r"
    using assms(2) unfolding requeues_def by blast
  have more: "q_continuation_sequence (f r) = q_continuation_sequence r" "q_prior_task_status (f r) = q_prior_task_status r" for r
    using sequence_of_more [OF f(5) [of r]] by simp_all
  have row: "\<exists>r \<in> set (continuation_requests s). r' = (if P r then f r else r) \<and> q_task_id r' = q_task_id r
      \<and> q_organization_id r' = q_organization_id r \<and> (open_continuation r' \<longleftrightarrow> open_continuation r) \<and> q_id r' = q_id r
      \<and> row_ok r'"
    if "r' \<in> set rows'" for r'
  proof -
    have "r' \<in> (\<lambda>r. if P r then f r else r) ` set (continuation_requests s)"
      using that by (simp add: rows' update_where_def)
    then obtain r where r: "r \<in> set (continuation_requests s)" "r' = (if P r then f r else r)" by (rule imageE)
    moreover have "open_continuation r' \<longleftrightarrow> open_continuation r"
      using r P [OF r(1)] by (auto simp: open_continuation_def)
    moreover have "row_ok r'"
      using r P [OF r(1)] inv(6) [OF r(1)] by (auto simp: row_ok_def f more)
    ultimately show ?thesis by (auto simp: f)
  qed
  have ids: "map q_id rows' = map q_id (continuation_requests s)" by (simp add: rows' update_where_keeps f)
  have "map (\<lambda>q. (q_organization_id q, q_task_id q, q_continuation_sequence q)) rows' =
      map (\<lambda>q. (q_organization_id q, q_task_id q, q_continuation_sequence q)) (continuation_requests s)"
    by (simp add: rows' update_where_keeps f more)
  from numbered_cong [OF this] have num: "numbered rows'" using inv(5) by simp
  have waits: "\<exists>t \<in> set (tasks (cbase s)). awaits_continuation r' t" if "r' \<in> set rows'" "open_continuation r'" for r'
    using row [OF that(1)] inv(3) that(2) by (auto simp: awaits_continuation_def)
  have single: "p = q" if "p \<in> set rows'" "q \<in> set rows'" "open_continuation p" "open_continuation q"
      "q_task_id p = q_task_id q" for p q
    using row [OF that(1)] row [OF that(2)] that(3-5) inv(4) by metis
  have ok: "row_ok q" if "q \<in> set rows'" for q using row [OF that] by blast
  show ?thesis
    unfolding cont_inv_def using assms(1) ids waits single num ok by (simp add: cont_inv_def)
qed

section \<open>Creation\<close>

definition ready_for :: "new_continuation \<Rightarrow> db \<Rightarrow> task_row \<Rightarrow> bool" where
  "ready_for i db x = (t_id x = nc_task_id i \<and> t_organization_id x = organization_id (nc_actor i)
     \<and> t_revision x = nc_expected_task_revision i \<and> t_status x = nc_prior_task_status i
     \<and> \<not> busy_task (nc_task_id i) db)"

lemma insert_continuation_Inr:
  assumes "insert_continuation now trace i t s = Inr (s', row, b)" and "distinct (map q_id (continuation_requests s))"
  shows "row = new_continuation_row now i t (next_serial q_id (continuation_requests s))" and "b"
    and "continuation_requests s' = continuation_requests s @ [row]"
    and "tasks (cbase s') = update_where (ready_for i (cbase s)) (to_pending now) (tasks (cbase s))"
    and "runs (cbase s') = runs (cbase s)" and "departments (cbase s') = departments (cbase s)"
    and "handoffs s' = handoffs s" and "\<exists>x \<in> set (tasks (cbase s)). ready_for i (cbase s) x"
    and "continuation_check row" and "unique_continuation row (continuation_requests s)"
    and "scoped (nc_actor i) (cbase s') (request_scope row)"
proof -
  define r where "r = new_continuation_row now i t (next_serial q_id (continuation_requests s))"
  have rid: "q_id r = next_serial q_id (continuation_requests s)" by (simp add: r_def new_continuation_row_def)
  have ready: "(\<lambda>x. t_id x = nc_task_id i \<and> t_organization_id x = organization_id (nc_actor i)
      \<and> t_revision x = nc_expected_task_revision i \<and> t_status x = nc_prior_task_status i
      \<and> \<not> busy_task (nc_task_id i) (cbase s)) = ready_for i (cbase s)"
    by (simp add: fun_eq_iff ready_for_def)
  obtain db db' where one: "length (rows_where (ready_for i (cbase s)) (tasks (cbase s))) = 1"
    and rep: "report_continuation trace (nc_actor i) r ''created'' ''create'' (continuation_link r)
          (update_tasks (ready_for i (cbase s)) (to_pending now) (cbase s)) = Inr db"
    and notified: "notify_created r db = Inr db'"
    and s': "s' = s\<lparr>cbase := db', continuation_requests := continuation_requests s @ [r]\<rparr>"
    and found: "find_continuation_of_task s' (nc_actor i) (q_id r) (nc_task_id i) = Some row" and b: b
    and chk: "continuation_check r" "unique_continuation r (continuation_requests s)"
    using assms(1) unfolding insert_continuation_def Let_def r_def [symmetric] ready
    by (auto simp: and_then_Inr_iff split: if_splits option.splits)
  note frame = report_continuation_frame [OF rep] notify_created_frame [OF notified]
  have "row = r"
  proof -
    have row: "row \<in> set (continuation_requests s @ [r])" "q_id row = q_id r"
      using find_SomeD [OF found [unfolded find_continuation_of_task_def]] by (simp_all add: s')
    then show ?thesis using next_serial_greater [of row "continuation_requests s" q_id] rid by auto
  qed
  then show "row = new_continuation_row now i t (next_serial q_id (continuation_requests s))"
      "continuation_requests s' = continuation_requests s @ [row]"
      "continuation_check row" "unique_continuation row (continuation_requests s)" b
    using chk s' b by (simp_all add: r_def)
  show "tasks (cbase s') = update_where (ready_for i (cbase s)) (to_pending now) (tasks (cbase s))"
      "runs (cbase s') = runs (cbase s)" "departments (cbase s') = departments (cbase s)" "handoffs s' = handoffs s"
    using frame by (simp_all add: s' update_tasks_def Let_def)
  have "rows_where (ready_for i (cbase s)) (tasks (cbase s)) \<noteq> []" using one by auto
  then show "\<exists>x \<in> set (tasks (cbase s)). ready_for i (cbase s) x" by (auto simp: rows_where_def filter_empty_conv)
  show "scoped (nc_actor i) (cbase s') (request_scope row)"
    using find_SomeD [OF found [unfolded find_continuation_of_task_def]] by simp
qed

lemma foldr_max_upto: "foldr max [1..int n] 0 = int n"
proof -
  have "foldr max xs 0 = Max (insert 0 (set xs))" for xs :: "int list"
    by (induction xs) (simp_all add: insert_commute)
  moreover have "Max (insert 0 {1..int n}) = int n" by (intro Max_eqI) auto
  ultimately show ?thesis by simp
qed

lemma next_sequence_numbered:
  assumes "numbered (continuation_requests s)" and "next_sequence_in_connection actor task s = Inr n"
  shows "n = int (length (of_task (organization_id actor) task (continuation_requests s))) + 1"
proof -
  have "map q_continuation_sequence (of_task (organization_id actor) task (continuation_requests s)) =
      [1..int (length (of_task (organization_id actor) task (continuation_requests s)))]"
    using assms(1) by (simp add: numbered_def Let_def)
  then have "foldr max (map q_continuation_sequence (of_task (organization_id actor) task (continuation_requests s))) 0
      = int (length (of_task (organization_id actor) task (continuation_requests s)))"
    by (simp only: foldr_max_upto)
  then show ?thesis
    using assms(2) unfolding next_sequence_in_connection_def of_task_def
    by (auto simp: next_smallint_def Let_def split: if_splits)
qed

lemma numbered_append:
  assumes "numbered rows"
    and "q_continuation_sequence r = int (length (of_task (q_organization_id r) (q_task_id r) rows)) + 1"
    and "q_continuation_sequence r \<le> 3"
  shows "numbered (rows @ [r])"
  unfolding numbered_def Let_def
proof (intro allI)
  fix org task
  have old: "map q_continuation_sequence (of_task org task rows) = [1..int (length (of_task org task rows))]"
      "length (of_task org task rows) \<le> 3"
    using assms(1) by (simp_all add: numbered_def Let_def)
  show "map q_continuation_sequence (of_task org task (rows @ [r])) = [1..int (length (of_task org task (rows @ [r])))]
      \<and> length (of_task org task (rows @ [r])) \<le> 3"
  proof (cases "q_organization_id r = org \<and> q_task_id r = task")
    case True
    then have app: "of_task org task (rows @ [r]) = of_task org task rows @ [r]" by (simp add: of_task_def)
    have "[1..int (length (of_task org task rows)) + 1] = [1..int (length (of_task org task rows))] @ [int (length (of_task org task rows)) + 1]"
      using upto_rec2 [of 1 "int (length (of_task org task rows)) + 1"] by simp
    with True app old(1) assms(2,3) show ?thesis by (simp add: add.commute [of 1])
  next
    case False
    then have "of_task org task (rows @ [r]) = of_task org task rows" by (auto simp: of_task_def)
    with old show ?thesis by simp
  qed
qed

lemma insert_inv:
  assumes "cont_inv s" and "insert_continuation now trace i t s = Inr (s', row, b)"
    and "nc_continuation_sequence i = int (length (of_task (organization_id (nc_actor i)) (nc_task_id i) (continuation_requests s))) + 1"
    and "nc_continuation_sequence i \<le> 3"
  shows "cont_inv s'"
proof -
  note inv = cont_invD [OF assms(1)] and new = insert_continuation_Inr [OF assms(2) cont_invD(2) [OF assms(1)]]
  have row: "q_id row = next_serial q_id (continuation_requests s)" "q_organization_id row = organization_id (nc_actor i)"
      "q_task_id row = nc_task_id i" "q_continuation_sequence row = nc_continuation_sequence i"
      "q_status row = Req_Pending" "q_child_run_id row = None" "q_prior_task_status row = nc_prior_task_status i"
    by (simp_all add: new(1) new_continuation_row_def)
  obtain x where x: "x \<in> set (tasks (cbase s))" "ready_for i (cbase s) x" using new(8) by blast
  have prior: "nc_prior_task_status i \<in> {Task_Succeeded, Task_Failed}"
    using new(9) row(7) by (simp add: continuation_check_def)
  have free: "q_task_id q \<noteq> nc_task_id i" if q: "q \<in> set (continuation_requests s)" "open_continuation q" for q
  proof
    assume eq: "q_task_id q = nc_task_id i"
    obtain u where u: "u \<in> set (tasks (cbase s))" "awaits_continuation q u" using inv(3) [OF q] by blast
    have "t_id u = t_id x" using u(2) x(2) eq by (simp add: awaits_continuation_def ready_for_def)
    then have "u = x" using u(1) x(1) inv(1) by (auto simp: distinct_map dest: inj_onD)
    then show False using u(2) x(2) prior by (auto simp: awaits_continuation_def ready_for_def)
  qed
  have "map t_id (tasks (cbase s')) = map t_id (tasks (cbase s))"
    unfolding new(4) by (rule update_where_keeps) (simp add: to_pending_def)
  then have keys: "keys_ok (cbase s')" using assms(1) new(5) by (simp add: cont_inv_def keys_ok_def)
  have ids: "distinct (map q_id (continuation_requests s'))"
    using inv(2) next_serial_greater [of _ "continuation_requests s" q_id] row(1) by (force simp: new(3))
  have num: "numbered (continuation_requests s')"
    unfolding new(3) by (rule numbered_append [OF inv(5)]) (use assms(3,4) row in simp_all)
  have waits: "\<exists>u \<in> set (tasks (cbase s')). awaits_continuation q u"
    if q: "q \<in> set (continuation_requests s')" "open_continuation q" for q
  proof (cases "q = row")
    case True
    have "to_pending now x \<in> set (tasks (cbase s'))" using x by (auto simp: new(4) set_update_where)
    moreover have "awaits_continuation row (to_pending now x)"
      using x(2) row by (simp add: awaits_continuation_def to_pending_def ready_for_def)
    ultimately show ?thesis using True by blast
  next
    case False
    then have old: "q \<in> set (continuation_requests s)" using q(1) new(3) by simp
    obtain u where u: "u \<in> set (tasks (cbase s))" "awaits_continuation q u" using inv(3) [OF old q(2)] by blast
    have "\<not> ready_for i (cbase s) u" using free [OF old q(2)] u(2) by (auto simp: ready_for_def awaits_continuation_def)
    with u show ?thesis by (auto simp: new(4) set_update_where)
  qed
  have single: "p = q" if "p \<in> set (continuation_requests s')" "q \<in> set (continuation_requests s')"
      "open_continuation p" "open_continuation q" "q_task_id p = q_task_id q" for p q
  proof -
    have "p = row \<or> p \<in> set (continuation_requests s)" "q = row \<or> q \<in> set (continuation_requests s)"
      using that(1,2) new(3) by auto
    then show ?thesis using free [of p] free [of q] inv(4) [of p q] row(3) that(3-5) by metis
  qed
  have ok: "row_ok q" if "q \<in> set (continuation_requests s')" for q
    using that inv(6) prior row(5-7) by (auto simp: new(3) row_ok_def)
  show ?thesis unfolding cont_inv_def using keys ids waits single num ok by blast
qed

section \<open>The step relation\<close>

text \<open>The rest of the system may do anything to the task database except touch a task that waits for
  its continuation.\<close>

definition waiting_undisturbed :: "db \<Rightarrow> db \<Rightarrow> bool" where
  "waiting_undisturbed db db' = (keys_ok db'
     \<and> (\<forall>t \<in> set (tasks db). t_status t = Task_ContinuationPending \<longrightarrow>
          (\<exists>u \<in> set (tasks db'). t_id u = t_id t \<and> t_organization_id u = t_organization_id t
             \<and> t_status u = t_status t)))"

text \<open>The services prepare a request on one state and commit it on a later one, \<open>s0\<close> and \<open>s\<close>.\<close>

inductive cont_op :: "continuation_services \<Rightarrow> continuation_store \<Rightarrow> continuation_store \<Rightarrow> bool"
  for sv :: continuation_services where
  user: "prepare_user_context sv clock actor run key input s0 = Inr (Prepared p) \<Longrightarrow>
     commit_continuation now trace p s = Inr (s', r) \<Longrightarrow> cont_op sv s s'"
| trusted: "prepare_trusted_evidence sv clock actor run e s0 = Inr (Prepared p) \<Longrightarrow>
     commit_continuation now trace p s = Inr (s', r) \<Longrightarrow> cont_op sv s s'"
| claim: "cont_op sv s (s\<lparr>continuation_requests := fst (claim_pending now locked c limit lease (continuation_requests s))\<rparr>)"
| renew: "cont_op sv s (s\<lparr>continuation_requests := fst (renew_claim now k c lease (continuation_requests s))\<rparr>)"
| release: "cont_op sv s (s\<lparr>continuation_requests := fst (release_claim now k c backoff (continuation_requests s))\<rparr>)"
| sweep: "cont_op sv s (s\<lparr>continuation_requests := fst (release_expired_claims now locked limit (continuation_requests s))\<rparr>)"
| dispatch: "continuation_mark_dispatched now trace actor k c child s = Inr (s', res) \<Longrightarrow> cont_op sv s s'"
| complete: "continuation_complete_for_child_run now trace actor child code status s = Inr (s', res) \<Longrightarrow> cont_op sv s s'"
| cancelled: "continuation_cancel now trace actor k s = Inr (s', res) \<Longrightarrow> cont_op sv s s'"
| rejected: "continuation_reject_claim now trace actor k c code s = Inr (s', res) \<Longrightarrow> cont_op sv s s'"
| evidence: "create_handoff actor i s = Inr (s', h, new) \<Longrightarrow> cont_op sv s s'"

inductive cont_step :: "continuation_services \<Rightarrow> continuation_store \<Rightarrow> continuation_store \<Rightarrow> bool"
  for sv :: continuation_services where
  own: "cont_op sv s s' \<Longrightarrow> cont_step sv s s'"
| elsewhere: "waiting_undisturbed (cbase s) db \<Longrightarrow> cont_step sv s (s\<lparr>cbase := db\<rparr>)"

text \<open>What the services rely on: the policies in the dispatch snapshots passed the workflow checks.\<close>

definition policies_validated :: "continuation_services \<Rightarrow> bool" where
  "policies_validated sv = (\<forall>snapshot p. sv_policy sv snapshot = Some p \<longrightarrow> continuation_within p)"

definition no_continuations :: "continuation_store \<Rightarrow> bool" where
  "no_continuations s = (keys_ok (cbase s) \<and> continuation_requests s = [])"

lemma source_of_policy: "source_of sv actor run s = Inr (r, t, p) \<Longrightarrow> sv_policy sv (t_dispatch_snapshot t) = Some p"
  by (auto simp: source_of_def split: option.splits)

lemma prepare_user_context_policy:
  assumes "prepare_user_context sv clock actor run key input s = Inr (Prepared p)"
  shows "\<exists>snapshot. sv_policy sv snapshot = Some (pc_policy p)"
  using assms unfolding prepare_user_context_def Let_def
  by (auto simp: and_then_Inr_iff split: if_splits option.splits dest!: source_of_policy)

lemma prepare_trusted_evidence_policy:
  assumes "prepare_trusted_evidence sv clock actor run e s = Inr (Prepared p)"
  shows "\<exists>snapshot. sv_policy sv snapshot = Some (pc_policy p)"
  using assms unfolding prepare_trusted_evidence_def Let_def
  by (auto simp: and_then_Inr_iff split: if_splits option.splits dest!: source_of_policy)

lemma sint_small_word:
  assumes "uint (w :: 16 word) \<le> 3"
  shows "sint w \<le> 3"
proof -
  have "signed_take_bit 15 (uint w) = uint w"
  proof (rule signed_take_bit_int_eq_self)
    show "- (2 ^ 15) \<le> uint w" by (rule order_trans [OF _ uint_ge_0]) simp
    show "uint w < 2 ^ 15" using assms by simp
  qed
  with assms show ?thesis by (simp add: sint_uint)
qed

lemma commit_continuation_Inr:
  assumes "commit_continuation now trace p s = Inr (s', r)"
  obtains n d i where "i = (pc_input p)\<lparr>nc_continuation_sequence := n, nc_chain_depth := d\<rparr>"
    "next_sequence_in_connection (nc_actor i) (nc_task_id i) s = Inr n" "n \<le> sint (cp_max_continuations (pc_policy p))"
    "s' = s \<or> (\<exists>t run. continuation_source i s = Some (t, run) \<and> \<not> source_mismatch i t run
       \<and> insert_continuation now trace i t s = Inr (s', r, True))"
proof -
  obtain n d b where seq: "next_sequence_in_connection (nc_actor (pc_input p)) (nc_task_id (pc_input p)) s = Inr n"
    and le: "n \<le> sint (cp_max_continuations (pc_policy p))"
    and mk: "continuation_create now trace ((pc_input p)\<lparr>nc_continuation_sequence := n, nc_chain_depth := d\<rparr>) s = Inr (s', r, b)"
    using assms unfolding commit_continuation_def Let_def
    by (auto simp: and_then_Inr_iff map_err_Inr not_less split: if_splits)
  let ?i = "(pc_input p)\<lparr>nc_continuation_sequence := n, nc_chain_depth := d\<rparr>"
  have "s' = s \<or> (\<exists>t run. continuation_source ?i s = Some (t, run) \<and> \<not> source_mismatch ?i t run
      \<and> insert_continuation now trace ?i t s = Inr (s', r, b))"
    using mk unfolding continuation_create_def by (auto split: list.splits if_splits option.splits)
  moreover have "b" if "insert_continuation now trace ?i t s = Inr (s', r, b)" for t
    using that unfolding insert_continuation_def Let_def
    by (auto simp: and_then_Inr_iff split: if_splits option.splits)
  ultimately have "s' = s \<or> (\<exists>t run. continuation_source ?i s = Some (t, run) \<and> \<not> source_mismatch ?i t run
      \<and> insert_continuation now trace ?i t s = Inr (s', r, True))"
    by (metis (full_types))
  with seq le show thesis by (intro that [OF refl]) simp_all
qed

lemma commit_inv:
  assumes "cont_inv s" and "commit_continuation now trace p s = Inr (s', r)" and "continuation_within (pc_policy p)"
  shows "cont_inv s'"
proof -
  obtain n d i where i: "i = (pc_input p)\<lparr>nc_continuation_sequence := n, nc_chain_depth := d\<rparr>"
    and seq: "next_sequence_in_connection (nc_actor i) (nc_task_id i) s = Inr n"
    and le: "n \<le> sint (cp_max_continuations (pc_policy p))"
    and out: "s' = s \<or> (\<exists>t run. continuation_source i s = Some (t, run) \<and> \<not> source_mismatch i t run
       \<and> insert_continuation now trace i t s = Inr (s', r, True))"
    by (rule commit_continuation_Inr [OF assms(2)])
  have "sint (cp_max_continuations (pc_policy p)) \<le> 3"
    by (rule sint_small_word) (use assms(3) in \<open>simp add: continuation_within_def\<close>)
  moreover have "nc_continuation_sequence i = n" by (simp add: i)
  moreover have "n = int (length (of_task (organization_id (nc_actor i)) (nc_task_id i) (continuation_requests s))) + 1"
    by (rule next_sequence_numbered [OF cont_invD(5) [OF assms(1)] seq])
  ultimately show ?thesis using out assms(1) insert_inv [OF assms(1)] le by fastforce
qed

lemma create_handoff_requests:
  "create_handoff actor i s = Inr (s', h, new) \<Longrightarrow> cbase s' = cbase s \<and> continuation_requests s' = continuation_requests s"
  by (auto simp: create_handoff_def and_then_Inr_iff Let_def split: option.splits if_splits)

text \<open>\<open>cont_calm\<close>: the statements on the continuation tables change no task but those that ended,
  wait for their continuation, or run it.\<close>

definition cont_calm :: "db \<Rightarrow> db \<Rightarrow> bool" where
  "cont_calm db db' = (\<forall>t \<in> set (tasks db).
     t_status t \<notin> {Task_Succeeded, Task_Failed, Task_ContinuationPending, Task_Running, Task_Queued} \<longrightarrow> t \<in> set (tasks db'))"

lemma cont_calm_same: "tasks db' = tasks db \<Longrightarrow> cont_calm db db'"
  by (simp add: cont_calm_def)

lemma cont_calm_update:
  assumes "tasks db' = update_where Q g (tasks db)"
    and "\<And>t. Q t \<Longrightarrow> t_status t \<in> {Task_Succeeded, Task_Failed, Task_ContinuationPending, Task_Running, Task_Queued}"
  shows "cont_calm db db'"
  unfolding cont_calm_def assms(1) set_update_where using assms(2) by blast

lemma move_continuation_calm:
  assumes "move_continuation P f Q g err what action link trace actor r s = Inr (s', res)"
    and "\<And>r t. Q r t \<Longrightarrow> t_status t \<in> {Task_Succeeded, Task_Failed, Task_ContinuationPending, Task_Running, Task_Queued}"
  shows "cont_calm (cbase s) (cbase s')"
  by (rule cont_calm_update [OF move_continuation_Inr(3) [OF assms(1)] assms(2)])

lemma transitions_calm:
  shows "continuation_cancel now trace actor k s = Inr (s', res) \<Longrightarrow> cont_calm (cbase s) (cbase s')"
    and "continuation_reject_claim now trace actor k c code s = Inr (s', res) \<Longrightarrow> cont_calm (cbase s) (cbase s')"
    and "continuation_mark_dispatched now trace actor k c child s = Inr (s', res) \<Longrightarrow> cont_calm (cbase s) (cbase s')"
    and "continuation_complete_for_child_run now trace actor child code status s = Inr (s', res) \<Longrightarrow>
      cont_calm (cbase s) (cbase s')"
  unfolding continuation_cancel_def continuation_reject_claim_def continuation_mark_dispatched_def
    continuation_complete_for_child_run_def
  by (auto simp: cont_calm_same awaits_continuation_def runs_or_queued_def
      split: option.splits if_splits list.splits elim!: move_continuation_calm)

lemma commit_keeps:
  assumes "cont_inv s" and "commit_continuation now trace p s = Inr (s', r)" and "continuation_within (pc_policy p)"
  shows "cont_inv s' \<and> cont_calm (cbase s) (cbase s')"
proof
  show "cont_inv s'" by (rule commit_inv [OF assms])
  obtain n d i where
    out: "s' = s \<or> (\<exists>t run. continuation_source i s = Some (t, run) \<and> \<not> source_mismatch i t run
       \<and> insert_continuation now trace i t s = Inr (s', r, True))"
    by (rule commit_continuation_Inr [OF assms(2)])
  show "cont_calm (cbase s) (cbase s')"
  proof (cases "s' = s")
    case True
    then show ?thesis by (simp add: cont_calm_same)
  next
    case False
    then obtain t run where mm: "\<not> source_mismatch i t run" and ins: "insert_continuation now trace i t s = Inr (s', r, True)"
      using out by blast
    have "nc_prior_task_status i \<in> {Task_Succeeded, Task_Failed}" using mm by (auto simp: source_mismatch_def)
    then show ?thesis
      by (intro cont_calm_update [OF insert_continuation_Inr(4) [OF ins cont_invD(2) [OF assms(1)]]])
        (auto simp: ready_for_def)
  qed
qed

lemma op_inv:
  assumes "cont_op sv s s'" and "policies_validated sv" and "cont_inv s"
  shows "cont_inv s' \<and> cont_calm (cbase s) (cbase s')"
  using assms
proof cases
  case user
  then show ?thesis
    using commit_keeps [OF assms(3)] prepare_user_context_policy assms(2) by (metis policies_validated_def)
next
  case trusted
  then show ?thesis
    using commit_keeps [OF assms(3)] prepare_trusted_evidence_policy assms(2) by (metis policies_validated_def)
next
  case dispatch
  then show ?thesis using dispatch_settles settles_inv assms(3) transitions_calm(3) by metis
next
  case complete
  then show ?thesis using complete_settles settles_inv assms(3) transitions_calm(4) by metis
next
  case cancelled
  then show ?thesis using cancel_settles settles_inv assms(3) transitions_calm(1) by metis
next
  case rejected
  then show ?thesis using reject_settles settles_inv assms(3) transitions_calm(2) by metis
next
  case evidence
  then show ?thesis using create_handoff_requests assms(3) by (simp add: cont_inv_def cont_calm_same)
qed (simp_all add: requeue_inv [OF assms(3)] queue_statements_requeue [OF cont_invD(2) [OF assms(3)]] cont_calm_same)

lemma elsewhere_inv:
  assumes "cont_inv s" and "waiting_undisturbed (cbase s) db"
  shows "cont_inv (s\<lparr>cbase := db\<rparr>)"
proof -
  have "\<exists>u \<in> set (tasks db). awaits_continuation r u"
    if "t \<in> set (tasks (cbase s))" "awaits_continuation r t" for r t
    using assms(2) that by (fastforce simp: waiting_undisturbed_def awaits_continuation_def)
  then show ?thesis
    using assms by (simp add: cont_inv_def waiting_undisturbed_def) blast
qed

lemma step_inv: "cont_step sv s s' \<Longrightarrow> policies_validated sv \<Longrightarrow> cont_inv s \<Longrightarrow> cont_inv s'"
  by (erule cont_step.cases) (auto dest: op_inv elsewhere_inv)

lemma no_continuations_inv: "no_continuations s \<Longrightarrow> cont_inv s"
  by (simp add: no_continuations_def cont_inv_def numbered_def of_task_def)

lemma reachable_continuations:
  assumes "no_continuations s0" and "policies_validated sv" and "(cont_step sv)\<^sup>*\<^sup>* s0 s"
  shows "cont_inv s"
  using assms(3,1,2) by (induction rule: rtranclp_induct) (auto intro: no_continuations_inv step_inv)

end
