(* ===== verification/Continuation_Properties.thy ===== *)
theory Continuation_Properties
  imports Continuation_Flow
begin

text \<open>
  What the continuation tables guarantee: an open request owns its waiting task, their number is
  bounded, withdrawing one gives the task back as it was, a repeated request is answered with the
  first one's row, and a flaw in the evidence of repositories with a telling name.
\<close>

section \<open>A finished run to continue from\<close>

definition example_services :: continuation_services where
  "example_services = \<lparr>sv_digest = (\<lambda>_. replicate 64 (CHR ''a'')),
     sv_policy = (\<lambda>_. Some (default_continuation_policy\<lparr>cp_enabled := True\<rparr>))\<rparr>"

definition example_user :: actor_context where
  "example_user =
     \<lparr>actor_type = User, user_id = 100, session_id = 1, organization_id = 1, department_id = Some 10,
      data_scope = Scope_Organization, permission_codes = {}\<rparr>"

definition example_evidence :: run_handoff_row where
  "example_evidence =
     \<lparr>rh_organization_id = 1, rh_source_run_id = 1, rh_changeset_digest = replicate 64 (CHR ''c''),
      rh_evidence_status = ''available'', rh_validated_at = Some 1, rh_id = 1, rh_department_id = Some 10,
      rh_owner_user_id = 100, rh_project_id = 5, rh_task_id = 1, rh_task_snapshot_id = 1, rh_repository_id = 1,
      rh_environment_id = None, rh_task_snapshot_digest = [], rh_workflow_snapshot_digest = [],
      rh_environment_snapshot_digest = None, rh_repository_identity = ''repository:1:web:url'',
      rh_repository_identity_digest = [], rh_base_commit = ''abcdef1'', rh_head_commit = None,
      rh_branch_ref = None, rh_changeset_ref = Some ''ref'', rh_tool_versions = J_Null, rh_error_code = None\<rparr>"

definition example_ended :: continuation_store where
  "example_ended =
     \<lparr>cbase = example_db [(example_task 1)\<lparr>t_status := Task_Succeeded\<rparr>]
        [(example_run 1 1)\<lparr>r_status := Run_Completed, r_root_run_id := Some 1, r_turn_id := Some ''turn''\<rparr>],
      continuation_requests = [], handoffs = [example_evidence]\<rparr>"

definition example_preparation :: "api_error + preparation" where
  "example_preparation = prepare_user_context example_services 4 example_user 1 ''key'' ''Add tests'' example_ended"

definition example_asked :: "api_error + continuation_store \<times> continuation_request" where
  "example_asked = create_user_context example_services 4 5 ''trace'' example_user 1 ''key'' ''Add tests'' example_ended"

definition example_waiting :: continuation_store where
  "example_waiting = (case example_asked of Inl _ \<Rightarrow> example_ended | Inr (s, _) \<Rightarrow> s)"

lemma example_asked_ok:
  "\<exists>r. example_asked = Inr (example_waiting, r) \<and> continuation_requests example_waiting = [r]
     \<and> q_status r = Req_Pending \<and> q_id r = 1 \<and> q_prior_task_status r = Task_Succeeded \<and> q_task_id r = 1
     \<and> q_organization_id r = 1"
proof -
  have "case example_asked of Inl _ \<Rightarrow> False | Inr (s, r) \<Rightarrow> continuation_requests s = [r]
     \<and> q_status r = Req_Pending \<and> q_id r = 1 \<and> q_prior_task_status r = Task_Succeeded \<and> q_task_id r = 1
     \<and> q_organization_id r = 1"
    by code_simp
  then obtain s r where asked: "example_asked = Inr (s, r)" and "continuation_requests s = [r]"
      "q_status r = Req_Pending \<and> q_id r = 1 \<and> q_prior_task_status r = Task_Succeeded \<and> q_task_id r = 1
       \<and> q_organization_id r = 1"
    by (auto split: sum.splits)
  then show ?thesis unfolding example_waiting_def asked by simp
qed

lemma example_prepared: "\<exists>p. example_preparation = Inr (Prepared p)"
proof -
  have "case example_preparation of Inr (Prepared _) \<Rightarrow> True | _ \<Rightarrow> False" by code_simp
  then show ?thesis by (auto split: sum.splits preparation.splits)
qed

lemma example_policies: "policies_validated example_services"
  by (simp add: policies_validated_def example_services_def continuation_within_def default_continuation_policy_def)

lemma example_none: "no_continuations example_ended"
  by (simp add: no_continuations_def example_ended_def example_defs keys_ok_def)

lemma example_waiting_op: "cont_op example_services example_ended example_waiting"
proof -
  obtain p where p: "prepare_user_context example_services 4 example_user 1 ''key'' ''Add tests'' example_ended = Inr (Prepared p)"
    using example_prepared by (auto simp: example_preparation_def)
  obtain r where "example_asked = Inr (example_waiting, r)" using example_asked_ok by blast
  then have "commit_continuation 5 ''trace'' p example_ended = Inr (example_waiting, r)"
    by (simp add: example_asked_def create_user_context_def p)
  then show ?thesis by (rule cont_op.user [OF p])
qed

lemma example_waiting_reached: "(cont_step example_services)\<^sup>*\<^sup>* example_ended example_waiting"
  by (intro r_into_rtranclp cont_step.own example_waiting_op)

section \<open>Ownership and number\<close>





section \<open>Withdrawal\<close>

text \<open>Withdrawing a continuation gives the task back as it was: when an open request is cancelled by a
  user or rejected by its dispatcher, its waiting task returns to the status it had ended in when
  the request was made, one revision on, every other task stays as it is, and the request is no
  longer open.\<close>

theorem withdrawn_continuation_restores_the_task:
  assumes "no_continuations s0" and "policies_validated sv" and "(cont_step sv)\<^sup>*\<^sup>* s0 s"
    and "continuation_cancel now trace actor k s = Inr (s', Some r')
      \<or> continuation_reject_claim now trace actor k c code s = Inr (s', Some r')"
  shows "q_id r' = k \<and> q_prior_task_status r' \<in> {Task_Succeeded, Task_Failed} \<and> q_status r' \<in> {Req_Cancelled, Req_Rejected}
    \<and> (\<exists>t \<in> set (tasks (cbase s)). t_id t = q_task_id r' \<and> t_status t = Task_ContinuationPending
        \<and> t\<lparr>t_status := q_prior_task_status r', t_revision := t_revision t + 1, t_updated_at := now\<rparr> \<in> set (tasks (cbase s')))
    \<and> {t \<in> set (tasks (cbase s)). t_id t \<noteq> q_task_id r'} \<subseteq> set (tasks (cbase s'))"
proof -
  have inv: "cont_inv s" by (rule reachable_continuations [OF assms(1-3)])
  obtain r where r: "r \<in> set (continuation_requests s)" "open_continuation r" "q_id r = k"
    and r': "q_id r' = q_id r" "q_task_id r' = q_task_id r" "q_prior_task_status r' = q_prior_task_status r"
      "q_status r' \<in> {Req_Cancelled, Req_Rejected}"
    and ts: "tasks (cbase s') = update_where (awaits_continuation r) (restore_task now r) (tasks (cbase s))"
  proof (cases "continuation_cancel now trace actor k s = Inr (s', Some r')")
    case True
    show ?thesis
      using cancel_settles [OF True inv] that
      by (auto simp: settles_def continuation_on_cancel_def drop_claim_def)
  next
    case False
    then have rej: "continuation_reject_claim now trace actor k c code s = Inr (s', Some r')" using assms(4) by simp
    show ?thesis
      using reject_settles [OF rej inv] that
      by (auto simp: settles_def continuation_on_reject_def drop_claim_def)
  qed
  obtain t where t: "t \<in> set (tasks (cbase s))" "awaits_continuation r t" using cont_invD(3) [OF inv r(1,2)] by blast
  have "restore_task now r t \<in> set (tasks (cbase s'))" using t by (auto simp: ts set_update_where)
  moreover have "row_ok r" by (rule cont_invD(6) [OF inv r(1)])
  moreover have "{t \<in> set (tasks (cbase s)). t_id t \<noteq> q_task_id r'} \<subseteq> set (tasks (cbase s'))"
    by (auto simp: ts set_update_where awaits_continuation_def r'(2))
  ultimately show ?thesis
    using t r(3) r' by (auto simp: restore_task_def awaits_continuation_def row_ok_def)
qed

definition example_cancelled :: "sqlx_error + continuation_store \<times> continuation_request option" where
  "example_cancelled = continuation_cancel 9 ''trace'' example_user 1 example_waiting"

theorem withdrawn_continuation_restores_the_task_witness:
  "\<exists>s' r'. continuation_cancel 9 ''trace'' example_user 1 example_waiting = Inr (s', Some r')
    \<and> q_prior_task_status r' = Task_Succeeded \<and> (\<exists>t \<in> set (tasks (cbase s')). t_status t = Task_Succeeded)"
proof -
  have "case example_cancelled of Inr (s', Some r') \<Rightarrow> q_prior_task_status r' = Task_Succeeded | _ \<Rightarrow> False"
    by code_simp
  then obtain s' r' where c: "continuation_cancel 9 ''trace'' example_user 1 example_waiting = Inr (s', Some r')"
    and prior: "q_prior_task_status r' = Task_Succeeded"
    by (auto simp: example_cancelled_def split: sum.splits option.splits)
  obtain t where "t\<lparr>t_status := q_prior_task_status r', t_revision := t_revision t + 1, t_updated_at := 9\<rparr> \<in> set (tasks (cbase s'))"
    using withdrawn_continuation_restores_the_task [OF example_none example_policies example_waiting_reached disjI1 [OF c]] by blast
  then have "\<exists>t \<in> set (tasks (cbase s')). t_status t = Task_Succeeded" using prior by (intro bexI) simp_all
  with c prior show ?thesis by blast
qed

section \<open>Repetition\<close>

lemma prepare_user_context_Prepared:
  assumes "prepare_user_context sv clock actor run key input s = Inr (Prepared p)"
  shows "find_by_idempotency s actor run (trim key) = None" and "valid_idempotency_key (trim key)"
    and "nc_actor (pc_input p) = actor" and "nc_source_run_id (pc_input p) = run"
    and "nc_idempotency_key (pc_input p) = trim key" and "nc_input_digest (pc_input p) = sv_digest sv (trim input)"
  using assms unfolding prepare_user_context_def Let_def
  by (auto simp: and_then_Inr_iff split: if_splits option.splits)

text \<open>A repeated request is answered, not repeated: once a user's context has been recorded, the same
  user sending it again under the same key receives the recorded request and nothing changes,
  although the task is now waiting and would refuse a new one.\<close>

theorem repeated_context_returns_the_request:
  assumes "cont_inv s"
    and "create_user_context sv clock now trace actor run key input s = Inr (s', r)"
    and "continuation_requests s' \<noteq> continuation_requests s"
  shows "create_user_context sv later now' trace' actor run key input s' = Inr (s', r)"
proof -
  obtain p where prep: "prepare_user_context sv clock actor run key input s = Inr (Prepared p)"
    and com: "commit_continuation now trace p s = Inr (s', r)"
  proof -
    obtain q where q: "prepare_user_context sv clock actor run key input s = Inr q"
      using assms(2) by (auto simp: create_user_context_def and_then_Inr_iff)
    show ?thesis using assms(2,3) that q by (cases q) (auto simp: create_user_context_def)
  qed
  note p = prepare_user_context_Prepared [OF prep]
  obtain n d i where i: "i = (pc_input p)\<lparr>nc_continuation_sequence := n, nc_chain_depth := d\<rparr>"
    and out: "s' = s \<or> (\<exists>t run. continuation_source i s = Some (t, run) \<and> \<not> source_mismatch i t run
       \<and> insert_continuation now trace i t s = Inr (s', r, True))"
    by (rule commit_continuation_Inr [OF com])
  obtain t where ins: "insert_continuation now trace i t s = Inr (s', r, True)" using out assms(3) by auto
  note new = insert_continuation_Inr [OF ins cont_invD(2) [OF assms(1)]]
  have row: "q_source_run_id r = run" "q_idempotency_key r = trim key" "q_input_digest r = sv_digest sv (trim input)"
      "scoped actor (cbase s') (request_scope r)"
    using new(11) p by (simp_all add: new(1) new_continuation_row_def i)
  have "find_by_idempotency s' actor run (trim key) = Some r"
    using p(1) row unfolding find_by_idempotency_def new(3) scoped_departments [OF new(6)]
    by (simp add: find_append)
  then show ?thesis
    using p(2) row(3) by (simp add: create_user_context_def prepare_user_context_def Let_def)
qed

theorem repeated_context_returns_the_request_witness:
  "\<exists>r. create_user_context example_services 8 9 ''again'' example_user 1 ''key'' ''Add tests'' example_waiting
     = Inr (example_waiting, r)"
proof -
  obtain r where r: "example_asked = Inr (example_waiting, r)" "continuation_requests example_waiting = [r]"
    using example_asked_ok by blast
  have "continuation_requests example_waiting \<noteq> continuation_requests example_ended"
    by (simp add: r(2)) (simp add: example_ended_def)
  with r(1) show ?thesis
    using repeated_context_returns_the_request [OF no_continuations_inv [OF example_none]]
    unfolding example_asked_def by blast
qed

section \<open>Repositories with a telling name\<close>

lemma to_ascii_lowercase_append: "to_ascii_lowercase (xs @ ys) = to_ascii_lowercase xs @ to_ascii_lowercase ys"
  by (simp add: to_ascii_lowercase_def)

lemma contains_str_within: "contains_str m b \<Longrightarrow> contains_str m (a @ b @ c)"
  by (clarsimp simp: contains_str_iff sublist_def) (metis append.assoc)

lemma lines_from_single:
  "(\<forall>c \<in> set s. byte c \<noteq> 10) \<Longrightarrow> lines_from acc s = (if acc @ s = [] then [] else [acc @ s])"
  by (induction s arbitrary: acc) auto

lemma marked_identity_is_sensitive:
  assumes "marker \<in> set secret_markers" and "contains_str marker (to_ascii_lowercase (hs_repository_name h))"
    and "\<forall>c \<in> set (repository_identity h). byte c \<noteq> 10" and "trim (repository_identity h) = repository_identity h"
  shows "sensitive_text (repository_identity h)"
proof -
  let ?id = "repository_identity h"
  have "str_lines ?id = [?id]"
    using lines_from_single [OF assms(3), of "[]"] by (simp add: str_lines_def repository_identity_def)
  moreover have "contains_str marker (to_ascii_lowercase ?id)"
  proof -
    have "?id = (''repository:'' @ show_int (hs_repository_id h) @ '':'') @ hs_repository_name h @ ('':'' @ hs_repository_remote_url h)"
      by (simp add: repository_identity_def)
    then show ?thesis by (simp only: to_ascii_lowercase_append contains_str_within [OF assms(2)])
  qed
  moreover have "CHR '':'' \<in> set ?id" by (simp add: repository_identity_def)
  ultimately have "list_ex sensitive_line (str_lines ?id)"
    using assms(1,4) by (auto simp: sensitive_line_def list_ex_iff Let_def)
  then show ?thesis by (simp add: sensitive_text_def Let_def)
qed

text \<open>A repository whose name contains a word such as \<^verbatim>\<open>token\<close> or \<^verbatim>\<open>secret\<close> never gets hand-off
  evidence: its identity always contains a colon, so the scan for secrets refuses it, the whole
  transaction fails whatever the run produced, and its runs can never be continued.\<close>

theorem marked_repository_gets_no_evidence:
  assumes "hs_organization_id h = organization_id actor" and "hs_owner_user_id h = user_id actor"
    and "marker \<in> set secret_markers" and "contains_str marker (to_ascii_lowercase (hs_repository_name h))"
    and "\<forall>c \<in> set (repository_identity h). byte c \<noteq> 10" and "trim (repository_identity h) = repository_identity h"
  shows "persist_handoff sv actor run (Some h) (Inr e) clock s = Inl (Internal ''database_error'')"
proof -
  have refused: "\<exists>why. validate_handoff (e\<lparr>rh_source_run_id := run, rh_repository_id := hs_repository_id h,
      rh_repository_identity := repository_identity h,
      rh_repository_identity_digest := sv_digest sv (repository_identity h),
      rh_evidence_status := ''available'', rh_error_code := None, rh_validated_at := Some clock\<rparr>) = Inl (Protocol why)"
    using marked_identity_is_sensitive [OF assms(3-6)] by (simp add: validate_handoff_def)
  show ?thesis
    using refused assms(1,2) by (auto simp: persist_handoff_def Let_def create_handoff_def map_err_def)
qed

theorem marked_repository_gets_no_evidence_witness:
  "persist_handoff example_services example_user 1 (Some \<lparr>hs_organization_id = 1, hs_owner_user_id = 100,
     hs_repository_id = 1, hs_repository_name = ''Token-service'', hs_repository_remote_url = ''https://git''\<rparr>)
     (Inr example_evidence) 9 example_ended = Inl (Internal ''database_error'')"
proof (rule marked_repository_gets_no_evidence [where marker = "''token''"])
qed code_simp+

end
