(* ===== verification/Composition.thy ===== *)
theory Composition
  imports Scheduler Repair_Invariants Continuation_Properties
begin

text \<open>
  Scheduler, repairs and continuations together. All three write \<^verbatim>\<open>devrail_tasks\<close>; repairs and
  continuations were each modelled with the others as part of "the rest of the system". Here the
  step relations share one database, and every step of the one, and every statement of the
  scheduler, is shown to be an admissible step of the rest of the system for the others.
\<close>

record devrail_state =
  repairs_part :: repair_store
  continuation_part :: "continuation_request list"
  evidence_part :: "run_handoff_row list"

definition continuation_view :: "devrail_state \<Rightarrow> continuation_store" where
  "continuation_view j = \<lparr>cbase = base (repairs_part j), continuation_requests = continuation_part j,
     handoffs = evidence_part j\<rparr>"

text \<open>The state after a step of the continuation tables; the repair side reads some columns of the
  same evidence.\<close>

definition after_continuation :: "devrail_state \<Rightarrow> continuation_store \<Rightarrow> devrail_state" where
  "after_continuation j c = \<lparr>repairs_part = (repairs_part j)\<lparr>base := cbase c,
       run_handoffs := map run_handoff.truncate (handoffs c)\<rparr>,
     continuation_part = continuation_requests c, evidence_part = handoffs c\<rparr>"

text \<open>The statements with which the scheduler worker writes the task database.\<close>

inductive scheduler_op :: "db \<Rightarrow> db \<Rightarrow> bool" where
  propagate: "reconcile_task_dependencies traces now db = Inr (db', n) \<Longrightarrow> scheduler_op db db'"
| reconcile: "scheduler_op db (fst (reconcile_scheduler_state now it rt running timeout db))"
| claim: "scheduler_op db (fst (claim_scheduler_tasks now locked token limit lease aging db))"
| renew: "scheduler_op db (fst (renew_scheduler_claim now i token lease db))"
| release: "scheduler_op db (fst (release_scheduler_claim now i token db))"
| retry: "scheduler_op db (fst (schedule_retry now i token at err db))"
| fail: "scheduler_op db (fst (fail_scheduler_task now i token err db))"

inductive joint_step :: "continuation_services \<Rightarrow> devrail_state \<Rightarrow> devrail_state \<Rightarrow> bool"
  for sv :: continuation_services where
  repair: "repair_op (repairs_part j) s \<Longrightarrow> joint_step sv j (j\<lparr>repairs_part := s\<rparr>)"
| continuation: "cont_op sv (continuation_view j) c \<Longrightarrow> joint_step sv j (after_continuation j c)"
| scheduler: "scheduler_op (base (repairs_part j)) db \<Longrightarrow>
     joint_step sv j (j\<lparr>repairs_part := (repairs_part j)\<lparr>base := db\<rparr>\<rparr>)"
| elsewhere: "undisturbed (base (repairs_part j)) db \<Longrightarrow> waiting_undisturbed (base (repairs_part j)) db \<Longrightarrow>
     joint_step sv j (j\<lparr>repairs_part := (repairs_part j)\<lparr>base := db, task_workspaces := ws\<rparr>\<rparr>)"

lemma view_simps [simp]:
  "cbase (continuation_view j) = base (repairs_part j)"
  "continuation_view (after_continuation j c) = c"
  "repairs_part (after_continuation j c) = (repairs_part j)\<lparr>base := cbase c,
     run_handoffs := map run_handoff.truncate (handoffs c)\<rparr>"
  "continuation_view (j\<lparr>repairs_part := s\<rparr>) = (continuation_view j)\<lparr>cbase := base s\<rparr>"
  by (simp_all add: continuation_view_def after_continuation_def)

text \<open>What one side does is an admissible step of the rest of the system for the other.\<close>

lemma repair_leaves_waiting_tasks:
  assumes "repair_op s s'" and "repair_inv s"
  shows "waiting_undisturbed (base s) (base s')"
proof -
  have k: "keeps s s'" by (rule op_keeps [OF assms])
  then have "keys_ok (base s')" using keeps_inv [OF k] by (simp add: repair_inv_def repair_keys_def)
  with k show ?thesis by (auto simp: waiting_undisturbed_def keeps_def calm_def)
qed

lemma continuation_leaves_repaired_tasks:
  assumes "cont_op sv c c'" and "policies_validated sv" and "cont_inv c"
  shows "undisturbed (cbase c) (cbase c')"
proof -
  have "cont_inv c'" and calm: "cont_calm (cbase c) (cbase c')" using op_inv [OF assms] by simp_all
  then have "keys_ok (cbase c')" by (simp add: cont_inv_def)
  with calm show ?thesis by (auto simp: undisturbed_def cont_calm_def)
qed

text \<open>The scheduler moves queued, skipped and running tasks only.\<close>

definition parks :: "db \<Rightarrow> db \<Rightarrow> bool" where
  "parks db db' = (keys_ok db'
     \<and> (\<forall>t \<in> set (tasks db). t_status t \<notin> {Task_Queued, Task_Skipped, Task_Running} \<longrightarrow>
          (\<exists>u \<in> set (tasks db'). t_id u = t_id t \<and> t_organization_id u = t_organization_id t \<and> t_status u = t_status t
             \<and> t_current_repair_request_id u = t_current_repair_request_id t)))"

lemma parks_undisturbed: "parks db db' \<Longrightarrow> undisturbed db db' \<and> waiting_undisturbed db db'"
  unfolding parks_def undisturbed_def waiting_undisturbed_def by fastforce

lemma parks_trans:
  assumes "parks db db1" and "parks db1 db2"
  shows "parks db db2"
  unfolding parks_def
proof (intro conjI ballI impI)
  show "keys_ok db2" using assms(2) by (simp add: parks_def)
  fix t assume "t \<in> set (tasks db)" and "t_status t \<notin> {Task_Queued, Task_Skipped, Task_Running}"
  then show "\<exists>u \<in> set (tasks db2). t_id u = t_id t \<and> t_organization_id u = t_organization_id t
      \<and> t_status u = t_status t \<and> t_current_repair_request_id u = t_current_repair_request_id t"
    using assms unfolding parks_def by metis
qed

lemma parks_same: "tasks db' = tasks db \<Longrightarrow> keys_ok db' \<Longrightarrow> parks db db'"
  by (auto simp: parks_def)

lemma parks_update:
  assumes "keys_ok db" and "tasks db' = update_where P f (tasks db)" and "map r_id (runs db') = map r_id (runs db)"
    and "\<And>t. t_id (f t) = t_id t \<and> t_organization_id (f t) = t_organization_id t
           \<and> t_current_repair_request_id (f t) = t_current_repair_request_id t"
    and "\<And>t. P t \<Longrightarrow> t_status t \<notin> {Task_Queued, Task_Skipped, Task_Running} \<Longrightarrow> t_status (f t) = t_status t"
  shows "parks db db'"
proof -
  have "keys_ok db'" using assms(1,3,4) by (simp add: keys_ok_def assms(2) update_where_keeps)
  moreover have "(if P t then f t else t) \<in> set (tasks db')" if "t \<in> set (tasks db)" for t
    using that by (auto simp: assms(2) update_where_def)
  ultimately show ?thesis unfolding parks_def using assms(4,5) by (metis (full_types))
qed

lemma parks_update_tasks:
  assumes "keys_ok db"
    and "\<And>t. t_id (f t) = t_id t \<and> t_organization_id (f t) = t_organization_id t
           \<and> t_current_repair_request_id (f t) = t_current_repair_request_id t"
    and "\<And>t. P t \<Longrightarrow> t_status t \<notin> {Task_Queued, Task_Skipped, Task_Running} \<Longrightarrow> t_status (f t) = t_status t"
  shows "parks db (update_tasks P f db)"
  by (rule parks_update [OF assms(1) _ _ assms(2,3)]) simp_all

lemma parks_reconcile:
  assumes "keys_ok db"
  shows "parks db (fst (reconcile_scheduler_state now it rt running timeout db))"
proof -
  let ?d1 = "release_stray_claims now db" and ?R = "fst (reconcile_scheduler_state now it rt running timeout db)"
  let ?d2 = "fail_exhausted now ?d1"
  have a: "parks db ?d1"
    unfolding release_stray_claims_def by (rule parks_update_tasks [OF assms]) simp_all
  then have k1: "keys_ok ?d1" by (simp add: parks_def)
  have b: "parks ?d1 ?d2"
    unfolding fail_exhausted_def by (rule parks_update_tasks [OF k1]) (simp_all add: exhausted_def)
  then have k2: "keys_ok ?d2" by (simp add: parks_def)
  have keys: "keys_ok ?R" by (rule keys_ok_reconcile [OF assms])
  have c: "parks ?d2 ?R"
  proof (cases "has_stale_run now running timeout db")
    case True
    define Q where "Q = (\<lambda>u :: task_row. t_status u = Task_Running \<and> list_ex (\<lambda>r. r_task_id r = t_id u \<and> missing_process_run r)
              (runs (fail_stale_runs now running timeout ?d2)))"
    have "tasks ?R = update_where Q (\<lambda>u. u\<lparr>t_status := Task_Failed, t_scheduler_claim_token := None,
               t_scheduler_claimed_at := None, t_updated_at := now\<rparr>) (tasks ?d2)"
      using True by (simp add: fst_reconcile_tasks fail_tasks_of_missing_runs_def Q_def Let_def)
    moreover have "map r_id (runs ?R) = map r_id (runs ?d2)"
      by (simp add: fst_reconcile_runs fail_stale_runs_def update_where_keeps process_missing_def)
    ultimately show ?thesis by (rule parks_update [OF k2]) (simp_all add: Q_def)
  next
    case False
    then show ?thesis by (intro parks_same keys) (simp add: fst_reconcile_tasks)
  qed
  show ?thesis by (rule parks_trans [OF parks_trans [OF a b] c])
qed

lemma parks_propagate:
  assumes "keys_ok db" and "reconcile_task_dependencies traces now db = Inr (db', n)"
  shows "parks db db'"
proof -
  have adv: "tasks_advance db db'" and "runs db' = runs db"
    using pass_outcome [OF assms(1), of traces now] assms(2) by auto
  then have "keys_ok db'" using keys_ok_advance [OF assms(1)] by blast
  moreover have "t \<in> set (tasks db')"
    if t: "t \<in> set (tasks db)" "t_status t \<notin> {Task_Queued, Task_Skipped, Task_Running}" for t
  proof -
    obtain i where "i < length (tasks db)" "tasks db ! i = t" using t(1) by (auto simp: in_set_conv_nth)
    then have "row_advances t (tasks db' ! i)" "i < length (tasks db')"
      using adv by (auto simp: list_all2_conv_all_nth)
    with t(2) show ?thesis by (cases "t_status t") (auto simp: row_advances_def)
  qed
  ultimately show ?thesis by (auto simp: parks_def)
qed

lemma scheduler_parks:
  assumes "scheduler_op db db'" and "keys_ok db"
  shows "parks db db'"
  using assms
proof cases
  case claim
  show ?thesis unfolding claim fst_claim by (rule parks_update_tasks [OF assms(2)]) simp_all
next
  case renew
  show ?thesis unfolding renew renew_scheduler_claim_def guarded_update_def fst_conv
    by (rule parks_update_tasks [OF assms(2)]) simp_all
next
  case release
  show ?thesis unfolding release release_scheduler_claim_def guarded_update_def fst_conv
    by (rule parks_update_tasks [OF assms(2)]) simp_all
next
  case retry
  show ?thesis unfolding retry schedule_retry_def guarded_update_def fst_conv
    by (rule parks_update_tasks [OF assms(2)]) (auto simp: owns_claim_def)
next
  case fail
  show ?thesis unfolding fail fail_scheduler_task_def guarded_update_def fst_conv
    by (rule parks_update_tasks [OF assms(2)]) (auto simp: owns_claim_def)
qed (simp_all add: parks_reconcile parks_propagate assms(2))

lemma joint_step_simulated:
  assumes "joint_step sv j j'" and "policies_validated sv"
    and "repair_inv (repairs_part j)" and "cont_inv (continuation_view j)"
  shows "repair_step (repairs_part j) (repairs_part j') \<and> cont_step sv (continuation_view j) (continuation_view j')"
  using assms(1)
proof cases
  case (repair s)
  have "waiting_undisturbed (cbase (continuation_view j)) (base s)"
    using repair_leaves_waiting_tasks [OF repair(2) assms(3)] by simp
  then show ?thesis using repair by (auto intro: repair_step.own cont_step.elsewhere)
next
  case (continuation c)
  have "undisturbed (base (repairs_part j)) (cbase c)"
    using continuation_leaves_repaired_tasks [OF continuation(2) assms(2,4)] by simp
  then have "repair_step (repairs_part j) ((repairs_part j)\<lparr>base := cbase c,
      run_handoffs := map run_handoff.truncate (handoffs c), task_workspaces := task_workspaces (repairs_part j)\<rparr>)"
    by (rule repair_step.elsewhere)
  then show ?thesis using continuation by (auto intro: cont_step.own)
next
  case (scheduler db)
  have "keys_ok (base (repairs_part j))" using assms(3) by (simp add: repair_inv_def repair_keys_def)
  then have parked: "undisturbed (base (repairs_part j)) db" "waiting_undisturbed (base (repairs_part j)) db"
    using parks_undisturbed [OF scheduler_parks [OF scheduler(2)]] by simp_all
  have "repair_step (repairs_part j) ((repairs_part j)\<lparr>base := db, run_handoffs := run_handoffs (repairs_part j),
      task_workspaces := task_workspaces (repairs_part j)\<rparr>)"
    by (rule repair_step.elsewhere [OF parked(1)])
  moreover have "cont_step sv (continuation_view j) ((continuation_view j)\<lparr>cbase := db\<rparr>)"
    by (rule cont_step.elsewhere) (simp add: parked(2))
  ultimately show ?thesis using scheduler(1) by simp
next
  case (elsewhere db ws)
  have "repair_step (repairs_part j) ((repairs_part j)\<lparr>base := db,
      run_handoffs := run_handoffs (repairs_part j), task_workspaces := ws\<rparr>)"
    by (rule repair_step.elsewhere [OF elsewhere(2)])
  moreover have "cont_step sv (continuation_view j) ((continuation_view j)\<lparr>cbase := db\<rparr>)"
    by (rule cont_step.elsewhere) (simp add: elsewhere(3))
  ultimately show ?thesis using elsewhere(1) by simp
qed

lemma joint_reachable:
  assumes "no_repairs (repairs_part j0)" and "no_continuations (continuation_view j0)"
    and "policies_validated sv" and "(joint_step sv)\<^sup>*\<^sup>* j0 j"
  shows "repair_step\<^sup>*\<^sup>* (repairs_part j0) (repairs_part j)
    \<and> (cont_step sv)\<^sup>*\<^sup>* (continuation_view j0) (continuation_view j)"
  using assms(4)
proof (induction rule: rtranclp_induct)
  case base
  then show ?case by simp
next
  case (step j1 j2)
  have inv: "repair_inv (repairs_part j1)" "cont_inv (continuation_view j1)"
    using step.IH reachable_inv [OF assms(1)] reachable_continuations [OF assms(2,3)] by simp_all
  from joint_step_simulated [OF step.hyps(2) assms(3) inv] step.IH show ?case
    by (meson rtranclp.rtrancl_into_rtrancl)
qed

section \<open>The two together on an example\<close>

definition example_joint :: devrail_state where
  "example_joint = \<lparr>repairs_part = example_store\<lparr>base := example_db
       [(example_task 1)\<lparr>t_status := Task_Failed\<rparr>, (example_task 2)\<lparr>t_status := Task_Succeeded\<rparr>]
       [(example_run 1 1)\<lparr>r_status := Run_Failed\<rparr>,
        (example_run 2 2)\<lparr>r_status := Run_Completed, r_root_run_id := Some 2, r_turn_id := Some ''turn''\<rparr>]\<rparr>,
     continuation_part = [], evidence_part = [example_evidence\<lparr>rh_source_run_id := 2, rh_task_id := 2\<rparr>]\<rparr>"

text \<open>A user continues the second task; then the first one's failure is repaired.\<close>

definition example_joint_asked :: "api_error + continuation_store \<times> continuation_request" where
  "example_joint_asked =
     create_user_context example_services 4 5 ''trace'' example_user 2 ''key'' ''Add tests'' (continuation_view example_joint)"

definition example_joint_waiting :: devrail_state where
  "example_joint_waiting = (case example_joint_asked of
     Inl _ \<Rightarrow> example_joint | Inr (c, _) \<Rightarrow> after_continuation example_joint c)"

definition example_joint_both :: devrail_state where
  "example_joint_both =
     (let j = example_joint_waiting
      in case create_or_get (\<lambda>_. 10) 5 5 ''trace'' example_repair_input (repairs_part j) of
        Inl _ \<Rightarrow> j | Inr (s, _) \<Rightarrow> j\<lparr>repairs_part := s\<rparr>)"

lemma example_joint_start:
  "no_repairs (repairs_part example_joint)" "no_continuations (continuation_view example_joint)"
  by (simp_all add: continuation_view_def example_joint_def no_repairs_def no_continuations_def example_store_def
      example_defs keys_ok_def)

lemma example_joint_rows:
  "map q_task_id (continuation_part example_joint_both) = [2]"
  "map q_task_id (repair_requests (repairs_part example_joint_both)) = [1]"
  "map q_status (continuation_part example_joint_both) = [Req_Pending]"
  "map q_status (repair_requests (repairs_part example_joint_both)) = [Req_Pending]"
proof -
  have "case example_joint_both of j \<Rightarrow>
      map (\<lambda>r. (q_task_id r, q_status r)) (continuation_part j) = [(2, Req_Pending)]
    \<and> map (\<lambda>r. (q_task_id r, q_status r)) (repair_requests (repairs_part j)) = [(1, Req_Pending)]"
    by code_simp
  then show "map q_task_id (continuation_part example_joint_both) = [2]"
    and "map q_task_id (repair_requests (repairs_part example_joint_both)) = [1]"
    and "map q_status (continuation_part example_joint_both) = [Req_Pending]"
    and "map q_status (repair_requests (repairs_part example_joint_both)) = [Req_Pending]"
    by auto
qed

lemma example_joint_reached: "(joint_step example_services)\<^sup>*\<^sup>* example_joint example_joint_both"
proof -
  have "joint_step example_services example_joint example_joint_waiting \<or> example_joint_waiting = example_joint"
  proof (cases example_joint_asked)
    case (Inr x)
    obtain c r where x: "x = (c, r)" by (cases x)
    have "\<exists>p. prepare_user_context example_services 4 example_user 2 ''key'' ''Add tests'' (continuation_view example_joint)
        = Inr (Prepared p)"
    proof -
      have "case prepare_user_context example_services 4 example_user 2 ''key'' ''Add tests''
          (continuation_view example_joint) of Inr (Prepared _) \<Rightarrow> True | _ \<Rightarrow> False" by code_simp
      then show ?thesis by (auto split: sum.splits preparation.splits)
    qed
    then obtain p where p: "prepare_user_context example_services 4 example_user 2 ''key'' ''Add tests''
        (continuation_view example_joint) = Inr (Prepared p)" ..
    have "commit_continuation 5 ''trace'' p (continuation_view example_joint) = Inr (c, r)"
      using Inr x by (simp add: example_joint_asked_def create_user_context_def p)
    from joint_step.continuation [OF cont_op.user [OF p this]] show ?thesis
      by (simp add: example_joint_waiting_def Inr x)
  next
    case (Inl e)
    show ?thesis unfolding example_joint_waiting_def Inl by simp
  qed
  moreover have "joint_step example_services example_joint_waiting example_joint_both
      \<or> example_joint_both = example_joint_waiting"
    by (auto simp: example_joint_both_def Let_def split: sum.splits intro!: joint_step.repair repair_op.create)
  ultimately show ?thesis by (metis converse_rtranclp_into_rtranclp r_into_rtranclp rtranclp.rtrancl_refl)
qed

end
