(* ===== verification/Runs.thy ===== *)
theory Runs
  imports Reconcile Continuations
begin

text \<open>
  The runs of a task, \<^verbatim>\<open>backend/src/repositories/devrail_runs.rs\<close> and the status changes of
  \<^verbatim>\<open>backend/src/repositories/devrail_approvals.rs\<close>: how runs are created, started, kept alive, ended
  and recovered, and the events of a run. The columns model, branch, policy, startup arguments and
  workflow snapshot are left out. A claim is one option of owner, token and expiry, as the check
  of the table demands. Foreign keys are modelled where they point to another run.
\<close>

section \<open>Statements on runs\<close>

definition update_runs :: "(run_row \<Rightarrow> bool) \<Rightarrow> (run_row \<Rightarrow> run_row) \<Rightarrow> db \<Rightarrow> db" where
  "update_runs P f db = db\<lparr>runs := update_where P f (runs db)\<rparr>"

text \<open>\<^verbatim>\<open>rows_affected() == 1\<close>.\<close>

definition guarded_runs :: "(run_row \<Rightarrow> bool) \<Rightarrow> (run_row \<Rightarrow> run_row) \<Rightarrow> db \<Rightarrow> db \<times> bool" where
  "guarded_runs P f db = (update_runs P f db, length (rows_where P (runs db)) = 1)"

definition unfinished :: "run_row \<Rightarrow> bool" where
  "unfinished r = (r_status r \<in> {Run_Starting, Run_Active, Run_AwaitingApproval})"

definition max_transport_recovery_attempts :: int where
  "max_transport_recovery_attempts = 2"

definition can_transport_recover :: "int \<Rightarrow> bool" where
  "can_transport_recover n = (n < max_transport_recovery_attempts)"

definition max_hook_failures :: int where
  "max_hook_failures = 5"

definition hook_failure_breaker_open :: "int \<Rightarrow> bool" where
  "hook_failure_breaker_open n = (n \<ge> max_hook_failures)"

section \<open>Creation\<close>

text \<open>Third-party code: the md5 of PostgreSQL, and the member \<^verbatim>\<open>workflow\<close> of a snapshot.\<close>

record run_services =
  rv_md5 :: "rstr \<Rightarrow> rstr"
  rv_workflow :: "rstr \<Rightarrow> json option"

record new_run =
  nw_actor :: actor_context
  nw_task_id :: int
  nw_snapshot_id :: int
  nw_idempotency_key :: rstr
  nw_attempt :: int
  nw_task_revision :: int
  nw_workflow_source :: rstr
  nw_workflow_version :: rstr
  nw_workflow_digest :: rstr
  nw_workflow_snapshot :: json
  nw_parent_run_id :: "int option"
  nw_parent_turn_id :: "rstr option"
  nw_cwd :: rstr
  nw_department_id :: "int option"

text \<open>The unique indexes of the table.\<close>

definition both :: "'a option \<Rightarrow> 'a option \<Rightarrow> bool" where
  "both x y = (x \<noteq> None \<and> x = y)"

definition run_conflict :: "run_row \<Rightarrow> run_row \<Rightarrow> bool" where
  "run_conflict r q =
     (r_id r = r_id q
      \<or> (r_organization_id r = r_organization_id q \<and> r_task_id r = r_task_id q
         \<and> (r_idempotency_key r = r_idempotency_key q \<or> r_attempt r = r_attempt q))
      \<or> (r_task_id r = r_task_id q \<and> unfinished r \<and> unfinished q)
      \<or> (r_organization_id r = r_organization_id q
         \<and> (both (r_harness_start_key r) (r_harness_start_key q) \<or> both (r_repair_request_id r) (r_repair_request_id q)))
      \<or> both (r_continuation_request_id r) (r_continuation_request_id q))"

text \<open>The columns every inserted run has in common.\<close>

definition starting_run :: "timestamp \<Rightarrow> new_run \<Rightarrow> int \<Rightarrow> run_row" where
  "starting_run now i rid =
     \<lparr>r_id = rid, r_organization_id = organization_id (nw_actor i), r_department_id = nw_department_id i,
      r_owner_user_id = user_id (nw_actor i), r_task_id = nw_task_id i, r_run_kind = Primary,
      r_parent_run_id = nw_parent_run_id i, r_root_run_id = None, r_turn_id = None,
      r_continuation_request_id = None, r_repair_request_id = None, r_status = Run_Starting,
      r_attempt = nw_attempt i, r_task_revision = nw_task_revision i, r_workflow_source = nw_workflow_source i,
      r_workflow_version = nw_workflow_version i, r_workflow_digest = nw_workflow_digest i, r_exit_reason = None,
      r_retry_reason = None, r_recovery_suggestion = None, r_cleanup_status = ''pending'',
      r_last_heartbeat_at = None, r_last_event_at = None, r_completed_at = None, r_updated_at = now,
      r_snapshot_id = nw_snapshot_id i, r_idempotency_key = nw_idempotency_key i,
      r_actor_type = actor_type (nw_actor i), r_parent_turn_id = nw_parent_turn_id i,
      r_continuation_sequence = None, r_repair_sequence = None, r_thread_id = None, r_harness_version = None,
      r_harness_start_key = None, r_harness_start_claim = None, r_harness_started_token = None,
      r_quality_gate_claim = None, r_recovery_attempts = 0, r_cwd = nw_cwd i, r_exit_code = None,
      r_stderr_summary = None, r_trace_id = None, r_started_at = None\<rparr>"

definition next_run_attempt :: "int \<Rightarrow> db \<Rightarrow> int" where
  "next_run_attempt task db = foldr max (map r_attempt (filter (\<lambda>r. r_task_id r = task) (runs db))) 0 + 1"

definition run_start_key :: "run_services \<Rightarrow> int \<Rightarrow> int \<Rightarrow> int \<Rightarrow> rstr \<Rightarrow> rstr" where
  "run_start_key sv org task attempt key =
     ''run-start:'' @ rv_md5 sv (show_int org @ '':'' @ show_int task @ '':'' @ show_int attempt @ '':'' @ key)"

definition matches_task :: "run_services \<Rightarrow> new_run \<Rightarrow> task_row \<Rightarrow> bool" where
  "matches_task sv i t =
     (t_id t = nw_task_id i \<and> t_organization_id t = organization_id (nw_actor i)
      \<and> t_revision t = nw_task_revision i \<and> t_workflow_source t = nw_workflow_source i
      \<and> t_workflow_version t = nw_workflow_version i \<and> t_workflow_digest t = nw_workflow_digest i
      \<and> rv_workflow sv (t_dispatch_snapshot t) = Some (nw_workflow_snapshot i))"

text \<open>The service numbers its attempts from one, so the trigger for legacy inserts has nothing to do.\<close>

definition create_run :: "run_services \<Rightarrow> timestamp \<Rightarrow> new_run \<Rightarrow> db \<Rightarrow> sqlx_error + db \<times> run_row option" where
  "create_run sv now i db =
     (if \<not> list_ex (matches_task sv i) (tasks db) then Inr (db, None)
      else if nw_attempt i \<le> 0 then Inl (Database CheckViolation)
      else
        let row = (starting_run now i (next_serial r_id (runs db)))
              \<lparr>r_run_kind := (if nw_parent_run_id i \<noteq> None \<or> actor_type (nw_actor i) = System \<and> nw_attempt i > 1
                              then Retry else Primary),
               r_harness_start_key := Some (run_start_key sv (organization_id (nw_actor i)) (nw_task_id i)
                 (nw_attempt i) (nw_idempotency_key i))\<rparr>
        in if list_ex (run_conflict row) (runs db) then Inr (db, None)
           else case nw_parent_run_id i of
             None \<Rightarrow> let r = row\<lparr>r_root_run_id := Some (r_id row)\<rparr> in Inr (db\<lparr>runs := runs db @ [r]\<rparr>, Some r)
           | Some p \<Rightarrow>
               (case find (\<lambda>q. r_id q = p) (runs db) of
                  None \<Rightarrow> Inl (Database ForeignKeyViolation)
                | Some q \<Rightarrow>
                    let r = row\<lparr>r_root_run_id := r_root_run_id q\<rparr> in Inr (db\<lparr>runs := runs db @ [r]\<rparr>, Some r)))"

text \<open>The child run of a request: the row is built from its source run, unless the task moved on or has
  an unfinished run; when a row of the request is there already, it is returned.\<close>

definition source_root :: "run_row \<Rightarrow> int" where
  "source_root q = (case r_root_run_id q of None \<Rightarrow> r_id q | Some root \<Rightarrow> root)"

record new_child_run =
  nh_run :: new_run
  nh_source_run_id :: int
  nh_request_id :: int
  nh_sequence :: int
  nh_harness_start_key :: rstr

definition insert_child ::
  "(db \<Rightarrow> run_row \<Rightarrow> bool) \<Rightarrow> (run_row \<Rightarrow> run_row) \<Rightarrow> (run_row \<Rightarrow> bool) \<Rightarrow> int \<Rightarrow> timestamp \<Rightarrow> new_child_run \<Rightarrow> db \<Rightarrow>
   db \<times> run_row option" where
  "insert_child sourced f own attempt now i db =
     (case find (sourced db) (runs db) of
        None \<Rightarrow> (db, find own (runs db))
      | Some q \<Rightarrow>
          let r = f ((starting_run now (nh_run i) (next_serial r_id (runs db)))
                \<lparr>r_attempt := attempt, r_actor_type := System, r_parent_run_id := Some (r_id q),
                 r_root_run_id := Some (source_root q), r_harness_start_key := Some (nh_harness_start_key i)\<rparr>)
          in if list_ex (run_conflict r) (runs db) then (db, find own (runs db))
             else (db\<lparr>runs := runs db @ [r]\<rparr>, Some r))"

definition idle :: "int \<Rightarrow> int \<Rightarrow> db \<Rightarrow> bool" where
  "idle org task db = (\<not> list_ex (\<lambda>r. r_task_id r = task \<and> r_organization_id r = org \<and> unfinished r) (runs db))"

definition continuation_sourced :: "new_child_run \<Rightarrow> db \<Rightarrow> run_row \<Rightarrow> bool" where
  "continuation_sourced i db q =
     (r_id q = nh_source_run_id i \<and> r_organization_id q = organization_id (nw_actor (nh_run i))
      \<and> r_task_id q = nw_task_id (nh_run i) \<and> finished_run q
      \<and> list_ex (\<lambda>t. t_id t = r_task_id q \<and> t_organization_id t = r_organization_id q
          \<and> t_revision t = nw_task_revision (nh_run i) \<and> t_status t = Task_ContinuationPending) (tasks db)
      \<and> idle (organization_id (nw_actor (nh_run i))) (nw_task_id (nh_run i)) db)"

definition create_continuation_run :: "timestamp \<Rightarrow> rstr \<Rightarrow> new_child_run \<Rightarrow> db \<Rightarrow> db \<times> run_row option" where
  "create_continuation_run now thread i db =
     insert_child (continuation_sourced i)
       (\<lambda>r. r\<lparr>r_run_kind := Continuation, r_continuation_sequence := Some (nh_sequence i),
              r_continuation_request_id := Some (nh_request_id i), r_thread_id := Some thread\<rparr>)
       (\<lambda>r. r_organization_id r = organization_id (nw_actor (nh_run i))
          \<and> r_continuation_request_id r = Some (nh_request_id i))
       (next_run_attempt (nw_task_id (nh_run i)) db) now i db"

definition repair_sourced :: "repair_request list \<Rightarrow> new_child_run \<Rightarrow> db \<Rightarrow> run_row \<Rightarrow> bool" where
  "repair_sourced requests i db q =
     (r_id q = nh_source_run_id i \<and> r_organization_id q = organization_id (nw_actor (nh_run i))
      \<and> r_task_id q = nw_task_id (nh_run i) \<and> r_status q = Run_Failed
      \<and> list_ex (\<lambda>t. t_id t = r_task_id q \<and> t_organization_id t = r_organization_id q
          \<and> t_revision t = nw_task_revision (nh_run i) \<and> t_status t \<in> {Task_RepairPending, Task_RepairRunning}) (tasks db)
      \<and> list_ex (\<lambda>x. q_id x = nh_request_id i \<and> q_organization_id x = r_organization_id q \<and> q_task_id x = r_task_id q
          \<and> q_source_run_id x = r_id q \<and> q_repair_sequence x = nh_sequence i
          \<and> q_status x \<in> {Req_Claimed, Req_Dispatched, Req_Running}) requests
      \<and> idle (organization_id (nw_actor (nh_run i))) (nw_task_id (nh_run i)) db)"

definition create_repair_run ::
  "timestamp \<Rightarrow> repair_request list \<Rightarrow> new_child_run \<Rightarrow> db \<Rightarrow> db \<times> run_row option" where
  "create_repair_run now requests i db =
     insert_child (repair_sourced requests i)
       (\<lambda>r. r\<lparr>r_run_kind := Repair, r_repair_sequence := Some (nh_sequence i),
              r_repair_request_id := Some (nh_request_id i)\<rparr>)
       (\<lambda>r. r_organization_id r = organization_id (nw_actor (nh_run i))
          \<and> r_repair_request_id r = Some (nh_request_id i))
       (foldr max (map r_attempt (filter (\<lambda>r. r_task_id r = nw_task_id (nh_run i)
          \<and> r_organization_id r = organization_id (nw_actor (nh_run i))) (runs db))) 0 + 1) now i db"

definition find_run_by_idempotency :: "actor_context \<Rightarrow> db \<Rightarrow> int \<Rightarrow> rstr \<Rightarrow> run_row option" where
  "find_run_by_idempotency actor db task key =
     find (\<lambda>r. r_task_id r = task \<and> r_idempotency_key r = key
        \<and> scoped actor db (r_organization_id r, r_owner_user_id r, r_department_id r)) (runs db)"

definition find_retry_parent :: "actor_context \<Rightarrow> db \<Rightarrow> int \<Rightarrow> run_row option" where
  "find_retry_parent actor db task =
     (case rev (sort_key (\<lambda>r. (r_attempt r, r_id r)) (filter (\<lambda>r. r_task_id r = task \<and> r_status r = Run_Failed
          \<and> scoped actor db (r_organization_id r, r_owner_user_id r, r_department_id r)) (runs db))) of
        [] \<Rightarrow> None | r # _ \<Rightarrow> Some r)"

section \<open>Start and life of a run\<close>

definition start_claim_free :: "timestamp \<Rightarrow> run_row \<Rightarrow> bool" where
  "start_claim_free now r = (case r_harness_start_claim r of None \<Rightarrow> True | Some (_, _, expires) \<Rightarrow> expires \<le> now)"

definition start_token :: "run_row \<Rightarrow> uuid option" where
  "start_token r = map_option (fst \<circ> snd) (r_harness_start_claim r)"

definition claim_harness_start :: "timestamp \<Rightarrow> int \<Rightarrow> rstr \<Rightarrow> uuid \<Rightarrow> int \<Rightarrow> db \<Rightarrow> db \<times> bool" where
  "claim_harness_start now run owner token lease db =
     guarded_runs (\<lambda>r. r_id r = run \<and> r_harness_start_key r \<noteq> None \<and> r_status r = Run_Starting \<and> start_claim_free now r)
       (\<lambda>r. r\<lparr>r_harness_start_claim := Some (owner, token, now + seconds (clamp 30 300 lease)),
              r_harness_started_token := None, r_updated_at := now\<rparr>) db"

definition release_harness_start :: "timestamp \<Rightarrow> int \<Rightarrow> uuid \<Rightarrow> db \<Rightarrow> db \<times> bool" where
  "release_harness_start now run token db =
     guarded_runs (\<lambda>r. r_id r = run \<and> r_status r = Run_Starting \<and> start_token r = Some token)
       (\<lambda>r. r\<lparr>r_harness_start_claim := None, r_updated_at := now\<rparr>) db"

definition prefer_new :: "'a option \<Rightarrow> 'a option \<Rightarrow> 'a option" where
  "prefer_new x y = (case x of None \<Rightarrow> y | Some v \<Rightarrow> Some v)"

definition update_run_started ::
  "timestamp \<Rightarrow> int \<Rightarrow> rstr option \<Rightarrow> rstr option \<Rightarrow> rstr option \<Rightarrow> uuid \<Rightarrow> db \<Rightarrow> db \<times> bool" where
  "update_run_started now run thread turn version token db =
     guarded_runs (\<lambda>r. r_id r = run \<and> r_status r \<in> {Run_Created, Run_Starting, Run_Active}
          \<and> r_harness_start_key r \<noteq> None
          \<and> (start_token r = Some token \<or> r_status r = Run_Active \<and> r_harness_started_token r = Some token))
       (\<lambda>r. r\<lparr>r_status := Run_Active, r_thread_id := prefer_new thread (r_thread_id r),
              r_turn_id := prefer_new turn (r_turn_id r), r_harness_version := prefer_new version (r_harness_version r),
              r_harness_started_token := Some token, r_harness_start_claim := None,
              r_started_at := prefer_new (r_started_at r) (Some now), r_last_heartbeat_at := Some now,
              r_updated_at := now\<rparr>) db"

definition gate_claim_free :: "timestamp \<Rightarrow> run_row \<Rightarrow> bool" where
  "gate_claim_free now r = (case r_quality_gate_claim r of None \<Rightarrow> True | Some (_, _, expires) \<Rightarrow> expires \<le> now)"

definition claim_quality_gate_execution :: "timestamp \<Rightarrow> int \<Rightarrow> rstr \<Rightarrow> uuid \<Rightarrow> int \<Rightarrow> db \<Rightarrow> db \<times> bool" where
  "claim_quality_gate_execution now run owner token lease db =
     guarded_runs (\<lambda>r. r_id r = run \<and> r_status r \<in> {Run_Completed, Run_Failed} \<and> gate_claim_free now r)
       (\<lambda>r. r\<lparr>r_quality_gate_claim := Some (owner, token, now + seconds (clamp 60 10800 lease)), r_updated_at := now\<rparr>) db"

definition release_quality_gate_execution :: "timestamp \<Rightarrow> int \<Rightarrow> uuid \<Rightarrow> db \<Rightarrow> db \<times> bool" where
  "release_quality_gate_execution now run token db =
     guarded_runs (\<lambda>r. r_id r = run \<and> map_option (fst \<circ> snd) (r_quality_gate_claim r) = Some token)
       (\<lambda>r. r\<lparr>r_quality_gate_claim := None, r_updated_at := now\<rparr>) db"

definition update_run_heartbeat :: "timestamp \<Rightarrow> int \<Rightarrow> db \<Rightarrow> db \<times> bool" where
  "update_run_heartbeat now run db =
     guarded_runs (\<lambda>r. r_id r = run \<and> r_status r \<in> {Run_Starting, Run_Active})
       (\<lambda>r. r\<lparr>r_last_heartbeat_at := Some now, r_updated_at := now\<rparr>) db"

record terminal_update =
  tu_run_id :: int
  tu_status :: run_status
  tu_exit_reason :: rstr
  tu_exit_code :: "int option"
  tu_stderr_summary :: "rstr option"
  tu_trace_id :: rstr
  tu_recovery_suggestion :: "rstr option"

definition on_terminal :: "timestamp \<Rightarrow> terminal_update \<Rightarrow> run_row \<Rightarrow> run_row" where
  "on_terminal now u r =
     r\<lparr>r_status := tu_status u, r_exit_reason := Some (tu_exit_reason u),
       r_retry_reason := (if tu_status u = Run_Failed then Some (tu_exit_reason u) else r_retry_reason r),
       r_exit_code := tu_exit_code u, r_stderr_summary := tu_stderr_summary u, r_trace_id := Some (tu_trace_id u),
       r_recovery_suggestion := tu_recovery_suggestion u,
       r_completed_at := prefer_new (r_completed_at r) (Some now), r_last_heartbeat_at := Some now,
       r_cleanup_status := (if tu_status u \<in> {Run_Completed, Run_Failed, Run_Cancelled} then ''completed'' else r_cleanup_status r),
       r_updated_at := now\<rparr>"

definition update_run_terminal :: "timestamp \<Rightarrow> terminal_update \<Rightarrow> db \<Rightarrow> db \<times> bool" where
  "update_run_terminal now u db =
     guarded_runs (\<lambda>r. r_id r = tu_run_id u \<and> \<not> finished_run r) (on_terminal now u) db"

definition prepare_transport_recovery :: "timestamp \<Rightarrow> int \<Rightarrow> rstr \<Rightarrow> db \<Rightarrow> db \<times> bool" where
  "prepare_transport_recovery now run reason db =
     (let limit = (if can_transport_recover 0 then max_transport_recovery_attempts else 0)
      in guarded_runs (\<lambda>r. r_id r = run \<and> r_status r \<in> {Run_Starting, Run_Active} \<and> r_recovery_attempts r < limit)
       (\<lambda>r. r\<lparr>r_status := Run_Starting, r_recovery_attempts := r_recovery_attempts r + 1, r_exit_reason := Some reason,
              r_exit_code := None, r_stderr_summary := None, r_completed_at := None,
              r_recovery_suggestion := Some ''transport_recovering'', r_updated_at := now\<rparr>) db)"

definition set_cwd :: "timestamp \<Rightarrow> int \<Rightarrow> rstr \<Rightarrow> db \<Rightarrow> db" where
  "set_cwd now run cwd db = update_runs (\<lambda>r. r_id r = run) (\<lambda>r. r\<lparr>r_cwd := cwd, r_updated_at := now\<rparr>) db"

definition list_recoverable_runs :: "db \<Rightarrow> run_row list" where
  "list_recoverable_runs db =
     sort_key r_id (filter (\<lambda>r. r_status r \<in> {Run_Starting, Run_Active} \<and> r_thread_id r \<noteq> None) (runs db))"
section \<open>A run and its task\<close>

definition update_task_status :: "timestamp \<Rightarrow> int \<Rightarrow> task_status \<Rightarrow> db \<Rightarrow> db" where
  "update_task_status now task status db =
     update_tasks (\<lambda>t. t_id t = task)
       (\<lambda>t. t\<lparr>t_status := status, t_scheduler_claim_token := None, t_scheduler_claimed_at := None,
              t_scheduler_retry_at := (if status = Task_Queued then t_scheduler_retry_at t else None),
              t_scheduler_last_error := (if status = Task_Queued then t_scheduler_last_error t else None),
              t_updated_at := now\<rparr>) db"

definition mark_quality_gate_failed :: "timestamp \<Rightarrow> int \<Rightarrow> int \<Rightarrow> db \<Rightarrow> db \<times> bool" where
  "mark_quality_gate_failed now run task db =
     (let r = guarded_runs (\<lambda>r. r_id r = run \<and> r_status r = Run_Completed)
            (\<lambda>r. r\<lparr>r_status := Run_Failed, r_exit_reason := Some ''quality_gate_failed'',
                   r_recovery_suggestion := Some ''quality_gate_failed'',
                   r_completed_at := prefer_new (r_completed_at r) (Some now), r_updated_at := now\<rparr>) db
      in if \<not> snd r then (fst r, False)
         else (update_tasks (\<lambda>t. t_id t = task \<and> t_status t = Task_Succeeded)
                 (\<lambda>t. t\<lparr>t_status := Task_Failed, t_scheduler_claim_token := None, t_scheduler_claimed_at := None,
                        t_scheduler_retry_at := None, t_updated_at := now\<rparr>) (fst r), True))"

text \<open>\<^verbatim>\<open>SELECT r.status, t.status .. FOR UPDATE OF t, r\<close>.\<close>

definition run_and_task :: "int \<Rightarrow> int \<Rightarrow> db \<Rightarrow> (run_row \<times> task_row) option" where
  "run_and_task run task db =
     find (\<lambda>(r, t). r_task_id r = t_id t \<and> t_id t = task \<and> r_id r = run) (List.product (runs db) (tasks db))"

definition waits_for_approval :: "run_row \<times> task_row \<Rightarrow> bool" where
  "waits_for_approval rt = (r_status (fst rt) = Run_AwaitingApproval \<and> t_status (snd rt) = Task_AwaitingApproval)"

definition set_run_status :: "timestamp \<Rightarrow> int \<Rightarrow> run_status \<Rightarrow> db \<Rightarrow> db" where
  "set_run_status now run status db = update_runs (\<lambda>r. r_id r = run) (\<lambda>r. r\<lparr>r_status := status, r_updated_at := now\<rparr>) db"

definition claim_approval_recovery :: "timestamp \<Rightarrow> int \<Rightarrow> int \<Rightarrow> db \<Rightarrow> db \<times> bool" where
  "claim_approval_recovery now run task db =
     (case run_and_task run task db of
        None \<Rightarrow> (db, False)
      | Some rt \<Rightarrow>
          if r_thread_id (fst rt) = None \<or> \<not> waits_for_approval rt then (db, False)
          else (update_tasks (\<lambda>t. t_id t = task)
                  (\<lambda>t. t\<lparr>t_status := Task_Running, t_scheduler_claim_token := None, t_scheduler_claimed_at := None,
                         t_scheduler_retry_at := None, t_updated_at := now\<rparr>) (set_run_status now run Run_Starting db), True))"

definition mark_waiting :: "timestamp \<Rightarrow> int \<Rightarrow> int \<Rightarrow> db \<Rightarrow> db \<times> bool" where
  "mark_waiting now run task db =
     (case run_and_task run task db of
        None \<Rightarrow> (db, False)
      | Some rt \<Rightarrow>
          if waits_for_approval rt then (db, True)
          else if r_status (fst rt) \<notin> {Run_Starting, Run_Active} \<or> t_status (snd rt) \<noteq> Task_Running then (db, False)
          else (update_tasks (\<lambda>t. t_id t = task) (\<lambda>t. t\<lparr>t_status := Task_AwaitingApproval, t_updated_at := now\<rparr>)
                  (set_run_status now run Run_AwaitingApproval db), True))"

definition mark_resumed :: "timestamp \<Rightarrow> int \<Rightarrow> int \<Rightarrow> db \<Rightarrow> db \<times> bool" where
  "mark_resumed now run task db =
     (case run_and_task run task db of
        None \<Rightarrow> (db, False)
      | Some rt \<Rightarrow>
          if \<not> waits_for_approval rt then (db, False)
          else (update_tasks (\<lambda>t. t_id t = task) (\<lambda>t. t\<lparr>t_status := Task_Running, t_updated_at := now\<rparr>)
                  (set_run_status now run Run_Active db), True))"

definition fail_expired_run :: "timestamp \<Rightarrow> rstr \<Rightarrow> int \<Rightarrow> int \<Rightarrow> db \<Rightarrow> db \<times> bool" where
  "fail_expired_run now trace run task db =
     (case run_and_task run task db of
        None \<Rightarrow> (db, False)
      | Some rt \<Rightarrow>
          if \<not> waits_for_approval rt then (db, False)
          else (update_tasks (\<lambda>t. t_id t = task)
                  (\<lambda>t. t\<lparr>t_status := Task_Failed, t_scheduler_claim_token := None, t_scheduler_claimed_at := None,
                         t_scheduler_retry_at := None, t_updated_at := now\<rparr>)
                  (update_runs (\<lambda>r. r_id r = run \<and> r_task_id r = task)
                     (\<lambda>r. r\<lparr>r_status := Run_Failed, r_exit_reason := Some ''approval_expired'',
                            r_recovery_suggestion := Some ''approval_expired'', r_trace_id := Some trace,
                            r_completed_at := prefer_new (r_completed_at r) (Some now), r_updated_at := now\<rparr>) db), True))"

definition scheduler_retry_policy :: "int \<Rightarrow> db \<Rightarrow> sqlx_error + int \<times> int" where
  "scheduler_retry_policy task db =
     (case find_by_id db task of None \<Rightarrow> Inl RowNotFound
      | Some t \<Rightarrow> Inr (t_scheduler_attempt t, t_scheduler_max_attempts t))"

text \<open>\<^verbatim>\<open>requeue_task_after_run\<close>; \<^verbatim>\<open>requeue_task_after_hook_failure\<close> is the same statement.\<close>

definition requeue_task_after_run :: "timestamp \<Rightarrow> int \<Rightarrow> timestamp \<Rightarrow> rstr \<Rightarrow> db \<Rightarrow> db" where
  "requeue_task_after_run now task retry_at reason db =
     update_tasks (\<lambda>t. t_id t = task)
       (\<lambda>t. t\<lparr>t_status := Task_Queued, t_scheduler_claim_token := None, t_scheduler_claimed_at := None,
              t_scheduler_retry_count := t_scheduler_retry_count t + 1, t_scheduler_retry_at := Some retry_at,
              t_scheduler_last_error := Some (take_chars 500 reason), t_updated_at := now\<rparr>) db"

definition on_hook_failure :: "timestamp \<Rightarrow> rstr \<Rightarrow> task_row \<Rightarrow> task_row" where
  "on_hook_failure now fingerprint t =
     t\<lparr>t_hook_failure_count := (if t_hook_failure_fingerprint t = Some fingerprint then t_hook_failure_count t + 1 else 1),
       t_hook_failure_fingerprint := Some fingerprint, t_updated_at := now\<rparr>"

definition record_hook_failure :: "timestamp \<Rightarrow> int \<Rightarrow> rstr \<Rightarrow> db \<Rightarrow> sqlx_error + db \<times> int" where
  "record_hook_failure now task fingerprint db =
     (case find_by_id db task of
        None \<Rightarrow> Inl RowNotFound
      | Some t \<Rightarrow> Inr (update_tasks (\<lambda>t. t_id t = task) (on_hook_failure now fingerprint) db,
                       t_hook_failure_count (on_hook_failure now fingerprint t)))"

definition clear_hook_failure :: "timestamp \<Rightarrow> int \<Rightarrow> db \<Rightarrow> db" where
  "clear_hook_failure now task db =
     update_tasks (\<lambda>t. t_id t = task)
       (\<lambda>t. t\<lparr>t_hook_failure_fingerprint := None, t_hook_failure_count := 0, t_updated_at := now\<rparr>) db"

section \<open>After a restart\<close>

definition unrecoverable :: "run_row \<Rightarrow> bool" where
  "unrecoverable r = (r_status r \<in> {Run_Starting, Run_Active} \<and> r_thread_id r = None)"

definition lost_at_restart :: "timestamp \<Rightarrow> run_row \<Rightarrow> run_row" where
  "lost_at_restart now r =
     r\<lparr>r_status := Run_Failed, r_exit_reason := Some ''supervisor_restart'', r_retry_reason := Some ''no_thread_after_restart'',
       r_recovery_suggestion := Some ''retry_with_same_snapshot'', r_completed_at := prefer_new (r_completed_at r) (Some now),
       r_cleanup_status := ''completed'', r_updated_at := now\<rparr>"

definition restart_actor :: "run_row \<Rightarrow> actor_context" where
  "restart_actor r =
     \<lparr>actor_type = System, user_id = r_owner_user_id r, session_id = 0, organization_id = r_organization_id r,
      department_id = r_department_id r, data_scope = Scope_All, permission_codes = {}\<rparr>"

definition restart_lost :: "run_row \<Rightarrow> bool" where
  "restart_lost r = (r_status r = Run_Failed \<and> r_exit_reason r = Some ''supervisor_restart'')"

definition restart_source :: "run_row \<Rightarrow> rstr" where
  "restart_source r = ''run:'' @ show_int (r_id r) @ '':supervisor_restart''"

fun complete_lost_continuations ::
  "timestamp \<Rightarrow> (int \<Rightarrow> rstr) \<Rightarrow> run_row list \<Rightarrow> continuation_store \<Rightarrow> sqlx_error + continuation_store" where
  "complete_lost_continuations now traces [] s = Inr s"
| "complete_lost_continuations now traces (r # rs) s =
     (if r_run_kind r \<noteq> Continuation then complete_lost_continuations now traces rs s
      else and_then (continuation_complete_for_child_run now (traces (r_id r)) (restart_actor r) (r_id r)
               ''supervisor_restart'' Task_Failed s)
             (\<lambda>(s', _). complete_lost_continuations now traces rs s'))"

definition fail_restarted_tasks :: "timestamp \<Rightarrow> db \<Rightarrow> db" where
  "fail_restarted_tasks now db =
     update_tasks (\<lambda>t. t_status t = Task_Running
         \<and> list_ex (\<lambda>r. r_task_id r = t_id t \<and> restart_lost r \<and> r_run_kind r \<noteq> Continuation) (runs db))
       (\<lambda>t. t\<lparr>t_status := Task_Failed, t_scheduler_claim_token := None, t_scheduler_claimed_at := None,
              t_updated_at := now\<rparr>) db"

definition report_restart :: "rstr \<Rightarrow> int list \<Rightarrow> db \<Rightarrow> db" where
  "report_restart trace ids db =
     db\<lparr>notifications := insert_absent notification_key
          (map (\<lambda>r. \<lparr>n_organization_id = r_organization_id r, n_department_id = r_department_id r,
                 n_recipient_user_id = r_owner_user_id r, n_event_type = ''run.failed'', n_level = ''error'',
                 n_resource_type = ''devrail_run'', n_resource_id = r_id r, n_source_key = restart_source r\<rparr>)
            (filter restart_lost (runs db))) (notifications db),
        audit_logs := audit_logs db @
          map (\<lambda>r. \<lparr>a_organization_id = r_organization_id r, a_department_id = r_department_id r,
                 a_action = ''devrail.run.reconcile_restart'', a_target_type = ''devrail_run'', a_target_id = r_id r,
                 a_reason = ''supervisor_restart'', a_trace_id = trace\<rparr>)
            (filter (\<lambda>r. r_id r \<in> set ids) (runs db)),
        outbox_events := insert_absent outbox_key
          (map (\<lambda>r. \<lparr>o_organization_id = r_organization_id r, o_event_type = ''notification.created'',
                 o_aggregate_type = ''devrail_run'', o_aggregate_id = r_id r, o_source = restart_source r\<rparr>)
            (filter restart_lost (runs db))) (outbox_events db)\<rparr>"

definition mark_unrecoverable_runs ::
  "timestamp \<Rightarrow> (int \<Rightarrow> rstr) \<Rightarrow> rstr \<Rightarrow> continuation_store \<Rightarrow> sqlx_error + continuation_store \<times> nat" where
  "mark_unrecoverable_runs now traces trace s =
     (let db = cbase s; lost = rows_where unrecoverable (runs db);
          s1 = s\<lparr>cbase := update_runs unrecoverable (lost_at_restart now) db\<rparr>
      in if lost = [] then Inr (s1, 0)
         else and_then (complete_lost_continuations now traces (map (lost_at_restart now) lost) s1) (\<lambda>s2.
           Inr (s2\<lparr>cbase := report_restart trace (map r_id lost) (fail_restarted_tasks now (cbase s2))\<rparr>, length lost)))"

section \<open>Events\<close>

record run_event_row =
  re_id :: int
  re_organization_id :: int
  re_department_id :: "int option"
  re_owner_user_id :: int
  re_run_id :: int
  re_cursor :: int
  re_event_type :: rstr
  re_source_event_id :: "rstr option"
  re_idempotency_key :: rstr
  re_payload :: json
  re_summary :: "rstr option"

definition next_event_cursor :: "int \<Rightarrow> run_event_row list \<Rightarrow> int" where
  "next_event_cursor run evs = foldr max (map re_cursor (filter (\<lambda>e. re_run_id e = run) evs)) 0 + 1"

text \<open>The partial index on the source covers the rows that have one.\<close>

definition same_source :: "run_event_row \<Rightarrow> run_event_row \<Rightarrow> bool" where
  "same_source e x = (re_organization_id x = re_organization_id e \<and> both (re_source_event_id x) (re_source_event_id e)
     \<and> re_event_type x = re_event_type e)"

definition same_key :: "run_event_row \<Rightarrow> run_event_row \<Rightarrow> bool" where
  "same_key e x = (re_run_id x = re_run_id e \<and> re_idempotency_key x = re_idempotency_key e)"

definition touch_run :: "timestamp \<Rightarrow> int \<Rightarrow> db \<Rightarrow> db" where
  "touch_run now run db = update_runs (\<lambda>r. r_id r = run \<and> unfinished r)
     (\<lambda>r. r\<lparr>r_last_event_at := Some now, r_last_heartbeat_at := Some now, r_updated_at := now\<rparr>) db"

definition event_row :: "run_event_row \<Rightarrow> run_event_row list \<Rightarrow> run_event_row" where
  "event_row e evs = e\<lparr>re_id := next_serial re_id evs, re_cursor := next_event_cursor (re_run_id e) evs\<rparr>"

definition event_run_missing :: "run_event_row \<Rightarrow> db \<Rightarrow> bool" where
  "event_run_missing e db =
     (\<not> list_ex (\<lambda>r. r_id r = re_run_id e \<and> r_organization_id r = re_organization_id e) (runs db))"

definition append_event ::
  "timestamp \<Rightarrow> run_event_row \<Rightarrow> db \<Rightarrow> run_event_row list \<Rightarrow> sqlx_error + db \<times> run_event_row list \<times> run_event_row" where
  "append_event now e db evs =
     (case find (same_key e) evs of
        Some x \<Rightarrow> Inr (touch_run now (re_run_id e) db, evs, x)
      | None \<Rightarrow>
          if list_ex (same_source e) evs then Inl (Database UniqueViolation)
          else if event_run_missing e db then Inl (Database ForeignKeyViolation)
          else Inr (touch_run now (re_run_id e) db, evs @ [event_row e evs], event_row e evs))"

definition event_drift :: "run_event_row \<Rightarrow> run_event_row \<Rightarrow> bool" where
  "event_drift e x =
     (re_organization_id x \<noteq> re_organization_id e \<or> re_run_id x \<noteq> re_run_id e \<or> re_event_type x \<noteq> re_event_type e
      \<or> re_source_event_id x \<noteq> re_source_event_id e \<or> re_idempotency_key x \<noteq> re_idempotency_key e
      \<or> re_payload x \<noteq> re_payload e \<or> re_summary x \<noteq> re_summary e)"

definition append_idempotent_callback_event ::
  "timestamp \<Rightarrow> run_event_row \<Rightarrow> db \<Rightarrow> run_event_row list \<Rightarrow>
   sqlx_error + db \<times> run_event_row list \<times> run_event_row \<times> bool" where
  "append_idempotent_callback_event now e db evs =
     (if re_source_event_id e = None then Inl (Protocol ''callback_without_source'')
      else if \<not> list_ex (\<lambda>x. same_key e x \<or> same_source e x) evs
      then if event_run_missing e db then Inl (Database ForeignKeyViolation)
           else Inr (touch_run now (re_run_id e) db, evs @ [event_row e evs], event_row e evs, True)
      else case sort_key (\<lambda>x. (if re_source_event_id x = re_source_event_id e then 0 else 1 :: int, re_id x))
             (filter (\<lambda>x. same_key e x \<or> same_source e x) evs) of
        [] \<Rightarrow> Inl (Protocol ''callback_conflict_unreadable'')
      | x # _ \<Rightarrow> if event_drift e x then Inl (Protocol ''callback_drift'')
                 else Inr (touch_run now (re_run_id e) db, evs, x, False))"

text \<open>\<^verbatim>\<open>COALESCE(payload->>'status', '')\<close>; the text of a member that is no string is none of the three.\<close>

definition payload_status :: "json \<Rightarrow> rstr" where
  "payload_status p = (case json_get p ''status'' of Some (J_String s) \<Rightarrow> s | _ \<Rightarrow> [])"

definition has_failed_quality_gate :: "int \<Rightarrow> run_event_row list \<Rightarrow> bool" where
  "has_failed_quality_gate run evs =
     list_ex (\<lambda>e. re_run_id e = run \<and> re_event_type e = ''quality_gate''
        \<and> payload_status (re_payload e) \<notin> {''passed'', ''success'', ''succeeded''}) evs"

end
