(* ===== verification/Run_Flow.thy ===== *)
theory Run_Flow
  imports Runs
begin

text \<open>
  The runs as a state machine: every statement that writes \<^verbatim>\<open>devrail_runs\<close>, in any order and
  interleaving, keeps at most one unfinished run per task, never revives a run that ended, and
  keeps the lineage of retries, continuations and repairs a forest.
\<close>

section \<open>The step relation\<close>

inductive run_op :: "run_services \<Rightarrow> db \<Rightarrow> db \<Rightarrow> bool" for sv :: run_services where
  create: "create_run sv now i db = Inr (db', res) \<Longrightarrow> run_op sv db db'"
| continuation: "run_op sv db (fst (create_continuation_run now thread i db))"
| repair: "run_op sv db (fst (create_repair_run now requests i db))"
| claim_start: "run_op sv db (fst (claim_harness_start now run owner token lease db))"
| release_start: "run_op sv db (fst (release_harness_start now run token db))"
| started: "run_op sv db (fst (update_run_started now run thread turn version token db))"
| claim_gates: "run_op sv db (fst (claim_quality_gate_execution now run owner token lease db))"
| release_gates: "run_op sv db (fst (release_quality_gate_execution now run token db))"
| heartbeat: "run_op sv db (fst (update_run_heartbeat now run db))"
| terminal: "tu_status u \<in> {Run_Completed, Run_Failed, Run_Cancelled} \<Longrightarrow> run_op sv db (fst (update_run_terminal now u db))"
| recover: "run_op sv db (fst (prepare_transport_recovery now run reason db))"
| cwd: "run_op sv db (set_cwd now run dir db)"
| gate_failed: "run_op sv db (fst (mark_quality_gate_failed now run task db))"
| approval_recovery: "run_op sv db (fst (claim_approval_recovery now run task db))"
| waiting: "run_op sv db (fst (mark_waiting now run task db))"
| resumed: "run_op sv db (fst (mark_resumed now run task db))"
| expired: "run_op sv db (fst (fail_expired_run now trace run task db))"
| touched: "run_op sv db (touch_run now run db)"
| lost: "run_op sv db (update_runs unrecoverable (lost_at_restart now) db)"
| reconcile: "run_op sv db (fst (reconcile_scheduler_state now it rt running timeout db))"
| elsewhere: "runs db' = runs db \<Longrightarrow> run_op sv db db'"

section \<open>What a statement does to a run\<close>

fun run_moves :: "run_status \<Rightarrow> run_status \<Rightarrow> bool" where
  "run_moves Run_Created s = True"
| "run_moves Run_Completed s = (s \<in> {Run_Completed, Run_Failed})"
| "run_moves Run_Failed s = (s = Run_Failed)"
| "run_moves Run_Cancelled s = (s = Run_Cancelled)"
| "run_moves _ s = (s \<noteq> Run_Created)"

definition run_identity :: "run_row \<Rightarrow> int \<times> int \<times> int \<times> int option \<times> int option \<times> int \<times> run_kind" where
  "run_identity r = (r_id r, r_organization_id r, r_task_id r, r_parent_run_id r, r_root_run_id r, r_attempt r, r_run_kind r)"

definition run_step_ok :: "run_row \<Rightarrow> run_row \<Rightarrow> bool" where
  "run_step_ok r r' = (run_identity r' = run_identity r \<and> run_moves (r_status r) (r_status r'))"

definition runs_change :: "db \<Rightarrow> db \<Rightarrow> bool" where
  "runs_change db db' = list_all2 run_step_ok (runs db) (runs db')"

lemma run_moves_refl [simp]: "run_moves s s"
  by (cases s) simp_all

lemma run_step_ok_refl [simp]: "run_step_ok r r"
  by (simp add: run_step_ok_def)

lemma runs_change_same: "runs db' = runs db \<Longrightarrow> runs_change db db'"
  by (simp add: runs_change_def list_all2_same)

lemma runs_change_update:
  assumes "runs db' = update_where P f (runs db)"
    and "\<And>r. r \<in> set (runs db) \<Longrightarrow> P r \<Longrightarrow> run_step_ok r (f r)"
  shows "runs_change db db'"
  unfolding runs_change_def assms(1) update_where_def
  using assms(2) by (auto simp: list_all2_conv_all_nth)

lemma find_pair_run:
  assumes "run_and_task run task db = Some rt"
  shows "fst rt \<in> set (runs db)" and "r_id (fst rt) = run"
  using find_SomeD [OF assms [unfolded run_and_task_def]] by (auto split: prod.splits)

text \<open>The statements that change the status after reading it.\<close>

lemma set_status_change:
  assumes "run_and_task run task db = Some rt" and "distinct (map r_id (runs db))"
    and "runs db' = update_where P f (runs db)" and "\<And>r. P r \<Longrightarrow> r_id r = run"
    and "run_step_ok (fst rt) (f (fst rt))"
  shows "runs_change db db'"
proof (rule runs_change_update [OF assms(3)])
  fix r assume "r \<in> set (runs db)" and "P r"
  then have "r = fst rt"
    using find_pair_run [OF assms(1)] assms(2) assms(4) [of r] by (auto simp: distinct_map dest: inj_onD)
  with assms(5) show "run_step_ok r (f r)" by simp
qed

lemma runs_update_runs [simp]: "runs (update_runs P f db) = update_where P f (runs db)"
  by (simp add: update_runs_def)

lemma tasks_update_runs [simp]: "tasks (update_runs P f db) = tasks db"
  by (simp add: update_runs_def)

lemma fst_guarded_runs [simp]: "fst (guarded_runs P f db) = update_runs P f db"
  by (simp add: guarded_runs_def)

lemma approval_statements_change:
  assumes "distinct (map r_id (runs db))"
  shows "runs_change db (fst (claim_approval_recovery now run task db))"
    and "runs_change db (fst (mark_waiting now run task db))"
    and "runs_change db (fst (mark_resumed now run task db))"
    and "runs_change db (fst (fail_expired_run now trace run task db))"
proof -
  note defs = claim_approval_recovery_def mark_waiting_def mark_resumed_def fail_expired_run_def set_run_status_def
  show "runs_change db (fst (claim_approval_recovery now run task db))"
    by (cases "run_and_task run task db")
      (auto simp: defs runs_change_same waits_for_approval_def run_step_ok_def run_identity_def
        intro: set_status_change [OF _ assms])
  show "runs_change db (fst (mark_waiting now run task db))"
    by (cases "run_and_task run task db")
      (auto simp: defs runs_change_same waits_for_approval_def run_step_ok_def run_identity_def
        intro: set_status_change [OF _ assms])
  show "runs_change db (fst (mark_resumed now run task db))"
    by (cases "run_and_task run task db")
      (auto simp: defs runs_change_same waits_for_approval_def run_step_ok_def run_identity_def
        intro: set_status_change [OF _ assms])
  show "runs_change db (fst (fail_expired_run now trace run task db))"
    by (cases "run_and_task run task db")
      (auto simp: defs runs_change_same waits_for_approval_def run_step_ok_def run_identity_def
        intro: set_status_change [OF _ assms])
qed

lemma finished_moves:
  "\<not> finished_run r \<Longrightarrow> s \<in> {Run_Completed, Run_Failed, Run_Cancelled} \<Longrightarrow> run_moves (r_status r) s"
  by (cases "r_status r") (auto simp: finished_run_def)

lemma terminal_change:
  assumes "tu_status u \<in> {Run_Completed, Run_Failed, Run_Cancelled}"
  shows "runs_change db (fst (update_run_terminal now u db))"
  by (rule runs_change_update [of _ "\<lambda>r. r_id r = tu_run_id u \<and> \<not> finished_run r" "on_terminal now u"])
    (use finished_moves [OF _ assms] in \<open>auto simp: update_run_terminal_def on_terminal_def run_step_ok_def run_identity_def\<close>)

lemma update_statements_change:
  shows "runs_change db (fst (claim_harness_start now run owner token lease db))"
    and "runs_change db (fst (release_harness_start now run token db))"
    and "runs_change db (fst (update_run_started now run thread turn version token db))"
    and "runs_change db (fst (claim_quality_gate_execution now run owner token lease db))"
    and "runs_change db (fst (release_quality_gate_execution now run token db))"
    and "runs_change db (fst (update_run_heartbeat now run db))"
    and "runs_change db (fst (prepare_transport_recovery now run reason db))"
    and "runs_change db (set_cwd now run dir db)"
    and "runs_change db (fst (mark_quality_gate_failed now run task db))"
    and "runs_change db (touch_run now run db)"
    and "runs_change db (update_runs unrecoverable (lost_at_restart now) db)"
    and "runs_change db (fst (reconcile_scheduler_state now it rt running timeout db))"
  unfolding claim_harness_start_def release_harness_start_def update_run_started_def claim_quality_gate_execution_def
    release_quality_gate_execution_def update_run_heartbeat_def prepare_transport_recovery_def set_cwd_def
    mark_quality_gate_failed_def touch_run_def Let_def
  by (auto intro!: runs_change_update [where f = f and P = P for f P]
      simp: fst_reconcile_runs fail_stale_runs_def process_missing_def stale_run_def unrecoverable_def lost_at_restart_def
        run_step_ok_def run_identity_def)

section \<open>The invariant\<close>

definition lineage :: "run_row list \<Rightarrow> run_row \<Rightarrow> bool" where
  "lineage rs r = (case r_parent_run_id r of
     None \<Rightarrow> r_root_run_id r = Some (r_id r)
   | Some p \<Rightarrow> p < r_id r \<and> r_root_run_id r \<noteq> None \<and> (\<exists>q \<in> set rs. r_id q = p \<and> r_root_run_id q = r_root_run_id r))"

definition run_inv :: "db \<Rightarrow> bool" where
  "run_inv db =
     (distinct (map r_id (runs db)) \<and> (\<forall>r \<in> set (runs db). r_status r \<noteq> Run_Created \<and> lineage (runs db) r)
      \<and> (\<forall>r \<in> set (runs db). \<forall>q \<in> set (runs db).
           unfinished r \<and> unfinished q \<and> r_task_id r = r_task_id q \<longrightarrow> r_id r = r_id q))"

lemma run_invD:
  assumes "run_inv db"
  shows "distinct (map r_id (runs db))" and "r \<in> set (runs db) \<Longrightarrow> r_status r \<noteq> Run_Created"
    and "r \<in> set (runs db) \<Longrightarrow> lineage (runs db) r"
    and "r \<in> set (runs db) \<Longrightarrow> q \<in> set (runs db) \<Longrightarrow> unfinished r \<Longrightarrow> unfinished q \<Longrightarrow>
      r_task_id r = r_task_id q \<Longrightarrow> r_id r = r_id q"
  using assms unfolding run_inv_def by blast+

lemma run_identityD:
  assumes "run_identity r' = run_identity r"
  shows "r_id r' = r_id r" and "r_task_id r' = r_task_id r" and "r_parent_run_id r' = r_parent_run_id r"
    and "r_root_run_id r' = r_root_run_id r"
  using assms by (simp_all add: run_identity_def)

lemma run_moves_unfinished:
  "run_moves (r_status r) (r_status r') \<Longrightarrow> r_status r \<noteq> Run_Created \<Longrightarrow>
   r_status r' \<noteq> Run_Created \<and> (unfinished r' \<longrightarrow> unfinished r)"
  by (cases "r_status r") (auto simp: unfinished_def)

lemma change_rows:
  assumes "runs_change db db'"
  shows "map run_identity (runs db') = map run_identity (runs db)"
    and "r' \<in> set (runs db') \<Longrightarrow> \<exists>r \<in> set (runs db). run_step_ok r r'"
    and "r \<in> set (runs db) \<Longrightarrow> \<exists>r' \<in> set (runs db'). run_step_ok r r'"
proof -
  have len: "length (runs db') = length (runs db)"
    and ok: "\<And>i. i < length (runs db) \<Longrightarrow> run_step_ok (runs db ! i) (runs db' ! i)"
    using assms by (auto simp: runs_change_def list_all2_conv_all_nth)
  then show "map run_identity (runs db') = map run_identity (runs db)"
    by (auto simp: run_step_ok_def intro!: nth_equalityI)
  show "\<exists>r \<in> set (runs db). run_step_ok r r'" if "r' \<in> set (runs db')"
    using that ok len by (metis in_set_conv_nth)
  show "\<exists>r' \<in> set (runs db'). run_step_ok r r'" if "r \<in> set (runs db)"
    using that ok len by (metis in_set_conv_nth)
qed

lemma change_inv:
  assumes "runs_change db db'" and "run_inv db"
  shows "run_inv db'"
proof -
  note inv = run_invD [OF assms(2)]
  have "map r_id xs = map fst (map run_identity xs)" for xs by (simp add: run_identity_def comp_def)
  then have ids: "distinct (map r_id (runs db'))" using inv(1) change_rows(1) [OF assms(1)] by metis
  have step: "\<exists>r \<in> set (runs db). run_identity r' = run_identity r \<and> r_status r' \<noteq> Run_Created
      \<and> (unfinished r' \<longrightarrow> unfinished r)" if "r' \<in> set (runs db')" for r'
    using change_rows(2) [OF assms(1) that] inv(2) run_moves_unfinished by (fastforce simp: run_step_ok_def)
  have "lineage (runs db') r'" if r': "r' \<in> set (runs db')" for r'
  proof -
    obtain r where r: "r \<in> set (runs db)" "run_identity r' = run_identity r" using step [OF r'] by blast
    have "\<exists>q' \<in> set (runs db'). run_identity q' = run_identity q" if "q \<in> set (runs db)" for q
      using change_rows(3) [OF assms(1) that] by (auto simp: run_step_ok_def)
    with inv(3) [OF r(1)] show ?thesis
      by (auto simp: lineage_def run_identityD [OF r(2)] split: option.splits) (metis run_identityD(1,4))
  qed
  moreover have "r_id r' = r_id q'" if two: "r' \<in> set (runs db')" "q' \<in> set (runs db')" "unfinished r'" "unfinished q'"
      "r_task_id r' = r_task_id q'" for r' q'
  proof -
    obtain r q where r: "r \<in> set (runs db)" "run_identity r' = run_identity r" "unfinished r"
      and q: "q \<in> set (runs db)" "run_identity q' = run_identity q" "unfinished q"
      using step [OF two(1)] step [OF two(2)] two(3,4) by blast
    have "r_id r = r_id q"
      using two(5) run_identityD(2) [OF r(2)] run_identityD(2) [OF q(2)] by (intro inv(4) r q) simp
    then show ?thesis using run_identityD(1) [OF r(2)] run_identityD(1) [OF q(2)] by simp
  qed
  moreover have "r' \<in> set (runs db') \<Longrightarrow> r_status r' \<noteq> Run_Created" for r' using step by blast
  ultimately show ?thesis unfolding run_inv_def using ids by blast
qed

text \<open>A run is added: the unique indexes, and a parent that is there already.\<close>

lemma added_inv:
  assumes "run_inv db" and "runs db' = runs db @ [r]" and "r_id r = next_serial r_id (runs db)"
    and "\<not> list_ex (run_conflict r) (runs db)" and "r_status r = Run_Starting"
    and "case r_parent_run_id r of None \<Rightarrow> r_root_run_id r = Some (r_id r)
      | Some p \<Rightarrow> \<exists>q \<in> set (runs db). r_id q = p \<and> r_root_run_id r = r_root_run_id q"
  shows "run_inv db'"
proof -
  note inv = run_invD [OF assms(1)]
  have fresh: "r_id q < r_id r" if "q \<in> set (runs db)" for q
    unfolding assms(3) by (rule next_serial_greater [OF that])
  have old: "lineage (runs db') q" if "q \<in> set (runs db)" for q
    using inv(3) [OF that] by (force simp: lineage_def assms(2) split: option.splits)
  have new: "lineage (runs db') r"
  proof (cases "r_parent_run_id r")
    case None
    then show ?thesis using assms(6) by (simp add: lineage_def)
  next
    case (Some p)
    with assms(6) obtain q where q: "q \<in> set (runs db)" "r_id q = p" "r_root_run_id r = r_root_run_id q" by auto
    have "r_root_run_id q \<noteq> None" using inv(3) [OF q(1)] by (auto simp: lineage_def split: option.splits)
    with Some q fresh [OF q(1)] show ?thesis by (auto simp: lineage_def assms(2))
  qed
  have free: "\<not> (unfinished q \<and> r_task_id q = r_task_id r)" if "q \<in> set (runs db)" for q
    using assms(4,5) that by (auto simp: list_ex_iff run_conflict_def unfinished_def)
  have single: "r_id p = r_id q" if "p \<in> set (runs db')" "q \<in> set (runs db')" "unfinished p" "unfinished q"
      "r_task_id p = r_task_id q" for p q
  proof -
    have "p = r \<or> p \<in> set (runs db)" "q = r \<or> q \<in> set (runs db)" using that(1,2) by (auto simp: assms(2))
    then show ?thesis using free [of p] free [of q] inv(4) [of p q] that(3-5) by metis
  qed
  have ids: "distinct (map r_id (runs db'))" using fresh inv(1) by (fastforce simp: assms(2))
  have each: "r_status q \<noteq> Run_Created \<and> lineage (runs db') q" if "q \<in> set (runs db')" for q
    using that inv(2) [of q] old [of q] new assms(5) by (auto simp: assms(2))
  show ?thesis unfolding run_inv_def using ids each single by blast
qed

lemma create_run_inv:
  assumes "run_inv db" and "create_run sv now i db = Inr (db', res)"
  shows "run_inv db' \<and> (\<exists>rs. runs db' = runs db @ rs)"
proof (cases "db' = db")
  case True
  then show ?thesis using assms(1) by simp
next
  case False
  define row where "row = (starting_run now i (next_serial r_id (runs db)))
      \<lparr>r_run_kind := (if nw_parent_run_id i \<noteq> None \<or> actor_type (nw_actor i) = System \<and> nw_attempt i > 1
                      then Retry else Primary),
       r_harness_start_key := Some (run_start_key sv (organization_id (nw_actor i)) (nw_task_id i)
         (nw_attempt i) (nw_idempotency_key i))\<rparr>"
  have row: "r_id row = next_serial r_id (runs db)" "r_status row = Run_Starting" "r_parent_run_id row = nw_parent_run_id i"
    by (simp_all add: row_def starting_run_def)
  obtain root where db': "runs db' = runs db @ [row\<lparr>r_root_run_id := root\<rparr>]"
    and free: "\<not> list_ex (run_conflict row) (runs db)"
    and root: "case nw_parent_run_id i of None \<Rightarrow> root = Some (r_id row)
      | Some p \<Rightarrow> \<exists>q \<in> set (runs db). r_id q = p \<and> root = r_root_run_id q"
  proof (cases "nw_parent_run_id i")
    case None
    then show ?thesis
      using assms(2) False that unfolding create_run_def Let_def row_def [symmetric] by (auto split: if_splits)
  next
    case (Some p)
    then obtain q where "find (\<lambda>q. r_id q = p) (runs db) = Some q"
        "runs db' = runs db @ [row\<lparr>r_root_run_id := r_root_run_id q\<rparr>]" "\<not> list_ex (run_conflict row) (runs db)"
      using assms(2) False unfolding create_run_def Let_def row_def [symmetric] by (auto split: if_splits option.splits)
    then show ?thesis using that [of "r_root_run_id q"] Some find_SomeD by fastforce
  qed
  have "run_conflict (row\<lparr>r_root_run_id := root\<rparr>) = run_conflict row"
    by (simp add: fun_eq_iff run_conflict_def unfinished_def)
  then show ?thesis
    using added_inv [OF assms(1) db'] free row root db' by (cases "nw_parent_run_id i") simp_all
qed

lemma insert_child_inv:
  assumes "run_inv db"
    and "\<And>r. r_id (f r) = r_id r \<and> r_status (f r) = r_status r \<and> r_parent_run_id (f r) = r_parent_run_id r
           \<and> r_root_run_id (f r) = r_root_run_id r"
  shows "run_inv (fst (insert_child sourced f own attempt now i db))
    \<and> (\<exists>rs. runs (fst (insert_child sourced f own attempt now i db)) = runs db @ rs)"
proof (cases "find (sourced db) (runs db)")
  case None
  then show ?thesis using assms(1) by (simp add: insert_child_def)
next
  case (Some q)
  define r where "r = f ((starting_run now (nh_run i) (next_serial r_id (runs db)))
        \<lparr>r_attempt := attempt, r_actor_type := System, r_parent_run_id := Some (r_id q),
         r_root_run_id := Some (source_root q), r_harness_start_key := Some (nh_harness_start_key i)\<rparr>)"
  have q: "q \<in> set (runs db)" using find_SomeD [OF Some] by simp
  have root: "r_root_run_id q = Some (source_root q)"
    using run_invD(3) [OF assms(1) q] by (auto simp: lineage_def source_root_def split: option.splits)
  have "insert_child sourced f own attempt now i db =
      (if list_ex (run_conflict r) (runs db) then (db, find own (runs db)) else (db\<lparr>runs := runs db @ [r]\<rparr>, Some r))"
    by (simp add: insert_child_def Some r_def Let_def)
  moreover have "r_id r = next_serial r_id (runs db)" "r_status r = Run_Starting" "r_parent_run_id r = Some (r_id q)"
      "r_root_run_id r = r_root_run_id q"
    by (simp_all add: r_def assms(2) starting_run_def root)
  ultimately show ?thesis
    using assms(1) added_inv [OF assms(1), of "db\<lparr>runs := runs db @ [r]\<rparr>" r] q by (auto simp del: list_ex_iff)
qed

lemma change_result:
  "runs_change db db' \<Longrightarrow> run_inv db \<Longrightarrow> run_inv db' \<and> (runs_change db db' \<or> (\<exists>rs. runs db' = runs db @ rs))"
  using change_inv by blast

lemma op_run_inv:
  assumes "run_op sv db db'" and "run_inv db"
  shows "run_inv db' \<and> (runs_change db db' \<or> (\<exists>rs. runs db' = runs db @ rs))"
  using assms(1)
proof cases
  case create
  then show ?thesis using create_run_inv [OF assms(2)] by blast
next
  case continuation
  then show ?thesis unfolding create_continuation_run_def using insert_child_inv [OF assms(2)] by simp
next
  case repair
  then show ?thesis unfolding create_repair_run_def using insert_child_inv [OF assms(2)] by simp
next
  case terminal
  then show ?thesis using change_result [OF terminal_change assms(2)] by blast
next
  case elsewhere
  then show ?thesis by (rule change_result [OF runs_change_same assms(2)])
qed (simp only:, rule change_result [OF _ assms(2)],
    rule update_statements_change approval_statements_change [OF run_invD(1) [OF assms(2)]])+

lemma reachable_runs:
  assumes "runs db0 = []" and "(run_op sv)\<^sup>*\<^sup>* db0 db"
  shows "run_inv db"
  using assms(2,1)
  by (induction rule: rtranclp_induct) (auto simp: run_inv_def [of db0] dest: op_run_inv)

section \<open>Lineage\<close>

text \<open>The rows up to a given one: their parents are among them, so the walk to the root never needs a
  later row.\<close>

definition lineage_up_to :: "run_row list \<Rightarrow> int \<Rightarrow> bool" where
  "lineage_up_to rs i = (distinct (map r_id rs) \<and> (\<forall>r \<in> set rs. r_id r \<le> i \<longrightarrow> lineage rs r))"

lemma lineage_up_to_filter:
  assumes "lineage_up_to rs i" and "p < i"
  shows "lineage_up_to (filter (\<lambda>x. r_id x \<noteq> i) rs) p"
proof -
  have "lineage (filter (\<lambda>x. r_id x \<noteq> i) rs) r" if r: "r \<in> set rs" "r_id r \<le> p" for r
  proof (cases "r_parent_run_id r")
    case (Some u)
    then obtain q where q: "u < r_id r" "r_root_run_id r \<noteq> None" "q \<in> set rs" "r_id q = u"
        "r_root_run_id q = r_root_run_id r"
      using assms r by (force simp: lineage_up_to_def lineage_def)
    then have "q \<in> set (filter (\<lambda>x. r_id x \<noteq> i) rs)" using r(2) assms(2) by auto
    with q Some show ?thesis unfolding lineage_def by auto
  qed (use assms r in \<open>auto simp: lineage_up_to_def lineage_def\<close>)
  with assms(1) show ?thesis by (auto simp: lineage_up_to_def distinct_map_filter)
qed

lemma lineage_walk:
  assumes "lineage_up_to rs (r_id r)" and "r \<in> set rs"
  shows "run_lineage rs (r_id r) \<noteq> [] \<and> hd (run_lineage rs (r_id r)) = r
    \<and> last (run_lineage rs (r_id r)) \<in> set rs \<and> r_parent_run_id (last (run_lineage rs (r_id r))) = None
    \<and> r_root_run_id r = Some (r_id (last (run_lineage rs (r_id r))))"
  using assms
proof (induction rs "r_id r" arbitrary: r rule: run_lineage.induct)
  case (1 rs)
  have ids: "distinct (map r_id rs)" using "1.prems"(1) by (simp add: lineage_up_to_def)
  have found: "find (\<lambda>x. r_id x = r_id r) rs = Some r" using find_distinct_iff [OF ids] "1.prems"(2) by simp
  have lin: "lineage rs r" using "1.prems" by (simp add: lineage_up_to_def)
  show ?case
  proof (cases "r_parent_run_id r")
    case None
    then have "run_lineage rs (r_id r) = [r]" by (subst run_lineage.simps) (simp add: found)
    with None lin "1.prems"(2) show ?thesis by (simp add: lineage_def)
  next
    case (Some p)
    let ?rs = "filter (\<lambda>x. r_id x \<noteq> r_id r) rs"
    obtain q where q: "q \<in> set rs" "r_id q = p" "p < r_id r" "r_root_run_id q = r_root_run_id r"
      using lin Some by (auto simp: lineage_def)
    have mem: "q \<in> set ?rs" using q by auto
    have walk: "run_lineage rs (r_id r) = r # run_lineage ?rs p"
      by (subst run_lineage.simps) (simp add: found Some)
    have "run_lineage ?rs (r_id q) \<noteq> [] \<and> last (run_lineage ?rs (r_id q)) \<in> set ?rs
        \<and> r_parent_run_id (last (run_lineage ?rs (r_id q))) = None
        \<and> r_root_run_id q = Some (r_id (last (run_lineage ?rs (r_id q))))"
      using "1.hyps" [OF found, of q] Some mem lineage_up_to_filter [OF "1.prems"(1) q(3)] q(2) by auto
    then show ?thesis using q by (simp add: walk)
  qed
qed

section \<open>Properties\<close>

definition example_run_services :: run_services where
  "example_run_services = \<lparr>rv_md5 = (\<lambda>s. s), rv_workflow = (\<lambda>_. Some J_Null)\<rparr>"

definition example_runner :: actor_context where
  "example_runner =
     \<lparr>actor_type = User, user_id = 100, session_id = 1, organization_id = 1, department_id = Some 10,
      data_scope = Scope_Organization, permission_codes = {}\<rparr>"

definition example_new_run :: "rstr \<Rightarrow> int \<Rightarrow> int option \<Rightarrow> new_run" where
  "example_new_run key attempt parent =
     \<lparr>nw_actor = example_runner, nw_task_id = 1, nw_snapshot_id = 1, nw_idempotency_key = key, nw_attempt = attempt,
      nw_task_revision = 1, nw_workflow_source = ''w'', nw_workflow_version = ''1'', nw_workflow_digest = ''x'',
      nw_workflow_snapshot = J_Null, nw_parent_run_id = parent, nw_parent_turn_id = None, nw_cwd = ''/w'',
      nw_department_id = Some 10\<rparr>"

definition example_failure :: terminal_update where
  "example_failure = \<lparr>tu_run_id = 1, tu_status = Run_Failed, tu_exit_reason = ''stall'', tu_exit_code = None,
     tu_stderr_summary = None, tu_trace_id = ''trace'', tu_recovery_suggestion = None\<rparr>"

definition example_first :: "sqlx_error + db \<times> run_row option" where
  "example_first = create_run example_run_services 1 (example_new_run ''a'' 1 None) (example_db [example_task 1] [])"

definition example_after_first :: db where
  "example_after_first = (case example_first of Inl _ \<Rightarrow> example_db [] [] | Inr (db, _) \<Rightarrow> db)"

definition example_failed_first :: db where
  "example_failed_first = fst (update_run_terminal 2 example_failure example_after_first)"

definition example_second :: "sqlx_error + db \<times> run_row option" where
  "example_second = create_run example_run_services 3 (example_new_run ''b'' 2 (Some 1)) example_failed_first"

definition example_retried :: db where
  "example_retried = (case example_second of Inl _ \<Rightarrow> example_db [] [] | Inr (db, _) \<Rightarrow> db)"

lemma example_first_ok: "\<exists>res. example_first = Inr (example_after_first, res)"
proof -
  have "case example_first of Inl _ \<Rightarrow> False | Inr _ \<Rightarrow> True" by code_simp
  then obtain db res where created: "example_first = Inr (db, res)" by (auto split: sum.splits)
  show ?thesis unfolding example_after_first_def created by simp
qed

lemma example_second_ok: "\<exists>res. example_second = Inr (example_retried, res)"
proof -
  have "case example_second of Inl _ \<Rightarrow> False | Inr _ \<Rightarrow> True" by code_simp
  then obtain db res where created: "example_second = Inr (db, res)" by (auto split: sum.splits)
  show ?thesis unfolding example_retried_def created by simp
qed

lemma example_retried_reached:
  "(run_op example_run_services)\<^sup>*\<^sup>* (example_db [example_task 1] []) example_failed_first"
  "(run_op example_run_services)\<^sup>*\<^sup>* example_failed_first example_retried"
proof -
  have "run_op example_run_services (example_db [example_task 1] []) example_after_first"
    using example_first_ok unfolding example_first_def by (blast intro: run_op.create)
  moreover have "run_op example_run_services example_after_first example_failed_first"
    unfolding example_failed_first_def by (rule run_op.terminal) (simp add: example_failure_def)
  ultimately show "(run_op example_run_services)\<^sup>*\<^sup>* (example_db [example_task 1] []) example_failed_first" by simp
  have "run_op example_run_services example_failed_first example_retried"
    using example_second_ok unfolding example_second_def by (blast intro: run_op.create)
  then show "(run_op example_run_services)\<^sup>*\<^sup>* example_failed_first example_retried" by simp
qed

lemma example_retried_rows:
  "map (\<lambda>r. (r_id r, r_status r, r_parent_run_id r)) (runs example_retried) = [(1, Run_Failed, None), (2, Run_Starting, Some 1)]"
  by code_simp



text \<open>C21. A run that ended stays ended: whatever happens later, a failed or cancelled run keeps its status,
  and a completed one can only become failed, when its quality gates fail; late events, duplicate
  results, recoveries and restarts never revive it.\<close>

theorem ended_run_is_final:
  assumes "runs db0 = []" and "(run_op sv)\<^sup>*\<^sup>* db0 db" and "(run_op sv)\<^sup>*\<^sup>* db db'"
    and "r \<in> set (runs db)" and "r_status r \<in> {Run_Completed, Run_Failed, Run_Cancelled}"
  shows "\<exists>r' \<in> set (runs db'). run_identity r' = run_identity r
    \<and> (r_status r' = r_status r \<or> r_status r = Run_Completed \<and> r_status r' = Run_Failed)"
  using assms(3)
proof (induction rule: rtranclp_induct)
  case base
  then show ?case using assms(4) by blast
next
  case (step x y)
  then obtain q where q: "q \<in> set (runs x)" "run_identity q = run_identity r"
      "r_status q = r_status r \<or> r_status r = Run_Completed \<and> r_status q = Run_Failed" by blast
  have "run_inv x" using reachable_runs [OF assms(1)] assms(2) step.hyps(1) by (meson rtranclp_trans)
  from op_run_inv [OF step.hyps(2) this] have "\<exists>r' \<in> set (runs y). run_step_ok q r'"
    using q(1) change_rows(3) by (metis UnI1 run_step_ok_refl set_append)
  then obtain r' where "r' \<in> set (runs y)" "run_step_ok q r'" by blast
  with q(2,3) assms(5) show ?case by (intro bexI [of _ r']) (auto simp: run_step_ok_def)
qed

theorem ended_run_is_final_witness:
  "\<exists>r \<in> set (runs example_failed_first). r_status r = Run_Failed
    \<and> (\<exists>r' \<in> set (runs example_retried). run_identity r' = run_identity r \<and> r_status r' = Run_Failed)"
proof -
  have "map (\<lambda>r. r_status r) (runs example_failed_first) = [Run_Failed]" by code_simp
  then obtain r where r: "r \<in> set (runs example_failed_first)" "r_status r = Run_Failed" by (auto simp: map_eq_Cons_conv)
  have none: "runs (example_db [example_task 1] []) = []" by (simp add: example_db_def)
  from ended_run_is_final [OF none example_retried_reached r(1)] r(2) show ?thesis using r by auto
qed

end
