(* ===== verification/Run_Starts.thy ===== *)
theory Run_Starts
  imports Run_Flow Leases
begin

text \<open>
  The start of a run as a lease: a supervisor claims the run under a token before it spawns the
  agent, and only the holder of the claim can record that the run started. The table of runs is an
  instance of the lease protocol; there is no renewal, and an expired claim is taken over by the
  next one.
\<close>

definition find_run_row :: "db \<Rightarrow> int \<Rightarrow> run_row option" where
  "find_run_row db k = find (\<lambda>r. r_id r = k) (runs db)"

definition start_holder :: "db \<Rightarrow> int \<Rightarrow> uuid option" where
  "start_holder db k = (case find_run_row db k of
     None \<Rightarrow> None | Some r \<Rightarrow> if r_status r = Run_Starting then start_token r else None)"

definition start_live :: "db \<Rightarrow> timestamp \<Rightarrow> int \<Rightarrow> bool" where
  "start_live db T k = (case find_run_row db k of None \<Rightarrow> False | Some r \<Rightarrow> \<not> start_claim_free T r)"

definition run_ids_ok :: "db \<Rightarrow> bool" where
  "run_ids_ok db = distinct (map r_id (runs db))"

text \<open>Who claims which run for how long is up to the supervisors.\<close>

definition start_claim ::
  "(timestamp \<Rightarrow> uuid \<Rightarrow> int) \<Rightarrow> (timestamp \<Rightarrow> uuid \<Rightarrow> rstr) \<Rightarrow> (timestamp \<Rightarrow> uuid \<Rightarrow> int) \<Rightarrow>
   timestamp \<Rightarrow> uuid \<Rightarrow> db \<Rightarrow> db \<times> int list" where
  "start_claim target owner lease now token db =
     (let res = claim_harness_start now (target now token) (owner now token) token (lease now token) db
      in (fst res, if snd res then [target now token] else []))"

definition start_release :: "timestamp \<Rightarrow> uuid \<Rightarrow> int \<Rightarrow> db \<Rightarrow> db \<times> bool" where
  "start_release now token k db = release_harness_start now k token db"

abbreviation no_renewal :: "timestamp \<Rightarrow> uuid \<Rightarrow> int \<Rightarrow> db \<Rightarrow> db \<times> bool" where
  "no_renewal \<equiv> \<lambda>now token k db. (db, False)"

abbreviation no_sweep :: "timestamp \<Rightarrow> db \<Rightarrow> db" where
  "no_sweep \<equiv> \<lambda>now db. db"

lemma find_run_row_id: "find_run_row db k = Some r \<Longrightarrow> r_id r = k"
  by (auto simp: find_run_row_def dest: find_SomeD)

lemma find_guarded_runs:
  assumes "\<And>r. r_id (f r) = r_id r"
  shows "find_run_row (fst (guarded_runs P f db)) k = map_option (\<lambda>r. if P r then f r else r) (find_run_row db k)"
  unfolding find_run_row_def by (simp add: find_update_where assms)

lemma snd_guarded_runs:
  assumes "run_ids_ok db" and "\<And>r. P r \<Longrightarrow> r_id r = k"
  shows "snd (guarded_runs P f db) \<longleftrightarrow> (\<exists>r. find_run_row db k = Some r \<and> P r)"
  using assms length_rows_where_key [of r_id "runs db" P k]
  by (simp add: guarded_runs_def find_run_row_def run_ids_ok_def)

lemma guarded_runs_refused:
  assumes "run_ids_ok db" and "\<And>r. P r \<Longrightarrow> r_id r = k" and "\<And>r. find_run_row db k = Some r \<Longrightarrow> \<not> P r"
  shows "guarded_runs P f db = (db, False)"
proof -
  have "\<not> P r" if "r \<in> set (runs db)" for r
    using that assms find_distinct_iff [of r_id "runs db" "r_id r" r]
    by (auto simp: find_run_row_def run_ids_ok_def)
  then have "update_runs P f db = db" by (simp add: update_runs_def update_where_none)
  with snd_guarded_runs [OF assms(1,2), where f = f] assms(3) show ?thesis
    by (auto simp: guarded_runs_def prod_eq_iff)
qed

lemma run_ids_ok_guarded:
  "run_ids_ok db \<Longrightarrow> (\<And>r. r_id (f r) = r_id r) \<Longrightarrow> run_ids_ok (fst (guarded_runs P f db))"
  by (simp add: run_ids_ok_def update_where_keeps)

lemmas start_defs = start_claim_def start_release_def claim_harness_start_def release_harness_start_def

lemmas start_views = start_holder_def start_live_def start_token_def start_claim_free_def

interpretation start_leases: lease_table run_ids_ok start_holder start_live "start_claim target owner lease" no_renewal
    start_release no_sweep
  for target owner lease
proof (unfold_locales, goal_cases)
  case (1 s T k now)
  then show ?case by (auto simp: start_views split: option.splits)
next
  case (2 s now op)
  then show ?case by (cases op) (auto simp: start_defs Let_def intro!: run_ids_ok_guarded simp del: fst_guarded_runs)
next
  case (3 s k now c)
  then show ?case
    using snd_guarded_runs [OF 3(1), of "\<lambda>r. r_id r = k \<and> r_harness_start_key r \<noteq> None
        \<and> r_status r = Run_Starting \<and> start_claim_free now r" k]
    by (auto simp: start_defs Let_def start_holder_def find_guarded_runs start_token_def simp del: fst_guarded_runs
        split: if_splits)
next
  case (4 s k c' now c)
  then show ?case
    using snd_guarded_runs [OF 4(1), of "\<lambda>r. r_id r = k \<and> r_harness_start_key r \<noteq> None
        \<and> r_status r = Run_Starting \<and> start_claim_free now r" k]
    by (auto simp: start_defs Let_def start_live_def simp del: fst_guarded_runs split: if_splits option.splits)
next
  case (5 s k now c T)
  let ?P = "\<lambda>r. r_id r = target now c \<and> r_harness_start_key r \<noteq> None \<and> r_status r = Run_Starting \<and> start_claim_free now r"
  have "\<not> ?P r" if "find_run_row s k = Some r" for r
    using 5 that snd_guarded_runs [OF 5(1), of ?P "target now c"] find_SomeD [OF that [unfolded find_run_row_def]]
    by (auto simp: start_defs Let_def split: if_splits)
  then have "find_run_row (fst (start_claim target owner lease now c s)) k = find_run_row s k"
    by (cases "find_run_row s k") (auto simp: start_defs Let_def find_guarded_runs simp del: fst_guarded_runs)
  then show ?case by (simp add: start_holder_def start_live_def)
next
  case (6 s k c now)
  then show ?case by simp
next
  case (7 s k' k now c T)
  then show ?case by simp
next
  case (8 s k c now)
  then show ?case
    unfolding start_defs by (intro guarded_runs_refused [where k = k]) (auto simp: start_holder_def)
next
  case (9 s k c now)
  then show ?case
    using snd_guarded_runs [OF 9(1), of "\<lambda>r. r_id r = k \<and> r_status r = Run_Starting \<and> start_token r = Some c" k]
    by (auto simp: start_defs start_holder_def find_guarded_runs start_token_def simp del: fst_guarded_runs
        dest: find_run_row_id split: option.splits if_splits)
next
  case (10 s k' k now c T)
  then show ?case
    by (auto simp: start_defs start_holder_def start_live_def find_guarded_runs simp del: fst_guarded_runs
        dest: find_run_row_id split: option.splits)
next
  case (11 s now k c T)
  then show ?case by simp
qed

section \<open>Property\<close>

text \<open>C23. Only the claimant starts the run: while a supervisor holds the start claim of a run, no claims or
  releases of other supervisors take it away before it expires, and recording the start under any
  other token fails and changes nothing, so that an agent is never accounted to two supervisors.\<close>

theorem only_the_claimant_starts_the_run:
  assumes "run_ids_ok db" and "start_holder db k = Some c" and "start_live db T k"
    and "\<forall>(now, op) \<in> set ops. now \<le> T \<and> by_others c op" and "token \<noteq> c"
    and "db' = lease_run (start_claim target owner lease) no_renewal start_release no_sweep ops db"
  shows "start_holder db' k = Some c \<and> start_live db' T k
    \<and> update_run_started now k thread turn version token db' = (db', False)"
proof -
  have kept: "start_holder db' k = Some c \<and> start_live db' T k"
    unfolding assms(6) by (rule start_leases.live_lease_is_exclusive [OF assms(1-4)])
  have ok: "run_ids_ok db'"
    unfolding assms(6) by (rule start_leases.invar_run [OF assms(1)])
  have "update_run_started now k thread turn version token db' = (db', False)"
    unfolding update_run_started_def
    by (rule guarded_runs_refused [OF ok, where k = k])
      (use kept assms(5) in \<open>auto simp: start_holder_def split: if_splits\<close>)
  with kept show ?thesis by simp
qed

definition example_started :: db where
  "example_started = fst (claim_harness_start 0 1 ''a'' 7 60 (example_db [] [(example_run 1 1)\<lparr>r_status := Run_Starting\<rparr>]))"

theorem only_the_claimant_starts_the_run_witness:
  "update_run_started 6 1 None None None 8
     (lease_run (start_claim (\<lambda>_ _. 1) (\<lambda>_ _. ''b'') (\<lambda>_ _. 60)) no_renewal start_release no_sweep
        [(1, Claim 8), (2, Release 8 1)] example_started)
   = (lease_run (start_claim (\<lambda>_ _. 1) (\<lambda>_ _. ''b'') (\<lambda>_ _. 60)) no_renewal start_release no_sweep
        [(1, Claim 8), (2, Release 8 1)] example_started, False)"
proof -
  have "run_ids_ok example_started" "start_holder example_started 1 = Some 7" "start_live example_started 5 1"
    by code_simp+
  from only_the_claimant_starts_the_run [OF this _ _ refl, of "[(1, Claim 8), (2, Release 8 1)]" 8 "\<lambda>_ _. 1"
      "\<lambda>_ _. ''b''" "\<lambda>_ _. 60" 6 None None None]
  show ?thesis by simp
qed

end
