(* ===== verification/Workspaces.thy ===== *)
theory Workspaces
  imports Repairs Workflow
begin

text \<open>
  The workspaces of runs, \<^verbatim>\<open>backend/src/repositories/devrail_workspaces.rs\<close> and
  \<^verbatim>\<open>backend/src/services/devrail_workspaces.rs\<close>: their keys, the paths they may occupy, the hooks of a
  run, the evidence taken from them, and their clean-up. The file system, git, the hook processes
  and SHA-256 are parameters. The columns branch, workflow, versions and diagnostics are left out;
  a path digest is a SHA-256 in hexadecimal, as the check of its column demands.
\<close>

section \<open>Statements\<close>

record new_workspace =
  nk_actor :: actor_context
  nk_task_id :: int
  nk_run_id :: "int option"
  nk_attempt :: int
  nk_workspace_key :: rstr
  nk_relative_path :: rstr
  nk_path_digest :: rstr
  nk_repository_id :: "int option"
  nk_environment_id :: "int option"
  nk_base_commit :: "rstr option"
  nk_snapshot_digest :: "rstr option"

definition workspace_scope :: "workspace_row \<Rightarrow> int \<times> int \<times> int option" where
  "workspace_scope w = (w_organization_id w, w_owner_user_id w, w_department_id w)"

definition find_workspace :: "actor_context \<Rightarrow> int \<Rightarrow> repair_store \<Rightarrow> workspace_row option" where
  "find_workspace actor i s =
     find (\<lambda>w. w_id w = i \<and> scoped actor (base s) (workspace_scope w)) (task_workspaces s)"

definition find_workspace_by_run :: "actor_context \<Rightarrow> int \<Rightarrow> repair_store \<Rightarrow> workspace_row option" where
  "find_workspace_by_run actor run s =
     find (\<lambda>w. w_run_id w = Some run \<and> scoped actor (base s) (workspace_scope w)) (task_workspaces s)"

text \<open>The order is total on the rows of a task.\<close>

definition find_latest_for_task :: "actor_context \<Rightarrow> int \<Rightarrow> repair_store \<Rightarrow> workspace_row option" where
  "find_latest_for_task actor task s =
     (case rev (sort_key w_attempt
          (filter (\<lambda>w. w_task_id w = task \<and> scoped actor (base s) (workspace_scope w)) (task_workspaces s))) of
        [] \<Rightarrow> None | w # _ \<Rightarrow> Some w)"

definition new_workspace_row :: "timestamp \<Rightarrow> new_workspace \<Rightarrow> int \<Rightarrow> workspace_row" where
  "new_workspace_row now i k =
     \<lparr>w_id = k, w_organization_id = organization_id (nk_actor i), w_department_id = department_id (nk_actor i),
      w_owner_user_id = user_id (nk_actor i), w_task_id = nk_task_id i, w_run_id = nk_run_id i,
      w_attempt = nk_attempt i, w_workspace_key = nk_workspace_key i, w_relative_path = nk_relative_path i,
      w_path_digest = nk_path_digest i, w_repository_id = nk_repository_id i,
      w_environment_id = nk_environment_id i, w_base_commit = nk_base_commit i,
      w_snapshot_digest = nk_snapshot_digest i, w_lifecycle_status = ''preparing'', w_cleanup_status = ''pending'',
      w_cleanup_attempts = 0, w_next_cleanup_at = None, w_last_hook = None, w_error_summary = None,
      w_updated_at = now, w_cleaned_at = None\<rparr>"

text \<open>\<^verbatim>\<open>ON CONFLICT (organization_id, workspace_key) DO NOTHING\<close>: the other unique keys raise.\<close>

definition same_workspace_key :: "workspace_row \<Rightarrow> workspace_row \<Rightarrow> bool" where
  "same_workspace_key w x = (w_organization_id x = w_organization_id w \<and> w_workspace_key x = w_workspace_key w)"

definition workspace_conflict :: "workspace_row \<Rightarrow> workspace_row \<Rightarrow> bool" where
  "workspace_conflict w x =
     (w_organization_id x = w_organization_id w \<and> w_task_id x = w_task_id w \<and> w_attempt x = w_attempt w
      \<or> w_run_id w \<noteq> None \<and> w_run_id x = w_run_id w)"

definition workspace_references :: "workspace_row \<Rightarrow> db \<Rightarrow> bool" where
  "workspace_references w db =
     (list_ex (\<lambda>t. t_id t = w_task_id w \<and> t_organization_id t = w_organization_id w) (tasks db)
      \<and> (w_run_id w = None \<or> list_ex (\<lambda>r. Some (r_id r) = w_run_id w \<and> r_organization_id r = w_organization_id w) (runs db))
      \<and> (w_environment_id w = None
         \<or> list_ex (\<lambda>e. Some (e_id e) = w_environment_id w \<and> e_organization_id e = w_organization_id w) (environments db)))"

definition create_workspace ::
  "timestamp \<Rightarrow> new_workspace \<Rightarrow> repair_store \<Rightarrow> sqlx_error + repair_store \<times> workspace_row option" where
  "create_workspace now i s =
     (let w = new_workspace_row now i (next_serial w_id (task_workspaces s))
      in if w_attempt w \<le> 0 then Inl (Database CheckViolation)
         else if list_ex (same_workspace_key w) (task_workspaces s) then Inr (s, None)
         else if list_ex (workspace_conflict w) (task_workspaces s) then Inl (Database UniqueViolation)
         else if \<not> workspace_references w (base s) then Inl (Database ForeignKeyViolation)
         else Inr (s\<lparr>task_workspaces := task_workspaces s @ [w]\<rparr>, Some w))"

definition update_workspaces ::
  "(workspace_row \<Rightarrow> bool) \<Rightarrow> (workspace_row \<Rightarrow> workspace_row) \<Rightarrow> repair_store \<Rightarrow> repair_store" where
  "update_workspaces P f s = s\<lparr>task_workspaces := update_where P f (task_workspaces s)\<rparr>"

definition set_lifecycle ::
  "timestamp \<Rightarrow> int \<Rightarrow> rstr \<Rightarrow> rstr \<Rightarrow> rstr option \<Rightarrow> rstr option \<Rightarrow> repair_store \<Rightarrow> repair_store" where
  "set_lifecycle now i lifecycle cleanup hook err s =
     update_workspaces (\<lambda>w. w_id w = i)
       (\<lambda>w. w\<lparr>w_lifecycle_status := lifecycle, w_cleanup_status := cleanup, w_last_hook := hook, w_error_summary := err,
              w_cleaned_at := (if lifecycle = ''cleaned'' then (case w_cleaned_at w of None \<Rightarrow> Some now | c \<Rightarrow> c)
                               else w_cleaned_at w), w_updated_at := now\<rparr>) s"

definition set_base_commit :: "timestamp \<Rightarrow> int \<Rightarrow> rstr option \<Rightarrow> repair_store \<Rightarrow> repair_store" where
  "set_base_commit now i commit s =
     update_workspaces (\<lambda>w. w_id w = i)
       (\<lambda>w. w\<lparr>w_base_commit := (case commit of None \<Rightarrow> w_base_commit w | c \<Rightarrow> c), w_updated_at := now\<rparr>) s"

definition mark_cleanup_retry :: "timestamp \<Rightarrow> int \<Rightarrow> timestamp \<Rightarrow> rstr \<Rightarrow> repair_store \<Rightarrow> repair_store" where
  "mark_cleanup_retry now i next err s =
     update_workspaces (\<lambda>w. w_id w = i \<and> w_lifecycle_status w \<noteq> ''cleaned'')
       (\<lambda>w. w\<lparr>w_lifecycle_status := ''cleanup_failed'', w_cleanup_status := ''failed'',
              w_cleanup_attempts := w_cleanup_attempts w + 1, w_next_cleanup_at := Some next,
              w_error_summary := Some err, w_updated_at := now\<rparr>) s"

definition cleanup_candidate :: "timestamp \<Rightarrow> workspace_row \<Rightarrow> bool" where
  "cleanup_candidate now w =
     (w_lifecycle_status w \<in> {''cleanup_pending'', ''cleanup_failed'', ''orphaned''}
      \<and> (case w_next_cleanup_at w of None \<Rightarrow> True | Some t \<Rightarrow> t \<le> now))"

definition list_cleanup_candidates :: "timestamp \<Rightarrow> int \<Rightarrow> repair_store \<Rightarrow> workspace_row list" where
  "list_cleanup_candidates now limit s =
     take (nat (clamp 1 500 limit)) (sort_key w_updated_at (filter (cleanup_candidate now) (task_workspaces s)))"

section \<open>Keys\<close>

definition workspace_key :: "(rstr \<Rightarrow> rstr) \<Rightarrow> int \<Rightarrow> int \<Rightarrow> api_error + rstr" where
  "workspace_key sha task attempt =
     (if task \<le> 0 \<or> attempt \<le> 0 then Inl (Validation ''task_or_attempt_invalid'')
      else Inr (''task-'' @ show_int task @ ''-attempt-'' @ show_int attempt @ ''-''
                @ take 12 (sha (show_int task @ '':'' @ show_int attempt))))"

definition continuation_workspace_key :: "(rstr \<Rightarrow> rstr) \<Rightarrow> int \<Rightarrow> int \<Rightarrow> api_error + rstr" where
  "continuation_workspace_key sha task n =
     (if task \<le> 0 \<or> n \<le> 0 then Inl (Validation ''task_or_continuation_invalid'')
      else Inr (''task-'' @ show_int task @ ''-continuation-'' @ show_int n @ ''-''
                @ take 12 (sha (''continuation:'' @ show_int task @ '':'' @ show_int n))))"

definition repair_workspace_key :: "(rstr \<Rightarrow> rstr) \<Rightarrow> int \<Rightarrow> int \<Rightarrow> api_error + rstr" where
  "repair_workspace_key sha task n =
     (if task \<le> 0 \<or> n \<le> 0 then Inl (Validation ''task_or_repair_invalid'')
      else Inr (''task-'' @ show_int task @ ''-repair-'' @ show_int n @ ''-''
                @ take 12 (sha (''repair:'' @ show_int task @ '':'' @ show_int n))))"

section \<open>Hooks\<close>

definition hook_names :: "json \<Rightarrow> rstr \<Rightarrow> api_error + rstr list" where
  "hook_names snapshot phase =
     (if phase \<notin> {''before_run'', ''after_run'', ''on_failure'', ''cleanup''} then Inl (Validation ''unknown_hook'')
      else
        let key = (if phase = ''before_run'' then ''beforeRun'' else ''afterRun'');
            hooks = (case Option.bind (json_get snapshot ''config'') (\<lambda>c. json_get c ''hooks'') of
                       None \<Rightarrow> json_get snapshot ''hooks'' | h \<Rightarrow> h);
            values = Option.bind hooks (\<lambda>h. case json_get h key of None \<Rightarrow> json_get h phase | v \<Rightarrow> v)
        in case Option.bind values as_array of
             None \<Rightarrow> Inr []
           | Some vs \<Rightarrow>
               let names = List.map_filter as_str vs
               in if list_ex (\<lambda>n. n \<notin> {''cargo-flow-scope'', ''cargo-flow-verify''}) names
                  then Inl (Validation ''hook_not_allowed'') else Inr names)"

text \<open>The processes: whether the project carries a gate configuration when the \<open>n\<close>-th hook is due, and
  how the command that is then run ends.\<close>

datatype hook_end = Hook_Timeout | Hook_Unstartable rstr | Hook_Exit bool

record hook_world =
  hw_configured :: "nat \<Rightarrow> bool"
  hw_run :: "nat \<Rightarrow> rstr list \<Rightarrow> hook_end"

definition hook_command :: "rstr \<Rightarrow> rstr list" where
  "hook_command name =
     (if name = ''cargo-flow-scope'' then [''cargo'', ''flow'', ''scope'']
      else [''cargo'', ''flow'', ''verify'', ''--components'', ''backend''])"

fun run_hook_list :: "hook_world \<Rightarrow> nat \<Rightarrow> rstr list \<Rightarrow> api_error + unit" where
  "run_hook_list hw n [] = Inr ()"
| "run_hook_list hw n (name # names) =
     (if \<not> hw_configured hw n then run_hook_list hw (n + 1) names
      else case hw_run hw n (hook_command name) of
        Hook_Timeout \<Rightarrow> Inl (Conflict (''hook_timeout:'' @ name))
      | Hook_Unstartable e \<Rightarrow> Inl (Internal e)
      | Hook_Exit ok \<Rightarrow> if ok then run_hook_list hw (n + 1) names else Inl (Conflict (''hook_failed:'' @ name)))"

definition run_hooks :: "hook_world \<Rightarrow> json \<Rightarrow> rstr \<Rightarrow> api_error + unit" where
  "run_hooks hw snapshot phase = and_then (hook_names snapshot phase) (run_hook_list hw 0)"

section \<open>Paths\<close>

text \<open>\<^verbatim>\<open>Path::components\<close>: empty components and \<^verbatim>\<open>.\<close> are dropped. A path is the list of its
  components, so that \<^verbatim>\<open>starts_with\<close> is the prefix order.\<close>

definition relative_components :: "rstr \<Rightarrow> path" where
  "relative_components s = filter (\<lambda>c. c \<noteq> [] \<and> c \<noteq> ''.'') (split_on CHR ''/'' s)"

definition escapes :: "rstr \<Rightarrow> bool" where
  "escapes s = (starts_with ''/'' s \<or> ''..'' \<in> set (relative_components s))"

definition controlled_path :: "file_system \<Rightarrow> path \<Rightarrow> rstr \<Rightarrow> api_error + path" where
  "controlled_path fs root relative =
     (case fs_canonicalize fs root of
        None \<Rightarrow> Inl (Validation ''workspace_root_unavailable'')
      | Some r \<Rightarrow>
          if escapes relative then Inl (Validation ''workspace_path_escapes'')
          else let candidate = r @ relative_components relative in
            (case fs_symlink_metadata fs candidate of
               Meta m \<Rightarrow>
                 if fm_is_symlink m then Inl (Validation ''workspace_path_is_symlink'')
                 else (case fs_canonicalize fs candidate of
                         None \<Rightarrow> Inl (Internal ''canonicalize'')
                       | Some c \<Rightarrow> if prefix r c then Inr candidate else Inl (Validation ''workspace_path_outside_root''))
             | _ \<Rightarrow> Inr candidate))"

text \<open>The outcome of \<^verbatim>\<open>create_dir_all\<close> and the file system after it.\<close>

type_synonym dir_maker = "path \<Rightarrow> file_system \<Rightarrow> file_system option"

definition materialize :: "dir_maker \<Rightarrow> file_system \<Rightarrow> path \<Rightarrow> rstr \<Rightarrow> api_error + path" where
  "materialize mkdir fs root relative =
     (case mkdir root fs of
        None \<Rightarrow> Inl (Internal ''create_dir_all'')
      | Some fs1 \<Rightarrow> and_then (controlled_path fs1 root relative) (\<lambda>candidate.
          case mkdir candidate fs1 of
            None \<Rightarrow> Inl (Internal ''create_dir_all'')
          | Some fs2 \<Rightarrow>
              (case (fs_canonicalize fs2 candidate, fs_canonicalize fs2 root) of
                 (Some c, Some r) \<Rightarrow> if prefix r c then Inr c else Inl (Validation ''workspace_path_outside_root'')
               | _ \<Rightarrow> Inl (Internal ''canonicalize''))))"

text \<open>git and the copy of a plain directory: \<open>gw_git dir args fs\<close> is the trimmed output and the file
  system afterwards, or nothing when the command fails or times out.\<close>

record git_world =
  gw_mkdir :: dir_maker
  gw_git :: "path \<Rightarrow> rstr list \<Rightarrow> file_system \<Rightarrow> (rstr \<times> file_system) option"
  gw_copy :: "path \<Rightarrow> path \<Rightarrow> file_system \<Rightarrow> file_system option"

definition git_output :: "git_world \<Rightarrow> path \<Rightarrow> rstr list \<Rightarrow> file_system \<Rightarrow> api_error + rstr \<times> file_system" where
  "git_output gw dir args fs =
     (case gw_git gw dir args fs of None \<Rightarrow> Inl (Conflict ''git_failed'') | Some r \<Rightarrow> Inr r)"

definition path_exists :: "file_system \<Rightarrow> path \<Rightarrow> bool" where
  "path_exists fs p = (fs_canonicalize fs p \<noteq> None)"

definition canonical_result :: "file_system \<Rightarrow> path \<Rightarrow> rstr option \<Rightarrow> api_error + path \<times> rstr option" where
  "canonical_result fs target commit =
     (case fs_canonicalize fs target of None \<Rightarrow> Inl (Internal ''canonicalize'') | Some p \<Rightarrow> Inr (p, commit))"

definition path_text :: "path \<Rightarrow> rstr" where
  "path_text p = concat (map (\<lambda>c. ''/'' @ c) p)"

definition checked_source :: "file_system \<Rightarrow> path \<Rightarrow> path \<Rightarrow> api_error + path \<times> path" where
  "checked_source fs root source =
     (case fs_canonicalize fs root of
        None \<Rightarrow> Inl (Internal ''canonicalize'')
      | Some r \<Rightarrow>
          (case fs_canonicalize fs source of
             None \<Rightarrow> Inl (Validation ''environment_workspace_unavailable'')
           | Some src \<Rightarrow> if \<not> prefix r src \<or> src = r then Inl (Validation ''environment_workspace_outside_root'')
                         else Inr (r, src)))"

definition materialize_from_source_impl ::
  "git_world \<Rightarrow> file_system \<Rightarrow> path \<Rightarrow> path \<Rightarrow> rstr \<Rightarrow> rstr option \<Rightarrow> bool \<Rightarrow> api_error + path \<times> rstr option" where
  "materialize_from_source_impl gw fs0 root source relative branch allow_existing =
     (case gw_mkdir gw root fs0 of
        None \<Rightarrow> Inl (Internal ''create_dir_all'')
      | Some fs \<Rightarrow> and_then (checked_source fs root source) (\<lambda>(r, src).
          and_then (controlled_path fs r relative) (\<lambda>target.
            if path_exists fs target
            then if \<not> allow_existing then Inl (Conflict ''repair_workspace_exists'')
                 else canonical_result fs target
                   (if path_exists fs (target @ [''.git'']) then map_option fst (gw_git gw target [''rev-parse'', ''HEAD''] fs)
                    else None)
            else if path_exists fs (src @ [''.git''])
            then and_then (git_output gw src [''rev-parse'', ''--verify'',
                     (case branch of None \<Rightarrow> ''HEAD'' | Some b \<Rightarrow> b) @ ''^{commit}''] fs) (\<lambda>(commit, fs1).
                   and_then (git_output gw src [''worktree'', ''add'', ''--detach'', path_text target, commit] fs1)
                     (\<lambda>(_, fs2). canonical_result fs2 target (Some commit)))
            else case gw_copy gw src target fs of
                   None \<Rightarrow> Inl (Internal ''copy_directory'')
                 | Some fs1 \<Rightarrow> canonical_result fs1 target None)))"

section \<open>Evidence\<close>

text \<open>The markers are ASCII, so it does not matter that the source scans the lossily decoded text:
  replacing invalid sequences neither adds nor joins ASCII characters.\<close>

definition patch_secrets :: "rstr list" where
  "patch_secrets = [''authorization:'', ''cookie:'', ''password='', ''passwd='', ''token='', ''database_url='',
     ''begin rsa private key'', ''begin openssh private key'']"

definition sensitive_patch_path :: "rstr \<Rightarrow> bool" where
  "sensitive_patch_path p =
     (contains_str ''/.env'' p \<or> ends_with ''.pem'' p \<or> ends_with ''.key'' p
      \<or> contains_str ''id_rsa'' p \<or> contains_str ''credentials'' p)"

definition patch_line_path :: "rstr \<Rightarrow> rstr option" where
  "patch_line_path line =
     (if starts_with ''+++ b/'' line \<or> starts_with ''--- a/'' line then Some (drop 6 line) else None)"

definition safe_handoff_patch :: "rstr \<Rightarrow> bool" where
  "safe_handoff_patch content =
     (\<not> list_ex (\<lambda>m. contains_str m (to_ascii_lowercase content)) patch_secrets
      \<and> \<not> list_ex (\<lambda>line. is_some_and (patch_line_path line) (\<lambda>p. sensitive_patch_path (to_ascii_lowercase p)))
           (str_lines content))"

definition max_handoff_patch_bytes :: nat where
  "max_handoff_patch_bytes = 1048576"

record handoff_evidence =
  he_base_commit :: rstr
  he_head_commit :: rstr
  he_changeset_ref :: rstr
  he_changeset_digest :: rstr

text \<open>\<open>head\<close> and \<open>diff\<close> are what git answers in the workspace, \<open>stored\<close> whether the patch could be
  written below the evidence directory.\<close>

definition capture_handoff_evidence ::
  "(rstr \<Rightarrow> rstr) \<Rightarrow> file_system \<Rightarrow> path \<Rightarrow> int \<Rightarrow> rstr \<Rightarrow> rstr option \<Rightarrow> rstr option \<Rightarrow> (rstr \<Rightarrow> rstr option) \<Rightarrow>
   (path \<Rightarrow> rstr \<Rightarrow> bool) \<Rightarrow> dir_maker \<Rightarrow> api_error + handoff_evidence" where
  "capture_handoff_evidence sha fs root run relative recorded head diff stored mkdir =
     and_then (controlled_path fs root relative) (\<lambda>_.
       case head of
         None \<Rightarrow> Inl (Conflict ''git_failed'')
       | Some head_commit \<Rightarrow>
           let base_commit = (case recorded of None \<Rightarrow> head_commit | Some b \<Rightarrow> b) in
           (case diff base_commit of
              None \<Rightarrow> Inl (Conflict ''git_evidence_failed'')
            | Some patch \<Rightarrow>
                if length patch > max_handoff_patch_bytes then Inl (Conflict ''handoff_patch_too_large'')
                else if \<not> safe_handoff_patch patch then Inl (Conflict ''handoff_patch_sensitive'')
                else
                  let dir = ''.handoffs/run-'' @ show_int run; file = sha patch @ ''.patch'' in
                  and_then (materialize mkdir fs root dir) (\<lambda>d.
                    if \<not> stored (d @ [file]) patch then Inl (Internal ''write'')
                    else Inr \<lparr>he_base_commit = base_commit, he_head_commit = head_commit,
                              he_changeset_ref = dir @ ''/'' @ file, he_changeset_digest = sha patch\<rparr>)))"

section \<open>Rebuilding and clean-up\<close>

definition sqlx_internal :: "sqlx_error \<Rightarrow> api_error" where
  "sqlx_internal e = Internal ''sqlx''"

definition report_workspace ::
  "rstr \<Rightarrow> actor_context \<Rightarrow> rstr \<Rightarrow> rstr \<Rightarrow> int \<Rightarrow> rstr \<Rightarrow> repair_store \<Rightarrow> repair_store" where
  "report_workspace trace actor action event i payload s =
     s\<lparr>base := outbox \<lparr>o_organization_id = organization_id actor, o_event_type = ''workspace.'' @ event,
           o_aggregate_type = ''devrail_task_workspace'', o_aggregate_id = i, o_source = payload\<rparr>
         (record_audit \<lparr>a_organization_id = organization_id actor, a_department_id = department_id actor,
            a_action = ''devrail.workspace.'' @ action, a_target_type = ''devrail_task_workspace'', a_target_id = i,
            a_reason = [], a_trace_id = trace\<rparr> (base s))\<rparr>"

definition workspace_payload :: "int \<Rightarrow> int \<Rightarrow> rstr \<Rightarrow> rstr" where
  "workspace_payload i task status = show_int i @ '':'' @ show_int task @ '':'' @ status"

text \<open>The row is there, or is created in a transaction of its own; then the directory is made, and a
  second transaction records it. The result of an error is the store as it was left.\<close>

definition rebuild_row ::
  "(rstr \<Rightarrow> rstr) \<Rightarrow> timestamp \<Rightarrow> actor_context \<Rightarrow> task_row \<Rightarrow> rstr option \<Rightarrow> repair_store \<Rightarrow>
   api_error + repair_store \<times> workspace_row" where
  "rebuild_row sha now actor task digest s =
     (let existing = find_latest_for_task actor (t_id task) s;
          attempt = (case existing of None \<Rightarrow> 1 | Some w \<Rightarrow> w_attempt w)
      in and_then (workspace_key sha (t_id task) attempt) (\<lambda>key.
           case existing of
             Some w \<Rightarrow> Inr (s, w)
           | None \<Rightarrow>
               (case create_workspace now \<lparr>nk_actor = actor, nk_task_id = t_id task, nk_run_id = None, nk_attempt = attempt,
                      nk_workspace_key = key, nk_relative_path = key, nk_path_digest = sha key,
                      nk_repository_id = t_repository_id task, nk_environment_id = t_environment_id task,
                      nk_base_commit = None,
                      nk_snapshot_digest = (case digest of None \<Rightarrow> Some (t_dispatch_snapshot_digest task) | d \<Rightarrow> d)\<rparr> s of
                  Inl e \<Rightarrow> Inl (sqlx_internal e)
                | Inr (s1, None) \<Rightarrow> Inl (Conflict ''workspace_taken_by_another_request'')
                | Inr (s1, Some w) \<Rightarrow> Inr (s1, w))))"

definition rebuild_for_task ::
  "(rstr \<Rightarrow> rstr) \<Rightarrow> (rstr \<Rightarrow> api_error + path) \<Rightarrow> timestamp \<Rightarrow> rstr \<Rightarrow> actor_context \<Rightarrow> int \<Rightarrow> rstr option \<Rightarrow> repair_store \<Rightarrow>
   repair_store \<times> (api_error + workspace_row)" where
  "rebuild_for_task sha build now trace actor task_id digest s =
     (case find_task_by_id actor (base s) task_id of
        None \<Rightarrow> (s, Inl (NotFound ''task''))
      | Some task \<Rightarrow>
          (case rebuild_row sha now actor task digest s of
             Inl e \<Rightarrow> (s, Inl e)
           | Inr (s1, w) \<Rightarrow>
               (case build (w_relative_path w) of
                  Inl e \<Rightarrow> (s1, Inl e)
                | Inr _ \<Rightarrow>
                    let s2 = report_workspace trace actor ''rebuild'' ''rebuilt'' (w_id w) (workspace_payload (w_id w) task_id ''ready'')
                          (set_lifecycle now (w_id w) ''ready'' ''pending'' (Some ''rebuild'') None s1)
                    in (s2, case find_latest_for_task actor task_id s2 of
                              None \<Rightarrow> Inl (Internal ''workspace_unreadable'') | Some w' \<Rightarrow> Inr w'))))"

text \<open>How the removal of a directory ends; a missing directory counts as removed.\<close>

datatype removal = Removed | Removal_NotFound | Removal_Failed

definition cleanup ::
  "file_system \<Rightarrow> path \<Rightarrow> (path \<Rightarrow> removal) \<Rightarrow> timestamp \<Rightarrow> rstr \<Rightarrow> actor_context \<Rightarrow> int \<Rightarrow> repair_store \<Rightarrow>
   repair_store \<times> (api_error + workspace_row)" where
  "cleanup fs root remove now trace actor i s =
     (case find_workspace actor i s of
        None \<Rightarrow> (s, Inl (NotFound ''workspace''))
      | Some w \<Rightarrow>
          if w_lifecycle_status w = ''cleaned'' then (s, Inr w)
          else (case controlled_path fs root (w_relative_path w) of
             Inl e \<Rightarrow> (s, Inl e)
           | Inr p \<Rightarrow>
               if remove p = Removal_Failed
               then (mark_cleanup_retry now i (now + seconds 30) ''cleanup_failed'' s, Inl (Conflict ''workspace_cleanup_failed''))
               else
                 let s1 = report_workspace trace actor ''cleanup'' ''cleaned'' i (workspace_payload i 0 ''cleaned'')
                       (set_lifecycle now i ''cleaned'' ''completed'' (Some ''cleanup'') None s)
                 in (s1, case find_workspace actor i s1 of None \<Rightarrow> Inl (NotFound ''workspace'') | Some w' \<Rightarrow> Inr w')))"

definition reconcile_workspace ::
  "file_system \<Rightarrow> path \<Rightarrow> (path \<Rightarrow> removal) \<Rightarrow> timestamp \<Rightarrow> workspace_row \<Rightarrow> repair_store \<Rightarrow> repair_store \<times> nat" where
  "reconcile_workspace fs root remove now w s =
     (case controlled_path fs root (w_relative_path w) of
        Inl _ \<Rightarrow> (mark_cleanup_retry now (w_id w) (now + seconds 60) ''controlled_path_rejected'' s, 0)
      | Inr p \<Rightarrow>
          if remove p = Removal_Failed
          then (mark_cleanup_retry now (w_id w) (now + seconds 60) ''cleanup_failed'' s, 0)
          else (set_lifecycle now (w_id w) ''cleaned'' ''completed'' (Some ''cleanup'') None s, 1))"

fun reconcile_workspaces ::
  "file_system \<Rightarrow> path \<Rightarrow> (path \<Rightarrow> removal) \<Rightarrow> (int \<Rightarrow> timestamp) \<Rightarrow> workspace_row list \<Rightarrow> repair_store \<Rightarrow> repair_store \<times> nat" where
  "reconcile_workspaces fs root remove clock [] s = (s, 0)"
| "reconcile_workspaces fs root remove clock (w # ws) s =
     (case reconcile_workspace fs root remove (clock (w_id w)) w s of
        (s1, n) \<Rightarrow> (case reconcile_workspaces fs root remove clock ws s1 of (s2, m) \<Rightarrow> (s2, n + m)))"

definition reconcile_cleanup ::
  "file_system \<Rightarrow> path \<Rightarrow> (path \<Rightarrow> removal) \<Rightarrow> timestamp \<Rightarrow> (int \<Rightarrow> timestamp) \<Rightarrow> repair_store \<Rightarrow> repair_store \<times> nat" where
  "reconcile_cleanup fs root remove now clock s =
     reconcile_workspaces fs root remove clock (list_cleanup_candidates now 100 s) s"

section \<open>Properties\<close>

lemma hyphen_not_in_show_int: "0 < i \<Longrightarrow> CHR ''-'' \<notin> set (show_int i)"
  using show_nat_digits [of "CHR ''-''" "nat i"] by (auto simp: show_int_def is_ascii_digit_def)

lemmas workspace_key_defs = workspace_key_def continuation_workspace_key_def repair_workspace_key_def

text \<open>A workspace key tells which task, which kind of run and which attempt or sequence number it
  belongs to, whatever the hash function does: keys of two runs agree only for the same task and the
  same number, and no key of a plain run, a continuation and a repair agree.\<close>

theorem workspace_keys_are_isolated:
  "(workspace_key sha t a = Inr k \<longrightarrow> workspace_key sha t' a' = Inr k \<longrightarrow> t = t' \<and> a = a')
   \<and> (continuation_workspace_key sha t a = Inr k \<longrightarrow> continuation_workspace_key sha t' a' = Inr k \<longrightarrow> t = t' \<and> a = a')
   \<and> (repair_workspace_key sha t a = Inr k \<longrightarrow> repair_workspace_key sha t' a' = Inr k \<longrightarrow> t = t' \<and> a = a')
   \<and> (workspace_key sha t a = Inr k \<longrightarrow> continuation_workspace_key sha t' a' \<noteq> Inr k \<and> repair_workspace_key sha t' a' \<noteq> Inr k)
   \<and> (continuation_workspace_key sha t a = Inr k \<longrightarrow> repair_workspace_key sha t' a' \<noteq> Inr k)"
  by (auto simp: workspace_key_defs append_sep_inject hyphen_not_in_show_int show_int_inject split: if_splits)

theorem workspace_keys_are_isolated_witness:
  "\<exists>k. workspace_key (\<lambda>_. ''0123456789abcdef'') 3 1 = Inr k
     \<and> continuation_workspace_key (\<lambda>_. ''0123456789abcdef'') 3 1 \<noteq> Inr k
     \<and> repair_workspace_key (\<lambda>_. ''0123456789abcdef'') 3 1 \<noteq> Inr k"
proof -
  have "workspace_key (\<lambda>_. ''0123456789abcdef'') 3 1 = Inr ''task-3-attempt-1-0123456789ab''" by code_simp
  with workspace_keys_are_isolated [of "\<lambda>_. ''0123456789abcdef''" 3 1 "''task-3-attempt-1-0123456789ab''" 3 1]
  show ?thesis by blast
qed

lemma controlled_path_Inr:
  assumes "controlled_path fs root relative = Inr p"
  shows "\<exists>r. fs_canonicalize fs root = Some r \<and> p = r @ relative_components relative
    \<and> ''..'' \<notin> set (relative_components relative)"
  using assms
  by (auto simp: controlled_path_def Let_def escapes_def split: option.splits if_splits metadata_result.splits)

definition below :: "file_system \<Rightarrow> path \<Rightarrow> path set" where
  "below fs root = {p. \<exists>r rest. fs_canonicalize fs root = Some r \<and> p = r @ rest \<and> rest \<noteq> [] \<and> ''..'' \<notin> set rest}"

lemma controlled_below:
  "controlled_path fs root relative = Inr p \<Longrightarrow> relative_components relative \<noteq> [] \<Longrightarrow> p \<in> below fs root"
  unfolding below_def by (fastforce dest: controlled_path_Inr)

lemma reconcile_workspaces_agree:
  assumes "\<forall>p \<in> below fs root. remove p = remove' p"
    and "\<forall>w \<in> set ws. relative_components (w_relative_path w) \<noteq> []"
  shows "reconcile_workspaces fs root remove clock ws s = reconcile_workspaces fs root remove' clock ws s"
  using assms(2)
proof (induction ws arbitrary: s)
  case (Cons w ws)
  then have "reconcile_workspace fs root remove (clock (w_id w)) w s = reconcile_workspace fs root remove' (clock (w_id w)) w s"
    using assms(1) controlled_below [of fs root "w_relative_path w"]
    by (auto simp: reconcile_workspace_def split: sum.splits)
  with Cons show ?case by (simp split: prod.splits)
qed simp

lemma set_list_cleanup_candidates: "set (list_cleanup_candidates now limit s) \<subseteq> set (task_workspaces s)"
  unfolding list_cleanup_candidates_def by (auto dest!: in_set_takeD)


definition example_workspace :: "int \<Rightarrow> int \<Rightarrow> workspace_row" where
  "example_workspace i task =
     (new_workspace_row 0 \<lparr>nk_actor = \<lparr>actor_type = User, user_id = 7, session_id = 1, organization_id = 1,
          department_id = None, data_scope = Scope_All, permission_codes = {}\<rparr>, nk_task_id = task, nk_run_id = None,
        nk_attempt = 1, nk_workspace_key = ''task-1-attempt-1-0'', nk_relative_path = ''task-1-attempt-1-0'',
        nk_path_digest = [], nk_repository_id = None, nk_environment_id = None, nk_base_commit = None,
        nk_snapshot_digest = None\<rparr> i)\<lparr>w_lifecycle_status := ''cleanup_pending''\<rparr>"

definition example_workspace_store :: repair_store where
  "example_workspace_store = \<lparr>base = example_db [] [], repair_requests = [], repair_diagnoses = [], repair_gate_reruns = [],
     repair_approvals = [], repair_handoffs = [], run_handoffs = [], task_workspaces = [example_workspace 1 1]\<rparr>"

definition example_workspace_fs :: file_system where
  "example_workspace_fs = \<lparr>fs_canonicalize = (\<lambda>p. Some p), fs_symlink_metadata = (\<lambda>_. Meta_NotFound), fs_read = (\<lambda>_. None)\<rparr>"


end
