(* ===== verification/Run_End.thy ===== *)
theory Run_End
  imports Composition Run_Flow Workspaces
begin

text \<open>
  The end of a run, \<^verbatim>\<open>finish_run\<close> of \<^verbatim>\<open>backend/src/workers/harness_supervisor.rs\<close>: whatever way the agent's
  process ended, the gates, the evidence and the hooks decide the final outcome, and one
  transaction records it on the run, its workspace, its task, its repair or continuation, the
  events and the notifications. It spans every table, so it works on the state of \<open>Composition\<close>
  and the list of run events. The outcomes of the processes and of git are in \<open>end_world\<close>.
\<close>

section \<open>Classification\<close>

record run_launch =
  rl_run_id :: int
  rl_task_id :: int
  rl_organization_id :: int
  rl_department_id :: "int option"
  rl_owner_user_id :: int
  rl_cwd :: rstr
  rl_input :: rstr
  rl_resume_thread_id :: "rstr option"
  rl_resume_turn_id :: "rstr option"
  rl_attempt :: int
  rl_max_attempts :: int
  rl_automatic :: bool
  rl_policy :: scheduler_policy

definition classify_failure :: "bool \<Rightarrow> rstr \<Rightarrow> rstr" where
  "classify_failure protocol_failed stderr =
     (let v = to_ascii_lowercase stderr in
      if contains_str ''broken pipe'' v \<or> contains_str ''connection reset'' v \<or> contains_str ''connection closed'' v
      then ''transport_disconnect''
      else if contains_str ''read'' v \<or> contains_str ''eof'' v then ''transport_read_error''
      else if contains_str ''write'' v \<or> contains_str ''flush'' v then ''transport_write_error''
      else if protocol_failed then ''protocol_error'' else ''process_exit'')"

definition recovery_for_failure :: "bool \<Rightarrow> rstr \<Rightarrow> rstr" where
  "recovery_for_failure protocol_failed stderr =
     (let c = classify_failure protocol_failed stderr in
      if c \<in> {''transport_disconnect'', ''transport_read_error'', ''transport_write_error''} then ''resume_or_retry''
      else if c = ''protocol_error'' then ''inspect_events_and_retry'' else ''inspect_stderr_and_retry'')"

definition retry_reasons :: "rstr set" where
  "retry_reasons = {''stall'', ''timeout'', ''process_exit'', ''transport_disconnect'', ''transport_read_error'',
     ''transport_write_error'', ''transport_resume_unavailable'', ''recovery_state_missing'', ''recovery_spawn_failed'',
     ''after_run_failed''}"

definition should_retry_automatically :: "run_launch \<Rightarrow> run_status \<Rightarrow> rstr \<Rightarrow> bool" where
  "should_retry_automatically l status reason =
     (rl_automatic l \<and> status = Run_Failed \<and> reason \<in> retry_reasons
      \<and> (reason = ''after_run_failed'' \<or> rl_attempt l < rl_max_attempts l))"

datatype interrupt_cause = User_Interrupt | TaskCancelled | TaskStateDrift | EnvironmentInvalid

fun interrupt_terminal :: "interrupt_cause \<Rightarrow> run_status \<times> rstr \<times> rstr" where
  "interrupt_terminal User_Interrupt = (Run_Cancelled, ''interrupted'', ''interrupted_by_user'')"
| "interrupt_terminal TaskCancelled = (Run_Cancelled, ''task_cancelled'', ''task_cancelled'')"
| "interrupt_terminal TaskStateDrift = (Run_Cancelled, ''task_state_drift'', ''task_already_terminal'')"
| "interrupt_terminal EnvironmentInvalid = (Run_Failed, ''environment_invalid'', ''repair_environment_and_retry'')"

section \<open>The outcome\<close>

type_synonym outcome = "run_status \<times> rstr \<times> rstr option"

definition gate_outcome :: "bool \<Rightarrow> outcome \<Rightarrow> outcome" where
  "gate_outcome failed o1 =
     (if failed then (Run_Failed, ''quality_gate_failed'', Some ''inspect_gates_and_retry'') else o1)"

definition hook_phase :: "run_status \<Rightarrow> rstr" where
  "hook_phase status = (if status = Run_Completed then ''after_run'' else ''on_failure'')"

definition hook_outcome :: "bool \<Rightarrow> bool \<Rightarrow> outcome \<Rightarrow> outcome" where
  "hook_outcome hook_failed failed o1 =
     (if hook_failed \<and> fst o1 = Run_Completed then (Run_Failed, ''after_run_failed'', Some ''inspect_hook_and_retry'')
      else gate_outcome failed o1)"

definition breaker_outcome :: "bool \<Rightarrow> outcome \<Rightarrow> outcome" where
  "breaker_outcome breaker_open o1 =
     (if breaker_open then (Run_Failed, ''hook_failure_circuit_open'', Some ''same_hook_failure_five_times'') else o1)"

text \<open>What the processes, git, the clock and the random source contribute to the end of a run.\<close>

record end_world =
  ew_services :: continuation_services
  ew_source :: "handoff_source_row option"
  ew_evidence :: "api_error + run_handoff_row"
  ew_validated_at :: timestamp
  ew_snapshot :: json
  ew_hooks :: hook_world
  ew_sha :: "rstr \<Rightarrow> rstr"
  ew_now :: timestamp
  ew_seed :: nat
  ew_trace :: rstr
  ew_audit_trace :: rstr

definition hook_failure_fingerprint :: "(rstr \<Rightarrow> rstr) \<Rightarrow> rstr \<Rightarrow> rstr \<Rightarrow> rstr" where
  "hook_failure_fingerprint sha phase message = sha (phase @ nl @ message)"

text \<open>\<^verbatim>\<open>error.to_string()\<close>: unlike the public message it shows the cause of an internal error.\<close>

definition error_text :: "api_error \<Rightarrow> rstr" where
  "error_text e = (case e of Internal m \<Rightarrow> m | _ \<Rightarrow> public_message e)"

definition run_hook_error :: "end_world \<Rightarrow> run_launch \<Rightarrow> rstr \<Rightarrow> db \<Rightarrow> api_error option" where
  "run_hook_error w l phase db =
     (if list_ex (\<lambda>r. r_id r = rl_run_id l) (runs db)
      then (case run_hooks (ew_hooks w) (ew_snapshot w) phase of Inl e \<Rightarrow> Some e | Inr _ \<Rightarrow> None)
      else None)"

definition count_hook_failure ::
  "end_world \<Rightarrow> run_launch \<Rightarrow> rstr \<Rightarrow> api_error option \<Rightarrow> run_status \<Rightarrow> db \<Rightarrow> sqlx_error + db \<times> int option" where
  "count_hook_failure w l phase hook_error status db =
     (case hook_error of
        Some e \<Rightarrow> and_then (record_hook_failure (ew_now w) (rl_task_id l)
            (hook_failure_fingerprint (ew_sha w) phase (error_text e)) db) (\<lambda>(db1, n). Inr (db1, Some n))
      | None \<Rightarrow> Inr (if status = Run_Completed then clear_hook_failure (ew_now w) (rl_task_id l) db else db, None))"

section \<open>The transaction\<close>

definition on_base :: "(db \<Rightarrow> db) \<Rightarrow> devrail_state \<Rightarrow> devrail_state" where
  "on_base f j = j\<lparr>repairs_part := (repairs_part j)\<lparr>base := f (base (repairs_part j))\<rparr>\<rparr>"

abbreviation base_of :: "devrail_state \<Rightarrow> db" where
  "base_of j \<equiv> base (repairs_part j)"

definition supervisor_actor :: "run_launch \<Rightarrow> actor_context" where
  "supervisor_actor l =
     \<lparr>actor_type = System, user_id = rl_owner_user_id l, session_id = 0, organization_id = rl_organization_id l,
      department_id = rl_department_id l, data_scope = Scope_All, permission_codes = {}\<rparr>"

definition release_workspace :: "end_world \<Rightarrow> run_launch \<Rightarrow> run_status \<Rightarrow> devrail_state \<Rightarrow> devrail_state" where
  "release_workspace w l status j =
     j\<lparr>repairs_part :=
         report_workspace (ew_audit_trace w) (supervisor_actor l) ''cleanup_pending'' ''cleanup_pending'' (rl_run_id l)
           (show_int (rl_run_id l) @ '':cleanup_pending'')
           (mark_cleanup_pending_for_run (ew_now w) (rl_organization_id l) (rl_run_id l) (hook_phase status) (repairs_part j))\<rparr>"

definition ended_task_status :: "bool \<Rightarrow> run_status \<Rightarrow> task_status" where
  "ended_task_status retryable status =
     (if status = Run_Completed then Task_Succeeded else if status = Run_Cancelled then Task_Cancelled
      else if retryable then Task_Queued else Task_Failed)"

definition outcome_code :: "run_status \<Rightarrow> rstr" where
  "outcome_code status =
     (if status = Run_Completed then ''completed'' else if status = Run_Cancelled then ''cancelled'' else ''failed'')"

text \<open>The request behind the run, if there is one: the repair of a repair run, or the continuation whose
  lineage the run ends.\<close>

definition settle_requests ::
  "end_world \<Rightarrow> run_launch \<Rightarrow> bool \<Rightarrow> bool \<Rightarrow> run_status \<Rightarrow> rstr \<Rightarrow> devrail_state \<Rightarrow> sqlx_error + devrail_state \<times> bool" where
  "settle_requests w l is_repair retryable status reason j =
     (if is_repair
      then and_then (settle_repair_child (ew_now w) (ew_audit_trace w) (supervisor_actor l) (rl_run_id l) status reason
               (repairs_part j)) (\<lambda>s. Inr (j\<lparr>repairs_part := s\<rparr>, True))
      else if retryable then Inr (j, False)
      else and_then (continuation_complete_for_child_run (ew_now w) (ew_audit_trace w) (supervisor_actor l) (rl_run_id l)
               (outcome_code status) (ended_task_status retryable status) (continuation_view j))
             (\<lambda>(c, q). Inr (after_continuation j c, q \<noteq> None)))"

text \<open>The delay panics on a policy that the configuration never accepts; the transaction is then lost.\<close>

definition settle_task ::
  "end_world \<Rightarrow> run_launch \<Rightarrow> bool \<Rightarrow> bool \<Rightarrow> run_status \<Rightarrow> rstr \<Rightarrow> db \<Rightarrow> sqlx_error + db" where
  "settle_task w l retryable handled status reason db =
     (if retryable
      then (case retry_delay_with_seed (rl_attempt l) (rl_policy l) (ew_seed w) of
              None \<Rightarrow> Inl (Protocol ''panic'')
            | Some d \<Rightarrow> Inr (requeue_task_after_run (ew_now w) (rl_task_id l) (ew_now w + seconds d) reason db))
      else if \<not> handled \<and> reason \<noteq> ''task_state_drift''
      then Inr (update_task_status (ew_now w) (rl_task_id l) (ended_task_status retryable status) db)
      else Inr db)"

definition terminal_event :: "run_launch \<Rightarrow> run_status \<Rightarrow> rstr \<Rightarrow> int option \<Rightarrow> run_event_row" where
  "terminal_event l status reason code =
     \<lparr>re_id = 0, re_organization_id = rl_organization_id l, re_department_id = rl_department_id l,
      re_owner_user_id = rl_owner_user_id l, re_run_id = rl_run_id l, re_cursor = 0, re_event_type = ''turn_complete'',
      re_source_event_id = None, re_idempotency_key = ''terminal:'' @ outcome_code status @ '':'' @ reason,
      re_payload = J_Object [(''status'', J_String (outcome_code status)), (''exitReason'', J_String reason),
        (''exitCode'', case code of None \<Rightarrow> J_Null | Some c \<Rightarrow> J_Int c)],
      re_summary = Some reason\<rparr>"

definition notify_end :: "run_launch \<Rightarrow> bool \<Rightarrow> run_status \<Rightarrow> rstr \<Rightarrow> db \<Rightarrow> sqlx_error + db" where
  "notify_end l retryable status reason db =
     (let key = ''run:'' @ show_int (rl_run_id l) @ '':'' @ reason;
          rows = insert_absent notification_key
            [\<lparr>n_organization_id = rl_organization_id l, n_department_id = rl_department_id l,
              n_recipient_user_id = rl_owner_user_id l, n_event_type = ''run.'' @ outcome_code status,
              n_level = (if status = Run_Completed then ''success''
                         else if status = Run_Cancelled \<or> retryable then ''warning'' else ''error''),
              n_resource_type = ''devrail_run'', n_resource_id = rl_run_id l, n_source_key = key\<rparr>] (notifications db)
      in if \<not> list_ex (\<lambda>n. n_organization_id n = rl_organization_id l \<and> n_recipient_user_id n = rl_owner_user_id l
              \<and> n_source_key n = key) rows
         then Inl RowNotFound
         else Inr (outbox \<lparr>o_organization_id = rl_organization_id l, o_event_type = ''notification.created'',
                o_aggregate_type = ''devrail_run'', o_aggregate_id = rl_run_id l, o_source = key\<rparr> (db\<lparr>notifications := rows\<rparr>)))"

definition breaker_opened :: "int option \<Rightarrow> bool" where
  "breaker_opened count = is_some_and count hook_failure_breaker_open"

definition terminal_of :: "end_world \<Rightarrow> run_launch \<Rightarrow> outcome \<Rightarrow> int option \<Rightarrow> rstr option \<Rightarrow> terminal_update" where
  "terminal_of w l out code stderr =
     \<lparr>tu_run_id = rl_run_id l, tu_status = fst out, tu_exit_reason = fst (snd out), tu_exit_code = code,
      tu_stderr_summary = (if stderr = Some [] then None else stderr), tu_trace_id = ew_trace w,
      tu_recovery_suggestion = snd (snd out)\<rparr>"

text \<open>Everything after the terminal update of the run.\<close>

definition record_end ::
  "end_world \<Rightarrow> run_launch \<Rightarrow> bool \<Rightarrow> bool \<Rightarrow> bool \<Rightarrow> outcome \<Rightarrow> int option \<Rightarrow> devrail_state \<times> run_event_row list \<Rightarrow>
   sqlx_error + devrail_state \<times> run_event_row list" where
  "record_end w l is_repair handoff_ready retryable out code st =
     (let status = fst out; reason = fst (snd out);
          j = (if handoff_ready \<and> \<not> (is_repair \<and> status = Run_Completed) then release_workspace w l status (fst st) else fst st)
      in and_then (settle_requests w l is_repair retryable status reason j) (\<lambda>(j1, handled).
         and_then (settle_task w l retryable handled status reason (base_of j1)) (\<lambda>db2.
         and_then (append_event (ew_now w) (terminal_event l status reason code) db2 (snd st)) (\<lambda>(db3, evs, _).
         and_then (notify_end l retryable status reason db3) (\<lambda>db4. Inr (on_base (\<lambda>_. db4) j1, evs))))))"

definition final_outcome :: "bool \<Rightarrow> bool \<Rightarrow> int option \<Rightarrow> outcome \<Rightarrow> outcome" where
  "final_outcome hook_failed failed count out =
     breaker_outcome (breaker_opened count) (hook_outcome hook_failed failed out)"

definition retries_run :: "run_launch \<Rightarrow> bool \<Rightarrow> bool \<Rightarrow> bool \<Rightarrow> int option \<Rightarrow> outcome \<Rightarrow> bool" where
  "retries_run l is_repair hook_failed failed count out =
     (let o1 = hook_outcome hook_failed failed out
      in \<not> is_repair \<and> \<not> breaker_opened count \<and> should_retry_automatically l (fst o1) (fst (snd o1)))"

text \<open>\<open>None\<close>: the run had already ended, and the transaction was rolled back.\<close>

definition finish_transaction ::
  "end_world \<Rightarrow> run_launch \<Rightarrow> bool \<Rightarrow> bool \<Rightarrow> bool \<Rightarrow> api_error option \<Rightarrow> outcome \<Rightarrow> int option \<Rightarrow> rstr option \<Rightarrow>
   devrail_state \<times> run_event_row list \<Rightarrow> sqlx_error + (devrail_state \<times> run_event_row list) option" where
  "finish_transaction w l is_repair handoff_ready failed hook_error out code stderr st =
     and_then (count_hook_failure w l (hook_phase (fst out)) hook_error
         (fst (hook_outcome (hook_error \<noteq> None) failed out)) (base_of (fst st))) (\<lambda>(db1, count).
       let final = final_outcome (hook_error \<noteq> None) failed count out;
           u = update_run_terminal (ew_now w) (terminal_of w l final code stderr) db1
       in if \<not> snd u then Inr None
          else and_then (record_end w l is_repair handoff_ready
                  (retries_run l is_repair (hook_error \<noteq> None) failed count out) final code
                  (on_base (\<lambda>_. fst u) (fst st), snd st)) (\<lambda>st'. Inr (Some st')))"

definition is_repair_run :: "run_launch \<Rightarrow> db \<Rightarrow> bool" where
  "is_repair_run l db = is_some_and (find (\<lambda>r. r_id r = rl_run_id l) (runs db)) (\<lambda>r. r_run_kind r = Repair)"

definition capture_evidence :: "end_world \<Rightarrow> run_launch \<Rightarrow> devrail_state \<Rightarrow> devrail_state \<times> bool" where
  "capture_evidence w l j =
     (case persist_handoff (ew_services w) (supervisor_actor l) (rl_run_id l) (ew_source w) (ew_evidence w)
             (ew_validated_at w) (continuation_view j) of
        Inl _ \<Rightarrow> (j, False)
      | Inr (c, ready) \<Rightarrow> (after_continuation j c, ready))"

definition gates_failed :: "run_launch \<Rightarrow> outcome \<Rightarrow> run_event_row list \<Rightarrow> bool" where
  "gates_failed l out evs = (fst out = Run_Completed \<and> has_failed_quality_gate (rl_run_id l) evs)"

definition finish_run ::
  "end_world \<Rightarrow> run_launch \<Rightarrow> outcome \<Rightarrow> int option \<Rightarrow> rstr option \<Rightarrow> devrail_state \<times> run_event_row list \<Rightarrow>
   (devrail_state \<times> run_event_row list) \<times> (sqlx_error + unit)" where
  "finish_run w l out code stderr st =
     (let failed = gates_failed l out (snd st);
          out1 = gate_outcome failed out;
          (j1, handoff_ready) = capture_evidence w l (fst st);
          hook_error = run_hook_error w l (hook_phase (fst out1)) (base_of j1)
      in case finish_transaction w l (is_repair_run l (base_of (fst st))) handoff_ready failed hook_error out1
                code stderr (j1, snd st) of
           Inl e \<Rightarrow> ((j1, snd st), Inl e)
         | Inr None \<Rightarrow> ((j1, snd st), Inr ())
         | Inr (Some st') \<Rightarrow> (st', Inr ()))"

end
