(* ===== verification/Run_End_Properties.thy ===== *)
theory Run_End_Properties
  imports Run_End
begin

text \<open>
  What the end of a run guarantees: a run ends once, completes only with its gates and hooks passed,
  and is retried only while the scheduler will still take its task.
\<close>

section \<open>What the parts leave alone\<close>

lemma on_base_simps [simp]:
  "base_of (on_base f j) = f (base_of j)" "continuation_part (on_base f j) = continuation_part j"
  "evidence_part (on_base f j) = evidence_part j"
  by (simp_all add: on_base_def)

lemma capture_evidence_frame:
  assumes "capture_evidence w l j = (j1, ready)"
  shows "\<exists>hs ev. j1 = j\<lparr>repairs_part := (repairs_part j)\<lparr>run_handoffs := hs\<rparr>, evidence_part := ev\<rparr>"
proof (cases "persist_handoff (ew_services w) (supervisor_actor l) (rl_run_id l) (ew_source w) (ew_evidence w)
             (ew_validated_at w) (continuation_view j)")
  case (Inl e)
  with assms show ?thesis by (intro exI [of _ "run_handoffs (repairs_part j)"] exI [of _ "evidence_part j"])
    (simp add: capture_evidence_def)
next
  case (Inr p)
  obtain c b where p: "p = (c, b)" by fastforce
  have "cbase c = base_of j \<and> continuation_requests c = continuation_part j"
    using Inr [unfolded p] create_handoff_requests
    by (fastforce simp: persist_handoff_def and_then_Inr_iff map_err_Inr Let_def continuation_view_def
        split: option.splits if_splits)
  with assms Inr p show ?thesis
    by (intro exI [of _ "map run_handoff.truncate (handoffs c)"] exI [of _ "handoffs c"])
      (auto simp: capture_evidence_def after_continuation_def intro: devrail_state.equality)
qed

lemma runs_record_hook_failure:
  "record_hook_failure now task f db = Inr (db1, n) \<Longrightarrow> runs db1 = runs db"
  by (auto simp: record_hook_failure_def split: option.splits)

lemma runs_count_hook_failure:
  "count_hook_failure w l phase e status db = Inr (db1, n) \<Longrightarrow> runs db1 = runs db"
  by (auto simp: count_hook_failure_def clear_hook_failure_def and_then_Inr_iff
      dest: runs_record_hook_failure split: option.splits if_splits)

lemma move_request_runs:
  assumes "move_request P f Q g err extra notice trace actor r s = Inr (s', res)" and "\<And>x. base (extra (f r) x) = base x"
  shows "runs (base s') = runs (base s)"
proof -
  let ?s = "s\<lparr>repair_requests := update_where P f (repair_requests s)\<rparr>"
  obtain s1 where p: "project_task (Q (f r)) g err ?s = Inr s1"
    and rep: "report_repair trace actor (f r) (notice (f r)) (extra (f r) s1) = Inr s'"
    using assms(1) by (auto simp: move_request_def Let_def and_then_Inr_iff)
  from report_repair_frame [OF rep] project_task_Inr(1) [OF p] show ?thesis by (auto simp: assms(2))
qed

lemma runs_complete_for_child_run:
  "complete_for_child_run now trace actor child code outcome s = Inr (s', res) \<Longrightarrow> runs (base s') = runs (base s)"
  by (auto simp: complete_for_child_run_def Let_def insert_handoff_def dest!: move_request_runs split: option.splits if_splits)

lemma runs_settle_repair_child:
  assumes "settle_repair_child now trace actor child status reason s = Inr s'"
  shows "runs (base s') = runs (base s)"
proof -
  have begun: "runs (base s1) = runs (base s)"
    if "begin_gate_reruns_for_child_run now actor child s = Inr (s1, b)" for s1 b
    using begin_gate_reruns_outcome [OF that] by (auto simp: start_gates_def)
  show ?thesis
    using assms
    by (auto simp: settle_repair_child_def and_then_Inr_iff dest!: begun runs_complete_for_child_run split: if_splits prod.splits)
qed

lemma runs_continuation_complete:
  assumes "continuation_complete_for_child_run now trace actor child code status s = Inr (s', res)"
  shows "runs (cbase s') = runs (cbase s)"
  using assms
  by (auto simp: continuation_complete_for_child_run_def dest!: move_continuation_Inr(4) split: list.splits option.splits if_splits)

lemma runs_settle_requests:
  assumes "settle_requests w l is_repair retryable status reason j = Inr (j', handled)"
  shows "runs (base_of j') = runs (base_of j)"
  using assms
  by (auto simp: settle_requests_def and_then_Inr_iff dest!: runs_settle_repair_child runs_continuation_complete split: if_splits)

lemma runs_settle_task: "settle_task w l retryable handled status reason db = Inr db' \<Longrightarrow> runs db' = runs db"
  by (auto simp: settle_task_def requeue_task_after_run_def update_task_status_def split: if_splits option.splits)

lemma runs_append_event:
  "append_event now e db evs = Inr (db', evs', x) \<Longrightarrow> db' = touch_run now (re_run_id e) db"
  by (auto simp: append_event_def split: option.splits if_splits)

lemma notify_end_frame: "notify_end l retryable status reason db = Inr db' \<Longrightarrow> runs db' = runs db \<and> tasks db' = tasks db"
  by (auto simp: notify_end_def Let_def outbox_def split: if_splits)

lemma runs_release_workspace [simp]: "runs (base_of (release_workspace w l status j)) = runs (base_of j)"
  and tasks_release_workspace [simp]: "tasks (base_of (release_workspace w l status j)) = tasks (base_of j)"
  by (simp_all add: release_workspace_def report_workspace_def mark_cleanup_pending_for_run_def outbox_def record_audit_def)

text \<open>After the terminal update the runs are only touched by the event, which leaves ended runs alone.\<close>

lemma record_end_steps:
  assumes "record_end w l rep ready retryable out code st = Inr st'"
  obtains j1 handled db2 db3 db4 where
    "settle_requests w l rep retryable (fst out) (fst (snd out))
       (if ready \<and> \<not> (rep \<and> fst out = Run_Completed) then release_workspace w l (fst out) (fst st) else fst st) = Inr (j1, handled)"
    "settle_task w l retryable handled (fst out) (fst (snd out)) (base_of j1) = Inr db2"
    "db3 = touch_run (ew_now w) (rl_run_id l) db2"
    "notify_end l retryable (fst out) (fst (snd out)) db3 = Inr db4" "base_of (fst st') = db4"
  using assms
  by (fastforce simp: record_end_def Let_def and_then_Inr_iff terminal_event_def dest: runs_append_event split: prod.splits)

lemma record_end_runs:
  assumes "record_end w l rep ready retryable out code st = Inr st'"
    and "r \<in> set (runs (base_of (fst st)))" and "\<not> unfinished r"
  shows "r \<in> set (runs (base_of (fst st')))"
  using assms(1)
proof (rule record_end_steps, goal_cases)
  case (1 j1 handled db2 db3 db4)
  have "runs db2 = runs (base_of (fst st))"
    using runs_settle_task [OF 1(2)] runs_settle_requests [OF 1(1)] by (simp split: if_splits)
  then have "r \<in> set (runs db3)"
    using 1(3) assms(2,3) by (auto simp: touch_run_def set_update_where)
  then show ?case using notify_end_frame [OF 1(4)] 1(5) by simp
qed

lemma finish_transaction_Some:
  assumes "finish_transaction w l rep ready gf e out code stderr st = Inr (Some st')"
  obtains db1 n where
    "count_hook_failure w l (hook_phase (fst out)) e (fst (hook_outcome (e \<noteq> None) gf out)) (base_of (fst st)) = Inr (db1, n)"
    "snd (update_run_terminal (ew_now w) (terminal_of w l (final_outcome (e \<noteq> None) gf n out) code stderr) db1)"
    "record_end w l rep ready (retries_run l rep (e \<noteq> None) gf n out) (final_outcome (e \<noteq> None) gf n out) code
       (on_base (\<lambda>_. fst (update_run_terminal (ew_now w) (terminal_of w l (final_outcome (e \<noteq> None) gf n out) code stderr) db1))
          (fst st), snd st) = Inr st'"
proof -
  obtain p where p: "count_hook_failure w l (hook_phase (fst out)) e (fst (hook_outcome (e \<noteq> None) gf out)) (base_of (fst st)) = Inr p"
    using assms unfolding finish_transaction_def and_then_Inr_iff by blast
  obtain db1 n where q: "p = (db1, n)" by fastforce
  show ?thesis
    by (rule that [of db1 n]; use assms p in \<open>auto simp: finish_transaction_def q Let_def and_then_Inr_iff split: if_splits\<close>)
qed

section \<open>Properties\<close>

lemma update_run_terminal_ended:
  assumes "\<And>r. r \<in> set (runs db) \<Longrightarrow> r_id r = tu_run_id u \<Longrightarrow> finished_run r"
  shows "\<not> snd (update_run_terminal now u db)"
  using assms by (auto simp: update_run_terminal_def guarded_runs_def rows_where_def filter_empty_conv
      intro!: arg_cong [where f = length and y = "[]", simplified])

text \<open>C22. A run ends once: when its end is reported although it has ended (or never existed), nothing
  is recorded, whatever the second report says and whatever the hooks do. Events, tasks with
  their hook failure counts, requests, workspaces and notifications stay as they are; at most
  evidence that the run had not left before is stored.\<close>

theorem run_ends_once:
  assumes "\<And>r. r \<in> set (runs (base_of j)) \<Longrightarrow> r_id r = rl_run_id l \<Longrightarrow> finished_run r"
  shows "\<exists>hs ev. fst (finish_run w l out code stderr (j, evs))
      = (j\<lparr>repairs_part := (repairs_part j)\<lparr>run_handoffs := hs\<rparr>, evidence_part := ev\<rparr>, evs)"
proof -
  obtain j1 ready where ce: "capture_evidence w l j = (j1, ready)" by fastforce
  obtain hs ev where j1: "j1 = j\<lparr>repairs_part := (repairs_part j)\<lparr>run_handoffs := hs\<rparr>, evidence_part := ev\<rparr>"
    using capture_evidence_frame [OF ce] by blast
  have "finish_transaction w l a ready b e out1 code stderr (j1, evs) \<noteq> Inr (Some st)" for a b e out1 st
  proof
    assume "finish_transaction w l a ready b e out1 code stderr (j1, evs) = Inr (Some st)"
    then show False
    proof (rule finish_transaction_Some, goal_cases)
      case (1 db1 n)
      have "\<not> snd (update_run_terminal (ew_now w) (terminal_of w l (final_outcome (e \<noteq> None) b n out1) code stderr) db1)"
        by (rule update_run_terminal_ended)
          (use assms runs_count_hook_failure [OF 1(1)] in \<open>auto simp: terminal_of_def j1\<close>)
      with 1(2) show False by contradiction
    qed
  qed
  then show ?thesis
    by (intro exI [of _ hs] exI [of _ ev])
      (auto simp: finish_run_def Let_def ce j1 [symmetric] split: sum.splits option.splits)
qed

lemma update_run_terminal_row:
  assumes "distinct (map r_id (runs db))" and "r \<in> set (runs db)" and "r_id r = tu_run_id u" and "\<not> finished_run r"
  shows "snd (update_run_terminal now u db)" and "on_terminal now u r \<in> set (runs (fst (update_run_terminal now u db)))"
proof -
  have "length (rows_where (\<lambda>r. r_id r = tu_run_id u \<and> \<not> finished_run r) (runs db)) = 1"
    using length_rows_where_key [OF assms(1), of "\<lambda>r. r_id r = tu_run_id u \<and> \<not> finished_run r" "tu_run_id u"]
      find_distinct_iff [of r_id "runs db" "r_id r" r] assms by auto
  then show "snd (update_run_terminal now u db)" by (simp add: update_run_terminal_def guarded_runs_def)
  show "on_terminal now u r \<in> set (runs (fst (update_run_terminal now u db)))"
    using assms by (auto simp: update_run_terminal_def set_update_where)
qed

lemma final_outcome_completed:
  assumes "count_hook_failure w l phase e status db = Inr (db1, n)"
  shows "fst (final_outcome (e \<noteq> None) gf n (gate_outcome gf out)) = Run_Completed
    \<longleftrightarrow> fst out = Run_Completed \<and> \<not> gf \<and> e = None"
  using assms
  by (cases e) (auto simp: final_outcome_def breaker_outcome_def breaker_opened_def hook_outcome_def gate_outcome_def
      count_hook_failure_def is_some_and_def)

lemma final_outcome_ends:
  "fst out \<in> {Run_Completed, Run_Failed, Run_Cancelled} \<Longrightarrow>
   fst (final_outcome hf gf n (gate_outcome gf out)) \<in> {Run_Completed, Run_Failed, Run_Cancelled}"
  by (auto simp: final_outcome_def breaker_outcome_def hook_outcome_def gate_outcome_def)

text \<open>What a successful end of an unfinished run did.\<close>

lemma finish_run_ok:
  assumes "finish_run w l out code stderr (j, evs) = ((j', evs'), Inr ())"
    and "distinct (map r_id (runs (base_of j)))" and "r \<in> set (runs (base_of j))" and "r_id r = rl_run_id l"
    and "\<not> finished_run r"
  defines "gf \<equiv> gates_failed l out evs"
  defines "out1 \<equiv> gate_outcome gf out"
  defines "e \<equiv> run_hook_error w l (hook_phase (fst out1)) (base_of j)"
  obtains j1 ready db1 n where "base_of j1 = base_of j"
    and "count_hook_failure w l (hook_phase (fst out1)) e (fst (hook_outcome (e \<noteq> None) gf out1)) (base_of j) = Inr (db1, n)"
    and "record_end w l (r_run_kind r = Repair) ready (retries_run l (r_run_kind r = Repair) (e \<noteq> None) gf n out1)
           (final_outcome (e \<noteq> None) gf n out1) code
           (on_base (\<lambda>_. fst (update_run_terminal (ew_now w) (terminal_of w l (final_outcome (e \<noteq> None) gf n out1) code stderr) db1)) j1, evs)
         = Inr (j', evs')"
proof -
  obtain j1 ready where ce: "capture_evidence w l j = (j1, ready)" by fastforce
  have b: "base_of j1 = base_of j" using capture_evidence_frame [OF ce] by auto
  have rep: "is_repair_run l (base_of j) = (r_run_kind r = Repair)"
    using find_distinct_iff [of r_id "runs (base_of j)" "rl_run_id l" r] assms(2-4) by (simp add: is_repair_run_def is_some_and_def)
  let ?F = "finish_transaction w l (r_run_kind r = Repair) ready gf e out1 code stderr (j1, evs)"
  have "?F \<noteq> Inr None"
  proof
    assume none: "?F = Inr None"
    then obtain db1 n where c: "count_hook_failure w l (hook_phase (fst out1)) e
         (fst (hook_outcome (e \<noteq> None) gf out1)) (base_of j1) = Inr (db1, n)"
      unfolding finish_transaction_def and_then_Inr_iff by auto
    with none have "\<not> snd (update_run_terminal (ew_now w) (terminal_of w l (final_outcome (e \<noteq> None) gf n out1) code stderr) db1)"
      by (auto simp: finish_transaction_def Let_def and_then_Inr_iff split: if_splits)
    with update_run_terminal_row(1) [of db1 r] assms(2-5) runs_count_hook_failure [OF c] show False
      by (simp add: b terminal_of_def)
  qed
  moreover have "?F = Inr None \<or> ?F = Inr (Some (j', evs'))"
    using assms(1) unfolding finish_run_def gf_def out1_def e_def
    by (auto simp: ce b rep Let_def split: sum.splits option.splits)
  ultimately have "?F = Inr (Some (j', evs'))" by blast
  then show ?thesis
    by (rule finish_transaction_Some) (rule that [OF b]; simp add: b)
qed

text \<open>C3. Completion is earned: when an unfinished run ends, it is recorded as completed exactly if the
  agent reported completion, no recorded quality gate of the run failed, and the hooks that follow a
  run passed; in every other case it is recorded as failed or cancelled.\<close>

theorem completion_is_earned:
  assumes "finish_run w l out code stderr (j, evs) = ((j', evs'), Inr ())"
    and "distinct (map r_id (runs (base_of j)))" and "r \<in> set (runs (base_of j))" and "r_id r = rl_run_id l"
    and "\<not> finished_run r" and "fst out \<in> {Run_Completed, Run_Failed, Run_Cancelled}"
  shows "\<exists>r' \<in> set (runs (base_of j')). r_id r' = r_id r \<and> finished_run r'
    \<and> (r_status r' = Run_Completed \<longleftrightarrow> fst out = Run_Completed \<and> \<not> has_failed_quality_gate (rl_run_id l) evs
         \<and> run_hooks (ew_hooks w) (ew_snapshot w) ''after_run'' = Inr ())"
  using assms(1-5)
proof (rule finish_run_ok, goal_cases)
  case (1 j1 ready db1 n)
  define gf where "gf = gates_failed l out evs"
  define e where "e = run_hook_error w l (hook_phase (fst (gate_outcome gf out))) (base_of j)"
  define final where "final = final_outcome (e \<noteq> None) gf n (gate_outcome gf out)"
  define r' where "r' = on_terminal (ew_now w) (terminal_of w l final code stderr) r"
  have runs: "runs db1 = runs (base_of j)" by (rule runs_count_hook_failure [OF 1(2)])
  have st: "r_status r' = fst final" "r_id r' = r_id r" by (simp_all add: r'_def on_terminal_def terminal_of_def)
  have ended: "fst final \<in> {Run_Completed, Run_Failed, Run_Cancelled}"
    unfolding final_def by (rule final_outcome_ends [OF assms(6)])
  have "r' \<in> set (runs (fst (update_run_terminal (ew_now w) (terminal_of w l final code stderr) db1)))"
    unfolding r'_def by (rule update_run_terminal_row(2)) (use assms(2-5) in \<open>simp_all add: runs terminal_of_def\<close>)
  then have mem: "r' \<in> set (runs (base_of j'))"
    using record_end_runs [OF 1(3), of r'] ended st(1)
    by (auto simp: final_def e_def gf_def unfinished_def)
  have "e = None \<longleftrightarrow> run_hooks (ew_hooks w) (ew_snapshot w) (hook_phase (fst (gate_outcome gf out))) = Inr ()"
    using assms(3,4) by (auto simp: e_def run_hook_error_def list_ex_iff split: sum.splits)
  then have "r_status r' = Run_Completed \<longleftrightarrow> fst out = Run_Completed \<and> \<not> has_failed_quality_gate (rl_run_id l) evs
         \<and> run_hooks (ew_hooks w) (ew_snapshot w) ''after_run'' = Inr ()"
    using final_outcome_completed [OF 1(2), of gf out] st(1)
    by (auto simp: final_def e_def gf_def gates_failed_def hook_phase_def gate_outcome_def)
  with mem st ended show ?case by (intro bexI [of _ r']) (auto simp: finished_run_def)
qed

section \<open>Retries\<close>

lemma move_request_tasks:
  assumes "move_request P f Q g err extra notice trace actor r s = Inr (s', res)" and "\<And>x. base (extra (f r) x) = base x"
    and "t \<in> set (tasks (base s'))"
  shows "t \<in> set (tasks (base s)) \<or> (\<exists>u. t = g u)"
proof -
  let ?s = "s\<lparr>repair_requests := update_where P f (repair_requests s)\<rparr>"
  obtain s1 where p: "project_task (Q (f r)) g err ?s = Inr s1"
    and rep: "report_repair trace actor (f r) (notice (f r)) (extra (f r) s1) = Inr s'"
    using assms(1) by (auto simp: move_request_def Let_def and_then_Inr_iff)
  from report_repair_frame [OF rep] project_task_Inr(1) [OF p] assms(3) show ?thesis
    by (auto simp: assms(2) set_update_where)
qed

lemma complete_for_child_run_tasks:
  assumes "complete_for_child_run now trace actor child code outcome s = Inr (s', res)" and "t \<in> set (tasks (base s'))"
  shows "t \<in> set (tasks (base s)) \<or> t_status t \<noteq> Task_Queued"
proof (cases "find (completable actor child (base s)) (repair_requests s)")
  case None
  with assms show ?thesis by (simp add: complete_for_child_run_def Let_def split: if_splits)
next
  case (Some r)
  have "move_request (completable actor child (base s)) (on_end now (child_outcome outcome) (Some code)) runs_repair
      (end_task now (if outcome = ''succeeded'' then Task_Succeeded else Task_RepairHandoff))
      ''task_changed_during_repair_completion'' (\<lambda>r. if outcome = ''succeeded'' then id else insert_handoff r ''gate_failed'' ''child_run_failed'')
      (\<lambda>r. request_notice r ''completed'' ''complete'' (if outcome = ''succeeded'' then ''success'' else ''warning'')
         (if outcome = ''succeeded'' then ''repair_finished'' else ''repair_needs_person'') (task_link r)) trace actor r s = Inr (s', res)"
    using assms(1) unfolding complete_for_child_run_def Let_def Some option.case guard_Inr_iff by blast
  then have "t \<in> set (tasks (base s)) \<or> (\<exists>u. t = end_task now (if outcome = ''succeeded'' then Task_Succeeded else Task_RepairHandoff) u)"
    by (rule move_request_tasks) (simp_all add: insert_handoff_def assms(2))
  then show ?thesis by (auto simp: end_task_def split: if_splits)
qed

lemma settle_requests_tasks:
  assumes "settle_requests w l rep retryable status reason j = Inr (j', handled)" and "t \<in> set (tasks (base_of j'))"
  shows "t \<in> set (tasks (base_of j)) \<or> t_status t \<noteq> Task_Queued"
proof (cases rep)
  case True
  then obtain s where s: "settle_repair_child (ew_now w) (ew_audit_trace w) (supervisor_actor l) (rl_run_id l) status reason
      (repairs_part j) = Inr s" "base_of j' = base s"
    using assms(1) by (auto simp: settle_requests_def and_then_Inr_iff)
  have begun: "base s1 = base s0" if "begin_gate_reruns_for_child_run now actor child s0 = Inr (s1, b)" for now actor child s0 s1 b
    using begin_gate_reruns_outcome [OF that] by (auto simp: start_gates_def)
  show ?thesis
    using s assms(2)
    by (auto simp: settle_repair_child_def and_then_Inr_iff dest!: begun dest: complete_for_child_run_tasks split: if_splits)
next
  case False
  have "t \<in> set (tasks (cbase c)) \<or> t_status t \<noteq> Task_Queued"
    if c: "continuation_complete_for_child_run now trace actor child code st c = Inr (c', q)" and t: "t \<in> set (tasks (cbase c'))"
      for now trace actor child code st c c' q
    using c t by (auto simp: continuation_complete_for_child_run_def end_task_def set_update_where
        dest!: move_continuation_Inr(3) split: list.splits option.splits if_splits)
  with False assms show ?thesis
    by (fastforce simp: settle_requests_def and_then_Inr_iff split: if_splits)
qed

lemma count_hook_failure_task:
  assumes "count_hook_failure w l phase e status db = Inr (db1, n)" and "distinct (map t_id (tasks db))"
    and "t \<in> set (tasks db)" and "t_id t = rl_task_id l" and "t1 \<in> set (tasks db1)" and "t_id t1 = rl_task_id l"
  shows "t_status t1 = t_status t \<and> t_scheduler_attempt t1 = t_scheduler_attempt t
    \<and> t_scheduler_max_attempts t1 = t_scheduler_max_attempts t \<and> t_scheduler_retry_count t1 = t_scheduler_retry_count t
    \<and> (e \<noteq> None \<and> 0 \<le> t_hook_failure_count t \<longrightarrow> n = Some (t_hook_failure_count t1) \<and> 0 < t_hook_failure_count t1)"
proof -
  have one: "u = t" if "u \<in> set (tasks db)" "t_id u = rl_task_id l" for u
    using that assms(2-4) inj_onD [of t_id "set (tasks db)" u t] by (simp add: distinct_map)
  show ?thesis
  proof (cases e)
    case None
    have "t1 \<in> set (tasks db) \<or> (\<exists>u \<in> set (tasks db). t_id u = rl_task_id l \<and>
        t1 = u\<lparr>t_hook_failure_fingerprint := None, t_hook_failure_count := 0, t_updated_at := ew_now w\<rparr>)"
      using assms(1,5) None
      by (auto simp: count_hook_failure_def clear_hook_failure_def set_update_where split: if_splits)
    then show ?thesis using one assms(6) None by auto
  next
    case (Some x)
    define f where "f = on_hook_failure (ew_now w) (hook_failure_fingerprint (ew_sha w) phase (error_text x))"
    have r: "record_hook_failure (ew_now w) (rl_task_id l) (hook_failure_fingerprint (ew_sha w) phase (error_text x)) db
        = Inr (db1, the n)" and n: "n \<noteq> None"
      using assms(1) Some by (auto simp: count_hook_failure_def and_then_Inr_iff)
    obtain u where u: "find_by_id db (rl_task_id l) = Some u" using r by (auto simp: record_hook_failure_def split: option.splits)
    then have "u = t" using one find_SomeD by (fastforce simp: find_by_id_def)
    then have db1: "db1 = update_tasks (\<lambda>t. t_id t = rl_task_id l) f db" and c: "the n = t_hook_failure_count (f t)"
      using r u by (simp_all add: record_hook_failure_def f_def)
    have "t_id (f v) = t_id v" for v by (simp add: f_def on_hook_failure_def)
    then have "t1 = f t" using assms(5,6) one by (auto simp: db1 set_update_where)
    then show ?thesis using c n by (auto simp: f_def on_hook_failure_def)
  qed
qed

lemma record_end_not_retried:
  assumes "record_end w l rep ready False out code st = Inr st'"
    and "t' \<in> set (tasks (base_of (fst st')))" and "t_id t' = rl_task_id l" and "t_status t' = Task_Queued"
  shows "t' \<in> set (tasks (base_of (fst st)))"
  using assms(1)
proof (rule record_end_steps, goal_cases)
  case (1 j2 handled db2 db3 db4)
  have "t' \<in> set (tasks db2)"
    using assms(2) 1(3,5) notify_end_frame [OF 1(4)] by (simp add: touch_run_def)
  with 1(2) assms(3,4) have "t' \<in> set (tasks (base_of j2))"
    by (auto simp: settle_task_def update_task_status_def set_update_where ended_task_status_def split: if_splits)
  from settle_requests_tasks [OF 1(1) this] assms(4) show ?case by (auto split: if_splits)
qed

lemma record_end_retried:
  assumes "record_end w l False ready True out code st = Inr st'"
    and "t' \<in> set (tasks (base_of (fst st')))" and "t_id t' = rl_task_id l"
  shows "\<exists>t1 \<in> set (tasks (base_of (fst st))). t_id t1 = rl_task_id l
    \<and> t_scheduler_attempt t' = t_scheduler_attempt t1 \<and> t_scheduler_max_attempts t' = t_scheduler_max_attempts t1
    \<and> t_hook_failure_count t' = t_hook_failure_count t1 \<and> t_scheduler_claim_token t' = None
    \<and> t_scheduler_retry_count t' = t_scheduler_retry_count t1 + 1"
  using assms(1)
proof (rule record_end_steps, goal_cases)
  case (1 j2 handled db2 db3 db4)
  have "t' \<in> set (tasks db2)"
    using assms(2) 1(3,5) notify_end_frame [OF 1(4)] by (simp add: touch_run_def)
  moreover have "tasks (base_of j2) = tasks (base_of (fst st))"
    using 1(1) by (auto simp: settle_requests_def split: if_splits)
  ultimately show ?case
    using 1(2) assms(3)
    by (auto simp: settle_task_def requeue_task_after_run_def set_update_where split: option.splits) blast
qed


section \<open>Concrete runs\<close>

definition example_launch :: run_launch where
  "example_launch = \<lparr>rl_run_id = 1, rl_task_id = 1, rl_organization_id = 1, rl_department_id = Some 10, rl_owner_user_id = 100,
     rl_cwd = ''/w'', rl_input = ''go'', rl_resume_thread_id = None, rl_resume_turn_id = None, rl_attempt = 1,
     rl_max_attempts = 3, rl_automatic = True, rl_policy = default_policy\<rparr>"

definition example_world :: "bool \<Rightarrow> end_world" where
  "example_world ok = \<lparr>ew_services = example_services, ew_source = None, ew_evidence = Inl Unavailable, ew_validated_at = 9,
     ew_snapshot = J_Object [(''config'', J_Object [(''hooks'', J_Object [(''afterRun'', J_Array [J_String ''cargo-flow-verify''])])])],
     ew_hooks = \<lparr>hw_configured = (\<lambda>_. True), hw_run = (\<lambda>_ _. Hook_Exit ok)\<rparr>, ew_sha = (\<lambda>_. ''f''), ew_now = 9, ew_seed = 0,
     ew_trace = ''t'', ew_audit_trace = ''a''\<rparr>"

definition example_ending :: "task_status \<Rightarrow> run_status \<Rightarrow> devrail_state" where
  "example_ending ts rs = \<lparr>repairs_part = example_workspace_store\<lparr>base := example_db
       [(example_task 1)\<lparr>t_status := ts, t_scheduler_attempt := 1\<rparr>] [(example_run 1 1)\<lparr>r_status := rs\<rparr>]\<rparr>,
     continuation_part = [], evidence_part = []\<rparr>"

theorem run_ends_once_witness:
  "snd (finish_run (example_world False) example_launch (Run_Failed, ''timeout'', None) None None
      (example_ending Task_Succeeded Run_Completed, [])) = Inr ()
   \<and> tasks (base_of (fst (fst (finish_run (example_world False) example_launch (Run_Failed, ''timeout'', None) None None
      (example_ending Task_Succeeded Run_Completed, []))))) = tasks (base_of (example_ending Task_Succeeded Run_Completed))"
proof
  show "snd (finish_run (example_world False) example_launch (Run_Failed, ''timeout'', None) None None
      (example_ending Task_Succeeded Run_Completed, [])) = Inr ()" by code_simp
  have "finished_run r" if "r \<in> set (runs (base_of (example_ending Task_Succeeded Run_Completed)))" for r
    using that by (simp add: example_ending_def example_db_def finished_run_def)
  from run_ends_once [of "example_ending Task_Succeeded Run_Completed" example_launch "example_world False"
      "(Run_Failed, ''timeout'', None)" None None "[]", OF this]
  show "tasks (base_of (fst (fst (finish_run (example_world False) example_launch (Run_Failed, ''timeout'', None) None None
      (example_ending Task_Succeeded Run_Completed, []))))) = tasks (base_of (example_ending Task_Succeeded Run_Completed))"
    by auto
qed

lemma example_ending_rows:
  "runs (base_of (example_ending ts rs)) = [(example_run 1 1)\<lparr>r_status := rs\<rparr>]"
  "tasks (base_of (example_ending ts rs)) = [(example_task 1)\<lparr>t_status := ts, t_scheduler_attempt := 1\<rparr>]"
  by (simp_all add: example_ending_def example_db_def)

theorem completion_is_earned_witness:
  "\<exists>j' evs' r'. finish_run (example_world True) example_launch (Run_Completed, ''turn_completed'', None) (Some 0) None
      (example_ending Task_Running Run_Active, []) = ((j', evs'), Inr ())
    \<and> r' \<in> set (runs (base_of j')) \<and> r_status r' = Run_Completed"
proof -
  obtain j' evs' where f: "finish_run (example_world True) example_launch (Run_Completed, ''turn_completed'', None) (Some 0) None
      (example_ending Task_Running Run_Active, []) = ((j', evs'), Inr ())"
  proof -
    have "snd (finish_run (example_world True) example_launch (Run_Completed, ''turn_completed'', None) (Some 0) None
      (example_ending Task_Running Run_Active, [])) = Inr ()" by code_simp
    then show ?thesis using that by (metis prod.collapse)
  qed
  have "run_hooks (ew_hooks (example_world True)) (ew_snapshot (example_world True)) ''after_run'' = Inr ()" by code_simp
  with completion_is_earned [OF f, of "(example_run 1 1)\<lparr>r_status := Run_Active\<rparr>"]
  have "\<exists>r' \<in> set (runs (base_of j')). r_status r' = Run_Completed"
    by (auto simp: example_ending_rows example_launch_def example_run_def finished_run_def has_failed_quality_gate_def)
  with f show ?thesis by blast
qed

text \<open>A failure that is reported late revives a cancelled task: nothing in the end of a run looks at the
  status of the task, so that a task cancelled while its run is still active goes back into the queue
  when that run times out before the cancellation reaches it.\<close>

theorem late_failure_revives_cancelled_task:
  "map t_status (tasks (base_of (fst (fst (finish_run (example_world True) example_launch (Run_Failed, ''timeout'', None) None None
      (example_ending Task_Cancelled Run_Active, [])))))) = [Task_Queued]"
  by code_simp


end
