(* ===== verification/Run_Service.thy ===== *)
theory Run_Service
  imports Run_End
begin

text \<open>
  Starting a run, \<^verbatim>\<open>create_run_with_context\<close> of \<^verbatim>\<open>backend/src/services/devrail_runs.rs\<close>, and the
  supervisor's launch. The start is a sequence of transactions with outside work in between: the
  checks, the rows of run and workspace, the directory, the hooks, the process. Every failure is
  followed by a transaction that puts run and task in order. The outside work is in
  \<open>start_world\<close>; the result is the store as it was left and the answer.
\<close>

section \<open>The supervisor\<close>

record supervisor =
  sup_free_slots :: nat
  sup_controls :: "int set"
  sup_root :: path

datatype supervisor_error = Sup_Capacity | Sup_Spawn rstr | Sup_Workspace | Sup_ControlUnavailable

fun supervisor_error_text :: "supervisor_error \<Rightarrow> rstr" where
  "supervisor_error_text Sup_Capacity = capacity_exhausted"
| "supervisor_error_text (Sup_Spawn m) = ''spawn:'' @ m"
| "supervisor_error_text Sup_Workspace = ''workspace_outside_root''"
| "supervisor_error_text Sup_ControlUnavailable = ''control_unavailable''"

definition reserve :: "supervisor \<Rightarrow> supervisor_error + supervisor" where
  "reserve hv = (if sup_free_slots hv = 0 then Inl Sup_Capacity else Inr (hv\<lparr>sup_free_slots := sup_free_slots hv - 1\<rparr>))"

text \<open>A reservation that is dropped returns its slot.\<close>

definition drop_reservation :: "supervisor \<Rightarrow> supervisor" where
  "drop_reservation hv = hv\<lparr>sup_free_slots := sup_free_slots hv + 1\<rparr>"

text \<open>The process: it starts with its three pipes, or the start fails.\<close>

datatype spawned = Spawned | Spawn_Failed rstr

definition launch_reserved ::
  "timestamp \<Rightarrow> uuid \<Rightarrow> spawned \<Rightarrow> path \<Rightarrow> int \<Rightarrow> supervisor \<Rightarrow> db \<Rightarrow> (supervisor \<times> db) \<times> (supervisor_error + unit)" where
  "launch_reserved now token spawn cwd run hv db =
     (if \<not> prefix (sup_root hv) cwd then ((drop_reservation hv, db), Inl Sup_Workspace)
      else
        let claim = claim_harness_start now run (''supervisor:'' @ show_nat token) token 120 db in
        if \<not> snd claim then ((drop_reservation hv, fst claim), Inl Sup_ControlUnavailable)
        else
          let hv1 = hv\<lparr>sup_controls := insert run (sup_controls hv)\<rparr> in
          if run \<in> sup_controls hv
          then ((drop_reservation hv1, fst (release_harness_start now run token (fst claim))), Inl Sup_ControlUnavailable)
          else case spawn of
            Spawned \<Rightarrow> ((hv1, fst claim), Inr ())
          | Spawn_Failed m \<Rightarrow>
              ((drop_reservation (hv1\<lparr>sup_controls := sup_controls hv1 - {run}\<rparr>),
                fst (release_harness_start now run token (fst claim))), Inl (Sup_Spawn m)))"

definition send_interrupt :: "int \<Rightarrow> bool \<Rightarrow> supervisor \<Rightarrow> supervisor_error + unit" where
  "send_interrupt run received hv =
     (if run \<notin> sup_controls hv \<or> \<not> received then Inl Sup_ControlUnavailable else Inr ())"

fun interrupt_cause_of :: "rstr \<Rightarrow> interrupt_cause" where
  "interrupt_cause_of reason =
     (if reason = ''task_cancelled'' then TaskCancelled else if reason = ''task_state_drift'' then TaskStateDrift
      else EnvironmentInvalid)"

section \<open>Requests\<close>

record run_request =
  rq_environment_id :: int
  rq_idempotency_key :: rstr
  rq_input :: "rstr option"
  rq_branch_name :: "rstr option"

record creation_context =
  cx_resume :: "(rstr \<times> rstr option) option"
  cx_claim_token :: "uuid option"
  cx_parent_run_id :: "int option"
  cx_parent_turn_id :: "rstr option"

definition default_context :: creation_context where
  "default_context = \<lparr>cx_resume = None, cx_claim_token = None, cx_parent_run_id = None, cx_parent_turn_id = None\<rparr>"

definition run_key :: "rstr \<Rightarrow> api_error + rstr" where
  "run_key value =
     (let v = trim value in
      if v = [] \<or> length v > 128 \<or> \<not> list_all (\<lambda>c. is_ascii_alphanumeric c \<or> c \<in> set ''._:-'') v
      then Inl (Validation ''idempotency_key_invalid'') else Inr v)"

definition bounded_input :: "rstr option \<Rightarrow> rstr \<Rightarrow> api_error + rstr" where
  "bounded_input value fallback =
     (let input = trim (case value of None \<Rightarrow> fallback | Some v \<Rightarrow> v) in
      if input = [] \<or> length input > 16000 then Inl (Validation ''run_input_invalid'') else Inr input)"

definition valid_branch :: "rstr \<Rightarrow> bool" where
  "valid_branch b =
     (length b \<le> 256 \<and> \<not> contains_str ''..'' b \<and> \<not> starts_with ''/'' b \<and> \<not> ends_with ''/'' b
      \<and> \<not> starts_with ''-'' b \<and> \<not> list_ex is_ascii_whitespace b)"

definition branch_of :: "rstr option \<Rightarrow> api_error + rstr option" where
  "branch_of value =
     (case value of
        None \<Rightarrow> Inr None
      | Some v \<Rightarrow> if trim v = [] then Inr None
                  else if valid_branch (trim v) then Inr (Some (trim v)) else Inl (Validation ''branch_name_invalid''))"

definition validate_workflow_identity :: "json option \<Rightarrow> rstr \<Rightarrow> rstr \<Rightarrow> rstr \<Rightarrow> api_error + json" where
  "validate_workflow_identity snapshot source version digest =
     (case snapshot of
        None \<Rightarrow> Inl (Conflict ''workflow_identity_missing'')
      | Some s \<Rightarrow>
          let v = (case json_get s ''declaredVersion'' of None \<Rightarrow> json_get s ''version'' | x \<Rightarrow> x) in
          if Option.bind (json_get s ''source'') as_str \<noteq> Some source \<or> Option.bind v as_str \<noteq> Some version
             \<or> Option.bind (json_get s ''digest'') as_str \<noteq> Some digest
          then Inl (Conflict ''workflow_identity_mismatch'') else Inr s)"

text \<open>What the outside contributes: clocks and traces of the transactions, the identity of the inserted
  snapshot, the root directories of the environments, and the outcomes of the outside work.\<close>

record start_world =
  sw_services :: run_services
  sw_policy :: scheduler_policy
  sw_snapshot_id :: int
  sw_env_root :: "int \<Rightarrow> rstr"
  sw_materialize :: "rstr \<Rightarrow> api_error + path \<times> rstr option"
  sw_hooks :: hook_world
  sw_sha :: "rstr \<Rightarrow> rstr"
  sw_spawn :: spawned
  sw_token :: uuid
  sw_seed :: nat
  sw_now :: timestamp
  sw_later :: timestamp
  sw_trace :: rstr

text \<open>\<^verbatim>\<open>find_environment\<close> of \<^verbatim>\<open>repositories/devrail.rs\<close>.\<close>

definition find_environment :: "actor_context \<Rightarrow> db \<Rightarrow> int \<Rightarrow> int \<Rightarrow> environment_row option" where
  "find_environment actor db project i =
     find (\<lambda>e. e_id e = i \<and> e_project_id e = project \<and> e_archived_at e = None
        \<and> scope_sql actor db (e_organization_id e, e_owner_user_id e, e_department_id e)) (environments db)"

section \<open>The checks\<close>

datatype start_check = Replayed run_row | Checked task_row environment_row json rstr "int option" "rstr option"

definition retry_lineage ::
  "actor_context \<Rightarrow> creation_context \<Rightarrow> task_row \<Rightarrow> db \<Rightarrow> api_error + int option \<times> rstr option" where
  "retry_lineage actor cx task db =
     (if cx_claim_token cx \<noteq> None \<and> t_scheduler_retry_count task > 0 \<and> cx_parent_run_id cx = None
      then (case find_retry_parent actor db (t_id task) of
              None \<Rightarrow> Inl (Conflict ''retry_lineage_missing'')
            | Some p \<Rightarrow> Inr (Some (r_id p), r_turn_id p))
      else Inr (cx_parent_run_id cx, cx_parent_turn_id cx))"

definition check_start ::
  "start_world \<Rightarrow> actor_context \<Rightarrow> int \<Rightarrow> run_request \<Rightarrow> creation_context \<Rightarrow> rstr \<Rightarrow> db \<Rightarrow> api_error + start_check" where
  "check_start w actor task_id req cx key db =
     (case find_run_by_idempotency actor db task_id key of
        Some r \<Rightarrow> Inr (Replayed r)
      | None \<Rightarrow>
          (case find_task_by_id actor db task_id of
             None \<Rightarrow> Inl (NotFound ''task'')
           | Some task \<Rightarrow>
               if cx_claim_token cx \<noteq> None \<and> t_status task \<noteq> Task_Queued then Inl (Validation ''task_not_queued'')
               else and_then (retry_lineage actor cx task db) (\<lambda>(parent, turn).
                 case find_environment actor db (t_project_id task) (rq_environment_id req) of
                   None \<Rightarrow> Inl (NotFound ''environment'')
                 | Some env \<Rightarrow>
                     if \<not> e_enabled env then Inl (Conflict ''environment_disabled'')
                     else and_then (validate_workflow_identity (rv_workflow (sw_services w) (t_dispatch_snapshot task))
                              (t_workflow_source task) (t_workflow_version task) (t_workflow_digest task)) (\<lambda>snapshot.
                       and_then (bounded_input (rq_input req)
                              (case Option.bind (json_get snapshot ''renderedPrompt'') as_str of None \<Rightarrow> t_goal task | Some p \<Rightarrow> p))
                         (\<lambda>input. Inr (Checked task env snapshot input parent turn))))))"

section \<open>The rows\<close>

definition start_attempt :: "actor_context \<Rightarrow> task_row \<Rightarrow> db \<Rightarrow> int" where
  "start_attempt actor task db =
     (if actor_type actor = System then max 1 (t_scheduler_attempt task) else next_run_attempt (t_id task) db)"

definition start_run_row ::
  "start_world \<Rightarrow> actor_context \<Rightarrow> rstr \<Rightarrow> task_row \<Rightarrow> environment_row \<Rightarrow> json \<Rightarrow> int option \<Rightarrow> rstr option \<Rightarrow> int \<Rightarrow> new_run" where
  "start_run_row w actor key task env snapshot parent turn attempt =
     \<lparr>nw_actor = actor, nw_task_id = t_id task, nw_snapshot_id = sw_snapshot_id w, nw_idempotency_key = key,
      nw_attempt = attempt, nw_task_revision = t_revision task, nw_workflow_source = t_workflow_source task,
      nw_workflow_version = t_workflow_version task, nw_workflow_digest = t_workflow_digest task,
      nw_workflow_snapshot = snapshot, nw_parent_run_id = parent, nw_parent_turn_id = turn,
      nw_cwd = sw_env_root w (e_id env), nw_department_id = t_department_id task\<rparr>"

definition start_workspace_row ::
  "start_world \<Rightarrow> actor_context \<Rightarrow> task_row \<Rightarrow> environment_row \<Rightarrow> run_row \<Rightarrow> rstr \<Rightarrow> new_workspace" where
  "start_workspace_row w actor task env r key =
     \<lparr>nk_actor = actor, nk_task_id = t_id task, nk_run_id = Some (r_id r), nk_attempt = r_attempt r, nk_workspace_key = key,
      nk_relative_path = key, nk_path_digest = sw_sha w key, nk_repository_id = t_repository_id task,
      nk_environment_id = Some (e_id env), nk_base_commit = None,
      nk_snapshot_digest = Some (t_dispatch_snapshot_digest task)\<rparr>"

text \<open>One transaction. \<open>None\<close>: the run collides with another one, and everything is rolled back.\<close>

definition insert_start ::
  "start_world \<Rightarrow> actor_context \<Rightarrow> uuid option \<Rightarrow> rstr \<Rightarrow> task_row \<Rightarrow> environment_row \<Rightarrow> json \<Rightarrow> int option \<Rightarrow> rstr option \<Rightarrow>
   repair_store \<Rightarrow> api_error + (repair_store \<times> run_row \<times> workspace_row) option" where
  "insert_start w actor token key task env snapshot parent turn s =
     (if is_some_and token (\<lambda>tok. \<not> scheduler_claim_is_current (sw_now w) (t_id task) tok (sp_claim_lease_seconds (sw_policy w)) (base s))
      then Inl (Conflict ''scheduler_claim_lost'')
      else
        let attempt = start_attempt actor task (base s) in
        and_then (workspace_key (sw_sha w) (t_id task) attempt) (\<lambda>wkey.
        case create_run (sw_services w) (sw_now w) (start_run_row w actor key task env snapshot parent turn attempt) (base s) of
          Inl e \<Rightarrow> Inl (sqlx_internal e)
        | Inr (db1, None) \<Rightarrow> Inr None
        | Inr (db1, Some r) \<Rightarrow>
            (case create_workspace (sw_now w) (start_workspace_row w actor task env r wkey) (s\<lparr>base := db1\<rparr>) of
               Inl e \<Rightarrow> Inl (sqlx_internal e)
             | Inr (s2, None) \<Rightarrow> Inl (Conflict ''workspace_taken_by_another_run'')
             | Inr (s2, Some ws) \<Rightarrow>
                 let s3 = report_workspace (sw_trace w) actor ''create'' ''created'' (w_id ws)
                       (workspace_payload (w_id ws) (t_id task) ''preparing'' @ '':'' @ show_int (r_id r)) s2;
                     db4 = record_audit \<lparr>a_organization_id = organization_id actor, a_department_id = department_id actor,
                         a_action = ''devrail.run.create'', a_target_type = ''devrail_run'', a_target_id = r_id r,
                         a_reason = (if token \<noteq> None then ''scheduler_dispatch'' else ''user_request''), a_trace_id = sw_trace w\<rparr>
                       (update_task_status (sw_now w) (t_id task) Task_Running (base s3))
                 in Inr (Some (s3\<lparr>base := db4\<rparr>, r, ws)))))"

section \<open>Failures on the way\<close>

definition fail_run :: "start_world \<Rightarrow> run_row \<Rightarrow> rstr \<Rightarrow> rstr option \<Rightarrow> rstr \<Rightarrow> db \<Rightarrow> db" where
  "fail_run w r reason stderr suggestion db =
     fst (update_run_terminal (sw_later w) \<lparr>tu_run_id = r_id r, tu_status = Run_Failed, tu_exit_reason = reason,
        tu_exit_code = None, tu_stderr_summary = stderr, tu_trace_id = sw_trace w, tu_recovery_suggestion = Some suggestion\<rparr> db)"

definition on_store :: "(db \<Rightarrow> db) \<Rightarrow> repair_store \<Rightarrow> repair_store" where
  "on_store f s = s\<lparr>base := f (base s)\<rparr>"

text \<open>The failure of a \<^verbatim>\<open>before_run\<close> hook, one transaction; \<open>None\<close> is the panic of the delay on a policy
  the configuration never accepts.\<close>

definition fail_before_run ::
  "start_world \<Rightarrow> bool \<Rightarrow> task_row \<Rightarrow> run_row \<Rightarrow> workspace_row \<Rightarrow> api_error \<Rightarrow> repair_store \<Rightarrow> repair_store \<times> api_error" where
  "fail_before_run w scheduled task r ws error s =
     (let s1 = set_lifecycle (sw_later w) (w_id ws) ''cleanup_pending'' ''pending'' (Some ''before_run'') (Some ''before_run_failed'') s in
      case record_hook_failure (sw_later w) (t_id task) (hook_failure_fingerprint (sw_sha w) ''before_run'' (error_text error)) (base s1) of
        Inl e \<Rightarrow> (s, sqlx_internal e)
      | Inr (db1, n) \<Rightarrow>
          let breaker = hook_failure_breaker_open n;
              reason = (if breaker then ''hook_failure_circuit_open'' else ''before_run_failed'');
              suggestion = (if breaker then ''same_hook_failure_five_times'' else ''check_hooks_and_gates'');
              db2 = fail_run w r reason (Some ''before_run_failed'') suggestion db1
          in if breaker \<or> \<not> scheduled
             then (s1\<lparr>base := update_task_status (sw_later w) (t_id task) Task_Failed db2\<rparr>,
                   if breaker then Conflict suggestion else error)
             else case retry_delay_with_seed (r_attempt r) (sw_policy w) (sw_seed w) of
                    None \<Rightarrow> (s, Internal ''panic'')
                  | Some d \<Rightarrow> (s1\<lparr>base := requeue_task_after_run (sw_later w) (t_id task) (sw_later w + seconds d) reason db2\<rparr>, error))"

definition fail_launch :: "start_world \<Rightarrow> task_row \<Rightarrow> run_row \<Rightarrow> supervisor_error \<Rightarrow> db \<Rightarrow> db" where
  "fail_launch w task r error db =
     (let capacity = (error = Sup_Capacity)
      in update_task_status (sw_later w) (t_id task) (if capacity then Task_Queued else Task_Failed)
           (fail_run w r (if capacity then ''capacity'' else ''launch_failed'') None
              (if capacity then ''waits_in_queue'' else ''check_command_and_workspace'') db))"

section \<open>Starting a run\<close>

definition start_prepared ::
  "start_world \<Rightarrow> bool \<Rightarrow> task_row \<Rightarrow> json \<Rightarrow> run_row \<Rightarrow> workspace_row \<Rightarrow> supervisor \<times> repair_store \<Rightarrow>
   (supervisor \<times> repair_store) \<times> (api_error + run_row)" where
  "start_prepared w scheduled task snapshot r ws st =
     (let (hv, s) = st in
      case sw_materialize w (w_relative_path ws) of
        Inl e \<Rightarrow> ((drop_reservation hv, on_store (fail_run w r ''workspace_prepare_failed'' (Some ''workspace_prepare_failed'')
                     ''check_workspace_root'') s), Inl e)
      | Inr (cwd, commit) \<Rightarrow>
          let s1 = set_lifecycle (sw_later w) (w_id ws) ''running'' ''pending'' (Some ''before_run'') None
                (on_store (set_cwd (sw_later w) (r_id r) (path_text cwd)) (set_base_commit (sw_later w) (w_id ws) commit s))
          in case run_hooks (sw_hooks w) snapshot ''before_run'' of
               Inl e \<Rightarrow> (case fail_before_run w scheduled task r ws e s1 of (s2, e') \<Rightarrow> ((drop_reservation hv, s2), Inl e'))
             | Inr _ \<Rightarrow>
                 (case launch_reserved (sw_later w) (sw_token w) (sw_spawn w) cwd (r_id r) hv (base s1) of
                    ((hv2, db2), Inr _) \<Rightarrow> ((hv2, s1\<lparr>base := db2\<rparr>), Inr (r\<lparr>r_cwd := path_text cwd\<rparr>))
                  | ((hv2, db2), Inl e) \<Rightarrow>
                      ((hv2, s1\<lparr>base := fail_launch w task r e db2\<rparr>), Inl (Conflict (supervisor_error_text e)))))"

definition create_run_with_context ::
  "start_world \<Rightarrow> actor_context \<Rightarrow> int \<Rightarrow> run_request \<Rightarrow> creation_context \<Rightarrow> supervisor \<times> repair_store \<Rightarrow>
   (supervisor \<times> repair_store) \<times> (api_error + run_row)" where
  "create_run_with_context w actor task_id req cx st =
     (let (hv, s) = st in
      case and_then (run_key (rq_idempotency_key req)) (\<lambda>key. and_then (branch_of (rq_branch_name req)) (\<lambda>_.
             and_then (check_start w actor task_id req cx key (base s)) (\<lambda>c. Inr (key, c)))) of
        Inl e \<Rightarrow> (st, Inl e)
      | Inr (_, Replayed r) \<Rightarrow> (st, Inr r)
      | Inr (key, Checked task env snapshot input parent turn) \<Rightarrow>
          (case reserve hv of
             Inl e \<Rightarrow> (st, Inl (Conflict (supervisor_error_text e)))
           | Inr hv1 \<Rightarrow>
               (case insert_start w actor (cx_claim_token cx) key task env snapshot parent turn s of
                  Inl e \<Rightarrow> (st, Inl e)
                | Inr None \<Rightarrow> (st, case find_run_by_idempotency actor (base s) (t_id task) key of
                                      Some r \<Rightarrow> Inr r | None \<Rightarrow> Inl (Conflict ''run_exists''))
                | Inr (Some (s1, r, ws)) \<Rightarrow> start_prepared w (cx_claim_token cx \<noteq> None) task snapshot r ws (hv1, s1))))"

definition create_user_run ::
  "start_world \<Rightarrow> actor_context \<Rightarrow> int \<Rightarrow> run_request \<Rightarrow> supervisor \<times> repair_store \<Rightarrow>
   (supervisor \<times> repair_store) \<times> (api_error + run_row)" where
  "create_user_run w actor task_id req = create_run_with_context w actor task_id req default_context"

definition create_scheduled_run ::
  "start_world \<Rightarrow> actor_context \<Rightarrow> int \<Rightarrow> run_request \<Rightarrow> uuid \<Rightarrow> supervisor \<times> repair_store \<Rightarrow>
   (supervisor \<times> repair_store) \<times> (api_error + run_row)" where
  "create_scheduled_run w actor task_id req token =
     create_run_with_context w actor task_id req (default_context\<lparr>cx_claim_token := Some token\<rparr>)"

text \<open>\<open>snapshot_env\<close>: the environment recorded in the snapshot of the retried run, if the snapshot is visible.\<close>

definition retry_run ::
  "start_world \<Rightarrow> actor_context \<Rightarrow> int \<Rightarrow> rstr \<Rightarrow> rstr option \<Rightarrow> rstr option \<Rightarrow> (int \<Rightarrow> json option) \<Rightarrow> (int \<Rightarrow> rstr option) \<Rightarrow>
   supervisor \<times> repair_store \<Rightarrow> (supervisor \<times> repair_store) \<times> (api_error + run_row)" where
  "retry_run w actor i key input resume_turn snapshot_of branch_of_run st =
     (case find_run actor (base (snd st)) i of
        None \<Rightarrow> (st, Inl (NotFound ''run''))
      | Some r \<Rightarrow>
          if \<not> finished_run r then (st, Inl (Conflict ''only_ended_runs_are_retried''))
          else (case snapshot_of (r_snapshot_id r) of
             None \<Rightarrow> (st, Inl (NotFound ''snapshot''))
           | Some snap \<Rightarrow>
               (case Option.bind (json_get snap ''environmentId'') as_i64 of
                  None \<Rightarrow> (st, Inl (Conflict ''snapshot_without_environment''))
                | Some env \<Rightarrow>
                    if resume_turn \<noteq> None \<and> r_thread_id r = None then (st, Inl (Conflict ''no_thread_to_resume''))
                    else create_run_with_context w actor (r_task_id r)
                      \<lparr>rq_environment_id = env, rq_idempotency_key = key, rq_input = input, rq_branch_name = branch_of_run (r_id r)\<rparr>
                      \<lparr>cx_resume = (case resume_turn of None \<Rightarrow> None | Some t \<Rightarrow> Some (the (r_thread_id r), Some t)),
                       cx_claim_token = None, cx_parent_run_id = Some (r_id r),
                       cx_parent_turn_id = (case resume_turn of None \<Rightarrow> r_turn_id r | t \<Rightarrow> t)\<rparr> st)))"

definition interrupt_run :: "actor_context \<Rightarrow> int \<Rightarrow> bool \<Rightarrow> supervisor \<times> repair_store \<Rightarrow> api_error + run_row" where
  "interrupt_run actor i received st =
     (case find_run actor (base (snd st)) i of
        None \<Rightarrow> Inl (NotFound ''run'')
      | Some r \<Rightarrow> if finished_run r then Inr r
                  else (case send_interrupt i received (fst st) of
                     Inl e \<Rightarrow> Inl (Conflict (supervisor_error_text e)) | Inr _ \<Rightarrow> Inr r))"

end
