(* ===== verification/Run_Service_Properties.thy ===== *)
theory Run_Service_Properties
  imports Run_Service Run_End_Properties
begin

text \<open>
  What starting a run guarantees: a start that fails leaves no run behind and gives its slot back, a
  start that is repeated returns the same run; and three situations the service does not handle.
\<close>

section \<open>The new run is the last row\<close>

lemma update_where_last:
  assumes "\<forall>q \<in> set rows. \<not> P q"
  shows "update_where P f (rows @ [r]) = rows @ [if P r then f r else r]"
  using assms by (simp add: update_where_def map_idI)

definition run_static :: "run_row \<Rightarrow> int \<times> int \<times> int \<times> int option \<times> int \<times> rstr" where
  "run_static r = (r_id r, r_organization_id r, r_owner_user_id r, r_department_id r, r_task_id r, r_idempotency_key r)"

text \<open>The rows \<open>rs\<close> are as they were, and the run \<open>r\<close> that follows them has reached a state \<open>Q\<close>.\<close>

definition tail_run :: "run_row list \<Rightarrow> run_row \<Rightarrow> (run_row \<Rightarrow> bool) \<Rightarrow> db \<Rightarrow> bool" where
  "tail_run rs r Q db = (r_id r \<notin> r_id ` set rs \<and> (\<exists>q. runs db = rs @ [q] \<and> run_static q = run_static r \<and> Q q))"

lemma tail_run_update:
  assumes "tail_run rs r Q db" and "\<And>q. P q \<Longrightarrow> r_id q = r_id r"
    and "\<And>q. run_static (f q) = run_static q" and "\<And>q. Q q \<Longrightarrow> r_id q = r_id r \<Longrightarrow> Q' (if P q then f q else q)"
  shows "tail_run rs r Q' (update_runs P f db)"
proof -
  obtain q where q: "runs db = rs @ [q]" "run_static q = run_static r" "Q q" "r_id r \<notin> r_id ` set rs"
    using assms(1) by (auto simp: tail_run_def)
  have "\<forall>x \<in> set rs. \<not> P x" using q(4) assms(2) by (metis imageI)
  then have "runs (update_runs P f db) = rs @ [if P q then f q else q]" by (simp add: q(1) update_where_last)
  moreover have "r_id q = r_id r" using q(2) by (simp add: run_static_def)
  ultimately show ?thesis using q assms(3) assms(4) [of q] by (auto simp: tail_run_def)
qed

lemma tail_run_same: "runs db' = runs db \<Longrightarrow> tail_run rs r Q db' = tail_run rs r Q db"
  by (simp add: tail_run_def)

lemma runs_frames [simp]:
  "runs (update_task_status now i st db) = runs db" "runs (requeue_task_after_run now i at reason db) = runs db"
  by (simp_all add: update_task_status_def requeue_task_after_run_def)

lemma base_frames [simp]:
  "base (set_lifecycle now i a b c d s) = base s" "base (set_base_commit now i c s) = base s" "base (on_store f s) = f (base s)"
  by (simp_all add: set_lifecycle_def set_base_commit_def update_workspaces_def on_store_def)

lemma tail_run_frames [simp]:
  "tail_run rs r Q (update_task_status now i st db) = tail_run rs r Q db"
  "tail_run rs r Q (requeue_task_after_run now i at reason db) = tail_run rs r Q db"
  by (simp_all add: tail_run_def)

abbreviation ended :: "run_row \<Rightarrow> bool" where
  "ended q \<equiv> finished_run q \<and> \<not> unfinished q"

lemma tail_fail_run: "tail_run rs r unfinished db \<Longrightarrow> tail_run rs r ended (fail_run w r reason err sug db)"
  unfolding fail_run_def update_run_terminal_def fst_guarded_runs
  by (erule tail_run_update) (auto simp: run_static_def on_terminal_def finished_run_def unfinished_def)

lemma tail_set_cwd: "tail_run rs r Q db \<Longrightarrow> (\<And>q c. Q q \<Longrightarrow> Q (q\<lparr>r_cwd := c, r_updated_at := now\<rparr>)) \<Longrightarrow> tail_run rs r Q (set_cwd now (r_id r) dir db)"
  unfolding set_cwd_def by (erule tail_run_update) (auto simp: run_static_def)

lemma tail_starts:
  assumes "tail_run rs r unfinished db"
  shows "tail_run rs r unfinished (fst (claim_harness_start now (r_id r) owner token lease db))"
    and "tail_run rs r unfinished (fst (release_harness_start now (r_id r) token db))"
  unfolding claim_harness_start_def release_harness_start_def fst_guarded_runs
  by (auto intro!: tail_run_update [OF assms] simp: run_static_def unfinished_def)

lemma launch_outcome:
  assumes "launch_reserved now token spawn cwd (r_id r) hv db = ((hv', db'), res)" and "tail_run rs r unfinished db"
  shows "tail_run rs r unfinished db' \<and> tasks db' = tasks db \<and> departments db' = departments db
    \<and> (case res of Inl e \<Rightarrow> hv' = drop_reservation hv | Inr _ \<Rightarrow> sup_free_slots hv' = sup_free_slots hv)"
proof -
  have frames: "tasks (fst (claim_harness_start now i ow t l d)) = tasks d" "departments (fst (claim_harness_start now i ow t l d)) = departments d"
      "tasks (fst (release_harness_start now i t d)) = tasks d" "departments (fst (release_harness_start now i t d)) = departments d"
    for i ow t l d by (simp_all add: claim_harness_start_def release_harness_start_def update_runs_def)
  have "hv\<lparr>sup_controls := insert (r_id r) (sup_controls hv) - {r_id r}\<rparr> = hv" if "r_id r \<notin> sup_controls hv"
    using that by simp
  moreover have "hv\<lparr>sup_controls := insert (r_id r) (sup_controls hv)\<rparr> = hv" if "r_id r \<in> sup_controls hv"
    using that by (simp add: insert_absorb)
  ultimately show ?thesis
    using assms(1) tail_starts [OF assms(2)] tail_starts(2) [OF tail_starts(1) [OF assms(2)]] assms(2)
    by (auto simp: launch_reserved_def Let_def frames drop_reservation_def split: if_splits spawned.splits)
qed

lemma create_run_added:
  assumes "create_run sv now i db = Inr (db', Some r)"
  shows "tail_run (runs db) r ((=) r) db'" and "tasks db' = tasks db" and "departments db' = departments db"
    and "r_status r = Run_Starting" and "r_organization_id r = organization_id (nw_actor i)"
    and "r_owner_user_id r = user_id (nw_actor i)" and "r_department_id r = nw_department_id i"
    and "r_task_id r = nw_task_id i" and "r_idempotency_key r = nw_idempotency_key i"
proof -
  have "next_serial r_id (runs db) \<notin> r_id ` set (runs db)" by (auto dest!: next_serial_greater [of _ _ r_id])
  then show "tail_run (runs db) r ((=) r) db'" and "tasks db' = tasks db" and "departments db' = departments db"
    and "r_status r = Run_Starting" and "r_organization_id r = organization_id (nw_actor i)"
    and "r_owner_user_id r = user_id (nw_actor i)" and "r_department_id r = nw_department_id i"
    and "r_task_id r = nw_task_id i" and "r_idempotency_key r = nw_idempotency_key i"
    using assms by (auto simp: create_run_def Let_def starting_run_def tail_run_def split: if_splits option.splits)
qed

lemma create_workspace_base: "create_workspace now i s = Inr (s', res) \<Longrightarrow> base s' = base s"
  by (auto simp: create_workspace_def Let_def split: if_splits)

lemma report_workspace_base [simp]:
  "runs (base (report_workspace t a x y i p s)) = runs (base s)"
  "departments (base (report_workspace t a x y i p s)) = departments (base s)"
  by (simp_all add: report_workspace_def outbox_def record_audit_def)

lemma insert_start_tasks:
  assumes "insert_start w actor token key task env snapshot parent turn s = Inr (Some (s1, r, ws))"
  shows "map t_id (tasks (base s1)) = map t_id (tasks (base s))"
proof -
  obtain attempt wkey db1 s2 where cr: "create_run (sw_services w) (sw_now w)
        (start_run_row w actor key task env snapshot parent turn attempt) (base s) = Inr (db1, Some r)"
      and cw: "create_workspace (sw_now w) (start_workspace_row w actor task env r wkey) (s\<lparr>base := db1\<rparr>) = Inr (s2, Some ws)"
      and "map t_id (tasks (base s1)) = map t_id (tasks (base s2))"
    using assms unfolding insert_start_def Let_def
    by (auto simp: and_then_def update_task_status_def record_audit_def report_workspace_def outbox_def update_where_keeps
        split: if_split_asm sum.split_asm prod.split_asm option.split_asm)
  then show ?thesis using create_run_added(2) [OF cr] create_workspace_base [OF cw] by simp
qed

lemma insert_start_added:
  assumes "insert_start w actor token key task env snapshot parent turn s = Inr (Some (s1, r, ws))"
  shows "tail_run (runs (base s)) r ((=) r) (base s1)" and "departments (base s1) = departments (base s)"
    and "r_status r = Run_Starting" and "r_organization_id r = organization_id actor"
    and "r_owner_user_id r = user_id actor" and "r_department_id r = t_department_id task"
    and "r_task_id r = t_id task" and "r_idempotency_key r = key"
proof -
  obtain attempt wkey db1 s2 where cr: "create_run (sw_services w) (sw_now w)
        (start_run_row w actor key task env snapshot parent turn attempt) (base s) = Inr (db1, Some r)"
      and cw: "create_workspace (sw_now w) (start_workspace_row w actor task env r wkey) (s\<lparr>base := db1\<rparr>) = Inr (s2, Some ws)"
      and s1: "runs (base s1) = runs (base s2)" "departments (base s1) = departments (base s2)"
    using assms unfolding insert_start_def Let_def
    by (auto simp: and_then_def update_task_status_def record_audit_def
        split: if_split_asm sum.split_asm prod.split_asm option.split_asm)
  note added = create_run_added [OF cr]
  have "base s2 = db1" using create_workspace_base [OF cw] by simp
  with s1 have b: "runs (base s1) = runs db1" "departments (base s1) = departments db1" by simp_all
  show "tail_run (runs (base s)) r ((=) r) (base s1)" using added(1) by (simp add: tail_run_def b)
  show "departments (base s1) = departments (base s)" using added(3) by (simp add: b)
  show "r_status r = Run_Starting" "r_organization_id r = organization_id actor" "r_owner_user_id r = user_id actor"
    "r_department_id r = t_department_id task" "r_task_id r = t_id task" "r_idempotency_key r = key"
    using added(4-9) by (simp_all add: start_run_row_def)
qed

lemma tail_run_mono: "tail_run rs r Q db \<Longrightarrow> (\<And>q. Q q \<Longrightarrow> Q' q) \<Longrightarrow> tail_run rs r Q' db"
  by (auto simp: tail_run_def)

lemma departments_frames [simp]:
  "departments (update_task_status now i st db) = departments db"
  "departments (requeue_task_after_run now i at reason db) = departments db"
  "departments (fail_run w r reason err sug db) = departments db"
  "departments (set_cwd now i dir db) = departments db"
  by (simp_all add: update_task_status_def requeue_task_after_run_def fail_run_def update_run_terminal_def set_cwd_def update_runs_def)

lemma fail_before_run_outcome:
  assumes "fail_before_run w scheduled task r ws e s = (s', e')" and "tail_run rs r unfinished (base s)"
    and "find_by_id (base s) (t_id task) \<noteq> None" and "\<And>a. retry_delay_with_seed a (sw_policy w) (sw_seed w) \<noteq> None"
  shows "tail_run rs r ended (base s') \<and> departments (base s') = departments (base s)"
proof -
  obtain db1 n where h: "record_hook_failure (sw_later w) (t_id task) (hook_failure_fingerprint (sw_sha w) ''before_run'' (error_text e)) (base s)
      = Inr (db1, n)"
    using assms(3) by (auto simp: record_hook_failure_def)
  have "runs db1 = runs (base s)" "departments db1 = departments (base s)"
    using h by (auto simp: record_hook_failure_def split: option.splits)
  then have tail: "tail_run rs r ended (fail_run w r reason err sug db1)" and dep: "departments db1 = departments (base s)"
      for reason err sug
    using assms(2) by (auto intro: tail_fail_run simp: tail_run_same [of db1 "base s"])
  obtain d where "retry_delay_with_seed (r_attempt r) (sw_policy w) (sw_seed w) = Some d" using assms(4) by blast
  then show ?thesis
    using assms(1) h by (auto simp: fail_before_run_def Let_def tail dep split: if_splits)
qed

lemma tasks_fst_starts [simp]: "tasks (set_cwd now i dir db) = tasks db"
  by (simp add: set_cwd_def)

text \<open>\<open>ready\<close>: the run was inserted and its task is there.\<close>

lemma start_prepared_outcome:
  assumes "start_prepared w scheduled task snapshot r ws (hv, s) = ((hv', s'), res)" and "tail_run rs r unfinished (base s)"
    and "find_by_id (base s) (t_id task) \<noteq> None" and "\<And>a. retry_delay_with_seed a (sw_policy w) (sw_seed w) \<noteq> None"
  shows "departments (base s') = departments (base s)
    \<and> (case res of Inl e \<Rightarrow> tail_run rs r ended (base s') \<and> hv' = drop_reservation hv
        | Inr r' \<Rightarrow> tail_run rs r unfinished (base s') \<and> sup_free_slots hv' = sup_free_slots hv \<and> r_id r' = r_id r)"
proof (cases "sw_materialize w (w_relative_path ws)")
  case (Inl e)
  with assms(1) tail_fail_run [OF assms(2)] show ?thesis by (auto simp: start_prepared_def)
next
  case (Inr m)
  obtain cwd commit where m: "m = (cwd, commit)" by fastforce
  define s1 where "s1 = set_lifecycle (sw_later w) (w_id ws) ''running'' ''pending'' (Some ''before_run'') None
       (on_store (set_cwd (sw_later w) (r_id r) (path_text cwd)) (set_base_commit (sw_later w) (w_id ws) commit s))"
  have t1: "tail_run rs r unfinished (base s1)"
    unfolding s1_def base_frames by (rule tail_set_cwd [OF assms(2)]) (simp add: unfinished_def)
  have d1: "departments (base s1) = departments (base s)" "find_by_id (base s1) (t_id task) \<noteq> None"
    using assms(3) by (simp_all add: s1_def find_by_id_def)
  show ?thesis
  proof (cases "run_hooks (sw_hooks w) snapshot ''before_run''")
    case (Inl e)
    obtain s2 e2 where f: "fail_before_run w scheduled task r ws e s1 = (s2, e2)" by fastforce
    with assms(1) Inr m Inl fail_before_run_outcome [OF f t1 d1(2) assms(4)] d1(1) show ?thesis
      by (auto simp: start_prepared_def s1_def [symmetric])
  next
    case (Inr u)
    obtain hv2 db2 l where la: "launch_reserved (sw_later w) (sw_token w) (sw_spawn w) cwd (r_id r) hv (base s1) = ((hv2, db2), l)"
      by (metis surj_pair)
    note out = launch_outcome [OF la t1]
    have "tail_run rs r ended (fail_launch w task r e db2)" for e
      using tail_fail_run [of rs r db2] out by (simp add: fail_launch_def Let_def)
    then show ?thesis
      using assms(1) \<open>sw_materialize w (w_relative_path ws) = Inr m\<close> m Inr la [unfolded s1_def base_frames] out d1(1)
      by (cases l) (auto simp: start_prepared_def fail_launch_def Let_def)
  qed
qed

lemma check_start_Checked:
  assumes "check_start w actor task_id req cx key db = Inr (Checked task env snapshot input parent turn)"
  shows "find_run_by_idempotency actor db task_id key = None" and "find_task_by_id actor db task_id = Some task"
    and "t_id task = task_id"
proof -
  show "find_run_by_idempotency actor db task_id key = None" and t: "find_task_by_id actor db task_id = Some task"
    using assms by (auto simp: check_start_def and_then_Inr_iff split: option.splits if_splits)
  show "t_id task = task_id" using find_task_by_id_Some [OF t] by simp
qed

text \<open>The ways a start can go: nothing happened, a run was found, or a run was inserted.\<close>

lemma create_run_with_context_cases:
  assumes "create_run_with_context w actor task_id req cx (hv, s) = ((hv', s'), res)"
  obtains (unchanged) "hv' = hv" "s' = s" "\<And>r. res = Inr r \<Longrightarrow>
        is_ok (branch_of (rq_branch_name req))
        \<and> (\<exists>key. run_key (rq_idempotency_key req) = Inr key \<and> find_run_by_idempotency actor (base s) task_id key = Some r)"
  | (inserted) key task env snapshot input parent turn hv1 s1 r ws where
      "run_key (rq_idempotency_key req) = Inr key" "is_ok (branch_of (rq_branch_name req))"
      "check_start w actor task_id req cx key (base s) = Inr (Checked task env snapshot input parent turn)"
      "reserve hv = Inr hv1" "insert_start w actor (cx_claim_token cx) key task env snapshot parent turn s = Inr (Some (s1, r, ws))"
      "start_prepared w (cx_claim_token cx \<noteq> None) task snapshot r ws (hv1, s1) = ((hv', s'), res)"
proof (cases "and_then (run_key (rq_idempotency_key req)) (\<lambda>key. and_then (branch_of (rq_branch_name req)) (\<lambda>_.
             and_then (check_start w actor task_id req cx key (base s)) (\<lambda>c. Inr (key, c))))")
  case (Inl e)
  with assms show ?thesis by (intro unchanged) (simp_all add: create_run_with_context_def)
next
  case (Inr kc)
  then obtain key c where c: "kc = (key, c)" "run_key (rq_idempotency_key req) = Inr key" "is_ok (branch_of (rq_branch_name req))"
      "check_start w actor task_id req cx key (base s) = Inr c"
    by (auto simp: and_then_Inr_iff)
  show ?thesis
  proof (cases c)
    case (Replayed r)
    have "find_run_by_idempotency actor (base s) task_id key = Some r"
      using c(4) by (auto simp: Replayed check_start_def and_then_Inr_iff split: option.splits if_splits)
    with assms Inr c(1-3) Replayed show ?thesis by (intro unchanged) (auto simp: create_run_with_context_def)
  next
    case (Checked task env snapshot input parent turn)
    note ch = check_start_Checked [OF c(4) [unfolded Checked]]
    show ?thesis
    proof (cases "reserve hv")
      case (Inl e)
      with assms Inr c(1-3) Checked show ?thesis by (intro unchanged) (auto simp: create_run_with_context_def)
    next
      case (Inr hv1)
      show ?thesis
      proof (cases "\<exists>s1 r ws. insert_start w actor (cx_claim_token cx) key task env snapshot parent turn s = Inr (Some (s1, r, ws))")
        case False
        with assms \<open>_ = Inr kc\<close> Inr c(1-3) Checked ch(1,3) show ?thesis
          by (intro unchanged) (auto simp: create_run_with_context_def split: sum.splits option.splits)
      next
        case True
        then obtain s1 r ws where i: "insert_start w actor (cx_claim_token cx) key task env snapshot parent turn s = Inr (Some (s1, r, ws))"
          by blast
        show ?thesis
          by (rule inserted [OF c(2,3) c(4) [unfolded Checked] Inr i])
            (use assms \<open>_ = Inr kc\<close> Inr c(1) Checked i in \<open>simp add: create_run_with_context_def\<close>)
      qed
    qed
  qed
qed

lemma inserted_outcome:
  assumes "check_start w actor task_id req cx key (base s) = Inr (Checked task env snapshot input parent turn)"
    and "insert_start w actor token key task env snapshot parent turn s = Inr (Some (s1, r, ws))"
    and "start_prepared w scheduled task snapshot r ws (hv1, s1) = ((hv', s'), res)"
    and "\<And>a. retry_delay_with_seed a (sw_policy w) (sw_seed w) \<noteq> None"
  shows "departments (base s') = departments (base s)
    \<and> (case res of Inl e \<Rightarrow> tail_run (runs (base s)) r ended (base s') \<and> hv' = drop_reservation hv1
        | Inr r' \<Rightarrow> tail_run (runs (base s)) r unfinished (base s') \<and> sup_free_slots hv' = sup_free_slots hv1 \<and> r_id r' = r_id r)"
proof -
  note added = insert_start_added [OF assms(2)]
  have "tail_run (runs (base s)) r unfinished (base s1)"
    using added(1,3) by (auto elim: tail_run_mono simp: unfinished_def)
  moreover have "find_by_id (base s1) (t_id task) \<noteq> None"
  proof -
    have "task \<in> set (tasks (base s))" using find_task_by_id_Some [OF check_start_Checked(2) [OF assms(1)]] by simp
    then have "t_id task \<in> set (map t_id (tasks (base s1)))" by (simp add: insert_start_tasks [OF assms(2)])
    then show ?thesis by (auto simp: find_by_id_def find_None_iff)
  qed
  ultimately show ?thesis using start_prepared_outcome [OF assms(3) _ _ assms(4)] added(2) by simp
qed

lemma delay_defined: "retry_policy_ok p \<Longrightarrow> retry_delay_with_seed a p seed \<noteq> None"
  by (metis option.distinct(1) retry_delay_range)

section \<open>Properties\<close>


text \<open>C30. Starting a run twice starts it once: after a start that succeeded, the same request, from the
  same actor and with whatever context, changes nothing and returns the run that was started.\<close>

theorem repeated_start_returns_the_run:
  assumes "create_run_with_context w actor task_id req cx (hv, s) = ((hv', s'), Inr r)"
    and "retry_policy_ok (sw_policy w)"
  shows "\<exists>r'. create_run_with_context w' actor task_id req cx' (hv', s') = ((hv', s'), Inr r') \<and> r_id r' = r_id r"
proof -
  have again: ?thesis if k: "run_key (rq_idempotency_key req) = Inr key" "is_ok (branch_of (rq_branch_name req))"
      and f: "find_run_by_idempotency actor (base s') task_id key = Some r'" "r_id r' = r_id r" for key r'
    using that by (auto simp: create_run_with_context_def check_start_def is_ok_iff)
  from assms(1) show ?thesis
  proof (cases rule: create_run_with_context_cases)
    case unchanged
    then show ?thesis using again by blast
  next
    case (inserted key task env snapshot input parent turn hv1 s1 q ws)
    note added = insert_start_added [OF inserted(5)] and chk = check_start_Checked [OF inserted(3)]
    obtain q' where q': "runs (base s') = runs (base s) @ [q']" "run_static q' = run_static q" "r_id r = r_id q"
        "departments (base s') = departments (base s)"
      using inserted_outcome [OF inserted(3,5,6) delay_defined [OF assms(2)]] by (auto simp: tail_run_def)
    have "scope_sql actor (base s) (task_scope task)" using find_task_by_id_Some [OF chk(2)] by simp
    then have vis: "scoped actor (base s') (r_organization_id q', r_owner_user_id q', r_department_id q')"
      using q'(2) added(4-6) by (auto simp: scoped_departments [OF q'(4)] run_static_def scoped_def scope_sql_def task_scope_def)
    have "find_run_by_idempotency actor (base s') task_id key = Some q'"
      using chk(1,3) vis q'(2) added(7,8)
      by (auto simp: find_run_by_idempotency_def q'(1) find_append scoped_departments [OF q'(4)] run_static_def)
    then show ?thesis using again [OF inserted(1,2)] q'(2,3) by (simp add: run_static_def)
  qed
qed

section \<open>Concrete starts\<close>

definition example_start_world :: "spawned \<Rightarrow> start_world" where
  "example_start_world spawn =
     \<lparr>sw_services = \<lparr>rv_md5 = (\<lambda>s. s), rv_workflow = (\<lambda>_. Some (J_Object [(''source'', J_String ''w''),
        (''version'', J_String ''1''), (''digest'', J_String ''x'')]))\<rparr>,
      sw_policy = default_policy, sw_snapshot_id = 1, sw_env_root = (\<lambda>_. ''/src''),
      sw_materialize = (\<lambda>key. Inr ([''ws'', key], None)), sw_hooks = \<lparr>hw_configured = (\<lambda>_. True), hw_run = (\<lambda>_ _. Hook_Exit True)\<rparr>,
      sw_sha = (\<lambda>_. ''0123456789abcdef''), sw_spawn = spawn, sw_token = 5, sw_seed = 0, sw_now = 10, sw_later = 11,
      sw_trace = ''t''\<rparr>"

definition example_supervisor :: supervisor where
  "example_supervisor = \<lparr>sup_free_slots = 2, sup_controls = {}, sup_root = [''ws'']\<rparr>"

definition example_start_request :: run_request where
  "example_start_request = \<lparr>rq_environment_id = 7, rq_idempotency_key = ''run:2'', rq_input = None, rq_branch_name = Some '' main ''\<rparr>"

definition example_startable :: "task_status \<Rightarrow> repair_store" where
  "example_startable st = example_workspace_store\<lparr>base := example_db [(example_task 1)\<lparr>t_status := st\<rparr>] [], task_workspaces := []\<rparr>"

lemma default_policy_ok: "retry_policy_ok default_policy"
  by (simp add: retry_policy_ok_def default_policy_def i64_max_def)


theorem repeated_start_returns_the_run_witness:
  "\<exists>st r r'. create_run_with_context (example_start_world Spawned) example_user 1 example_start_request default_context
      (example_supervisor, example_startable Task_Draft) = (st, Inr r)
    \<and> create_run_with_context (example_start_world Spawned) example_user 1 example_start_request default_context st = (st, Inr r')
    \<and> r_id r' = r_id r"
proof -
  define out where "out = create_run_with_context (example_start_world Spawned) example_user 1 example_start_request default_context
      (example_supervisor, example_startable Task_Draft)"
  have "is_ok (snd out)" unfolding out_def by code_simp
  then obtain hv' s' r where o: "out = ((hv', s'), Inr r)" by (metis is_ok_iff prod.collapse)
  from repeated_start_returns_the_run [OF o [unfolded out_def], of "example_start_world Spawned" default_context] default_policy_ok o
  show ?thesis by (auto simp: out_def example_start_world_def)
qed

section \<open>Situations the service does not handle\<close>

text \<open>A user's start takes a task away from its open continuation: the start does not look at the
  status of the task, so that a task that waits for a continuation is set running, after which the
  pending continuation can no longer be cancelled; every attempt ends in an error.\<close>

theorem user_start_strands_continuation:
  "let waiting = example_waiting;
       out = create_user_run (example_start_world Spawned) example_user 1 example_start_request
         (example_supervisor, (example_startable Task_Draft)\<lparr>base := cbase waiting\<rparr>)
   in is_ok (snd out) \<and> map q_status (continuation_requests waiting) = [Req_Pending]
      \<and> continuation_cancel 20 ''trace'' example_user 1 (waiting\<lparr>cbase := base (snd (fst out))\<rparr>)
          = Inl (Protocol ''task_changed_during_continuation_cancel'')"
  by code_simp

text \<open>A workspace that cannot be prepared leaves its task running without a run: the run is recorded as
  failed, the task stays in \<^verbatim>\<open>running\<close> with its claim gone, and neither the scheduler's handling of
  the error nor its reconciliation moves it.\<close>

theorem failed_preparation_strands_task:
  "let out = create_user_run ((example_start_world Spawned)\<lparr>sw_materialize := \<lambda>_. Inl (Conflict ''git'')\<rparr>) example_user 1
         example_start_request (example_supervisor, example_startable Task_Draft);
       db = base (snd (fst out))
   in \<not> is_ok (snd out) \<and> map t_status (tasks db) = [Task_Running] \<and> map r_status (runs db) = [Run_Failed]
      \<and> map t_status (tasks (fst (reconcile_scheduler_state 1000000000 ''a'' ''b'' [] 60 db))) = [Task_Running]"
  by code_simp

text \<open>Rebuilding the workspace of a task that has not run yet blocks its first run: the rebuilt row takes
  the key of the first attempt, and the start, which would use the same key, is refused every time.\<close>

theorem rebuilt_workspace_blocks_first_run:
  "let out = rebuild_for_task (\<lambda>_. ''0123456789abcdef'') (\<lambda>k. Inr [''ws'', k]) 5 ''t'' example_user 1 None (example_startable Task_Draft);
       start = create_user_run (example_start_world Spawned) example_user 1 example_start_request (example_supervisor, fst out)
   in is_ok (snd out) \<and> snd start = Inl (Conflict ''workspace_taken_by_another_run'')
      \<and> snd (create_user_run (example_start_world Spawned) example_user 1 example_start_request (fst start))
          = Inl (Conflict ''workspace_taken_by_another_run'')"
  by code_simp

end
