(* ===== verification/Platform.thy ===== *)
theory Platform
  imports Reloader
begin

text \<open>
  The resources a task is about: projects, repositories, environments, users and project members, with the
  services of \<^verbatim>\<open>backend/src/services/devrail.rs\<close> that create, change and archive them and the statements of
  \<^verbatim>\<open>backend/src/repositories/devrail.rs\<close> and \<^verbatim>\<open>devrail_members.rs\<close> they use.

  A service reads, validates, runs one transaction, and reads its answer again. Its result is the state it
  leaves and the answer: an error inside the transaction leaves the state as it was, an error of the last
  read does not take the transaction back. The parameter \<open>url_parse\<close> is \<^verbatim>\<open>Url::parse\<close> of the \<^verbatim>\<open>url\<close> crate.
\<close>

section \<open>Rows\<close>

record project_row =
  p_id :: int
  p_organization_id :: int
  p_department_id :: "int option"
  p_owner_user_id :: int
  p_slug :: rstr
  p_name :: rstr
  p_description :: "rstr option"
  p_status :: rstr
  p_default_repository_id :: "int option"
  p_default_environment_id :: "int option"
  p_notification_policy :: json
  p_quality_gate_template :: json
  p_created_at :: timestamp
  p_updated_at :: timestamp
  p_archived_at :: "timestamp option"

record repository_row =
  rp_id :: int
  rp_organization_id :: int
  rp_department_id :: "int option"
  rp_owner_user_id :: int
  rp_project_id :: int
  rp_name :: rstr
  rp_remote_url :: rstr
  rp_protocol :: rstr
  rp_default_branch :: rstr
  rp_credential_ref :: "rstr option"
  rp_last_sync_status :: rstr
  rp_last_head_sha :: "rstr option"
  rp_last_remote_branch :: "rstr option"
  rp_last_remote_branch_count :: "int option"
  rp_created_at :: timestamp
  rp_updated_at :: timestamp
  rp_archived_at :: "timestamp option"

record user_row =
  u_id :: int
  u_organization_id :: int
  u_department_id :: "int option"
  u_deleted_at :: "timestamp option"

record member_row =
  mb_organization_id :: int
  mb_department_id :: "int option"
  mb_owner_user_id :: int
  mb_project_id :: int
  mb_user_id :: int
  mb_role :: rstr
  mb_revoked_at :: "timestamp option"

record followup_row =
  fu_id :: int
  fu_organization_id :: int
  fu_department_id :: "int option"
  fu_owner_user_id :: int
  fu_source_task_id :: int
  fu_source_run_id :: int
  fu_idempotency_key :: rstr
  fu_request_digest :: rstr
  fu_status :: rstr
  fu_result_task_id :: "int option"
  fu_completed_at :: "timestamp option"

text \<open>The environments are one table: \<open>wf_environments\<close> has all its columns, \<open>environments\<close> those of the
  scheduler.\<close>

record platform =
  pl_db :: db
  pl_workflows :: workflow_store
  pl_projects :: "project_row list"
  pl_repositories :: "repository_row list"
  pl_users :: "user_row list"
  pl_members :: "member_row list"
  pl_followups :: "followup_row list"

definition set_environments :: "workflow_environment list \<Rightarrow> platform \<Rightarrow> platform" where
  "set_environments es p =
     p\<lparr>pl_workflows := (pl_workflows p)\<lparr>wf_environments := es\<rparr>,
       pl_db := (pl_db p)\<lparr>environments := map environment_row.truncate es\<rparr>\<rparr>"

datatype 'a nullable_patch = Patch_Missing | Patch_Null | Patch_Value 'a

definition nullable_patch :: "'a nullable_patch \<Rightarrow> bool \<times> 'a option" where
  "nullable_patch patch =
     (case patch of Patch_Missing \<Rightarrow> (False, None) | Patch_Null \<Rightarrow> (True, None) | Patch_Value v \<Rightarrow> (True, Some v))"

text \<open>\<^verbatim>\<open>CASE WHEN $set THEN $v ELSE column END\<close> and \<^verbatim>\<open>COALESCE($v, column)\<close>.\<close>

definition patched :: "bool \<times> 'a option \<Rightarrow> 'a option \<Rightarrow> 'a option" where
  "patched u old = (if fst u then snd u else old)"

definition unwrap_or :: "'a option \<Rightarrow> 'a \<Rightarrow> 'a" where
  "unwrap_or u old = (case u of None \<Rightarrow> old | Some v \<Rightarrow> v)"

text \<open>\<^verbatim>\<open>Option::map(f).transpose()\<close>.\<close>

definition transpose_map :: "('a \<Rightarrow> 'e + 'b) \<Rightarrow> 'a option \<Rightarrow> 'e + 'b option" where
  "transpose_map f x = (case x of None \<Rightarrow> Inr None | Some v \<Rightarrow> and_then (f v) (\<lambda>y. Inr (Some y)))"

section \<open>Validation\<close>

definition paging :: "int option \<Rightarrow> int option \<Rightarrow> api_error + int \<times> int" where
  "paging page page_size =
     (let pg = unwrap_or page 1; sz = unwrap_or page_size 20
      in if \<not> (1 \<le> pg \<and> pg \<le> 10000) \<or> \<not> (1 \<le> sz \<and> sz \<le> 100) then Inl (Validation ''paging_out_of_range'')
         else Inr (pg, sz))"

definition text_field :: "rstr \<Rightarrow> rstr \<Rightarrow> nat \<Rightarrow> api_error + rstr" where
  "text_field value field limit =
     (let v = trim value
      in if v = [] \<or> chars_count v > limit then Inl (Validation (field @ ''_empty_or_too_long'')) else Inr v)"

definition optional_text :: "rstr option \<Rightarrow> rstr \<Rightarrow> nat \<Rightarrow> api_error + rstr option" where
  "optional_text value field limit = transpose_map (\<lambda>v. text_field v field limit) value"

definition slug :: "rstr \<Rightarrow> api_error + rstr" where
  "slug value =
     (let v = trim value
      in if \<not> (3 \<le> length v \<and> length v \<le> 64)
            \<or> \<not> list_all (\<lambda>c. is_ascii_lowercase c \<or> is_ascii_digit c \<or> c = CHR ''-'') v
            \<or> starts_with ''-'' v \<or> ends_with ''-'' v
         then Inl (Validation ''project_slug'') else Inr v)"

definition scope_department :: "actor_context \<Rightarrow> int option \<Rightarrow> api_error + int option" where
  "scope_department actor requested =
     (if requested \<noteq> None \<and> data_scope actor \<in> {Scope_Department, Scope_SelfOnly} \<and> requested \<noteq> department_id actor
      then Inl (Forbidden ''department_outside_scope'')
      else Inr (case requested of None \<Rightarrow> department_id actor | Some d \<Rightarrow> Some d))"

record parsed_url =
  url_scheme :: rstr
  url_host :: "rstr option"
  url_username :: rstr
  url_password :: "rstr option"

definition remote :: "(rstr \<Rightarrow> parsed_url option) \<Rightarrow> rstr \<Rightarrow> api_error + rstr \<times> rstr" where
  "remote url_parse value =
     (let v = trim value
      in if starts_with ''git@'' v \<and> contains_str '':'' v then Inr (v, ''ssh'')
         else case url_parse v of
                None \<Rightarrow> Inl (Validation ''remote_must_be_https_or_ssh'')
              | Some u \<Rightarrow>
                  if url_scheme u \<noteq> ''https'' \<or> url_host u = None \<or> url_username u \<noteq> [] \<or> url_password u \<noteq> None
                  then Inl (Validation ''remote_with_credentials'') else Inr (v, ''https''))"

definition workspace :: "rstr \<Rightarrow> api_error + rstr" where
  "workspace value =
     (let v = trim value
      in if \<not> starts_with ''/'' v \<or> contains_str ''..'' v \<or> length v > 512
         then Inl (Validation ''workspace_root'') else Inr v)"

definition network :: "rstr \<Rightarrow> api_error + rstr" where
  "network value = (if value \<in> set [''off'', ''allowlist''] then Inr value else Inl (Validation ''network_mode''))"

definition duration :: "int \<Rightarrow> api_error + int" where
  "duration value = (if 60 \<le> value \<and> value \<le> 86400 then Inr value else Inl (Validation ''max_duration''))"

text \<open>\<^verbatim>\<open>priority\<close> and \<^verbatim>\<open>task_status\<close> check a request's string against a list; the accepted string is the
  constructor of that name.\<close>

definition priority_of :: "rstr \<Rightarrow> api_error + priority" where
  "priority_of value =
     (if value = ''low'' then Inr Low else if value = ''normal'' then Inr Normal
      else if value = ''high'' then Inr High else if value = ''urgent'' then Inr Urgent
      else Inl (Validation ''task_priority''))"

fun task_status_str :: "task_status \<Rightarrow> rstr" where
  "task_status_str Task_Draft = ''draft''"
| "task_status_str Task_Queued = ''queued''"
| "task_status_str Task_Running = ''running''"
| "task_status_str Task_AwaitingApproval = ''awaiting_approval''"
| "task_status_str Task_ContinuationPending = ''continuation_pending''"
| "task_status_str Task_RepairPending = ''repair_pending''"
| "task_status_str Task_RepairRunning = ''repair_running''"
| "task_status_str Task_RepairHandoff = ''repair_handoff''"
| "task_status_str Task_Succeeded = ''succeeded''"
| "task_status_str Task_Failed = ''failed''"
| "task_status_str Task_Cancelled = ''cancelled''"
| "task_status_str Task_Skipped = ''skipped''"
| "task_status_str Task_Archived = ''archived''"

definition task_status_of :: "rstr \<Rightarrow> api_error + task_status" where
  "task_status_of value =
     (case find (\<lambda>st. task_status_str st = value)
             [Task_Draft, Task_Queued, Task_Running, Task_AwaitingApproval, Task_ContinuationPending, Task_Succeeded,
              Task_Failed, Task_Cancelled, Task_Skipped, Task_Archived] of
        None \<Rightarrow> Inl (Validation ''task_status'') | Some st \<Rightarrow> Inr st)"

section \<open>Transactions\<close>

text \<open>\<open>commit p r f\<close>: the state of the transaction \<open>r\<close> and what \<open>f\<close> reads in it, or the old state and the
  error.\<close>

definition commit :: "platform \<Rightarrow> api_error + platform \<Rightarrow> (platform \<Rightarrow> api_error + 'a) \<Rightarrow> platform \<times> (api_error + 'a)" where
  "commit p r f = (case r of Inl e \<Rightarrow> (p, Inl e) | Inr p' \<Rightarrow> (p', f p'))"

definition committed_row :: "platform \<Rightarrow> api_error + platform \<times> 'a \<Rightarrow> platform \<times> (api_error + 'a)" where
  "committed_row p r = (case r of Inl e \<Rightarrow> (p, Inl e) | Inr (p', row) \<Rightarrow> (p', Inr row))"

text \<open>\<^verbatim>\<open>audit_logs::record\<close> with the organization and department of the acting user's row.\<close>

definition record_user_audit :: "rstr \<Rightarrow> actor_context \<Rightarrow> rstr \<Rightarrow> rstr \<Rightarrow> int \<Rightarrow> platform \<Rightarrow> api_error + platform" where
  "record_user_audit trace actor action target_type target p =
     (case find (\<lambda>u. u_id u = user_id actor) (pl_users p) of
        None \<Rightarrow> Inl (db_error (Database ForeignKeyViolation))
      | Some u \<Rightarrow> Inr (p\<lparr>pl_db := record_audit
          \<lparr>a_organization_id = u_organization_id u, a_department_id = u_department_id u, a_action = action,
           a_target_type = target_type, a_target_id = target, a_reason = [], a_trace_id = trace\<rparr> (pl_db p)\<rparr>))"

definition department_exists :: "int \<Rightarrow> int option \<Rightarrow> platform \<Rightarrow> bool" where
  "department_exists org dept p =
     (case dept of None \<Rightarrow> True
      | Some d \<Rightarrow> list_ex (\<lambda>r. dep_id r = d \<and> dep_organization_id r = org) (departments (pl_db p)))"

definition repository_exists :: "int \<Rightarrow> int option \<Rightarrow> platform \<Rightarrow> bool" where
  "repository_exists org r p =
     (case r of None \<Rightarrow> True
      | Some i \<Rightarrow> list_ex (\<lambda>x. rp_id x = i \<and> rp_organization_id x = org) (pl_repositories p))"

definition environment_exists :: "int \<Rightarrow> int option \<Rightarrow> platform \<Rightarrow> bool" where
  "environment_exists org e p =
     (case e of None \<Rightarrow> True
      | Some i \<Rightarrow> list_ex (\<lambda>x. e_id x = i \<and> e_organization_id x = org) (wf_environments (pl_workflows p)))"

definition user_exists :: "int \<Rightarrow> platform \<Rightarrow> bool" where
  "user_exists i p = list_ex (\<lambda>u. u_id u = i) (pl_users p)"

definition project_exists :: "int \<Rightarrow> int \<Rightarrow> platform \<Rightarrow> bool" where
  "project_exists org i p = list_ex (\<lambda>r. p_id r = i \<and> p_organization_id r = org) (pl_projects p)"

section \<open>Projects\<close>

definition project_scope :: "project_row \<Rightarrow> int \<times> int \<times> int option" where
  "project_scope r = (p_organization_id r, p_owner_user_id r, p_department_id r)"

definition find_project :: "actor_context \<Rightarrow> platform \<Rightarrow> int \<Rightarrow> project_row option" where
  "find_project actor p i =
     find (\<lambda>r. p_id r = i \<and> p_archived_at r = None \<and> scope_sql actor (pl_db p) (project_scope r)) (pl_projects p)"

definition get_project :: "actor_context \<Rightarrow> int \<Rightarrow> platform \<Rightarrow> api_error + project_row" where
  "get_project actor i p =
     (case find_project actor p i of None \<Rightarrow> Inl (NotFound ''project'') | Some r \<Rightarrow> Inr r)"

record new_project =
  np_slug :: rstr
  np_name :: rstr
  np_description :: "rstr option"
  np_department_id :: "int option"
  np_notification_policy :: json
  np_quality_gate_template :: json

definition insert_project ::
  "timestamp \<Rightarrow> actor_context \<Rightarrow> new_project \<Rightarrow> platform \<Rightarrow> sqlx_error + platform \<times> project_row" where
  "insert_project now actor n p =
     (let org = organization_id actor;
          row = \<lparr>p_id = next_serial p_id (pl_projects p), p_organization_id = org, p_department_id = np_department_id n,
                 p_owner_user_id = user_id actor, p_slug = np_slug n, p_name = np_name n,
                 p_description = np_description n, p_status = ''active'', p_default_repository_id = None,
                 p_default_environment_id = None, p_notification_policy = np_notification_policy n,
                 p_quality_gate_template = np_quality_gate_template n, p_created_at = now, p_updated_at = now,
                 p_archived_at = None\<rparr>
      in if list_ex (\<lambda>r. p_organization_id r = org \<and> p_slug r = np_slug n) (pl_projects p)
         then Inl (Database UniqueViolation)
         else if \<not> user_exists (user_id actor) p \<or> \<not> department_exists org (np_department_id n) p
         then Inl (Database ForeignKeyViolation)
         else Inr (p\<lparr>pl_projects := pl_projects p @ [row]\<rparr>, row))"

text \<open>\<^verbatim>\<open>devrail_members::add\<close>.\<close>

definition user_scope :: "user_row \<Rightarrow> int \<times> int \<times> int option" where
  "user_scope u = (u_organization_id u, u_id u, u_department_id u)"

definition add_member :: "actor_context \<Rightarrow> int \<Rightarrow> int \<Rightarrow> rstr \<Rightarrow> platform \<Rightarrow> sqlx_error + platform" where
  "add_member actor project user role p =
     (case find (\<lambda>r. p_id r = project \<and> p_archived_at r = None \<and> scoped actor (pl_db p) (project_scope r)) (pl_projects p) of
        None \<Rightarrow> Inl RowNotFound
      | Some r \<Rightarrow>
          (case find (\<lambda>u. u_id u = user \<and> u_organization_id u = p_organization_id r \<and> u_deleted_at u = None
                    \<and> scoped actor (pl_db p) (user_scope u)) (pl_users p) of
             None \<Rightarrow> Inl RowNotFound
           | Some u \<Rightarrow>
               let row = \<lparr>mb_organization_id = p_organization_id r, mb_department_id = p_department_id r,
                          mb_owner_user_id = user_id actor, mb_project_id = p_id r, mb_user_id = u_id u,
                          mb_role = role, mb_revoked_at = None\<rparr>;
                   same = (\<lambda>m. mb_project_id m = p_id r \<and> mb_user_id m = u_id u)
               in Inr (p\<lparr>pl_members :=
                    (if list_ex same (pl_members p)
                     then update_where same (\<lambda>m. m\<lparr>mb_department_id := p_department_id r,
                            mb_owner_user_id := user_id actor, mb_role := role, mb_revoked_at := None\<rparr>) (pl_members p)
                     else pl_members p @ [row])\<rparr>)))"

text \<open>\<^verbatim>\<open>devrail_members::revoke\<close>: owners stay.\<close>

definition revoke_member :: "timestamp \<Rightarrow> actor_context \<Rightarrow> int \<Rightarrow> int \<Rightarrow> platform \<Rightarrow> platform \<times> bool" where
  "revoke_member now actor project user p =
     (let owner = list_ex (\<lambda>k. mb_project_id k = project \<and> mb_user_id k = user \<and> mb_role k = ''owner''
                              \<and> mb_revoked_at k = None) (pl_members p);
          hit = (\<lambda>m. mb_project_id m = project \<and> mb_user_id m = user \<and> mb_revoked_at m = None
                    \<and> scoped actor (pl_db p) (mb_organization_id m, mb_owner_user_id m, mb_department_id m) \<and> \<not> owner)
      in (p\<lparr>pl_members := update_where hit (\<lambda>m. m\<lparr>mb_revoked_at := Some now\<rparr>) (pl_members p)\<rparr>,
          list_ex hit (pl_members p)))"

record create_project_request =
  cp_slug :: rstr
  cp_name :: rstr
  cp_description :: "rstr option"
  cp_department_id :: "int option"
  cp_notification_policy :: "json option"
  cp_quality_gate_template :: "json option"

definition create_project ::
  "timestamp \<Rightarrow> rstr \<Rightarrow> actor_context \<Rightarrow> create_project_request \<Rightarrow> platform \<Rightarrow> platform \<times> (api_error + project_row)" where
  "create_project now trace actor req p = committed_row p
     (and_then (slug (cp_slug req)) (\<lambda>sl.
      and_then (text_field (cp_name req) ''project_name'' 128) (\<lambda>name.
      and_then (scope_department actor (cp_department_id req)) (\<lambda>dept.
      and_then (map_err db_error (insert_project now actor
          \<lparr>np_slug = sl, np_name = name, np_description = cp_description req, np_department_id = dept,
           np_notification_policy = unwrap_or (cp_notification_policy req) (J_Object []),
           np_quality_gate_template = unwrap_or (cp_quality_gate_template req) (J_Object [])\<rparr> p)) (\<lambda>(p1, row).
      and_then (map_err db_error (add_member actor (p_id row) (user_id actor) ''owner'' p1)) (\<lambda>p2.
      and_then (record_user_audit trace actor ''devrail.project.create'' ''devrail_project'' (p_id row) p2) (\<lambda>p3.
        Inr (p3, row))))))))"

record update_project_request =
  up_name :: "rstr option"
  up_description :: "rstr nullable_patch"
  up_department_id :: "int nullable_patch"
  up_status :: "rstr option"
  up_default_repository_id :: "int nullable_patch"
  up_default_environment_id :: "int nullable_patch"
  up_notification_policy :: "json option"
  up_quality_gate_template :: "json option"

text \<open>The statement, given the validated name and department.\<close>

definition on_project_update ::
  "timestamp \<Rightarrow> rstr option \<Rightarrow> bool \<times> int option \<Rightarrow> update_project_request \<Rightarrow> project_row \<Rightarrow> project_row" where
  "on_project_update now name dept req r =
     r\<lparr>p_name := unwrap_or name (p_name r), p_description := patched (nullable_patch (up_description req)) (p_description r),
       p_department_id := patched dept (p_department_id r), p_status := unwrap_or (up_status req) (p_status r),
       p_default_repository_id := patched (nullable_patch (up_default_repository_id req)) (p_default_repository_id r),
       p_default_environment_id := patched (nullable_patch (up_default_environment_id req)) (p_default_environment_id r),
       p_notification_policy := unwrap_or (up_notification_policy req) (p_notification_policy r),
       p_quality_gate_template := unwrap_or (up_quality_gate_template req) (p_quality_gate_template r),
       p_archived_at := (if up_status req = Some ''archived'' then Some (unwrap_or (p_archived_at r) now)
                         else if up_status req \<noteq> None then None else p_archived_at r),
       p_updated_at := now\<rparr>"

definition project_references :: "platform \<Rightarrow> project_row \<Rightarrow> bool" where
  "project_references p r =
     (department_exists (p_organization_id r) (p_department_id r) p
      \<and> repository_exists (p_organization_id r) (p_default_repository_id r) p
      \<and> environment_exists (p_organization_id r) (p_default_environment_id r) p)"

definition update_project_rows ::
  "timestamp \<Rightarrow> actor_context \<Rightarrow> int \<Rightarrow> rstr option \<Rightarrow> bool \<times> int option \<Rightarrow> update_project_request \<Rightarrow> platform \<Rightarrow>
   sqlx_error + platform \<times> bool" where
  "update_project_rows now actor i name dept req p =
     (let hit = (\<lambda>r. p_id r = i \<and> p_organization_id r = organization_id actor \<and> scoped actor (pl_db p) (project_scope r))
      in if list_ex (\<lambda>r. hit r \<and> \<not> project_references p (on_project_update now name dept req r)) (pl_projects p)
         then Inl (Database ForeignKeyViolation)
         else Inr (p\<lparr>pl_projects := update_where hit (on_project_update now name dept req) (pl_projects p)\<rparr>,
                   list_ex hit (pl_projects p)))"

definition empty_project_update :: "update_project_request \<Rightarrow> bool" where
  "empty_project_update req =
     (up_name req = None \<and> up_description req = Patch_Missing \<and> up_department_id req = Patch_Missing
      \<and> up_status req = None \<and> up_default_repository_id req = Patch_Missing
      \<and> up_default_environment_id req = Patch_Missing \<and> up_notification_policy req = None
      \<and> up_quality_gate_template req = None)"

definition update_project ::
  "timestamp \<Rightarrow> rstr \<Rightarrow> actor_context \<Rightarrow> int \<Rightarrow> update_project_request \<Rightarrow> platform \<Rightarrow>
   platform \<times> (api_error + project_row)" where
  "update_project now trace actor i req p = commit p
     (if empty_project_update req then Inl (Validation ''nothing_to_update'') else
      and_then (transpose_map (\<lambda>v. text_field v ''project_name'' 128) (up_name req)) (\<lambda>name.
      let (department_set, requested) = nullable_patch (up_department_id req) in
      and_then (if department_set then scope_department actor requested else Inr None) (\<lambda>dept.
      if (case up_status req of None \<Rightarrow> False | Some st \<Rightarrow> st \<notin> {''active'', ''archived''}) then Inl (Validation ''project_status'') else
      and_then (map_err db_error (update_project_rows now actor i name (department_set, dept) req p)) (\<lambda>(p1, changed).
      if \<not> changed then Inl (NotFound ''project'') else
      record_user_audit trace actor ''devrail.project.update'' ''devrail_project'' i p1))))
     (get_project actor i)"

definition archive_project ::
  "timestamp \<Rightarrow> rstr \<Rightarrow> actor_context \<Rightarrow> int \<Rightarrow> platform \<Rightarrow> platform \<times> (api_error + unit)" where
  "archive_project now trace actor i p =
     (let hit = (\<lambda>r. p_id r = i \<and> p_organization_id r = organization_id actor
                    \<and> scoped actor (pl_db p) (project_scope r) \<and> p_archived_at r = None)
      in commit p
        (if \<not> list_ex hit (pl_projects p) then Inl (NotFound ''project'')
         else record_user_audit trace actor ''devrail.project.archive'' ''devrail_project'' i
           (p\<lparr>pl_projects := update_where hit
              (\<lambda>r. r\<lparr>p_status := ''archived'', p_archived_at := Some now, p_updated_at := now\<rparr>) (pl_projects p)\<rparr>))
        (\<lambda>_. Inr ()))"

definition update_project_policy ::
  "timestamp \<Rightarrow> rstr \<Rightarrow> actor_context \<Rightarrow> int \<Rightarrow> json option \<Rightarrow> json option \<Rightarrow> platform \<Rightarrow>
   platform \<times> (api_error + json \<times> json)" where
  "update_project_policy now trace actor i notification gates p =
     (if notification = None \<and> gates = None then (p, Inl (Validation ''no_policy_field''))
      else case update_project now trace actor i
             \<lparr>up_name = None, up_description = Patch_Missing, up_department_id = Patch_Missing, up_status = None,
              up_default_repository_id = Patch_Missing, up_default_environment_id = Patch_Missing,
              up_notification_policy = notification, up_quality_gate_template = gates\<rparr> p of
             (p', Inl e) \<Rightarrow> (p', Inl e)
           | (p', Inr _) \<Rightarrow> (p', and_then (get_project actor i p') (\<lambda>r.
               Inr (p_notification_policy r, p_quality_gate_template r))))"

section \<open>Repositories\<close>

definition repository_scope :: "repository_row \<Rightarrow> int \<times> int \<times> int option" where
  "repository_scope r = (rp_organization_id r, rp_owner_user_id r, rp_department_id r)"

definition find_repository :: "actor_context \<Rightarrow> platform \<Rightarrow> int \<Rightarrow> int \<Rightarrow> repository_row option" where
  "find_repository actor p project i =
     find (\<lambda>r. rp_id r = i \<and> rp_project_id r = project \<and> rp_archived_at r = None
        \<and> scope_sql actor (pl_db p) (repository_scope r)) (pl_repositories p)"

definition get_repository :: "actor_context \<Rightarrow> int \<Rightarrow> int \<Rightarrow> platform \<Rightarrow> api_error + repository_row" where
  "get_repository actor project i p =
     (case find_repository actor p project i of None \<Rightarrow> Inl (NotFound ''repository'') | Some r \<Rightarrow> Inr r)"

text \<open>The condition of the updates of repositories and environments: the owner's rows, the whole
  organization, or the rows of the actor's own department.\<close>

definition writable :: "actor_context \<Rightarrow> int \<times> int \<times> int option \<Rightarrow> bool" where
  "writable actor row = (case row of (org, owner, dept) \<Rightarrow>
     org = organization_id actor
     \<and> (data_scope actor = Scope_All \<or> owner = user_id actor \<or> data_scope actor = Scope_Organization
        \<or> data_scope actor \<in> {Scope_Department, Scope_DepartmentAndChildren} \<and> dept \<noteq> None \<and> dept = department_id actor))"

record new_repository =
  nr_project_id :: int
  nr_name :: rstr
  nr_remote_url :: rstr
  nr_protocol :: rstr
  nr_default_branch :: rstr
  nr_credential_ref :: "rstr option"
  nr_department_id :: "int option"

definition insert_repository ::
  "timestamp \<Rightarrow> actor_context \<Rightarrow> new_repository \<Rightarrow> platform \<Rightarrow> sqlx_error + platform \<times> repository_row" where
  "insert_repository now actor n p =
     (let org = organization_id actor;
          row = \<lparr>rp_id = next_serial rp_id (pl_repositories p), rp_organization_id = org,
                 rp_department_id = nr_department_id n, rp_owner_user_id = user_id actor,
                 rp_project_id = nr_project_id n, rp_name = nr_name n, rp_remote_url = nr_remote_url n,
                 rp_protocol = nr_protocol n, rp_default_branch = nr_default_branch n,
                 rp_credential_ref = nr_credential_ref n, rp_last_sync_status = ''unknown'', rp_last_head_sha = None,
                 rp_last_remote_branch = None, rp_last_remote_branch_count = None, rp_created_at = now,
                 rp_updated_at = now, rp_archived_at = None\<rparr>
      in if list_ex (\<lambda>r. rp_project_id r = nr_project_id n \<and> rp_name r = nr_name n) (pl_repositories p)
         then Inl (Database UniqueViolation)
         else if \<not> user_exists (user_id actor) p \<or> \<not> department_exists org (nr_department_id n) p
                 \<or> \<not> project_exists org (nr_project_id n) p
         then Inl (Database ForeignKeyViolation)
         else Inr (p\<lparr>pl_repositories := pl_repositories p @ [row]\<rparr>, row))"

record create_repository_request =
  cr_name :: rstr
  cr_remote_url :: rstr
  cr_default_branch :: "rstr option"
  cr_credential_ref :: "rstr option"
  cr_department_id :: "int option"

definition create_repository ::
  "(rstr \<Rightarrow> parsed_url option) \<Rightarrow> timestamp \<Rightarrow> rstr \<Rightarrow> actor_context \<Rightarrow> int \<Rightarrow> create_repository_request \<Rightarrow> platform \<Rightarrow>
   platform \<times> (api_error + repository_row)" where
  "create_repository url_parse now trace actor project req p = committed_row p
     (and_then (get_project actor project p) (\<lambda>_.
      and_then (text_field (cr_name req) ''repository_name'' 128) (\<lambda>name.
      and_then (remote url_parse (cr_remote_url req)) (\<lambda>(url, protocol).
      and_then (text_field (unwrap_or (cr_default_branch req) ''main'') ''default_branch'' 128) (\<lambda>branch.
      and_then (scope_department actor (cr_department_id req)) (\<lambda>dept.
      and_then (map_err db_error (insert_repository now actor
          \<lparr>nr_project_id = project, nr_name = name, nr_remote_url = url, nr_protocol = protocol,
           nr_default_branch = branch, nr_credential_ref = cr_credential_ref req, nr_department_id = dept\<rparr> p)) (\<lambda>(p1, row).
      and_then (record_user_audit trace actor ''devrail.repository.create'' ''devrail_repository'' (rp_id row) p1)
        (\<lambda>p2. Inr (p2, row)))))))))"

record update_repository_request =
  ur_name :: "rstr option"
  ur_remote_url :: "rstr option"
  ur_default_branch :: "rstr option"
  ur_credential_ref :: "rstr nullable_patch"
  ur_status :: "rstr option"

definition on_repository_update ::
  "timestamp \<Rightarrow> rstr option \<Rightarrow> (rstr \<times> rstr) option \<Rightarrow> rstr option \<Rightarrow> update_repository_request \<Rightarrow> repository_row \<Rightarrow>
   repository_row" where
  "on_repository_update now name address branch req r =
     r\<lparr>rp_name := unwrap_or name (rp_name r), rp_remote_url := unwrap_or (map_option fst address) (rp_remote_url r),
       rp_protocol := unwrap_or (map_option snd address) (rp_protocol r),
       rp_default_branch := unwrap_or branch (rp_default_branch r),
       rp_credential_ref := patched (nullable_patch (ur_credential_ref req)) (rp_credential_ref r),
       rp_archived_at := (if ur_status req = Some ''archived'' then Some (unwrap_or (rp_archived_at r) now)
                          else if ur_status req \<noteq> None then None else rp_archived_at r),
       rp_updated_at := now\<rparr>"

definition update_repository_rows ::
  "timestamp \<Rightarrow> actor_context \<Rightarrow> int \<Rightarrow> int \<Rightarrow> (repository_row \<Rightarrow> repository_row) \<Rightarrow> platform \<Rightarrow>
   sqlx_error + platform \<times> bool" where
  "update_repository_rows now actor project i f p =
     (let hit = (\<lambda>r. rp_id r = i \<and> rp_project_id r = project \<and> writable actor (repository_scope r) \<and> rp_archived_at r = None)
      in if list_ex (\<lambda>r. hit r \<and> list_ex (\<lambda>q. rp_id q \<noteq> rp_id r \<and> rp_project_id q = rp_project_id (f r)
                \<and> rp_name q = rp_name (f r)) (pl_repositories p)) (pl_repositories p)
         then Inl (Database UniqueViolation)
         else Inr (p\<lparr>pl_repositories := update_where hit f (pl_repositories p)\<rparr>, list_ex hit (pl_repositories p)))"

definition update_repository ::
  "(rstr \<Rightarrow> parsed_url option) \<Rightarrow> timestamp \<Rightarrow> rstr \<Rightarrow> actor_context \<Rightarrow> int \<Rightarrow> int \<Rightarrow> update_repository_request \<Rightarrow>
   platform \<Rightarrow> platform \<times> (api_error + repository_row)" where
  "update_repository url_parse now trace actor project i req p = commit p
     (and_then (transpose_map (remote url_parse) (ur_remote_url req)) (\<lambda>address.
      and_then (transpose_map (\<lambda>v. text_field v ''repository_name'' 128) (ur_name req)) (\<lambda>name.
      and_then (transpose_map (\<lambda>v. text_field v ''default_branch'' 128) (ur_default_branch req)) (\<lambda>branch.
      if ur_name req = None \<and> ur_remote_url req = None \<and> ur_default_branch req = None
         \<and> \<not> fst (nullable_patch (ur_credential_ref req)) \<and> ur_status req = None
      then Inl (Validation ''nothing_to_update'') else
      and_then (map_err db_error (update_repository_rows now actor project i
          (on_repository_update now name address branch req) p)) (\<lambda>(p1, changed).
      if \<not> changed then Inl (NotFound ''repository'') else
      record_user_audit trace actor ''devrail.repository.update'' ''devrail_repository'' i p1)))))
     (get_repository actor project i)"

text \<open>Synchronisation. The outputs of the two \<^verbatim>\<open>git ls-remote\<close> commands, \<open>None\<close> for a failure or a timeout, are
  arguments, decoded as \<^verbatim>\<open>from_utf8_lossy\<close> does.\<close>

function split_words :: "rstr \<Rightarrow> rstr \<Rightarrow> rstr list" where
  "split_words acc s =
     (case s of
        [] \<Rightarrow> (if acc = [] then [] else [acc])
      | c # cs \<Rightarrow>
          if space_len wide_spaces s = 0 then split_words (acc @ [c]) cs
          else (if acc = [] then [] else [acc]) @ split_words [] (drop (space_len wide_spaces s) s))"
  by pat_completeness auto
termination
  by (relation "measure (\<lambda>(acc, s). length s)") auto

declare split_words.simps [simp del]

definition split_whitespace :: "rstr \<Rightarrow> rstr list" where
  "split_whitespace s = split_words [] s"

definition is_sha :: "rstr \<Rightarrow> bool" where
  "is_sha v = (length v = 40 \<and> list_all is_ascii_hexdigit v)"

text \<open>\<^verbatim>\<open>find_map\<close>.\<close>

fun find_map :: "('a \<Rightarrow> 'b option) \<Rightarrow> 'a list \<Rightarrow> 'b option" where
  "find_map f [] = None"
| "find_map f (x # xs) = (case f x of None \<Rightarrow> find_map f xs | Some y \<Rightarrow> Some y)"

definition head_branch :: "rstr \<Rightarrow> rstr option" where
  "head_branch line =
     (if starts_with ''ref: refs/heads/'' line
      then (case split_whitespace (drop (length ''ref: refs/heads/'') line) of [] \<Rightarrow> None | w # _ \<Rightarrow> Some w)
      else None)"

definition sync_outcome :: "rstr option \<Rightarrow> rstr \<times> rstr option \<times> rstr option" where
  "sync_outcome out =
     (case out of
        None \<Rightarrow> (''failed'', None, None)
      | Some stdout \<Rightarrow>
          let sha = find_map (\<lambda>line. find is_sha (split_whitespace line)) (str_lines stdout);
              found = find_map head_branch (str_lines stdout);
              branch = (case found of None \<Rightarrow> None
                        | Some v \<Rightarrow> if length v \<le> 128 \<and> \<not> contains_str ''..'' v then Some v else None)
          in if sha \<noteq> None \<and> branch \<noteq> None then (''synced'', sha, branch) else (''failed'', None, None))"

definition sync_repository ::
  "timestamp \<Rightarrow> rstr \<Rightarrow> (rstr \<Rightarrow> rstr option) \<Rightarrow> (rstr \<Rightarrow> rstr option) \<Rightarrow> actor_context \<Rightarrow> int \<Rightarrow> int \<Rightarrow> platform \<Rightarrow>
   platform \<times> (api_error + repository_row)" where
  "sync_repository now trace ls_head ls_heads actor project i p =
     (case get_repository actor project i p of
        Inl e \<Rightarrow> (p, Inl e)
      | Inr repository \<Rightarrow>
          let (status, sha, branch) = sync_outcome (ls_head (rp_remote_url repository));
              branch_count = (if status = ''synced''
                then map_option (\<lambda>o2. int (length (str_lines o2))) (ls_heads (rp_remote_url repository)) else None)
          in commit p
            (and_then (map_err db_error (update_repository_rows now actor project i
                (\<lambda>r. r\<lparr>rp_last_sync_status := status, rp_last_head_sha := sha, rp_last_remote_branch := branch,
                       rp_last_remote_branch_count := branch_count, rp_updated_at := now\<rparr>) p)) (\<lambda>(p1, changed).
             if \<not> changed then Inl (NotFound ''repository'') else
             record_user_audit trace actor ''devrail.repository.sync'' ''devrail_repository'' i p1))
            (get_repository actor project i))"

section \<open>Environments\<close>

definition environment_scope :: "'a environment_row_scheme \<Rightarrow> int \<times> int \<times> int option" where
  "environment_scope e = (e_organization_id e, e_owner_user_id e, e_department_id e)"

definition find_environment_row :: "actor_context \<Rightarrow> platform \<Rightarrow> int \<Rightarrow> int \<Rightarrow> workflow_environment option" where
  "find_environment_row actor p project i =
     find (\<lambda>e. e_id e = i \<and> e_project_id e = project \<and> e_archived_at e = None
        \<and> scope_sql actor (pl_db p) (environment_scope e)) (wf_environments (pl_workflows p))"

definition get_environment :: "actor_context \<Rightarrow> int \<Rightarrow> int \<Rightarrow> platform \<Rightarrow> api_error + workflow_environment" where
  "get_environment actor project i p =
     (case find_environment_row actor p project i of None \<Rightarrow> Inl (NotFound ''environment'') | Some e \<Rightarrow> Inr e)"

record new_environment =
  ne_project_id :: int
  ne_name :: rstr
  ne_workspace_root :: rstr
  ne_network_mode :: rstr
  ne_tool_policy :: json
  ne_secret_refs :: "rstr list"
  ne_max_duration_secs :: int
  ne_enabled :: bool
  ne_department_id :: "int option"

definition insert_environment ::
  "timestamp \<Rightarrow> actor_context \<Rightarrow> new_environment \<Rightarrow> platform \<Rightarrow> sqlx_error + platform \<times> workflow_environment" where
  "insert_environment now actor n p =
     (let org = organization_id actor; es = wf_environments (pl_workflows p);
          row = \<lparr>e_id = next_serial e_id es, e_organization_id = org, e_department_id = ne_department_id n,
                 e_owner_user_id = user_id actor, e_project_id = ne_project_id n, e_enabled = ne_enabled n,
                 e_archived_at = None, e_name = ne_name n, e_workspace_root = ne_workspace_root n,
                 e_network_mode = ne_network_mode n, e_tool_policy = ne_tool_policy n, e_secret_refs = ne_secret_refs n,
                 e_max_duration_secs = ne_max_duration_secs n, e_created_at = now, e_updated_at = now\<rparr>
      in if ne_network_mode n \<notin> {''off'', ''allowlist''} \<or> \<not> (60 \<le> ne_max_duration_secs n \<and> ne_max_duration_secs n \<le> 86400)
         then Inl (Database CheckViolation)
         else if list_ex (\<lambda>e. e_project_id e = ne_project_id n \<and> e_name e = ne_name n) es
         then Inl (Database UniqueViolation)
         else if \<not> user_exists (user_id actor) p \<or> \<not> department_exists org (ne_department_id n) p
                 \<or> \<not> project_exists org (ne_project_id n) p
         then Inl (Database ForeignKeyViolation)
         else Inr (set_environments (es @ [row]) p, row))"

record create_environment_request =
  ce_name :: rstr
  ce_workspace_root :: rstr
  ce_network_mode :: "rstr option"
  ce_tool_policy :: "json option"
  ce_secret_ref_names :: "rstr list option"
  ce_max_duration_secs :: "int option"
  ce_enabled :: "bool option"
  ce_department_id :: "int option"

definition create_environment ::
  "timestamp \<Rightarrow> rstr \<Rightarrow> actor_context \<Rightarrow> int \<Rightarrow> create_environment_request \<Rightarrow> platform \<Rightarrow>
   platform \<times> (api_error + workflow_environment)" where
  "create_environment now trace actor project req p = committed_row p
     (and_then (get_project actor project p) (\<lambda>_.
      and_then (text_field (ce_name req) ''environment_name'' 128) (\<lambda>name.
      and_then (workspace (ce_workspace_root req)) (\<lambda>root.
      and_then (network (unwrap_or (ce_network_mode req) ''off'')) (\<lambda>mode.
      and_then (duration (unwrap_or (ce_max_duration_secs req) 3600)) (\<lambda>longest.
      and_then (scope_department actor (ce_department_id req)) (\<lambda>dept.
      and_then (map_err db_error (insert_environment now actor
          \<lparr>ne_project_id = project, ne_name = name, ne_workspace_root = root, ne_network_mode = mode,
           ne_tool_policy = unwrap_or (ce_tool_policy req) (J_Object []),
           ne_secret_refs = unwrap_or (ce_secret_ref_names req) [], ne_max_duration_secs = longest,
           ne_enabled = unwrap_or (ce_enabled req) True, ne_department_id = dept\<rparr> p)) (\<lambda>(p1, row).
      and_then (record_user_audit trace actor ''devrail.environment.create'' ''devrail_environment'' (e_id row) p1)
        (\<lambda>p2. Inr (p2, row))))))))))"

record update_environment_request =
  ue_name :: "rstr option"
  ue_workspace_root :: "rstr option"
  ue_network_mode :: "rstr option"
  ue_tool_policy :: "json option"
  ue_secret_ref_names :: "rstr list option"
  ue_max_duration_secs :: "int option"
  ue_enabled :: "bool option"

text \<open>The request with its values replaced by the validated ones.\<close>

definition checked_environment_update :: "update_environment_request \<Rightarrow> api_error + update_environment_request" where
  "checked_environment_update req =
     and_then (transpose_map (\<lambda>v. text_field v ''environment_name'' 128) (ue_name req)) (\<lambda>name.
     and_then (transpose_map workspace (ue_workspace_root req)) (\<lambda>root.
     and_then (transpose_map network (ue_network_mode req)) (\<lambda>mode.
     and_then (transpose_map duration (ue_max_duration_secs req)) (\<lambda>longest.
       Inr (req\<lparr>ue_name := name, ue_workspace_root := root, ue_network_mode := mode, ue_max_duration_secs := longest\<rparr>)))))"

definition on_environment_update ::
  "timestamp \<Rightarrow> update_environment_request \<Rightarrow> workflow_environment \<Rightarrow> workflow_environment" where
  "on_environment_update now u e =
     e\<lparr>e_name := unwrap_or (ue_name u) (e_name e), e_workspace_root := unwrap_or (ue_workspace_root u) (e_workspace_root e),
       e_network_mode := unwrap_or (ue_network_mode u) (e_network_mode e),
       e_tool_policy := unwrap_or (ue_tool_policy u) (e_tool_policy e),
       e_secret_refs := unwrap_or (ue_secret_ref_names u) (e_secret_refs e),
       e_max_duration_secs := unwrap_or (ue_max_duration_secs u) (e_max_duration_secs e),
       e_enabled := unwrap_or (ue_enabled u) (e_enabled e), e_updated_at := now\<rparr>"

definition update_environment_rows ::
  "timestamp \<Rightarrow> actor_context \<Rightarrow> int \<Rightarrow> int \<Rightarrow> update_environment_request \<Rightarrow> platform \<Rightarrow> sqlx_error + platform \<times> bool" where
  "update_environment_rows now actor project i u p =
     (let es = wf_environments (pl_workflows p);
          hit = (\<lambda>e. e_id e = i \<and> e_project_id e = project \<and> writable actor (environment_scope e) \<and> e_archived_at e = None)
      in if list_ex (\<lambda>e. hit e \<and> list_ex (\<lambda>q. e_id q \<noteq> e_id e \<and> e_project_id q = e_project_id e
                \<and> e_name q = e_name (on_environment_update now u e)) es) es
         then Inl (Database UniqueViolation)
         else Inr (set_environments (update_where hit (on_environment_update now u) es) p, list_ex hit es))"

definition update_environment ::
  "timestamp \<Rightarrow> rstr \<Rightarrow> actor_context \<Rightarrow> int \<Rightarrow> int \<Rightarrow> update_environment_request \<Rightarrow> platform \<Rightarrow>
   platform \<times> (api_error + workflow_environment)" where
  "update_environment now trace actor project i req p = commit p
     (and_then (checked_environment_update req) (\<lambda>u.
      if ue_name u = None \<and> ue_workspace_root u = None \<and> ue_network_mode u = None \<and> ue_tool_policy u = None
         \<and> ue_secret_ref_names u = None \<and> ue_max_duration_secs u = None \<and> ue_enabled u = None
      then Inl (Validation ''nothing_to_update'') else
      and_then (map_err db_error (update_environment_rows now actor project i u p)) (\<lambda>(p1, changed).
      if \<not> changed then Inl (NotFound ''environment'') else
      record_user_audit trace actor ''devrail.environment.update'' ''devrail_environment'' i p1)))
     (get_environment actor project i)"

text \<open>Health: what \<^verbatim>\<open>tokio::fs::metadata\<close> says of the workspace, whether it is a directory and read-only, is an
  argument.\<close>

definition environment_health :: "bool \<Rightarrow> (bool \<times> bool) option \<Rightarrow> bool \<times> bool \<times> bool \<times> bool \<times> rstr" where
  "environment_health enabled metadata =
     (let there = (metadata \<noteq> None);
          directory = (case metadata of None \<Rightarrow> False | Some (d, _) \<Rightarrow> d);
          writes = (case metadata of None \<Rightarrow> False | Some (_, readonly) \<Rightarrow> \<not> readonly);
          healthy = (enabled \<and> there \<and> directory \<and> writes);
          message = (if \<not> enabled then ''environment_disabled'' else if \<not> there then ''workspace_missing''
                     else if \<not> directory then ''workspace_not_a_directory''
                     else if \<not> writes then ''workspace_not_writable'' else ''environment_healthy'')
      in (healthy, there, directory, writes, message))"

definition health_check_environment ::
  "rstr \<Rightarrow> (rstr \<Rightarrow> (bool \<times> bool) option) \<Rightarrow> actor_context \<Rightarrow> int \<Rightarrow> int \<Rightarrow> platform \<Rightarrow>
   platform \<times> (api_error + rstr \<times> bool \<times> bool \<times> bool \<times> bool \<times> rstr)" where
  "health_check_environment trace metadata actor project i p =
     (case get_environment actor project i p of
        Inl e \<Rightarrow> (p, Inl e)
      | Inr e \<Rightarrow>
          let (healthy, there, directory, writes, message) =
                environment_health (e_enabled e) (metadata (e_workspace_root e))
          in commit p (record_user_audit trace actor ''devrail.environment.health_check'' ''devrail_environment'' i p)
               (\<lambda>_. Inr (if healthy then ''healthy'' else ''unhealthy'', e_enabled e, there, directory, writes, message)))"

section \<open>Pages\<close>

text \<open>\<^verbatim>\<open>ORDER BY updated_at DESC, id DESC LIMIT size OFFSET (page - 1) * size\<close>, and the count. \<open>ilike\<close> stands for
  the database's \<^verbatim>\<open>text ILIKE pattern\<close>.\<close>

record list_query =
  lq_page :: "int option"
  lq_page_size :: "int option"
  lq_keyword :: "rstr option"
  lq_status :: "rstr option"
  lq_project_id :: "int option"
  lq_assignee_user_id :: "int option"
  lq_label :: "rstr option"

definition matches_keyword :: "(rstr \<Rightarrow> rstr \<Rightarrow> bool) \<Rightarrow> list_query \<Rightarrow> rstr list \<Rightarrow> bool" where
  "matches_keyword ilike q columns =
     (case lq_keyword q of None \<Rightarrow> True | Some k \<Rightarrow> list_ex (\<lambda>c. ilike c (''%'' @ k @ ''%'')) columns)"

definition newest_first :: "('r \<Rightarrow> timestamp) \<Rightarrow> ('r \<Rightarrow> int) \<Rightarrow> 'r list \<Rightarrow> 'r list" where
  "newest_first updated key rows = sort_key (\<lambda>r. (- updated r, - key r)) rows"

definition page_of :: "int \<Rightarrow> int \<Rightarrow> 'r list \<Rightarrow> 'r list" where
  "page_of page page_size rows = take (nat page_size) (drop (nat ((page - 1) * page_size)) rows)"

definition projects_matching :: "(rstr \<Rightarrow> rstr \<Rightarrow> bool) \<Rightarrow> actor_context \<Rightarrow> list_query \<Rightarrow> platform \<Rightarrow> project_row list" where
  "projects_matching ilike actor q p =
     filter (\<lambda>r. scope_sql actor (pl_db p) (project_scope r)
        \<and> (case lq_status q of None \<Rightarrow> True | Some st \<Rightarrow> p_status r = st)
        \<and> matches_keyword ilike q [p_slug r, p_name r]) (pl_projects p)"

definition list_projects ::
  "(rstr \<Rightarrow> rstr \<Rightarrow> bool) \<Rightarrow> actor_context \<Rightarrow> list_query \<Rightarrow> platform \<Rightarrow> api_error + project_row list \<times> int" where
  "list_projects ilike actor q p =
     and_then (paging (lq_page q) (lq_page_size q)) (\<lambda>(page, page_size).
       Inr (page_of page page_size (newest_first p_updated_at p_id (projects_matching ilike actor q p)),
            int (length (projects_matching ilike actor q p))))"

definition repositories_matching ::
  "(rstr \<Rightarrow> rstr \<Rightarrow> bool) \<Rightarrow> actor_context \<Rightarrow> int \<Rightarrow> list_query \<Rightarrow> platform \<Rightarrow> repository_row list" where
  "repositories_matching ilike actor project q p =
     filter (\<lambda>r. scope_sql actor (pl_db p) (repository_scope r) \<and> rp_project_id r = project \<and> rp_archived_at r = None
        \<and> matches_keyword ilike q [rp_name r]) (pl_repositories p)"

definition list_repositories ::
  "(rstr \<Rightarrow> rstr \<Rightarrow> bool) \<Rightarrow> actor_context \<Rightarrow> list_query \<Rightarrow> platform \<Rightarrow> api_error + repository_row list \<times> int" where
  "list_repositories ilike actor q p =
     (case lq_project_id q of
        None \<Rightarrow> Inl (Validation ''project_id_missing'')
      | Some project \<Rightarrow>
          and_then (paging (lq_page q) (lq_page_size q)) (\<lambda>(page, page_size).
            Inr (page_of page page_size (newest_first rp_updated_at rp_id (repositories_matching ilike actor project q p)),
                 int (length (repositories_matching ilike actor project q p)))))"

definition environments_matching ::
  "(rstr \<Rightarrow> rstr \<Rightarrow> bool) \<Rightarrow> actor_context \<Rightarrow> int \<Rightarrow> list_query \<Rightarrow> platform \<Rightarrow> workflow_environment list" where
  "environments_matching ilike actor project q p =
     filter (\<lambda>e. scope_sql actor (pl_db p) (environment_scope e) \<and> e_project_id e = project \<and> e_archived_at e = None
        \<and> matches_keyword ilike q [e_name e]) (wf_environments (pl_workflows p))"

definition list_environments ::
  "(rstr \<Rightarrow> rstr \<Rightarrow> bool) \<Rightarrow> actor_context \<Rightarrow> list_query \<Rightarrow> platform \<Rightarrow> api_error + workflow_environment list \<times> int" where
  "list_environments ilike actor q p =
     (case lq_project_id q of
        None \<Rightarrow> Inl (Validation ''project_id_missing'')
      | Some project \<Rightarrow>
          and_then (paging (lq_page q) (lq_page_size q)) (\<lambda>(page, page_size).
            Inr (page_of page page_size (newest_first e_updated_at e_id (environments_matching ilike actor project q p)),
                 int (length (environments_matching ilike actor project q p)))))"

definition tasks_matching ::
  "(rstr \<Rightarrow> rstr \<Rightarrow> bool) \<Rightarrow> actor_context \<Rightarrow> int \<Rightarrow> list_query \<Rightarrow> platform \<Rightarrow> task_row list" where
  "tasks_matching ilike actor project q p =
     filter (\<lambda>t. scope_sql actor (pl_db p) (task_scope t) \<and> t_project_id t = project \<and> t_archived_at t = None
        \<and> matches_keyword ilike q [t_title t, t_goal t]
        \<and> (case lq_status q of None \<Rightarrow> True | Some st \<Rightarrow> task_status_str (t_status t) = st)
        \<and> (case lq_assignee_user_id q of None \<Rightarrow> True | Some u \<Rightarrow> t_assignee_user_id t = Some u)
        \<and> (case lq_label q of None \<Rightarrow> True | Some l \<Rightarrow> l \<in> set (t_labels t))) (tasks (pl_db p))"

definition list_tasks ::
  "(rstr \<Rightarrow> rstr \<Rightarrow> bool) \<Rightarrow> actor_context \<Rightarrow> list_query \<Rightarrow> platform \<Rightarrow> api_error + task_row list \<times> int" where
  "list_tasks ilike actor q p =
     (case lq_project_id q of
        None \<Rightarrow> Inl (Validation ''project_id_missing'')
      | Some project \<Rightarrow>
          and_then (paging (lq_page q) (lq_page_size q)) (\<lambda>(page, page_size).
            Inr (page_of page page_size (newest_first t_updated_at t_id (tasks_matching ilike actor project q p)),
                 int (length (tasks_matching ilike actor project q p)))))"

end
