(* ===== verification/Tasks.thy ===== *)
theory Tasks
  imports Platform Dependencies
begin

text \<open>
  Tasks as the users of the API see them: \<^verbatim>\<open>create_task\<close>, \<^verbatim>\<open>update_task\<close> and the relations of a task in
  \<^verbatim>\<open>backend/src/services/devrail.rs\<close>, the statements of \<^verbatim>\<open>backend/src/repositories/devrail.rs\<close> behind them, and
  the trigger \<^verbatim>\<open>devrail_guard_task_dispatch_snapshot\<close> of the migrations.

  \<^verbatim>\<open>update_task\<close> reads the task, checks the request against it and builds the dispatch snapshot before its
  transaction begins, so that other transactions may commit in between: \<open>prepare_task_update\<close> works on the
  state \<open>seen\<close>, \<open>commit_task_update\<close> on a later state.

  Parameters: the engine, serialiser and file system of \<open>Reloader\<close>, and \<open>column\<close>, the text PostgreSQL
  stores for a JSON value.
\<close>

section \<open>Relations of a task\<close>

record prerequisite_view =
  pv_dependency :: dependency_row
  pv_title :: rstr
  pv_status :: task_status

definition dependency_scope :: "dependency_row \<Rightarrow> int \<times> int \<times> int option" where
  "dependency_scope d = (d_organization_id d, d_owner_user_id d, d_department_id d)"

text \<open>The two joins: the other end of an edge, in the organization of the edge.\<close>

definition list_task_dependencies :: "actor_context \<Rightarrow> db \<Rightarrow> int \<Rightarrow> prerequisite_view list" where
  "list_task_dependencies actor db task =
     concat (map (\<lambda>d. map (\<lambda>t. \<lparr>pv_dependency = d, pv_title = t_title t, pv_status = t_status t\<rparr>)
         (filter (\<lambda>t. t_id t = d_prerequisite_task_id d \<and> t_organization_id t = d_organization_id d
             \<and> scope_sql actor db (dependency_scope d) \<and> scope_sql actor db (task_scope t)) (tasks db)))
       (sort_key d_id (filter (\<lambda>d. d_task_id d = task) (dependencies db))))"

definition list_task_dependents :: "actor_context \<Rightarrow> db \<Rightarrow> int \<Rightarrow> prerequisite_view list" where
  "list_task_dependents actor db task =
     concat (map (\<lambda>d. map (\<lambda>t. \<lparr>pv_dependency = d, pv_title = t_title t, pv_status = t_status t\<rparr>)
         (filter (\<lambda>t. t_id t = d_task_id d \<and> t_organization_id t = d_organization_id d
             \<and> scope_sql actor db (dependency_scope d) \<and> scope_sql actor db (task_scope t)) (tasks db)))
       (sort_key d_id (filter (\<lambda>d. d_prerequisite_task_id d = task) (dependencies db))))"

definition dependency_block_reason :: "prerequisite_view list \<Rightarrow> rstr option" where
  "dependency_block_reason prerequisites =
     find_map (\<lambda>v. if pv_status v = Task_Succeeded then None
                    else if pv_status v = Task_Failed then Some (''prerequisite_failed:'' @ pv_title v)
                    else if pv_status v = Task_Cancelled then Some (''prerequisite_cancelled:'' @ pv_title v)
                    else if pv_status v = Task_Skipped then Some (''prerequisite_skipped:'' @ pv_title v)
                    else Some (''waiting_for_prerequisite:'' @ pv_title v)) prerequisites"

record task_relations_view =
  tr_revision :: int
  tr_blocked_reason :: "rstr option"
  tr_prerequisites :: "prerequisite_view list"
  tr_dependents :: "prerequisite_view list"

definition task_relations :: "actor_context \<Rightarrow> db \<Rightarrow> int \<Rightarrow> int \<Rightarrow> task_relations_view" where
  "task_relations actor db task revision =
     \<lparr>tr_revision = revision, tr_blocked_reason = dependency_block_reason (list_task_dependencies actor db task),
      tr_prerequisites = list_task_dependencies actor db task, tr_dependents = list_task_dependents actor db task\<rparr>"

definition get_task ::
  "actor_context \<Rightarrow> int \<Rightarrow> int \<Rightarrow> platform \<Rightarrow> api_error + task_row \<times> task_relations_view" where
  "get_task actor project i p =
     (case find_task actor (pl_db p) project i of
        None \<Rightarrow> Inl (NotFound ''task'')
      | Some t \<Rightarrow> Inr (t, task_relations actor (pl_db p) i (t_revision t)))"

definition get_task_relations_by_id :: "actor_context \<Rightarrow> int \<Rightarrow> platform \<Rightarrow> api_error + task_relations_view" where
  "get_task_relations_by_id actor i p =
     (case find_task_by_id actor (pl_db p) i of
        None \<Rightarrow> Inl (NotFound ''task'') | Some t \<Rightarrow> Inr (task_relations actor (pl_db p) i (t_revision t)))"

section \<open>The task table\<close>

record new_task =
  nt_owner_user_id :: int
  nt_project_id :: int
  nt_repository_id :: "int option"
  nt_environment_id :: "int option"
  nt_assignee_user_id :: "int option"
  nt_title :: rstr
  nt_goal :: rstr
  nt_background :: "rstr option"
  nt_acceptance_criteria :: "rstr option"
  nt_constraints :: "rstr option"
  nt_priority :: priority
  nt_labels :: "rstr list"
  nt_due_at :: "timestamp option"
  nt_department_id :: "int option"
  nt_creation_source :: rstr
  nt_source_task_id :: "int option"
  nt_source_run_id :: "int option"
  nt_followup_depth :: int

definition no_digest :: rstr where
  "no_digest = replicate 64 (CHR ''0'')"

text \<open>The values the table gives to the columns an \<^verbatim>\<open>INSERT\<close> leaves out.\<close>

definition default_snapshot :: json where
  "default_snapshot = J_Object
     [(''schemaVersion'', J_Int 1), (''source'', J_String ''legacy''),
      (''workflow'', J_Object [(''source'', J_String ''legacy''), (''version'', J_String ''legacy-v1''),
         (''digest'', J_String no_digest)])]"

definition draft_row :: "(json \<Rightarrow> rstr) \<Rightarrow> timestamp \<Rightarrow> int \<Rightarrow> int \<Rightarrow> new_task \<Rightarrow> task_row" where
  "draft_row column now org i n =
     \<lparr>t_id = i, t_organization_id = org, t_department_id = nt_department_id n, t_owner_user_id = nt_owner_user_id n,
      t_project_id = nt_project_id n, t_repository_id = nt_repository_id n, t_environment_id = nt_environment_id n,
      t_assignee_user_id = nt_assignee_user_id n, t_title = nt_title n, t_goal = nt_goal n,
      t_background = nt_background n, t_acceptance_criteria = nt_acceptance_criteria n,
      t_constraints = nt_constraints n, t_labels = nt_labels n, t_priority = nt_priority n, t_status = Task_Draft,
      t_revision = 1, t_dispatch_snapshot = column default_snapshot, t_dispatch_snapshot_digest = no_digest,
      t_workflow_source = ''legacy'', t_workflow_version = ''legacy-v1'', t_workflow_digest = no_digest,
      t_scheduler_attempt = 0, t_scheduler_retry_count = 0, t_scheduler_max_attempts = 3, t_scheduler_retry_at = None,
      t_scheduler_last_error = None, t_scheduler_claim_token = None, t_scheduler_claimed_at = None,
      t_hook_failure_fingerprint = None, t_hook_failure_count = 0, t_due_at = nt_due_at n, t_created_at = now,
      t_updated_at = now, t_archived_at = None, t_current_repair_request_id = None,
      t_creation_source = nt_creation_source n, t_source_task_id = nt_source_task_id n,
      t_source_run_id = nt_source_run_id n, t_followup_depth = nt_followup_depth n\<rparr>"

definition task_check :: "task_row \<Rightarrow> bool" where
  "task_check t =
     (chars_count (t_title t) \<le> 200 \<and> t_revision t > 0 \<and> valid_digest (t_dispatch_snapshot_digest t)
      \<and> valid_digest (t_workflow_digest t) \<and> t_workflow_source t \<in> {''default'', ''repository'', ''legacy''}
      \<and> 1 \<le> t_scheduler_max_attempts t \<and> t_scheduler_max_attempts t \<le> 10
      \<and> t_creation_source t \<in> {''legacy'', ''manual'', ''agent_followup'', ''system''}
      \<and> 0 \<le> t_followup_depth t \<and> t_followup_depth t \<le> 16
      \<and> (t_creation_source t = ''agent_followup'' \<longrightarrow> t_source_task_id t \<noteq> None \<and> t_source_run_id t \<noteq> None))"

definition task_references :: "platform \<Rightarrow> task_row \<Rightarrow> bool" where
  "task_references p t =
     (project_exists (t_organization_id t) (t_project_id t) p
      \<and> department_exists (t_organization_id t) (t_department_id t) p
      \<and> repository_exists (t_organization_id t) (t_repository_id t) p
      \<and> environment_exists (t_organization_id t) (t_environment_id t) p
      \<and> user_exists (t_owner_user_id t) p
      \<and> (case t_assignee_user_id t of None \<Rightarrow> True | Some u \<Rightarrow> user_exists u p)
      \<and> (case t_source_task_id t of None \<Rightarrow> True
         | Some s \<Rightarrow> list_ex (\<lambda>q. t_id q = s \<and> t_organization_id q = t_organization_id t) (tasks (pl_db p)))
      \<and> (case t_source_run_id t of None \<Rightarrow> True
         | Some s \<Rightarrow> list_ex (\<lambda>q. r_id q = s \<and> r_organization_id q = t_organization_id t) (runs (pl_db p))))"

text \<open>The assignee a statement accepts: an undeleted user of the organization within the data scope.\<close>

definition assignable :: "actor_context \<Rightarrow> platform \<Rightarrow> int option \<Rightarrow> bool" where
  "assignable actor p assignee =
     (case assignee of None \<Rightarrow> True
      | Some i \<Rightarrow> list_ex (\<lambda>u. u_id u = i \<and> u_deleted_at u = None \<and> scoped actor (pl_db p) (user_scope u)) (pl_users p))"

definition insert_task ::
  "(json \<Rightarrow> rstr) \<Rightarrow> timestamp \<Rightarrow> actor_context \<Rightarrow> new_task \<Rightarrow> platform \<Rightarrow> sqlx_error + platform \<times> task_row" where
  "insert_task column now actor n p =
     (let row = draft_row column now (organization_id actor) (next_serial t_id (tasks (pl_db p))) n
      in if \<not> assignable actor p (nt_assignee_user_id n) then Inl RowNotFound
         else if \<not> task_check row then Inl (Database CheckViolation)
         else if \<not> task_references p row then Inl (Database ForeignKeyViolation)
         else Inr (p\<lparr>pl_db := (pl_db p)\<lparr>tasks := tasks (pl_db p) @ [row]\<rparr>\<rparr>, row))"

section \<open>Checks\<close>

definition validate_task_resources ::
  "actor_context \<Rightarrow> int \<Rightarrow> int option \<Rightarrow> int option \<Rightarrow> platform \<Rightarrow> api_error + unit" where
  "validate_task_resources actor project repository environment p =
     (if (case repository of None \<Rightarrow> False | Some r \<Rightarrow> find_repository actor p project r = None)
      then Inl (Validation ''task_repository'')
      else if (case environment of None \<Rightarrow> False | Some e \<Rightarrow> find_environment_row actor p project e = None)
      then Inl (Validation ''task_environment'')
      else Inr ())"

text \<open>\<^verbatim>\<open>users::find_by_id_for_actor\<close>.\<close>

definition find_user :: "actor_context \<Rightarrow> platform \<Rightarrow> int \<Rightarrow> user_row option" where
  "find_user actor p i =
     find (\<lambda>u. u_id u = i \<and> u_deleted_at u = None \<and> scope_sql actor (pl_db p) (user_scope u)) (pl_users p)"

definition validate_optional_user_scope :: "actor_context \<Rightarrow> int option \<Rightarrow> platform \<Rightarrow> api_error + unit" where
  "validate_optional_user_scope actor user p =
     (case user of None \<Rightarrow> Inr ()
      | Some u \<Rightarrow> if find_user actor p u = None then Inl (Validation ''assignee_outside_scope'') else Inr ())"

definition task_transition_allowed :: "task_status \<Rightarrow> task_status \<Rightarrow> bool" where
  "task_transition_allowed current next =
     (current = next
      \<or> current = Task_Draft \<and> next \<in> {Task_Queued, Task_Cancelled, Task_Archived}
      \<or> current = Task_Queued \<and> next \<in> {Task_Cancelled, Task_Failed}
      \<or> current = Task_Running \<and> next \<in> {Task_AwaitingApproval, Task_Succeeded, Task_Failed, Task_Cancelled}
      \<or> current = Task_AwaitingApproval \<and> next \<in> {Task_Running, Task_Succeeded, Task_Failed, Task_Cancelled}
      \<or> current \<in> {Task_Succeeded, Task_Failed, Task_Cancelled} \<and> next = Task_Archived
      \<or> current = Task_Skipped \<and> next = Task_Archived
      \<or> current = Task_Failed \<and> next = Task_Queued)"

section \<open>Creating a task\<close>

record create_task_request =
  ct_title :: rstr
  ct_goal :: rstr
  ct_background :: "rstr option"
  ct_acceptance_criteria :: "rstr option"
  ct_constraints :: "rstr option"
  ct_priority :: "rstr option"
  ct_assignee_user_id :: "int option"
  ct_labels :: "rstr list option"
  ct_due_at :: "timestamp option"
  ct_department_id :: "int option"
  ct_repository_id :: "int option"
  ct_environment_id :: "int option"

fun insert_task_error :: "sqlx_error \<Rightarrow> api_error" where
  "insert_task_error RowNotFound = Validation ''assignee_outside_scope''"
| "insert_task_error e = db_error e"

definition create_task ::
  "(json \<Rightarrow> rstr) \<Rightarrow> timestamp \<Rightarrow> rstr \<Rightarrow> actor_context \<Rightarrow> int \<Rightarrow> create_task_request \<Rightarrow> platform \<Rightarrow>
   platform \<times> (api_error + task_row)" where
  "create_task column now trace actor project req p = committed_row p
     (and_then (get_project actor project p) (\<lambda>_.
      and_then (text_field (ct_title req) ''task_title'' 200) (\<lambda>title.
      and_then (text_field (ct_goal req) ''task_goal'' 4000) (\<lambda>goal.
      and_then (priority_of (unwrap_or (ct_priority req) ''normal'')) (\<lambda>priority.
      and_then (scope_department actor (ct_department_id req)) (\<lambda>dept.
      and_then (validate_task_resources actor project (ct_repository_id req) (ct_environment_id req) p) (\<lambda>_.
      and_then (validate_optional_user_scope actor (ct_assignee_user_id req) p) (\<lambda>_.
      and_then (validate_optional_user_scope actor (ct_assignee_user_id req) p) (\<lambda>_.
      and_then (map_err insert_task_error (insert_task column now actor
          \<lparr>nt_owner_user_id = user_id actor, nt_project_id = project, nt_repository_id = ct_repository_id req,
           nt_environment_id = ct_environment_id req, nt_assignee_user_id = ct_assignee_user_id req, nt_title = title,
           nt_goal = goal, nt_background = ct_background req, nt_acceptance_criteria = ct_acceptance_criteria req,
           nt_constraints = ct_constraints req, nt_priority = priority, nt_labels = unwrap_or (ct_labels req) [],
           nt_due_at = ct_due_at req, nt_department_id = dept, nt_creation_source = ''manual'',
           nt_source_task_id = None, nt_source_run_id = None, nt_followup_depth = 0\<rparr> p)) (\<lambda>(p1, row).
      and_then (record_user_audit trace actor ''devrail.task.create'' ''devrail_task'' (t_id row) p1) (\<lambda>p2.
        Inr (p2, row))))))))))))"

section \<open>Changing a task\<close>

record task_update =
  tu_title :: "rstr option"
  tu_goal :: "rstr option"
  tu_background :: "bool \<times> rstr option"
  tu_acceptance_criteria :: "bool \<times> rstr option"
  tu_constraints :: "bool \<times> rstr option"
  tu_priority :: "priority option"
  tu_status :: "task_status option"
  tu_assignee_user_id :: "bool \<times> int option"
  tu_labels :: "rstr list option"
  tu_due_at :: "bool \<times> timestamp option"
  tu_repository_id :: "bool \<times> int option"
  tu_environment_id :: "bool \<times> int option"
  tu_queue :: "queue_artifacts option"

definition queue_column :: "task_update \<Rightarrow> (queue_artifacts \<Rightarrow> 'a) \<Rightarrow> 'a \<Rightarrow> 'a" where
  "queue_column u f old = (if tu_status u = Some Task_Queued then unwrap_or (map_option f (tu_queue u)) old else old)"

definition on_task_update :: "(json \<Rightarrow> rstr) \<Rightarrow> timestamp \<Rightarrow> task_update \<Rightarrow> task_row \<Rightarrow> task_row" where
  "on_task_update column now u t =
     t\<lparr>t_title := unwrap_or (tu_title u) (t_title t), t_goal := unwrap_or (tu_goal u) (t_goal t),
       t_background := patched (tu_background u) (t_background t),
       t_acceptance_criteria := patched (tu_acceptance_criteria u) (t_acceptance_criteria t),
       t_constraints := patched (tu_constraints u) (t_constraints t),
       t_priority := unwrap_or (tu_priority u) (t_priority t), t_status := unwrap_or (tu_status u) (t_status t),
       t_assignee_user_id := patched (tu_assignee_user_id u) (t_assignee_user_id t),
       t_labels := unwrap_or (tu_labels u) (t_labels t), t_due_at := patched (tu_due_at u) (t_due_at t),
       t_repository_id := patched (tu_repository_id u) (t_repository_id t),
       t_environment_id := patched (tu_environment_id u) (t_environment_id t),
       t_dispatch_snapshot := queue_column u (\<lambda>a. column (qa_dispatch_snapshot a)) (t_dispatch_snapshot t),
       t_dispatch_snapshot_digest := queue_column u qa_dispatch_snapshot_digest (t_dispatch_snapshot_digest t),
       t_workflow_source := queue_column u (\<lambda>a. workflow_source_as_str (ws_source (qa_workflow a))) (t_workflow_source t),
       t_workflow_version := queue_column u (\<lambda>a. ws_declared_version (qa_workflow a)) (t_workflow_version t),
       t_workflow_digest := queue_column u (\<lambda>a. ws_digest (qa_workflow a)) (t_workflow_digest t),
       t_scheduler_max_attempts :=
         queue_column u (\<lambda>a. rt_max_attempts (wc_retry (ws_config (qa_workflow a)))) (t_scheduler_max_attempts t),
       t_archived_at := (if tu_status u = Some Task_Archived then Some (unwrap_or (t_archived_at t) now)
                         else if tu_status u \<noteq> None then None else t_archived_at t),
       t_updated_at := now\<rparr>"

text \<open>The trigger: what a run is dispatched with is frozen while the task is dispatched, and counted otherwise.\<close>

definition dispatch_inputs ::
  "task_row \<Rightarrow> rstr \<times> rstr \<times> rstr option \<times> rstr option \<times> rstr option \<times> int option \<times> int option" where
  "dispatch_inputs t = (t_title t, t_goal t, t_background t, t_acceptance_criteria t, t_constraints t,
     t_repository_id t, t_environment_id t)"

definition dispatch_columns :: "task_row \<Rightarrow> rstr \<times> rstr \<times> rstr \<times> rstr \<times> rstr" where
  "dispatch_columns t = (t_dispatch_snapshot t, t_dispatch_snapshot_digest t, t_workflow_source t, t_workflow_version t,
     t_workflow_digest t)"

definition guard_dispatch_snapshot :: "task_row \<Rightarrow> task_row \<Rightarrow> sqlx_error + task_row" where
  "guard_dispatch_snapshot old new =
     (let input_changed = (dispatch_inputs new \<noteq> dispatch_inputs old);
          dispatched = (t_status old \<in> {Task_Queued, Task_Running, Task_AwaitingApproval, Task_ContinuationPending})
      in if dispatched \<and> input_changed then Inl (Database CheckViolation)
         else if dispatched \<and> dispatch_columns new \<noteq> dispatch_columns old then Inl (Database CheckViolation)
         else Inr (if input_changed then new\<lparr>t_revision := t_revision old + 1\<rparr> else new))"

definition task_writable :: "actor_context \<Rightarrow> db \<Rightarrow> task_row \<Rightarrow> bool" where
  "task_writable actor db t =
     (t_organization_id t = organization_id actor
      \<and> (data_scope actor = Scope_All \<or> t_owner_user_id t = user_id actor \<or> data_scope actor = Scope_Organization
         \<or> data_scope actor = Scope_Department \<and> t_department_id t \<noteq> None \<and> t_department_id t = department_id actor
         \<or> data_scope actor = Scope_DepartmentAndChildren
           \<and> (\<exists>d \<in> set (visible_departments actor db). t_department_id t = Some d)))"

definition transition_permitted :: "task_status \<Rightarrow> task_status option \<Rightarrow> bool" where
  "transition_permitted status next =
     (case next of None \<Rightarrow> True
      | Some n \<Rightarrow>
          status = n
          \<or> status = Task_Draft \<and> n \<in> {Task_Queued, Task_Cancelled, Task_Archived}
          \<or> status = Task_Queued \<and> n \<in> {Task_Cancelled, Task_Failed}
          \<or> status = Task_Running \<and> n \<in> {Task_AwaitingApproval, Task_Succeeded, Task_Failed, Task_Cancelled}
          \<or> status = Task_AwaitingApproval \<and> n \<in> {Task_Running, Task_Succeeded, Task_Failed, Task_Cancelled}
          \<or> status \<in> {Task_Succeeded, Task_Failed, Task_Cancelled} \<and> n = Task_Archived
          \<or> status = Task_Failed \<and> n = Task_Queued)"

definition updates_task :: "actor_context \<Rightarrow> int \<Rightarrow> int \<Rightarrow> task_update \<Rightarrow> platform \<Rightarrow> task_row \<Rightarrow> bool" where
  "updates_task actor project i u p t =
     (t_id t = i \<and> t_project_id t = project \<and> task_writable actor (pl_db p) t \<and> t_archived_at t = None
      \<and> (fst (tu_assignee_user_id u) \<longrightarrow> assignable actor p (snd (tu_assignee_user_id u)))
      \<and> transition_permitted (t_status t) (tu_status u))"

text \<open>The row after the statement, its trigger and its constraints; the snapshot is at most half a megabyte.\<close>

definition updated_task ::
  "reload_input \<Rightarrow> (json \<Rightarrow> rstr) \<Rightarrow> timestamp \<Rightarrow> task_update \<Rightarrow> platform \<Rightarrow> task_row \<Rightarrow> sqlx_error + task_row" where
  "updated_task inp column now u p t =
     and_then (guard_dispatch_snapshot t (on_task_update column now u t)) (\<lambda>t1.
       if \<not> task_check t1
          \<or> (case tu_queue u of None \<Rightarrow> False
             | Some a \<Rightarrow> se_text_len (ri_serializer inp) (qa_dispatch_snapshot a) > 524288)
       then Inl (Database CheckViolation)
       else if \<not> task_references p t1 then Inl (Database ForeignKeyViolation) else Inr t1)"

definition update_task_row ::
  "reload_input \<Rightarrow> (json \<Rightarrow> rstr) \<Rightarrow> timestamp \<Rightarrow> actor_context \<Rightarrow> int \<Rightarrow> int \<Rightarrow> task_update \<Rightarrow> platform \<Rightarrow>
   sqlx_error + platform \<times> bool" where
  "update_task_row inp column now actor project i u p =
     (case find (updates_task actor project i u p) (tasks (pl_db p)) of
        None \<Rightarrow> Inr (p, False)
      | Some t \<Rightarrow>
          and_then (updated_task inp column now u p t) (\<lambda>t1.
            Inr (p\<lparr>pl_db := update_tasks (\<lambda>q. t_id q = t_id t) (\<lambda>_. t1) (pl_db p)\<rparr>, True)))"

section \<open>The service\<close>

record update_task_request =
  ut_title :: "rstr option"
  ut_goal :: "rstr option"
  ut_background :: "rstr nullable_patch"
  ut_acceptance_criteria :: "rstr nullable_patch"
  ut_constraints :: "rstr nullable_patch"
  ut_priority :: "rstr option"
  ut_status :: "rstr option"
  ut_assignee_user_id :: "int nullable_patch"
  ut_labels :: "rstr list option"
  ut_due_at :: "timestamp nullable_patch"
  ut_repository_id :: "int nullable_patch"
  ut_environment_id :: "int nullable_patch"

text \<open>The request with its values validated.\<close>

definition checked_task_update :: "update_task_request \<Rightarrow> api_error + task_update" where
  "checked_task_update req =
     and_then (transpose_map (\<lambda>v. text_field v ''task_title'' 200) (ut_title req)) (\<lambda>title.
     and_then (transpose_map (\<lambda>v. text_field v ''task_goal'' 4000) (ut_goal req)) (\<lambda>goal.
     and_then (transpose_map priority_of (ut_priority req)) (\<lambda>priority.
     and_then (transpose_map task_status_of (ut_status req)) (\<lambda>status.
       Inr \<lparr>tu_title = title, tu_goal = goal, tu_background = nullable_patch (ut_background req),
            tu_acceptance_criteria = nullable_patch (ut_acceptance_criteria req),
            tu_constraints = nullable_patch (ut_constraints req), tu_priority = priority, tu_status = status,
            tu_assignee_user_id = nullable_patch (ut_assignee_user_id req), tu_labels = ut_labels req,
            tu_due_at = nullable_patch (ut_due_at req), tu_repository_id = nullable_patch (ut_repository_id req),
            tu_environment_id = nullable_patch (ut_environment_id req), tu_queue = None\<rparr>))))"

definition empty_task_update :: "task_update \<Rightarrow> bool" where
  "empty_task_update u =
     (tu_title u = None \<and> tu_goal u = None \<and> \<not> fst (tu_background u) \<and> \<not> fst (tu_acceptance_criteria u)
      \<and> \<not> fst (tu_constraints u) \<and> tu_priority u = None \<and> tu_status u = None \<and> \<not> fst (tu_assignee_user_id u)
      \<and> tu_labels u = None \<and> \<not> fst (tu_due_at u) \<and> \<not> fst (tu_repository_id u) \<and> \<not> fst (tu_environment_id u))"

text \<open>The inputs the task will have, and the draft its snapshot is made of.\<close>

definition next_inputs ::
  "task_update \<Rightarrow> task_row \<Rightarrow> rstr \<times> rstr \<times> rstr option \<times> rstr option \<times> rstr option \<times> int option \<times> int option" where
  "next_inputs u t =
     (unwrap_or (tu_title u) (t_title t), unwrap_or (tu_goal u) (t_goal t), patched (tu_background u) (t_background t),
      patched (tu_acceptance_criteria u) (t_acceptance_criteria t), patched (tu_constraints u) (t_constraints t),
      patched (tu_repository_id u) (t_repository_id t), patched (tu_environment_id u) (t_environment_id t))"

definition update_draft :: "int \<Rightarrow> int \<Rightarrow> int \<Rightarrow> task_update \<Rightarrow> task_row \<Rightarrow> queue_draft" where
  "update_draft project i environment u t =
     (case next_inputs u t of (title, goal, background, acceptance, constraints, repository, _) \<Rightarrow>
       \<lparr>qd_project_id = project, qd_repository_id = repository, qd_environment_id = environment, qd_task_id = i,
        qd_revision = t_revision t + (if next_inputs u t \<noteq> dispatch_inputs t then 1 else 0), qd_title = title,
        qd_goal = goal, qd_background = background, qd_acceptance_criteria = acceptance,
        qd_constraints = constraints, qd_labels = J_Array (map J_String (unwrap_or (tu_labels u) (t_labels t)))\<rparr>)"

text \<open>The repository's name and default branch, for the template.\<close>

definition repository_name_branch :: "actor_context \<Rightarrow> int \<Rightarrow> platform \<Rightarrow> int \<Rightarrow> api_error + rstr \<times> rstr" where
  "repository_name_branch actor project p r =
     and_then (get_repository actor project r p) (\<lambda>row. Inr (rp_name row, rp_default_branch row))"

definition prepare_queue ::
  "reload_input \<Rightarrow> actor_context \<Rightarrow> int \<Rightarrow> int \<Rightarrow> task_update \<Rightarrow> task_row \<Rightarrow> platform \<Rightarrow>
   api_error + queue_artifacts option" where
  "prepare_queue inp actor project i u t seen =
     (if tu_status u = Some Task_Queued \<and> t_status t \<noteq> Task_Queued
      then (case patched (tu_environment_id u) (t_environment_id t) of
              None \<Rightarrow> Inl (Validation ''queued_task_needs_environment'')
            | Some environment \<Rightarrow>
                and_then (build_queue_task_artifacts inp actor (pl_db seen) (get_environment actor project environment seen)
                    (repository_name_branch actor project seen) (update_draft project i environment u t)
                    (pl_workflows seen)) (\<lambda>a. Inr (Some a)))
      else Inr None)"

text \<open>What the service has decided before its transaction: the update and the task it was decided on.\<close>

definition prepare_task_update ::
  "reload_input \<Rightarrow> actor_context \<Rightarrow> int \<Rightarrow> int \<Rightarrow> update_task_request \<Rightarrow> platform \<Rightarrow> api_error + task_update \<times> task_row" where
  "prepare_task_update inp actor project i req seen =
     and_then (checked_task_update req) (\<lambda>u.
     if empty_task_update u then Inl (Validation ''nothing_to_update'') else
     and_then (get_task actor project i seen) (\<lambda>(t, _).
     if (case tu_status u of None \<Rightarrow> False | Some st \<Rightarrow> \<not> task_transition_allowed (t_status t) st)
     then Inl (Conflict ''task_transition'') else
     and_then (validate_task_resources actor project (patched (tu_repository_id u) (t_repository_id t))
         (patched (tu_environment_id u) (t_environment_id t)) seen) (\<lambda>_.
     and_then (validate_optional_user_scope actor (patched (tu_assignee_user_id u) (t_assignee_user_id t)) seen) (\<lambda>_.
     if t_status t \<in> {Task_Queued, Task_Running, Task_AwaitingApproval} \<and> next_inputs u t \<noteq> dispatch_inputs t
     then Inl (Conflict ''dispatched_inputs_immutable'') else
     and_then (prepare_queue inp actor project i u t seen) (\<lambda>a. Inr (u\<lparr>tu_queue := a\<rparr>, t))))))"

text \<open>The version of the workflow the task is queued with.\<close>

definition accept_queue_version ::
  "reload_input \<Rightarrow> timestamp \<Rightarrow> actor_context \<Rightarrow> int \<Rightarrow> queue_artifacts \<Rightarrow> workflow_store \<Rightarrow> api_error + workflow_store" where
  "accept_queue_version inp now actor environment a s =
     (case se_to_value (ri_serializer inp) (qa_workflow a) of
        None \<Rightarrow> Inl (Internal ''workflow_snapshot_serialization'')
      | Some normalized \<Rightarrow>
          and_then (map_err db_error (accept_version (ri_serializer inp)
              \<lparr>v_id = 0, v_organization_id = organization_id actor, v_department_id = qa_department_id a,
               v_owner_user_id = qa_owner_user_id a, v_environment_id = environment,
               v_source = workflow_source_as_str (ws_source (qa_workflow a)),
               v_declared_version = ws_declared_version (qa_workflow a), v_digest = ws_digest (qa_workflow a),
               v_normalized_snapshot = normalized, v_prompt_body = ws_prompt_template (qa_workflow a),
               v_accepted_at = now\<rparr> s)) (\<lambda>(s1, _). Inr s1))"

definition record_queue_version ::
  "reload_input \<Rightarrow> timestamp \<Rightarrow> actor_context \<Rightarrow> task_update \<Rightarrow> task_row \<Rightarrow> platform \<Rightarrow> api_error + platform" where
  "record_queue_version inp now actor u t p =
     (case tu_queue u of
        None \<Rightarrow> Inr p
      | Some a \<Rightarrow>
          (case patched (tu_environment_id u) (t_environment_id t) of
             None \<Rightarrow> Inl (Validation ''queued_task_needs_environment'')
           | Some environment \<Rightarrow>
               and_then (accept_queue_version inp now actor environment a (pl_workflows p)) (\<lambda>s.
                 Inr (p\<lparr>pl_workflows := s\<rparr>))))"

definition commit_task_update ::
  "reload_input \<Rightarrow> (json \<Rightarrow> rstr) \<Rightarrow> timestamp \<Rightarrow> rstr \<Rightarrow> actor_context \<Rightarrow> int \<Rightarrow> int \<Rightarrow> task_update \<times> task_row \<Rightarrow>
   platform \<Rightarrow> api_error + platform" where
  "commit_task_update inp column now trace actor project i prepared p =
     (case prepared of (u, t) \<Rightarrow>
       and_then (validate_optional_user_scope actor (patched (tu_assignee_user_id u) (t_assignee_user_id t)) p) (\<lambda>_.
       and_then (record_queue_version inp now actor u t p) (\<lambda>p1.
       and_then (map_err db_error (update_task_row inp column now actor project i u p1)) (\<lambda>(p2, changed).
       if \<not> changed then Inl (NotFound ''task'') else
       record_user_audit trace actor ''devrail.task.update'' ''devrail_task'' i p2))))"

text \<open>The whole handler: \<open>seen\<close> is the state it reads, \<open>p\<close> the state its transaction meets.\<close>

definition update_task ::
  "reload_input \<Rightarrow> (json \<Rightarrow> rstr) \<Rightarrow> timestamp \<Rightarrow> rstr \<Rightarrow> actor_context \<Rightarrow> int \<Rightarrow> int \<Rightarrow> update_task_request \<Rightarrow>
   platform \<Rightarrow> platform \<Rightarrow> platform \<times> (api_error + task_row \<times> task_relations_view)" where
  "update_task inp column now trace actor project i req seen p = commit p
     (and_then (prepare_task_update inp actor project i req seen) (\<lambda>prepared.
       commit_task_update inp column now trace actor project i prepared p))
     (get_task actor project i)"

end
