(* ===== verification/Followups.thy ===== *)
theory Followups
  imports Tasks Composition
begin

text \<open>
  Tasks an agent proposes while it works: \<^verbatim>\<open>create_followup_task\<close> of \<^verbatim>\<open>backend/src/services/devrail.rs\<close> and of
  \<^verbatim>\<open>backend/src/repositories/devrail.rs\<close>. The service checks the proposal on the state \<open>seen\<close>; the
  transaction meets a later state, locks the source run, and replays or creates. The parameter \<open>digest_of\<close> is
  the digest of the serialised request, \<open>None\<close> when it cannot be serialised.
\<close>

section \<open>The transaction\<close>

record new_followup =
  nf_department_id :: "int option"
  nf_owner_user_id :: int
  nf_source_task_id :: int
  nf_source_run_id :: int
  nf_idempotency_key :: rstr
  nf_request_digest :: rstr
  nf_task :: new_task
  nf_dependencies :: "new_dependency list"

definition same_followup :: "actor_context \<Rightarrow> new_followup \<Rightarrow> followup_row \<Rightarrow> bool" where
  "same_followup actor n f =
     (fu_organization_id f = organization_id actor \<and> fu_source_run_id f = nf_source_run_id n
      \<and> fu_idempotency_key f = nf_idempotency_key n)"

definition followups_of :: "int \<Rightarrow> int \<Rightarrow> platform \<Rightarrow> followup_row list" where
  "followups_of org run p = filter (\<lambda>f. fu_organization_id f = org \<and> fu_source_run_id f = run) (pl_followups p)"

definition replay_followup ::
  "actor_context \<Rightarrow> new_followup \<Rightarrow> followup_row \<Rightarrow> platform \<Rightarrow> sqlx_error + platform \<times> int \<times> task_row \<times> bool" where
  "replay_followup actor n f p =
     (if fu_request_digest f \<noteq> nf_request_digest n then Inl (Protocol ''followup_key_of_another_request'')
      else case fu_result_task_id f of
             None \<Rightarrow> Inl (Protocol ''followup_in_progress'')
           | Some task \<Rightarrow>
               (case find (\<lambda>t. t_id t = task \<and> t_organization_id t = organization_id actor) (tasks (pl_db p)) of
                  None \<Rightarrow> Inl RowNotFound
                | Some t \<Rightarrow> Inr (p, fu_id f, t, True)))"

definition insert_followup ::
  "(json \<Rightarrow> rstr) \<Rightarrow> timestamp \<Rightarrow> actor_context \<Rightarrow> new_followup \<Rightarrow> platform \<Rightarrow>
   sqlx_error + platform \<times> int \<times> task_row \<times> bool" where
  "insert_followup column now actor n p =
     (let request_id = next_serial fu_id (pl_followups p);
          pending = \<lparr>fu_id = request_id, fu_organization_id = organization_id actor,
                     fu_department_id = nf_department_id n, fu_owner_user_id = nf_owner_user_id n,
                     fu_source_task_id = nf_source_task_id n, fu_source_run_id = nf_source_run_id n,
                     fu_idempotency_key = nf_idempotency_key n, fu_request_digest = nf_request_digest n,
                     fu_status = ''pending'', fu_result_task_id = None, fu_completed_at = None\<rparr>
      in if \<not> valid_digest (nf_request_digest n) then Inl (Database CheckViolation)
         else and_then (insert_task column now actor (nf_task n) (p\<lparr>pl_followups := pl_followups p @ [pending]\<rparr>)) (\<lambda>(p1, task).
           and_then (insert_dependencies (organization_id actor) (nf_department_id n) (nf_owner_user_id n)
               (map (\<lambda>d. d\<lparr>nd_task_id := t_id task\<rparr>) (nf_dependencies n)) (pl_db p1)) (\<lambda>db.
             Inr (p1\<lparr>pl_db := db, pl_followups := update_where
                 (\<lambda>f. fu_id f = request_id \<and> fu_organization_id f = organization_id actor)
                 (\<lambda>f. f\<lparr>fu_status := ''succeeded'', fu_result_task_id := Some (t_id task), fu_completed_at := Some now\<rparr>)
                 (pl_followups p1)\<rparr>, request_id, task, False))))"

definition create_followup_rows ::
  "(json \<Rightarrow> rstr) \<Rightarrow> timestamp \<Rightarrow> actor_context \<Rightarrow> new_followup \<Rightarrow> int \<Rightarrow> platform \<Rightarrow>
   sqlx_error + platform \<times> int \<times> task_row \<times> bool" where
  "create_followup_rows column now actor n max_followups p =
     (if \<not> list_ex (\<lambda>r. r_id r = nf_source_run_id n \<and> r_organization_id r = organization_id actor) (runs (pl_db p))
      then Inl RowNotFound
      else case find (same_followup actor n) (pl_followups p) of
             Some f \<Rightarrow> replay_followup actor n f p
           | None \<Rightarrow>
               if int (length (followups_of (organization_id actor) (nf_source_run_id n) p)) \<ge> max_followups
               then Inl (Protocol ''followup_quota'')
               else insert_followup column now actor n p)"

fun followup_error :: "sqlx_error \<Rightarrow> api_error" where
  "followup_error (Protocol message) =
     (if message = ''followup_quota'' then RateLimited 60
      else if message \<in> {''followup_key_of_another_request'', ''followup_in_progress''} then Conflict message
      else db_error (Protocol message))"
| "followup_error RowNotFound = NotFound ''source_run''"
| "followup_error e = db_error e"

section \<open>The service\<close>

record followup_request =
  fr_idempotency_key :: rstr
  fr_title :: rstr
  fr_goal :: rstr
  fr_background :: "rstr option"
  fr_acceptance_criteria :: "rstr option"
  fr_constraints :: "rstr option"
  fr_priority :: "rstr option"
  fr_labels :: "rstr list option"
  fr_due_at :: "timestamp option"
  fr_dependencies :: "dependency_input list option"

definition max_followup_depth :: int where
  "max_followup_depth = 8"

definition max_followups_per_run :: int where
  "max_followups_per_run = 8"

definition followup_allowed :: "timestamp \<Rightarrow> run_row \<Rightarrow> bool" where
  "followup_allowed clock run =
     (r_status run \<in> {Run_Starting, Run_Active, Run_AwaitingApproval}
      \<or> r_status run = Run_Completed
        \<and> (case r_completed_at run of None \<Rightarrow> False | Some c \<Rightarrow> clock - c \<le> seconds (15 * 60)))"

definition followup_dependencies :: "int \<Rightarrow> followup_request \<Rightarrow> dependency_input list" where
  "followup_dependencies source request =
     (let requested = unwrap_or (fr_dependencies request) [] in
      sort_key di_prerequisite_task_id
        (if list_ex (\<lambda>d. di_prerequisite_task_id d = source) requested then requested
         else requested @ [\<lparr>di_prerequisite_task_id = source, di_failure_action = None, di_cancelled_action = None,
                            di_timeout_action = None\<rparr>]))"

definition prerequisite_known :: "actor_context \<Rightarrow> db \<Rightarrow> int \<Rightarrow> int \<Rightarrow> bool" where
  "prerequisite_known actor db project i =
     (case find_task_by_id actor db i of None \<Rightarrow> False | Some t \<Rightarrow> t_project_id t = project)"

definition followup_source :: "timestamp \<Rightarrow> actor_context \<Rightarrow> int \<Rightarrow> db \<Rightarrow> api_error + task_row" where
  "followup_source clock actor run_id db =
     (case find_run actor db run_id of
        None \<Rightarrow> Inl (NotFound ''source_run'')
      | Some run \<Rightarrow>
          if \<not> followup_allowed clock run then Inl (Conflict ''source_run_state'')
          else case find_task_by_id actor db (r_task_id run) of
                 None \<Rightarrow> Inl (NotFound ''source_task'')
               | Some source \<Rightarrow>
                   if t_followup_depth source \<ge> max_followup_depth then Inl (Conflict ''followup_depth'') else Inr source)"

definition followup_texts ::
  "followup_request \<Rightarrow> api_error + rstr \<times> rstr \<times> rstr option \<times> rstr option \<times> rstr option \<times> priority" where
  "followup_texts request =
     and_then (text_field (fr_title request) ''task_title'' 200) (\<lambda>title.
     and_then (text_field (fr_goal request) ''task_goal'' 4000) (\<lambda>goal.
     and_then (optional_text (fr_background request) ''background'' 16000) (\<lambda>background.
     and_then (optional_text (fr_acceptance_criteria request) ''acceptance'' 16000) (\<lambda>acceptance.
     and_then (optional_text (fr_constraints request) ''constraints'' 16000) (\<lambda>constraints.
     and_then (priority_of (unwrap_or (fr_priority request) ''normal'')) (\<lambda>priority.
       Inr (title, goal, background, acceptance, constraints, priority)))))))"

definition checked_followup_dependencies ::
  "actor_context \<Rightarrow> task_row \<Rightarrow> followup_request \<Rightarrow> db \<Rightarrow> api_error + dependency_input list" where
  "checked_followup_dependencies actor source request db =
     (let deps = followup_dependencies (t_id source) request in
      if length (unwrap_or (fr_dependencies request) []) \<ge> 16 then Inl (Validation ''too_many_dependencies'')
      else if adjacent_equal (map di_prerequisite_task_id deps) then Inl (Validation ''duplicate_dependency'')
      else if \<not> list_all (\<lambda>d. prerequisite_known actor db (t_project_id source) (di_prerequisite_task_id d)) deps
      then Inl (NotFound ''prerequisite'') else Inr deps)"

text \<open>What is checked and computed before the transaction.\<close>

definition prepare_followup ::
  "(followup_request \<Rightarrow> rstr option) \<Rightarrow> timestamp \<Rightarrow> actor_context \<Rightarrow> int \<Rightarrow> followup_request \<Rightarrow> platform \<Rightarrow>
   api_error + new_followup \<times> task_row" where
  "prepare_followup digest_of clock actor run_id request seen =
     (if actor_type actor \<noteq> System \<or> \<not> has_permission actor ''devrail:followup:create''
      then Inl (Forbidden ''followup_create'') else
      and_then (validate_idempotency_key (fr_idempotency_key request)) (\<lambda>key.
      and_then (followup_source clock actor run_id (pl_db seen)) (\<lambda>source.
      and_then (followup_texts request) (\<lambda>(title, goal, background, acceptance, constraints, priority).
      and_then (checked_followup_dependencies actor source request (pl_db seen)) (\<lambda>deps.
      case digest_of (request\<lparr>fr_dependencies := Some deps\<rparr>) of
        None \<Rightarrow> Inl (Internal ''followup_digest'')
      | Some digest \<Rightarrow>
          Inr (\<lparr>nf_department_id = t_department_id source, nf_owner_user_id = t_owner_user_id source,
                nf_source_task_id = t_id source, nf_source_run_id = run_id, nf_idempotency_key = key,
                nf_request_digest = digest,
                nf_task = \<lparr>nt_owner_user_id = t_owner_user_id source, nt_project_id = t_project_id source,
                  nt_repository_id = t_repository_id source, nt_environment_id = t_environment_id source,
                  nt_assignee_user_id = None, nt_title = title, nt_goal = goal, nt_background = background,
                  nt_acceptance_criteria = acceptance, nt_constraints = constraints, nt_priority = priority,
                  nt_labels = unwrap_or (fr_labels request) [], nt_due_at = fr_due_at request,
                  nt_department_id = t_department_id source, nt_creation_source = ''agent_followup'',
                  nt_source_task_id = Some (t_id source), nt_source_run_id = Some run_id,
                  nt_followup_depth = t_followup_depth source + 1\<rparr>,
                nf_dependencies = requested_rows 0 deps\<rparr>, source))))))"

definition actor_audit :: "actor_context \<Rightarrow> rstr \<Rightarrow> rstr \<Rightarrow> int \<Rightarrow> rstr \<Rightarrow> rstr \<Rightarrow> audit_row" where
  "actor_audit actor action target_type target reason trace =
     \<lparr>a_organization_id = organization_id actor, a_department_id = department_id actor, a_action = action,
      a_target_type = target_type, a_target_id = target, a_reason = reason, a_trace_id = trace\<rparr>"

definition report_followup :: "rstr \<Rightarrow> actor_context \<Rightarrow> task_row \<Rightarrow> int \<Rightarrow> task_row \<Rightarrow> db \<Rightarrow> db" where
  "report_followup trace actor source request_id task db =
     outbox \<lparr>o_organization_id = organization_id actor, o_event_type = ''task.followup.created'',
             o_aggregate_type = ''devrail_task'', o_aggregate_id = t_id task, o_source = ''taskId='' @ show_int (t_id task)\<rparr>
       (record_audit (actor_audit actor ''devrail.task.followup.create'' ''devrail_task'' (t_id task) [] trace)
         (append_task_event (t_organization_id task) (t_id task) ''task.created.from_followup''
             (''followup:'' @ show_int request_id @ '':result'')
           (append_task_event (t_organization_id source) (t_id source) ''task.followup.created''
               (''followup:'' @ show_int request_id @ '':source'') db)))"

definition commit_followup ::
  "(json \<Rightarrow> rstr) \<Rightarrow> timestamp \<Rightarrow> rstr \<Rightarrow> actor_context \<Rightarrow> new_followup \<times> task_row \<Rightarrow> platform \<Rightarrow>
   api_error + platform \<times> int \<times> task_row \<times> bool" where
  "commit_followup column now trace actor prepared p =
     (case prepared of (n, source) \<Rightarrow>
       and_then (map_err followup_error (create_followup_rows column now actor n max_followups_per_run p))
         (\<lambda>(p1, request_id, task, replayed).
           Inr (if replayed then p1 else p1\<lparr>pl_db := report_followup trace actor source request_id task (pl_db p1)\<rparr>,
                request_id, task, replayed)))"

definition create_followup_task ::
  "(followup_request \<Rightarrow> rstr option) \<Rightarrow> (json \<Rightarrow> rstr) \<Rightarrow> timestamp \<Rightarrow> timestamp \<Rightarrow> rstr \<Rightarrow> actor_context \<Rightarrow> int \<Rightarrow>
   followup_request \<Rightarrow> platform \<Rightarrow> platform \<Rightarrow> platform \<times> (api_error + int \<times> task_row \<times> bool)" where
  "create_followup_task digest_of column clock now trace actor run_id request seen p = committed_row p
     (and_then (prepare_followup digest_of clock actor run_id request seen) (\<lambda>prepared.
       commit_followup column now trace actor prepared p))"

definition record_followup_rejection :: "rstr \<Rightarrow> actor_context \<Rightarrow> int \<Rightarrow> rstr \<Rightarrow> platform \<Rightarrow> platform" where
  "record_followup_rejection trace actor run reason p =
     p\<lparr>pl_db := record_audit (actor_audit actor ''devrail.task.followup.reject'' ''devrail_run'' run reason trace) (pl_db p)\<rparr>"

end
