(* ===== verification/Task_Properties.thy ===== *)
theory Task_Properties
  imports Followups
begin

text \<open>
  What the task services keep: edits by users and proposals by agents are admissible steps for the scheduler,
  the repairs and the continuations; a queued task carries a snapshot of itself; the shape of every row.
\<close>

section \<open>Outcomes of the services\<close>

lemma fst_commit: "fst (commit p r f) = (case r of Inl _ \<Rightarrow> p | Inr p' \<Rightarrow> p')"
  by (simp add: commit_def split: sum.splits)

lemma commit_Inr: "commit p r f = (p', Inr a) \<Longrightarrow> r = Inr p' \<and> f p' = Inr a"
  by (simp add: commit_def split: sum.splits)

lemma fst_committed_row: "fst (committed_row p r) = (case r of Inl _ \<Rightarrow> p | Inr (p', _) \<Rightarrow> p')"
  by (simp add: committed_row_def split: sum.splits prod.splits)

lemma committed_row_Inr: "committed_row p r = (p', Inr a) \<longleftrightarrow> r = Inr (p', a)"
  by (auto simp: committed_row_def split: sum.splits)

lemma record_user_audit_Inr:
  "record_user_audit tr actor a ty i p = Inr p' \<Longrightarrow> \<exists>x. p' = p\<lparr>pl_db := record_audit x (pl_db p)\<rparr>"
  by (auto simp: record_user_audit_def split: option.splits)

lemma dispatch_inputs_update: "dispatch_inputs (on_task_update column now u t) = next_inputs u t"
  by (simp add: dispatch_inputs_def on_task_update_def next_inputs_def)

definition revised :: "task_update \<Rightarrow> task_row \<Rightarrow> int" where
  "revised u t = t_revision t + (if next_inputs u t \<noteq> dispatch_inputs t then 1 else 0)"

text \<open>A dispatched task keeps its inputs and its snapshot.\<close>

abbreviation dispatched :: "task_status \<Rightarrow> bool" where
  "dispatched st \<equiv> st \<in> {Task_Queued, Task_Running, Task_AwaitingApproval, Task_ContinuationPending}"

lemma updated_task_Inr:
  assumes "updated_task inp column now u p t = Inr t1"
  shows "t1 = (on_task_update column now u t)\<lparr>t_revision := revised u t\<rparr>"
    and "dispatched (t_status t) \<longrightarrow> next_inputs u t = dispatch_inputs t \<and> dispatch_columns t1 = dispatch_columns t"
    and "task_check t1" and "task_references p t1"
proof -
  obtain t2 where g: "guard_dispatch_snapshot t (on_task_update column now u t) = Inr t2"
    and t1: "t1 = t2" "task_check t2" "task_references p t2"
    using assms unfolding updated_task_def by (auto simp: and_then_Inr_iff split: if_splits option.splits)
  have cols: "dispatch_columns (x\<lparr>t_revision := r\<rparr>) = dispatch_columns x" for x r by (simp add: dispatch_columns_def)
  have rev: "t_revision (on_task_update column now u t) = t_revision t" by (simp add: on_task_update_def)
  from g t1(1) show "t1 = (on_task_update column now u t)\<lparr>t_revision := revised u t\<rparr>"
    using rev [symmetric] by (auto simp: guard_dispatch_snapshot_def dispatch_inputs_update revised_def Let_def split: if_splits)
  from g t1(1) show "dispatched (t_status t) \<longrightarrow> next_inputs u t = dispatch_inputs t \<and> dispatch_columns t1 = dispatch_columns t"
    by (auto simp: guard_dispatch_snapshot_def dispatch_inputs_update Let_def cols split: if_splits)
  show "task_check t1" "task_references p t1" using t1 by simp_all
qed

lemma accept_version_environments:
  "accept_version ser n s = Inr (s', v) \<Longrightarrow> wf_environments s' = wf_environments s"
  by (auto simp: accept_version_def Let_def split: if_splits option.splits)

lemma record_queue_version_Inr:
  assumes "record_queue_version inp now actor u t p = Inr p1"
  obtains wf where "p1 = p\<lparr>pl_workflows := wf\<rparr>" "wf_environments wf = wf_environments (pl_workflows p)"
proof (cases "tu_queue u")
  case None
  with assms that [of "pl_workflows p"] show ?thesis by (simp add: record_queue_version_def)
next
  case (Some a)
  with assms obtain e s where "patched (tu_environment_id u) (t_environment_id t) = Some e"
    and s: "accept_queue_version inp now actor e a (pl_workflows p) = Inr s" "p1 = p\<lparr>pl_workflows := s\<rparr>"
    by (auto simp: record_queue_version_def and_then_Inr_iff split: option.splits)
  from s(1) have "wf_environments s = wf_environments (pl_workflows p)"
    by (auto simp: accept_queue_version_def and_then_Inr_iff map_err_Inr split: option.splits
        dest: accept_version_environments)
  with s(2) that show ?thesis by blast
qed

lemma commit_task_update_Inr:
  assumes "commit_task_update inp column now trace actor project i (u, t0) p = Inr p'"
  obtains wf t t1 x where "wf_environments wf = wf_environments (pl_workflows p)"
    "find (updates_task actor project i u (p\<lparr>pl_workflows := wf\<rparr>)) (tasks (pl_db p)) = Some t"
    "updated_task inp column now u (p\<lparr>pl_workflows := wf\<rparr>) t = Inr t1"
    "p' = p\<lparr>pl_workflows := wf, pl_db := record_audit x (update_tasks (\<lambda>q. t_id q = t_id t) (\<lambda>_. t1) (pl_db p))\<rparr>"
proof -
  obtain p1 p2 where p1: "record_queue_version inp now actor u t0 p = Inr p1"
    and p2: "update_task_row inp column now actor project i u p1 = Inr (p2, True)"
    and p': "record_user_audit trace actor ''devrail.task.update'' ''devrail_task'' i p2 = Inr p'"
    using assms by (auto simp: commit_task_update_def and_then_Inr_iff map_err_Inr split: if_splits)
  from p1 obtain wf where wf: "p1 = p\<lparr>pl_workflows := wf\<rparr>" "wf_environments wf = wf_environments (pl_workflows p)"
    by (rule record_queue_version_Inr)
  from p2 wf(1) obtain t t1 where t: "find (updates_task actor project i u (p\<lparr>pl_workflows := wf\<rparr>)) (tasks (pl_db p)) = Some t"
      "updated_task inp column now u (p\<lparr>pl_workflows := wf\<rparr>) t = Inr t1"
      "p2 = p\<lparr>pl_workflows := wf, pl_db := update_tasks (\<lambda>q. t_id q = t_id t) (\<lambda>_. t1) (pl_db p)\<rparr>"
    by (auto simp: update_task_row_def and_then_Inr_iff split: option.splits)
  from record_user_audit_Inr [OF p'] obtain x where "p' = p2\<lparr>pl_db := record_audit x (pl_db p2)\<rparr>" by blast
  with that [OF wf(2) t(1,2)] t(3) show ?thesis by simp
qed

text \<open>An update either leaves everything as it was or replaces one row.\<close>

lemma update_task_outcome:
  obtains (unchanged) "fst (update_task inp column now trace actor project i req seen p) = p"
  | (changed) u t0 wf t t1 x where
    "prepare_task_update inp actor project i req seen = Inr (u, t0)"
    "wf_environments wf = wf_environments (pl_workflows p)"
    "t \<in> set (tasks (pl_db p))" "updates_task actor project i u (p\<lparr>pl_workflows := wf\<rparr>) t"
    "updated_task inp column now u (p\<lparr>pl_workflows := wf\<rparr>) t = Inr t1"
    "fst (update_task inp column now trace actor project i req seen p) =
       p\<lparr>pl_workflows := wf, pl_db := record_audit x (update_tasks (\<lambda>q. t_id q = t_id t) (\<lambda>_. t1) (pl_db p))\<rparr>"
proof (cases "and_then (prepare_task_update inp actor project i req seen) (\<lambda>prepared.
       commit_task_update inp column now trace actor project i prepared p)")
  case (Inl e)
  then show ?thesis using unchanged by (simp add: update_task_def fst_commit)
next
  case (Inr p')
  then obtain u t0 where pr: "prepare_task_update inp actor project i req seen = Inr (u, t0)"
    and c: "commit_task_update inp column now trace actor project i (u, t0) p = Inr p'"
    by (auto simp: and_then_Inr_iff)
  from c show ?thesis
  proof (rule commit_task_update_Inr)
    fix wf t t1 x assume env: "wf_environments wf = wf_environments (pl_workflows p)"
      and f: "find (updates_task actor project i u (p\<lparr>pl_workflows := wf\<rparr>)) (tasks (pl_db p)) = Some t"
      and t1: "updated_task inp column now u (p\<lparr>pl_workflows := wf\<rparr>) t = Inr t1"
      and p': "p' = p\<lparr>pl_workflows := wf, pl_db := record_audit x (update_tasks (\<lambda>q. t_id q = t_id t) (\<lambda>_. t1) (pl_db p))\<rparr>"
    have "fst (update_task inp column now trace actor project i req seen p) = p'"
      using Inr by (simp add: update_task_def fst_commit)
    then show ?thesis using changed [OF pr env _ _ t1, of x] find_SomeD [OF f] p' by simp
  qed
qed

section \<open>The services as steps of the whole system\<close>

inductive task_api :: "platform \<Rightarrow> platform \<Rightarrow> bool" where
  create: "task_api p (fst (create_task column now trace actor project req p))"
| update: "task_api p (fst (update_task inp column now trace actor project i ureq seen p))"
| followup: "task_api p (fst (create_followup_task digest_of column clock now trace actor run freq seen p))"
| rejection: "task_api p (record_followup_rejection trace actor run reason p)"

lemma insert_task_Inr:
  assumes "insert_task column now actor n p = Inr (p', t)"
  shows "t = draft_row column now (organization_id actor) (next_serial t_id (tasks (pl_db p))) n"
    and "p' = p\<lparr>pl_db := (pl_db p)\<lparr>tasks := tasks (pl_db p) @ [t]\<rparr>\<rparr>" and "task_check t" and "task_references p t"
  using assms by (auto simp: insert_task_def Let_def split: if_splits)

lemma create_task_outcome:
  obtains (unchanged) "fst (create_task column now trace actor project req p) = p"
  | (created) n t x where "insert_task column now actor n p = Inr (p\<lparr>pl_db := (pl_db p)\<lparr>tasks := tasks (pl_db p) @ [t]\<rparr>\<rparr>, t)"
    "text_field (ct_title req) ''task_title'' 200 = Inr (nt_title n)"
    "text_field (ct_goal req) ''task_goal'' 4000 = Inr (nt_goal n)" "nt_followup_depth n = 0"
    "fst (create_task column now trace actor project req p) =
       p\<lparr>pl_db := record_audit x ((pl_db p)\<lparr>tasks := tasks (pl_db p) @ [t]\<rparr>)\<rparr>"
proof (cases "snd (create_task column now trace actor project req p)")
  case (Inl e)
  then show ?thesis using unchanged by (auto simp: create_task_def committed_row_def split: sum.splits)
next
  case (Inr t)
  then obtain p' where c: "create_task column now trace actor project req p = (p', Inr t)" by (metis prod.collapse)
  from c obtain n p1 where n: "insert_task column now actor n p = Inr (p1, t)"
      "text_field (ct_title req) ''task_title'' 200 = Inr (nt_title n)"
      "text_field (ct_goal req) ''task_goal'' 4000 = Inr (nt_goal n)" "nt_followup_depth n = 0"
    and a: "record_user_audit trace actor ''devrail.task.create'' ''devrail_task'' (t_id t) p1 = Inr p'"
    unfolding create_task_def committed_row_Inr
    by (force simp: and_then_Inr_iff map_err_Inr split: if_splits)
  have p1: "p1 = p\<lparr>pl_db := (pl_db p)\<lparr>tasks := tasks (pl_db p) @ [t]\<rparr>\<rparr>" by (rule insert_task_Inr(2) [OF n(1)])
  from record_user_audit_Inr [OF a] obtain x where "p' = p1\<lparr>pl_db := record_audit x (pl_db p1)\<rparr>" by blast
  with c have "fst (create_task column now trace actor project req p) =
       p\<lparr>pl_db := record_audit x ((pl_db p)\<lparr>tasks := tasks (pl_db p) @ [t]\<rparr>)\<rparr>" by (simp add: p1)
  with created [OF n(1) [unfolded p1] n(2-4)] show ?thesis by blast
qed

lemma create_followup_rows_Inr:
  assumes "create_followup_rows column now actor n k p = Inr (p', rid, t, replayed)"
  shows "(if replayed then p' = p else insert_followup column now actor n p = Inr (p', rid, t, False)
     \<and> int (length (followups_of (organization_id actor) (nf_source_run_id n) p)) < k)"
  using assms by (auto simp: create_followup_rows_def replay_followup_def insert_followup_def Let_def and_then_Inr_iff
      split: if_splits option.splits)

lemma insert_followup_Inr:
  assumes "insert_followup column now actor n p = Inr (p', rid, t, replayed)"
  obtains ds f where "insert_task column now actor (nf_task n) (p\<lparr>pl_followups := pl_followups p @ [f]\<rparr>) =
       Inr (p\<lparr>pl_followups := pl_followups p @ [f], pl_db := (pl_db p)\<lparr>tasks := tasks (pl_db p) @ [t]\<rparr>\<rparr>, t)"
    "insert_dependencies (organization_id actor) (nf_department_id n) (nf_owner_user_id n)
       (map (\<lambda>d. d\<lparr>nd_task_id := t_id t\<rparr>) (nf_dependencies n)) ((pl_db p)\<lparr>tasks := tasks (pl_db p) @ [t]\<rparr>) =
       Inr ((pl_db p)\<lparr>tasks := tasks (pl_db p) @ [t], dependencies := dependencies (pl_db p) @ ds\<rparr>)"
    "pl_db p' = (pl_db p)\<lparr>tasks := tasks (pl_db p) @ [t], dependencies := dependencies (pl_db p) @ ds\<rparr>"
    "map (\<lambda>d. (d_organization_id d, d_task_id d, d_prerequisite_task_id d)) ds =
       map (\<lambda>d. (organization_id actor, t_id t, nd_prerequisite_task_id d)) (nf_dependencies n)"
    "pl_followups p' = pl_followups p @ [f\<lparr>fu_status := ''succeeded'', fu_result_task_id := Some (t_id t),
       fu_completed_at := Some now\<rparr>]" "rid = fu_id f" "same_followup actor n f" "fu_request_digest f = nf_request_digest n"
    "p' = p\<lparr>pl_db := pl_db p', pl_followups := pl_followups p'\<rparr>" "\<not> replayed"
proof -
  define f where "f = \<lparr>fu_id = next_serial fu_id (pl_followups p), fu_organization_id = organization_id actor,
                     fu_department_id = nf_department_id n, fu_owner_user_id = nf_owner_user_id n,
                     fu_source_task_id = nf_source_task_id n, fu_source_run_id = nf_source_run_id n,
                     fu_idempotency_key = nf_idempotency_key n, fu_request_digest = nf_request_digest n,
                     fu_status = ''pending'', fu_result_task_id = None, fu_completed_at = None\<rparr>"
  from assms obtain p1 db where i: "insert_task column now actor (nf_task n) (p\<lparr>pl_followups := pl_followups p @ [f]\<rparr>) = Inr (p1, t)"
    and d: "insert_dependencies (organization_id actor) (nf_department_id n) (nf_owner_user_id n)
       (map (\<lambda>d. d\<lparr>nd_task_id := t_id t\<rparr>) (nf_dependencies n)) (pl_db p1) = Inr db"
    and p': "p' = p1\<lparr>pl_db := db, pl_followups := update_where
                 (\<lambda>g. fu_id g = fu_id f \<and> fu_organization_id g = organization_id actor)
                 (\<lambda>g. g\<lparr>fu_status := ''succeeded'', fu_result_task_id := Some (t_id t), fu_completed_at := Some now\<rparr>)
                 (pl_followups p1)\<rparr>" "rid = fu_id f" "\<not> replayed"
    by (auto simp: insert_followup_def f_def Let_def and_then_Inr_iff split: if_splits)
  note p1 = insert_task_Inr(2) [OF i, simplified]
  from insert_dependencies_outcome [OF d] obtain ds where ds: "db = (pl_db p1)\<lparr>dependencies := dependencies (pl_db p1) @ ds\<rparr>"
      "map (\<lambda>d. (d_organization_id d, d_task_id d, d_prerequisite_task_id d)) ds =
       map (\<lambda>d. (organization_id actor, t_id t, nd_prerequisite_task_id d)) (nf_dependencies n)"
    by (auto simp: comp_def)
  have fresh: "fu_id g \<noteq> fu_id f" if "g \<in> set (pl_followups p)" for g
    using next_serial_greater [OF that, of fu_id] by (simp add: f_def)
  have fs: "pl_followups p' = pl_followups p @ [f\<lparr>fu_status := ''succeeded'', fu_result_task_id := Some (t_id t),
       fu_completed_at := Some now\<rparr>]"
    using fresh by (auto simp: p' p1 update_where_def f_def intro!: map_idI)
  show thesis
    by (rule that [of f ds]) (use i d p1 p' ds fs in \<open>simp_all add: f_def same_followup_def\<close>)
qed

text \<open>Rows under repair or waiting for a continuation.\<close>

abbreviation held :: "task_status \<Rightarrow> bool" where
  "held st \<equiv> st \<in> {Task_RepairPending, Task_RepairRunning, Task_ContinuationPending}"

definition leaves_held_tasks :: "db \<Rightarrow> db \<Rightarrow> bool" where
  "leaves_held_tasks db db' = (keys_ok db'
     \<and> (\<forall>t \<in> set (tasks db). held (t_status t) \<longrightarrow>
          (\<exists>u \<in> set (tasks db'). t_id u = t_id t \<and> t_organization_id u = t_organization_id t \<and> t_status u = t_status t
             \<and> t_current_repair_request_id u = t_current_repair_request_id t)))"

lemma leaves_held_undisturbed:
  "leaves_held_tasks db db' \<Longrightarrow> undisturbed db db' \<and> waiting_undisturbed db db'"
  unfolding leaves_held_tasks_def undisturbed_def waiting_undisturbed_def by fastforce

lemma leaves_held_more:
  assumes "keys_ok db" and "tasks db' = tasks db @ ts" and "runs db' = runs db" and "distinct (map t_id (tasks db @ ts))"
  shows "leaves_held_tasks db db'"
  using assms by (auto simp: leaves_held_tasks_def keys_ok_def)

lemma serial_fresh: "keys_ok db \<Longrightarrow> t_id t = next_serial t_id (tasks db) \<Longrightarrow> distinct (map t_id (tasks db @ [t]))"
  using next_serial_greater [of _ "tasks db" t_id] by (fastforce simp: keys_ok_def)

lemma held_transition: "held st \<Longrightarrow> transition_permitted st next \<Longrightarrow> next = None \<or> next = Some st"
  by (auto simp: transition_permitted_def split: option.splits)

lemma updated_task_keeps:
  assumes "updated_task inp column now u p t = Inr t1"
  shows "t_id t1 = t_id t" and "t_organization_id t1 = t_organization_id t" and "t_project_id t1 = t_project_id t"
    and "t_current_repair_request_id t1 = t_current_repair_request_id t" and "t_status t1 = unwrap_or (tu_status u) (t_status t)"
    and "t_scheduler_attempt t1 = t_scheduler_attempt t" and "t_followup_depth t1 = t_followup_depth t"
    and "t_source_task_id t1 = t_source_task_id t" and "t_owner_user_id t1 = t_owner_user_id t"
    and "t_department_id t1 = t_department_id t"
  by (simp_all add: updated_task_Inr(1) [OF assms] on_task_update_def)

lemma tasks_replaced:
  assumes "distinct (map t_id (tasks db))" and "t \<in> set (tasks db)"
  shows "update_where (\<lambda>q. t_id q = t_id t) (\<lambda>_. t1) (tasks db) = map (\<lambda>q. if q = t then t1 else q) (tasks db)"
proof -
  have "t_id q = t_id t \<longleftrightarrow> q = t" if "q \<in> set (tasks db)" for q
    using assms that by (auto simp: distinct_map dest: inj_onD)
  then show ?thesis by (simp add: update_where_def)
qed

lemma leaves_held_update:
  assumes "keys_ok db" and "t \<in> set (tasks db)" and "transition_permitted (t_status t) (tu_status u)"
    and "updated_task inp column now u p t = Inr t1"
    and "tasks db' = update_where (\<lambda>q. t_id q = t_id t) (\<lambda>_. t1) (tasks db)" and "runs db' = runs db"
  shows "leaves_held_tasks db db'"
proof -
  note k = updated_task_keeps [OF assms(4)]
  have ts: "tasks db' = map (\<lambda>q. if q = t then t1 else q) (tasks db)"
    using tasks_replaced [OF _ assms(2)] assms(1,5) by (simp add: keys_ok_def)
  have "map t_id (tasks db') = map t_id (tasks db)" by (simp add: ts k)
  then have "keys_ok db'" using assms(1,6) by (simp add: keys_ok_def)
  moreover have "\<exists>u \<in> set (tasks db'). t_id u = t_id q \<and> t_organization_id u = t_organization_id q \<and> t_status u = t_status q
             \<and> t_current_repair_request_id u = t_current_repair_request_id q"
    if "q \<in> set (tasks db)" "held (t_status q)" for q
  proof (cases "q = t")
    case True
    have "tu_status u = None \<or> tu_status u = Some (t_status t)"
      by (rule held_transition) (use that True assms(3) in simp_all)
    then have "t_status t1 = t_status t" by (auto simp: k unwrap_or_def)
    with True assms(2) ts show ?thesis by (intro bexI [of _ t1]) (auto simp: k image_iff)
  next
    case False
    with that ts show ?thesis by (intro bexI [of _ q]) auto
  qed
  ultimately show ?thesis by (simp add: leaves_held_tasks_def)
qed

lemma create_followup_outcome:
  obtains (unchanged) "fst (create_followup_task digest_of column clock now trace actor run freq seen p) = p"
  | (created) n source p1 rid t where
    "prepare_followup digest_of clock actor run freq seen = Inr (n, source)"
    "create_followup_rows column now actor n max_followups_per_run p = Inr (p1, rid, t, False)"
    "insert_followup column now actor n p = Inr (p1, rid, t, False)"
    "fst (create_followup_task digest_of column clock now trace actor run freq seen p) =
       p1\<lparr>pl_db := report_followup trace actor source rid t (pl_db p1)\<rparr>"
proof (cases "and_then (prepare_followup digest_of clock actor run freq seen) (\<lambda>prepared.
       commit_followup column now trace actor prepared p)")
  case (Inl e)
  then show ?thesis using unchanged by (simp add: create_followup_task_def fst_committed_row)
next
  case (Inr r)
  then obtain n source p1 rid t replayed where prep: "prepare_followup digest_of clock actor run freq seen = Inr (n, source)"
    and rows: "create_followup_rows column now actor n max_followups_per_run p = Inr (p1, rid, t, replayed)"
    and r: "r = (if replayed then p1 else p1\<lparr>pl_db := report_followup trace actor source rid t (pl_db p1)\<rparr>, rid, t, replayed)"
    by (auto simp: and_then_Inr_iff commit_followup_def map_err_Inr)
  have eq: "fst (create_followup_task digest_of column clock now trace actor run freq seen p) = fst r"
    using Inr by (simp add: create_followup_task_def fst_committed_row split_beta)
  show ?thesis
  proof (cases replayed)
    case True
    with create_followup_rows_Inr [OF rows] eq r show ?thesis using unchanged by simp
  next
    case False
    then have ins: "insert_followup column now actor n p = Inr (p1, rid, t, False)"
      using create_followup_rows_Inr [OF rows] by simp
    show ?thesis by (rule created [OF prep _ ins]) (use rows False eq r in simp_all)
  qed
qed

lemma report_followup_frame [simp]:
  "tasks (report_followup trace actor source rid t db) = tasks db"
  "runs (report_followup trace actor source rid t db) = runs db"
  "dependencies (report_followup trace actor source rid t db) = dependencies db"
  by (simp_all add: report_followup_def)

lemma task_api_leaves_held:
  assumes "task_api p p'" and "keys_ok (pl_db p)"
  shows "leaves_held_tasks (pl_db p) (pl_db p')"
  using assms
proof induction
  case (create p column now trace actor project req)
  show ?case
  proof (rule create_task_outcome [of column now trace actor project req p], goal_cases)
    case 1
    with create show ?case by (simp add: leaves_held_more [of _ _ "[]"] keys_ok_def)
  next
    case (2 n t x)
    have "t_id t = next_serial t_id (tasks (pl_db p))" using insert_task_Inr(1) [OF 2(1)] by (simp add: draft_row_def)
    from serial_fresh [OF create this] show ?case unfolding 2(5) by (intro leaves_held_more [OF create, of _ "[t]"]) simp_all
  qed
next
  case (update p inp column now trace actor project i ureq seen)
  show ?case
  proof (rule update_task_outcome [of inp column now trace actor project i ureq seen p], goal_cases)
    case 1
    with update show ?case by (simp add: leaves_held_more [of _ _ "[]"] keys_ok_def)
  next
    case (2 u t0 wf t t1 x)
    show ?case unfolding 2(6)
      by (rule leaves_held_update [OF update 2(3) _ 2(5)]) (use 2(4) in \<open>simp_all add: updates_task_def\<close>)
  qed
next
  case (followup p digest_of column clock now trace actor run freq seen)
  show ?case
  proof (rule create_followup_outcome [of digest_of column clock now trace actor run freq seen p], goal_cases)
    case 1
    with followup show ?case by (simp add: leaves_held_more [of _ _ "[]"] keys_ok_def)
  next
    case (2 n source p1 rid t)
    from 2(3) show ?case
    proof (rule insert_followup_Inr, goal_cases)
      case (1 ds f)
      have "t_id t = next_serial t_id (tasks (pl_db p))" using insert_task_Inr(1) [OF 1(1)] by (simp add: draft_row_def)
      from serial_fresh [OF followup this] show ?case unfolding 2(4)
        by (intro leaves_held_more [OF followup, of _ "[t]"]) (simp_all add: 1(3))
    qed
  qed
next
  case (rejection p trace actor run reason)
  then show ?case by (simp add: record_followup_rejection_def leaves_held_more [of _ _ "[]"] keys_ok_def)
qed

text \<open>C24. Users and agents cannot break a repair or a continuation through the task API: creating or editing a
  task, and proposing a follow-up, whatever the request and whatever state it was prepared on, is a step the
  joint state machine of scheduler, repairs and continuations allows, so that everything proved of that
  machine holds of the system with its API.\<close>

theorem task_api_is_a_joint_step:
  assumes "task_api p p'" and "keys_ok (pl_db p)" and "base (repairs_part j) = pl_db p"
  shows "joint_step sv j (j\<lparr>repairs_part := (repairs_part j)\<lparr>base := pl_db p'\<rparr>\<rparr>)"
proof -
  have u: "undisturbed (base (repairs_part j)) (pl_db p')" "waiting_undisturbed (base (repairs_part j)) (pl_db p')"
    using leaves_held_undisturbed [OF task_api_leaves_held [OF assms(1,2)]] assms(3) by simp_all
  show ?thesis
    using joint_step.elsewhere [OF u, of sv "task_workspaces (repairs_part j)"] by simp
qed

section \<open>The snapshot of a queued task\<close>

definition row_draft :: "task_row \<Rightarrow> int \<Rightarrow> queue_draft" where
  "row_draft t environment =
     \<lparr>qd_project_id = t_project_id t, qd_repository_id = t_repository_id t, qd_environment_id = environment,
      qd_task_id = t_id t, qd_revision = t_revision t, qd_title = t_title t, qd_goal = t_goal t,
      qd_background = t_background t, qd_acceptance_criteria = t_acceptance_criteria t,
      qd_constraints = t_constraints t, qd_labels = J_Array (map J_String (t_labels t))\<rparr>"

text \<open>The row's snapshot columns are those of its own draft in the environment, with the workflow \<open>w\<close>.\<close>

definition describes_itself ::
  "reload_input \<Rightarrow> (json \<Rightarrow> rstr) \<Rightarrow> workflow_environment \<Rightarrow> workflow_snapshot \<Rightarrow> rendered_workflow \<Rightarrow> task_row \<Rightarrow> bool" where
  "describes_itself inp column env w rendered t =
     (let snapshot = task_dispatch_snapshot (ri_engine inp) (task_snapshot (row_draft t (e_id env)) env) (t_revision t) rendered
      in t_environment_id t = Some (e_id env) \<and> t_dispatch_snapshot t = column snapshot
         \<and> snapshot_digest (ri_engine inp) snapshot = Inr (t_dispatch_snapshot_digest t)
         \<and> t_workflow_source t = workflow_source_as_str (ws_source w) \<and> t_workflow_version t = ws_declared_version w
         \<and> t_workflow_digest t = ws_digest w \<and> t_scheduler_max_attempts t = rt_max_attempts (wc_retry (ws_config w)))"

lemma prepare_task_update_Inr:
  assumes "prepare_task_update inp actor project i req seen = Inr (u', t0)"
  obtains u a where "checked_task_update req = Inr u" "\<not> empty_task_update u" "find_task actor (pl_db seen) project i = Some t0"
    "\<And>st. tu_status u = Some st \<Longrightarrow> task_transition_allowed (t_status t0) st"
    "prepare_queue inp actor project i u t0 seen = Inr a" "u' = u\<lparr>tu_queue := a\<rparr>"
proof -
  obtain u t rel a where u: "checked_task_update req = Inr u" "\<not> empty_task_update u"
    and t: "get_task actor project i seen = Inr (t, rel)"
      "\<not> (case tu_status u of None \<Rightarrow> False | Some st \<Rightarrow> \<not> task_transition_allowed (t_status t) st)"
    and a: "prepare_queue inp actor project i u t seen = Inr a" "u' = u\<lparr>tu_queue := a\<rparr>" "t0 = t"
    using assms unfolding prepare_task_update_def and_then_Inr_iff guard_Inr_iff split_beta prod.inject sum.inject
    by (metis prod.collapse)
  have "find_task actor (pl_db seen) project i = Some t0"
    using t(1) a(3) by (auto simp: get_task_def split: option.splits)
  moreover have "task_transition_allowed (t_status t0) st" if "tu_status u = Some st" for st
    using t(2) a(3) that by simp
  ultimately show ?thesis using that [OF u _ _ _ a(2)] a(1,3) by blast
qed

lemma sum_case_InrE:
  assumes "(case r of Inl e \<Rightarrow> Inl (f e) | Inr a \<Rightarrow> g a) = Inr b"
  obtains a where "r = Inr a" "g a = Inr b"
  using assms by (cases r) simp_all

lemma build_queue_task_artifacts_Inr:
  assumes "build_queue_task_artifacts inp actor db environment repository d s = Inr a"
  obtains env rendered snapshot where "environment = Inr env" "e_enabled env"
    "snapshot = task_dispatch_snapshot (ri_engine inp) (task_snapshot d env) (qd_revision d) rendered"
    "qa_dispatch_snapshot a = snapshot" "snapshot_digest (ri_engine inp) snapshot = Inr (qa_dispatch_snapshot_digest a)"
    "queue_workflow inp actor db env s = Inr (qa_workflow a)"
proof -
  obtain env repo w where env: "environment = Inr env" "e_enabled env" "queue_workflow inp actor db env s = Inr w"
    and k: "(case render_workflow (ri_engine inp) w
              \<lparr>tc_task_id = qd_task_id d, tc_title = qd_title d, tc_goal = qd_goal d,
               tc_background = qd_background d, tc_acceptance_criteria = qd_acceptance_criteria d,
               tc_constraints = qd_constraints d, tc_repository_name = map_option fst repo,
               tc_default_branch = map_option snd repo, tc_environment_name = e_name env,
               tc_workspace_root = e_workspace_root env\<rparr> of
         Inl e \<Rightarrow> Inl (Validation (we_message e))
       | Inr rendered \<Rightarrow>
           let snapshot = task_dispatch_snapshot (ri_engine inp) (task_snapshot d env) (qd_revision d) rendered
           in (case snapshot_digest (ri_engine inp) snapshot of
                 Inl e \<Rightarrow> Inl (Validation (we_message e))
               | Inr digest \<Rightarrow>
                   Inr \<lparr>qa_workflow = w, qa_dispatch_snapshot = snapshot, qa_dispatch_snapshot_digest = digest,
                        qa_department_id = e_department_id env, qa_owner_user_id = e_owner_user_id env\<rparr>)) = Inr a"
    using assms unfolding build_queue_task_artifacts_def and_then_Inr_iff guard_Inr_iff not_not by blast
  from k obtain rendered where "qa_dispatch_snapshot a = task_dispatch_snapshot (ri_engine inp) (task_snapshot d env) (qd_revision d) rendered"
      "snapshot_digest (ri_engine inp) (qa_dispatch_snapshot a) = Inr (qa_dispatch_snapshot_digest a)" "qa_workflow a = w"
    unfolding Let_def by (elim sum_case_InrE) auto
  with that [OF env(1,2) refl] env(3) show ?thesis by simp
qed

lemma checked_status: "checked_task_update req = Inr u \<Longrightarrow> ut_status req = Some v \<Longrightarrow> task_status_of v = Inr st \<Longrightarrow> tu_status u = Some st"
  by (auto simp: checked_task_update_def transpose_map_def and_then_Inr_iff split: option.splits)

lemma checked_unqueued: "checked_task_update req = Inr u \<Longrightarrow> tu_queue u = None"
  by (auto simp: checked_task_update_def and_then_Inr_iff)

lemma update_draft_row:
  assumes "updated_task inp column now (u\<lparr>tu_queue := a\<rparr>) p t = Inr t1"
    and "dispatch_inputs t = dispatch_inputs t0" and "t_revision t = t_revision t0" and "t_labels t = t_labels t0"
    and "t_id t = i" and "t_project_id t = project"
  shows "row_draft t1 e = update_draft project i e u t0"
proof -
  have n: "next_inputs u t = next_inputs u t0" "next_inputs (u\<lparr>tu_queue := a\<rparr>) t = next_inputs u t"
    using assms(2) by (simp_all add: next_inputs_def dispatch_inputs_def)
  show ?thesis
    using assms(2-6) n
    by (simp add: updated_task_Inr(1) [OF assms(1)] row_draft_def update_draft_def on_task_update_def revised_def next_inputs_def
        dispatch_inputs_def)
qed

text \<open>The row a successful update answers with is the row it wrote.\<close>

lemma update_task_answer:
  assumes "update_task inp column now trace actor project i req seen p = (p', Inr (t', rel))" and "keys_ok (pl_db p)"
  obtains u t0 wf t where "prepare_task_update inp actor project i req seen = Inr (u, t0)"
    "find_by_id (pl_db p) i = Some t" "updates_task actor project i u (p\<lparr>pl_workflows := wf\<rparr>) t"
    "updated_task inp column now u (p\<lparr>pl_workflows := wf\<rparr>) t = Inr t'"
    "tasks (pl_db p') = map (\<lambda>q. if q = t then t' else q) (tasks (pl_db p))"
    "wf_environments wf = wf_environments (pl_workflows p)"
proof -
  from commit_Inr [OF assms(1) [unfolded update_task_def]] obtain u t0 where
    pr: "prepare_task_update inp actor project i req seen = Inr (u, t0)"
    and c: "commit_task_update inp column now trace actor project i (u, t0) p = Inr p'"
    and g: "get_task actor project i p' = Inr (t', rel)"
    by (auto simp: and_then_Inr_iff)
  from c show thesis
  proof (rule commit_task_update_Inr, goal_cases)
    case (1 wf t t1 x)
    note f = find_SomeD [OF 1(2)]
    have id: "t_id t = i" using f by (simp add: updates_task_def)
    have ts: "tasks (pl_db p') = map (\<lambda>q. if q = t then t1 else q) (tasks (pl_db p))"
      using tasks_replaced [of "pl_db p" t t1] f assms(2) by (simp add: 1(4) keys_ok_def)
    have "t' \<in> set (tasks (pl_db p'))" "t_id t' = i"
      using g find_task_Some by (fastforce simp: get_task_def split: option.splits)+
    moreover have "q = t" if "q \<in> set (tasks (pl_db p))" "t_id q = t_id t" for q
      using that f assms(2) by (auto simp: keys_ok_def distinct_map dest: inj_onD)
    ultimately have "t' = t1" using ts id by auto
    with that [OF pr _ _ _ _ 1(1), of t] f 1(3) ts id assms(2) show ?case by (simp add: find_by_id_mem)
  qed
qed

text \<open>C25. A queued task carries a snapshot of itself: when a task is put into the queue and nobody edited it
  between the service's reads and its transaction, the stored dispatch snapshot is the one made of the
  row's own title, goal, background, criteria, constraints, labels and revision in its environment, its digest is
  the stored digest, and the workflow columns and the limit of attempts are those of the workflow that was
  loaded for the environment.\<close>

theorem queued_task_describes_itself:
  assumes "update_task inp column now trace actor project i req seen p = (p', Inr (t', rel))" and "keys_ok (pl_db p)"
    and "ut_status req = Some ''queued''" and "find_task actor (pl_db seen) project i = Some t0" and "t_status t0 \<noteq> Task_Queued"
    and "find_by_id (pl_db p) i = Some t" and "dispatch_inputs t = dispatch_inputs t0" and "t_revision t = t_revision t0"
    and "t_labels t = t_labels t0"
  shows "t_status t' = Task_Queued \<and> (\<exists>env w rendered. get_environment actor project (e_id env) seen = Inr env \<and> e_enabled env
    \<and> queue_workflow inp actor (pl_db seen) env (pl_workflows seen) = Inr w \<and> describes_itself inp column env w rendered t')"
  using assms(1,2)
proof (rule update_task_answer)
  fix u' t0' wf t2 assume pr: "prepare_task_update inp actor project i req seen = Inr (u', t0')"
    and t2: "find_by_id (pl_db p) i = Some t2" "updates_task actor project i u' (p\<lparr>pl_workflows := wf\<rparr>) t2"
      "updated_task inp column now u' (p\<lparr>pl_workflows := wf\<rparr>) t2 = Inr t'"
  from pr obtain u a where u: "checked_task_update req = Inr u" "find_task actor (pl_db seen) project i = Some t0'"
      "prepare_queue inp actor project i u t0' seen = Inr a" "u' = u\<lparr>tu_queue := a\<rparr>"
    by (rule prepare_task_update_Inr)
  have [simp]: "t2 = t" "t0' = t0" using t2(1) assms(6) u(2) assms(4) by simp_all
  have st: "tu_status u = Some Task_Queued"
    by (rule checked_status [OF u(1) assms(3)]) (simp add: task_status_of_def)
  with u(3) assms(5) obtain e b where e: "patched (tu_environment_id u) (t_environment_id t0) = Some e" "a = Some b"
    and b: "build_queue_task_artifacts inp actor (pl_db seen) (get_environment actor project e seen)
       (repository_name_branch actor project seen) (update_draft project i e u t0) (pl_workflows seen) = Inr b"
    by (auto simp: prepare_queue_def and_then_Inr_iff split: option.splits)
  from b show ?thesis
  proof (rule build_queue_task_artifacts_Inr)
    fix env rendered snapshot assume env: "get_environment actor project e seen = Inr env" "e_enabled env"
      and snap: "snapshot = task_dispatch_snapshot (ri_engine inp) (task_snapshot (update_draft project i e u t0) env)
          (qd_revision (update_draft project i e u t0)) rendered"
      "qa_dispatch_snapshot b = snapshot" "snapshot_digest (ri_engine inp) snapshot = Inr (qa_dispatch_snapshot_digest b)"
      and w: "queue_workflow inp actor (pl_db seen) env (pl_workflows seen) = Inr (qa_workflow b)"
    have id: "e_id env = e"
      using env(1) by (auto simp: get_environment_def find_environment_row_def dest: find_SomeD split: option.splits)
    have d: "row_draft t' x = update_draft project i x u t0" for x
      by (rule update_draft_row [OF t2(3) [unfolded u(4)]]) (use assms(7-9) t2(2) in \<open>simp_all add: updates_task_def\<close>)
    have rev: "t_revision t' = qd_revision (update_draft project i e u t0)"
      using arg_cong [OF d, of qd_revision] by (simp add: row_draft_def)
    have env': "t_environment_id t' = Some e"
      using e(1) assms(7) by (simp add: updated_task_Inr(1) [OF t2(3)] on_task_update_def u(4) dispatch_inputs_def)
    have "t_status t' = Task_Queued"
      using st by (simp add: updated_task_keeps(5) [OF t2(3)] u(4) unwrap_or_def)
    moreover have "describes_itself inp column env (qa_workflow b) rendered t'"
      using snap env' d rev id st
      by (simp add: describes_itself_def Let_def updated_task_Inr(1) [OF t2(3)] on_task_update_def queue_column_def u(4) e(2) unwrap_or_def)
    ultimately show ?thesis using env id w by blast
  qed
qed

text \<open>A small installation: one project and environment, one user, and one draft. The stored text of a
  snapshot is its title.\<close>

definition example_column :: "json \<Rightarrow> rstr" where
  "example_column j = (case Option.bind (json_get j ''title'') as_str of None \<Rightarrow> [] | Some title \<Rightarrow> title)"

definition example_new_task :: new_task where
  "example_new_task =
     \<lparr>nt_owner_user_id = 1, nt_project_id = 1, nt_repository_id = None, nt_environment_id = Some 1,
      nt_assignee_user_id = None, nt_title = ''old'', nt_goal = ''goal'', nt_background = None,
      nt_acceptance_criteria = None, nt_constraints = None, nt_priority = Normal, nt_labels = [], nt_due_at = None,
      nt_department_id = None, nt_creation_source = ''manual'', nt_source_task_id = None, nt_source_run_id = None,
      nt_followup_depth = 0\<rparr>"

definition example_draft :: task_row where
  "example_draft = draft_row example_column 0 1 1 example_new_task"

definition example_project :: project_row where
  "example_project =
     \<lparr>p_id = 1, p_organization_id = 1, p_department_id = None, p_owner_user_id = 1, p_slug = ''core'', p_name = ''Core'',
      p_description = None, p_status = ''active'', p_default_repository_id = None, p_default_environment_id = None,
      p_notification_policy = J_Object [], p_quality_gate_template = J_Object [], p_created_at = 0, p_updated_at = 0,
      p_archived_at = None\<rparr>"

definition example_platform :: "task_row list \<Rightarrow> run_row list \<Rightarrow> platform" where
  "example_platform ts rs =
     \<lparr>pl_db = (example_db ts rs)\<lparr>environments := [environment_row.truncate example_wf_environment]\<rparr>,
      pl_workflows = example_versions [], pl_projects = [example_project], pl_repositories = [],
      pl_users = [\<lparr>u_id = 1, u_organization_id = 1, u_department_id = None, u_deleted_at = None\<rparr>], pl_members = [],
      pl_followups = []\<rparr>"

definition no_change :: update_task_request where
  "no_change =
     \<lparr>ut_title = None, ut_goal = None, ut_background = Patch_Missing, ut_acceptance_criteria = Patch_Missing,
      ut_constraints = Patch_Missing, ut_priority = None, ut_status = None, ut_assignee_user_id = Patch_Missing,
      ut_labels = None, ut_due_at = Patch_Missing, ut_repository_id = Patch_Missing, ut_environment_id = Patch_Missing\<rparr>"

abbreviation example_edit :: "update_task_request \<Rightarrow> platform \<Rightarrow> platform \<Rightarrow> platform \<times> (api_error + task_row \<times> task_relations_view)" where
  "example_edit \<equiv> update_task (Reloader.example_input example_config) example_column 5 ''t'' example_wf_actor 1 1"

text \<open>The snapshot can be stale: the check of an edit and the snapshot of a task to be queued are made
  before the transaction, and nothing in the transaction compares the revision. When a title is changed by
  one request between the reads and the transaction of a second one that queues the task, the task ends up
  queued with the new title and the snapshot of the old one.\<close>

theorem renamed_while_queueing_keeps_old_snapshot:
  "let p0 = example_platform [example_draft] [];
       p1 = fst (example_edit (no_change\<lparr>ut_title := Some ''new''\<rparr>) p0 p0);
       p2 = fst (example_edit (no_change\<lparr>ut_status := Some ''queued''\<rparr>) p0 p1)
   in map (\<lambda>t. (t_title t, t_status t, t_revision t, t_dispatch_snapshot t)) (tasks (pl_db p2)) = [(''new'', Task_Queued, 2, ''old'')]"
  by code_simp

lemma example_platform_keys: "keys_ok (pl_db (example_platform [example_draft] []))"
  by code_simp

theorem queued_task_describes_itself_witness:
  "\<exists>p' t' rel env w rendered. example_edit (no_change\<lparr>ut_status := Some ''queued''\<rparr>) (example_platform [example_draft] [])
        (example_platform [example_draft] []) = (p', Inr (t', rel))
     \<and> t_status t' = Task_Queued
     \<and> describes_itself (Reloader.example_input example_config) example_column env w rendered t'"
proof -
  let ?p = "example_platform [example_draft] []" and ?req = "no_change\<lparr>ut_status := Some ''queued''\<rparr>"
  have "is_ok (snd (example_edit ?req ?p ?p))" by code_simp
  then obtain p' t' rel where e: "example_edit ?req ?p ?p = (p', Inr (t', rel))"
    by (metis is_ok_iff prod.collapse)
  have f: "find_task example_wf_actor (pl_db ?p) 1 1 = Some example_draft" "find_by_id (pl_db ?p) 1 = Some example_draft"
    "t_status example_draft \<noteq> Task_Queued" "ut_status ?req = Some ''queued''"
    by code_simp+
  from queued_task_describes_itself [OF e example_platform_keys f(4) f(1) f(3) f(2) refl refl refl] e show ?thesis by blast
qed

theorem task_api_is_a_joint_step_witness:
  "\<exists>p' j. task_api (example_platform [example_draft] []) p' \<and> tasks (pl_db p') \<noteq> [example_draft]
     \<and> (\<forall>sv. joint_step sv j (j\<lparr>repairs_part := (repairs_part j)\<lparr>base := pl_db p'\<rparr>\<rparr>))"
proof -
  let ?p = "example_platform [example_draft] []" and ?req = "no_change\<lparr>ut_title := Some ''new''\<rparr>"
  let ?q = "fst (example_edit ?req ?p ?p)"
  obtain j :: devrail_state where j: "base (repairs_part j) = pl_db ?p"
    by (metis devrail_state.select_convs(1) repair_store.select_convs(1))
  have api: "task_api ?p ?q" by (rule task_api.update)
  moreover have "map t_title (tasks (pl_db ?q)) = [''new'']" by code_simp
  then have "tasks (pl_db ?q) \<noteq> [example_draft]" by (auto simp: example_draft_def draft_row_def example_new_task_def)
  moreover note task_api_is_a_joint_step [OF api example_platform_keys j]
  ultimately show ?thesis by blast
qed

section \<open>Status changes\<close>

text \<open>The service and the statement list the same transitions, but for one.\<close>

lemma transition_allowed_iff:
  "task_transition_allowed a b \<longleftrightarrow> transition_permitted a (Some b) \<or> a = Task_Skipped \<and> b = Task_Archived"
  by (auto simp: task_transition_allowed_def transition_permitted_def)



text \<open>Queueing a failed task again does not give it new attempts: the counter of attempts is kept, so a task
  that had used up its attempts is failed once more by the scheduler's next reconciliation without having
  run, unless its workflow now allows more attempts.\<close>

theorem requeued_task_fails_again:
  assumes "update_task inp column now trace actor project i req seen p = (p', Inr (t', rel))" and "keys_ok (pl_db p)"
    and "ut_status req = Some ''queued''" and "find_by_id (pl_db p) i = Some t"
    and "t_scheduler_attempt t \<ge> t_scheduler_max_attempts t'" and "t_hook_failure_count t = 0"
    and "retry_due later t"
  shows "\<exists>v. find_by_id (fst (reconcile_scheduler_state later it rt running timeout (pl_db p'))) i = Some v
    \<and> t_status v = Task_Failed \<and> t_scheduler_last_error v = Some ''max_scheduler_attempts_reached''"
  using assms(1,2)
proof (rule update_task_answer)
  fix u t0 wf t2 assume pr: "prepare_task_update inp actor project i req seen = Inr (u, t0)"
    and t2: "find_by_id (pl_db p) i = Some t2" "updates_task actor project i u (p\<lparr>pl_workflows := wf\<rparr>) t2"
      "updated_task inp column now u (p\<lparr>pl_workflows := wf\<rparr>) t2 = Inr t'"
      "tasks (pl_db p') = map (\<lambda>q. if q = t2 then t' else q) (tasks (pl_db p))"
  have [simp]: "t2 = t" using t2(1) assms(4) by simp
  obtain u1 a where "checked_task_update req = Inr u1" "u = u1\<lparr>tu_queue := a\<rparr>"
    using prepare_task_update_Inr [OF pr] by metis
  then have st: "tu_status u = Some Task_Queued"
    using checked_status [OF _ assms(3), of u1 Task_Queued] by (simp add: task_status_of_def)
  note t' = updated_task_Inr(1) [OF t2(3)]
  have ex: "exhausted later t'" "\<not> stray_claim t'"
    using assms(5-7) st by (simp_all add: exhausted_def stray_claim_def t' on_task_update_def unwrap_or_def retry_due_def)
  have "distinct (map t_id (tasks (pl_db p')))"
  proof -
    have "map t_id (tasks (pl_db p')) = map t_id (tasks (pl_db p))" by (simp add: t2(4) updated_task_keeps(1) [OF t2(3)])
    then show ?thesis using assms(2) by (simp add: keys_ok_def)
  qed
  moreover have "t \<in> set (tasks (pl_db p))" "t_id t = i" using assms(2,4) by (simp_all add: find_by_id_mem)
  ultimately have "find_by_id (pl_db p') i = Some t'"
    using t2(4) updated_task_keeps(1) [OF t2(3)] by (auto simp: find_by_id_def find_distinct_iff)
  then show ?thesis using ex by (simp add: find_by_id_reconcile find_by_id_reconcile_first)
qed

theorem requeued_task_fails_again_witness:
  "let p = example_platform [example_draft\<lparr>t_status := Task_Failed, t_scheduler_attempt := 3\<rparr>] [];
       q = fst (example_edit (no_change\<lparr>ut_status := Some ''queued''\<rparr>) p p)
   in map t_status (tasks (pl_db q)) = [Task_Queued]
      \<and> (\<exists>v. find_by_id (fst (reconcile_scheduler_state 6 ''a'' ''b'' [] 60 (pl_db q))) 1 = Some v
            \<and> t_status v = Task_Failed)"
proof -
  let ?t = "example_draft\<lparr>t_status := Task_Failed, t_scheduler_attempt := 3\<rparr>"
  let ?p = "example_platform [?t] []" and ?req = "no_change\<lparr>ut_status := Some ''queued''\<rparr>"
  have ok: "is_ok (snd (example_edit ?req ?p ?p)) \<and> map t_status (tasks (pl_db (fst (example_edit ?req ?p ?p)))) = [Task_Queued]
     \<and> (case snd (example_edit ?req ?p ?p) of Inl _ \<Rightarrow> False | Inr (t, _) \<Rightarrow> t_scheduler_max_attempts t = 3)" by code_simp
  then obtain q t' rel where e: "example_edit ?req ?p ?p = (q, Inr (t', rel))" by (metis is_ok_iff prod.collapse)
  have "keys_ok (pl_db ?p)" "ut_status ?req = Some ''queued''" "find_by_id (pl_db ?p) 1 = Some ?t" by code_simp+
  note requeued_task_fails_again [OF e this, of 6 "''a''" "''b''" "[]" 60]
  moreover have "t_scheduler_attempt ?t \<ge> t_scheduler_max_attempts t'" using ok e by simp
  moreover have "t_hook_failure_count ?t = 0" "retry_due 6 ?t" by code_simp+
  ultimately show ?thesis using e ok by (auto simp: Let_def)
qed

text \<open>Archiving through an edit is answered with an error: whenever a request to archive a task is carried
  out, the answer is that the task does not exist, because the service reads the task again among the
  unarchived ones.\<close>

theorem archived_task_is_reported_missing:
  assumes "ut_status req = Some ''archived''" and "keys_ok (pl_db p)" and "find_by_id (pl_db p) i = Some t"
    and "fst (update_task inp column now trace actor project i req seen p) \<noteq> p"
  shows "snd (update_task inp column now trace actor project i req seen p) = Inl (NotFound ''task'')
    \<and> (\<exists>t' \<in> set (tasks (pl_db (fst (update_task inp column now trace actor project i req seen p)))).
          t_id t' = i \<and> t_status t' = Task_Archived \<and> t_archived_at t' \<noteq> None)"
proof (rule update_task_outcome [of inp column now trace actor project i req seen p], goal_cases)
  case 1
  with assms(4) show ?case by simp
next
  case (2 u t0 wf t2 t1 x)
  let ?p = "fst (update_task inp column now trace actor project i req seen p)"
  have id: "t_id t2 = i" using 2(4) by (simp add: updates_task_def)
  obtain u1 a where "checked_task_update req = Inr u1" "u = u1\<lparr>tu_queue := a\<rparr>"
    using prepare_task_update_Inr [OF 2(1)] by metis
  then have "tu_status u = Some Task_Archived"
    using checked_status [OF _ assms(1), of u1 Task_Archived] by (simp add: task_status_of_def)
  then have t1: "t_id t1 = i" "t_status t1 = Task_Archived" "t_archived_at t1 \<noteq> None"
    using id by (simp_all add: updated_task_Inr(1) [OF 2(5)] on_task_update_def unwrap_or_def)
  have ts: "tasks (pl_db ?p) = map (\<lambda>q. if q = t2 then t1 else q) (tasks (pl_db p))"
    using tasks_replaced [OF _ 2(3)] assms(2) by (simp add: 2(6) keys_ok_def)
  have same: "q = t2" if "q \<in> set (tasks (pl_db p))" "t_id q = i" for q
    using that 2(3) id assms(2) by (auto simp: keys_ok_def distinct_map dest: inj_onD)
  have "find_task actor (pl_db ?p) project i = None"
    using same t1(3) by (auto simp: find_task_def find_None_iff ts)
  moreover have "snd (update_task inp column now trace actor project i req seen p) = get_task actor project i ?p"
    using assms(4) by (auto simp: update_task_def commit_def split: sum.splits)
  ultimately have "snd (update_task inp column now trace actor project i req seen p) = Inl (NotFound ''task'')"
    by (simp add: get_task_def)
  with ts t1 2(3) show ?case by (intro conjI bexI [of _ t1]) (auto simp: image_iff)
qed

theorem archived_task_is_reported_missing_witness:
  "let p = example_platform [example_draft\<lparr>t_status := Task_Cancelled\<rparr>] [];
       r = example_edit (no_change\<lparr>ut_status := Some ''archived''\<rparr>) p p
   in snd r = Inl (NotFound ''task'') \<and> (\<exists>t' \<in> set (tasks (pl_db (fst r))). t_status t' = Task_Archived)"
proof -
  let ?p = "example_platform [example_draft\<lparr>t_status := Task_Cancelled\<rparr>] []" and ?req = "no_change\<lparr>ut_status := Some ''archived''\<rparr>"
  have k: "ut_status ?req = Some ''archived''" "keys_ok (pl_db ?p)"
    "find_by_id (pl_db ?p) 1 = Some (example_draft\<lparr>t_status := Task_Cancelled\<rparr>)"
    "map t_status (tasks (pl_db (fst (example_edit ?req ?p ?p)))) = [Task_Archived]" by code_simp+
  then have "fst (example_edit ?req ?p ?p) \<noteq> ?p" by (auto simp: example_platform_def example_db_def)
  from archived_task_is_reported_missing [OF k(1-3) this] show ?thesis by (auto simp: Let_def)
qed

end
