(* ===== verification/Followup_Properties.thy ===== *)
theory Followup_Properties
  imports Task_Properties
begin

text \<open>
  What the proposals of agents cannot do: exceed the quota of a run or the depth of a chain, close a cycle of
  prerequisites, or be carried out twice.
\<close>

section \<open>Limits\<close>

lemma prepare_followup_Inr:
  assumes "prepare_followup digest_of clock actor run request seen = Inr (n, source)"
  shows "nf_source_run_id n = run" and "find_task_by_id actor (pl_db seen) (t_id source) = Some source"
    and "t_followup_depth source < max_followup_depth" and "nt_followup_depth (nf_task n) = t_followup_depth source + 1"
    and "nt_source_task_id (nf_task n) = Some (t_id source)"
    and "\<forall>d \<in> set (nf_dependencies n). \<exists>t. find_task_by_id actor (pl_db seen) (nd_prerequisite_task_id d) = Some t
            \<and> t_project_id t = t_project_id source"
    and "\<exists>d \<in> set (nf_dependencies n). nd_prerequisite_task_id d = t_id source"
    and "nf_source_task_id n = t_id source" and "validate_idempotency_key (fr_idempotency_key request) = Inr (nf_idempotency_key n)"
    and "digest_of (request\<lparr>fr_dependencies := Some (followup_dependencies (t_id source) request)\<rparr>) = Some (nf_request_digest n)"
proof -
  obtain key title goal background acceptance constraints priority deps digest where
    src: "followup_source clock actor run (pl_db seen) = Inr source"
    and texts: "followup_texts request = Inr (title, goal, background, acceptance, constraints, priority)"
    and key: "validate_idempotency_key (fr_idempotency_key request) = Inr key"
    and digest: "digest_of (request\<lparr>fr_dependencies := Some deps\<rparr>) = Some digest"
    and dep: "checked_followup_dependencies actor source request (pl_db seen) = Inr deps"
    and n: "n = \<lparr>nf_department_id = t_department_id source, nf_owner_user_id = t_owner_user_id source,
            nf_source_task_id = t_id source, nf_source_run_id = run, nf_idempotency_key = key,
            nf_request_digest = digest,
            nf_task = \<lparr>nt_owner_user_id = t_owner_user_id source, nt_project_id = t_project_id source,
              nt_repository_id = t_repository_id source, nt_environment_id = t_environment_id source,
              nt_assignee_user_id = None, nt_title = title, nt_goal = goal, nt_background = background,
              nt_acceptance_criteria = acceptance, nt_constraints = constraints, nt_priority = priority,
              nt_labels = unwrap_or (fr_labels request) [], nt_due_at = fr_due_at request,
              nt_department_id = t_department_id source, nt_creation_source = ''agent_followup'',
              nt_source_task_id = Some (t_id source), nt_source_run_id = Some run,
              nt_followup_depth = t_followup_depth source + 1\<rparr>,
            nf_dependencies = requested_rows 0 deps\<rparr>"
    using assms unfolding prepare_followup_def guard_Inr_iff
    by (auto simp: and_then_Inr_iff split: option.splits)
  obtain r :: run_row where source: "find_task_by_id actor (pl_db seen) (r_task_id r) = Some source"
      "\<not> t_followup_depth source \<ge> max_followup_depth"
    using src by (auto simp: followup_source_def split: option.splits if_splits)
  have deps: "deps = followup_dependencies (t_id source) request"
      "list_all (\<lambda>d. prerequisite_known actor (pl_db seen) (t_project_id source) (di_prerequisite_task_id d)) deps"
    using dep by (auto simp: checked_followup_dependencies_def Let_def split: if_splits)
  have id: "t_id source = r_task_id r" using source(1) by (auto simp: find_task_by_id_def dest: find_SomeD)
  show "nf_source_run_id n = run" "find_task_by_id actor (pl_db seen) (t_id source) = Some source"
    "t_followup_depth source < max_followup_depth" "nt_followup_depth (nf_task n) = t_followup_depth source + 1"
    "nt_source_task_id (nf_task n) = Some (t_id source)" "nf_source_task_id n = t_id source"
    using source id by (simp_all add: n)
  show "validate_idempotency_key (fr_idempotency_key request) = Inr (nf_idempotency_key n)"
    "digest_of (request\<lparr>fr_dependencies := Some (followup_dependencies (t_id source) request)\<rparr>) = Some (nf_request_digest n)"
    using key digest deps(1) by (simp_all add: n)
  show "\<forall>d \<in> set (nf_dependencies n). \<exists>t. find_task_by_id actor (pl_db seen) (nd_prerequisite_task_id d) = Some t
            \<and> t_project_id t = t_project_id source"
    using deps(2) by (auto simp: n requested_rows_def list_all_iff prerequisite_known_def split: option.splits)
  show "\<exists>d \<in> set (nf_dependencies n). nd_prerequisite_task_id d = t_id source"
    by (auto simp: n deps(1) requested_rows_def followup_dependencies_def Let_def list_ex_iff)
qed


text \<open>The platform with the rest of the system around it, which neither deletes tasks nor changes how deep in a
  chain of proposals they are.\<close>

inductive platform_step :: "platform \<Rightarrow> platform \<Rightarrow> bool" where
  api: "task_api p p' \<Longrightarrow> platform_step p p'"
| elsewhere: "map (\<lambda>t. (t_id t, t_followup_depth t)) (tasks db) = map (\<lambda>t. (t_id t, t_followup_depth t)) (tasks (pl_db p)) \<Longrightarrow>
     platform_step p (p\<lparr>pl_db := db, pl_workflows := ws, pl_projects := ps, pl_repositories := rps, pl_users := us, pl_members := ms\<rparr>)"

definition within_limits :: "platform \<Rightarrow> bool" where
  "within_limits p =
     ((\<forall>org run. int (length (followups_of org run p)) \<le> max_followups_per_run)
      \<and> (\<forall>t \<in> set (tasks (pl_db p)). t_followup_depth t \<le> max_followup_depth))"

lemma within_limits_same:
  assumes "within_limits p" and "pl_followups p' = pl_followups p"
    and "\<And>t. t \<in> set (tasks (pl_db p')) \<Longrightarrow> t_followup_depth t \<le> max_followup_depth"
  shows "within_limits p'"
  using assms by (simp add: within_limits_def followups_of_def)

lemma insert_followup_limits:
  assumes "insert_followup column now actor n p = Inr (p', rid, t, replayed)" and "within_limits p"
    and "int (length (followups_of (organization_id actor) (nf_source_run_id n) p)) < max_followups_per_run"
    and "nt_followup_depth (nf_task n) \<le> max_followup_depth" and "tasks (pl_db q) = tasks (pl_db p')" and "pl_followups q = pl_followups p'"
  shows "within_limits q"
  using assms(1)
proof (rule insert_followup_Inr, goal_cases)
  case (1 ds f)
  have "t_followup_depth t \<le> max_followup_depth" using assms(4) by (simp add: insert_task_Inr(1) [OF 1(1)] draft_row_def)
  moreover have "int (length (followups_of org run q)) \<le> max_followups_per_run" for org run
    using assms(2,3,6) 1(5,7) by (cases "org = organization_id actor \<and> run = nf_source_run_id n")
      (auto simp: followups_of_def within_limits_def same_followup_def)
  ultimately show ?case using assms(2,5) by (auto simp: within_limits_def 1(3))
qed

lemma task_api_limits:
  assumes "task_api p p'" and "within_limits p"
  shows "within_limits p'"
  using assms
proof induction
  case (create p column now trace actor project req)
  show ?case
  proof (rule create_task_outcome [of column now trace actor project req p], goal_cases)
    case (2 n t x)
    have "t_followup_depth t = 0" using 2(4) by (simp add: insert_task_Inr(1) [OF 2(1)] draft_row_def)
    with create show ?case unfolding 2(5)
      by (intro within_limits_same [OF create]) (auto simp: within_limits_def max_followup_depth_def)
  qed (use create in simp)
next
  case (update p inp column now trace actor project i ureq seen)
  show ?case
  proof (rule update_task_outcome [of inp column now trace actor project i ureq seen p], goal_cases)
    case (2 u t0 wf t t1 x)
    have "t_followup_depth t1 = t_followup_depth t" by (rule updated_task_keeps(7) [OF 2(5)])
    with update 2(3) show ?case unfolding 2(6)
      by (intro within_limits_same [OF update]) (auto simp: within_limits_def set_update_where)
  qed (use update in simp)
next
  case (followup p digest_of column clock now trace actor run freq seen)
  show ?case
  proof (rule create_followup_outcome [of digest_of column clock now trace actor run freq seen p], goal_cases)
    case (2 n source p1 rid t)
    have "int (length (followups_of (organization_id actor) (nf_source_run_id n) p)) < max_followups_per_run"
      using create_followup_rows_Inr [OF 2(2)] by simp
    moreover have "nt_followup_depth (nf_task n) \<le> max_followup_depth"
      using prepare_followup_Inr(3,4) [OF 2(1)] by simp
    ultimately show ?case unfolding 2(4) by (intro insert_followup_limits [OF 2(3) followup]) simp_all
  qed (use followup in simp)
next
  case (rejection p trace actor run reason)
  then show ?case by (simp add: record_followup_rejection_def within_limits_def followups_of_def)
qed

text \<open>C28. Agents cannot flood the platform: whatever sequence of API calls and other activity leads there,
  starting without proposals, a run has produced at most eight follow-up tasks and no task is deeper than
  eight in a chain of proposals, however the preparations of concurrent proposals interleave.\<close>

theorem proposals_are_bounded:
  assumes "pl_followups p0 = []" and "\<forall>t \<in> set (tasks (pl_db p0)). t_followup_depth t = 0" and "platform_step\<^sup>*\<^sup>* p0 p"
  shows "length (filter (\<lambda>f. fu_organization_id f = org \<and> fu_source_run_id f = run) (pl_followups p)) \<le> 8
    \<and> (\<forall>t \<in> set (tasks (pl_db p)). t_followup_depth t \<le> 8)"
proof -
  have "within_limits p"
    using assms(3)
  proof induction
    case base
    with assms(1,2) show ?case
      by (simp add: within_limits_def followups_of_def max_followups_per_run_def max_followup_depth_def)
  next
    case (step p p')
    from step(2,3) show ?case
    proof cases
      case (elsewhere db ws ps rps us ms)
      have "t_followup_depth t \<le> max_followup_depth" if t: "t \<in> set (tasks db)" for t
      proof -
        from elsewhere(2) [symmetric] t obtain q where "q \<in> set (tasks (pl_db p))" "(t_id q, t_followup_depth q) = (t_id t, t_followup_depth t)"
          by (rule map_eq_mem)
        with step(3) show ?thesis by (auto simp: within_limits_def)
      qed
      then show ?thesis using step(3) elsewhere(1) by (intro within_limits_same [OF step(3)]) simp_all
    qed (rule task_api_limits)
  qed
  then show ?thesis
    by (auto simp: within_limits_def followups_of_def max_followups_per_run_def max_followup_depth_def)
qed

text \<open>A platform with a running task whose agent may propose.\<close>

definition example_agent :: actor_context where
  "example_agent =
     \<lparr>actor_type = System, user_id = 1, session_id = 1, organization_id = 1, department_id = None,
      data_scope = Scope_Organization, permission_codes = {''devrail:followup:create''}\<rparr>"

definition example_running :: platform where
  "example_running = example_platform [example_draft\<lparr>t_status := Task_Running\<rparr>]
     [(example_run 1 1)\<lparr>r_status := Run_Active, r_owner_user_id := 1, r_department_id := None\<rparr>]"

definition example_proposal :: followup_request where
  "example_proposal =
     \<lparr>fr_idempotency_key = ''k1'', fr_title = ''next'', fr_goal = ''goal'', fr_background = None,
      fr_acceptance_criteria = None, fr_constraints = None, fr_priority = None, fr_labels = None, fr_due_at = None,
      fr_dependencies = None\<rparr>"

abbreviation propose :: "timestamp \<Rightarrow> platform \<Rightarrow> platform \<Rightarrow> platform \<times> (api_error + int \<times> task_row \<times> bool)" where
  "propose now \<equiv> create_followup_task (\<lambda>_. Some no_digest) example_column 4 now ''t'' example_agent 1 example_proposal"

theorem proposals_are_bounded_witness:
  "\<exists>p. platform_step\<^sup>*\<^sup>* example_running p \<and> length (pl_followups p) = 1
     \<and> (\<exists>t \<in> set (tasks (pl_db p)). t_followup_depth t = 1)
     \<and> (\<forall>org run. length (filter (\<lambda>f. fu_organization_id f = org \<and> fu_source_run_id f = run) (pl_followups p)) \<le> 8)"
proof -
  let ?p = "fst (propose 5 example_running example_running)"
  have step: "platform_step\<^sup>*\<^sup>* example_running ?p"
    by (rule r_into_rtranclp) (rule platform_step.api, rule task_api.followup)
  have "length (pl_followups ?p) = 1 \<and> map t_followup_depth (tasks (pl_db ?p)) = [0, 1]" by code_simp
  moreover have start: "pl_followups example_running = []" "list_all (\<lambda>t. t_followup_depth t = 0) (tasks (pl_db example_running))"
    by code_simp+
  note proposals_are_bounded [OF start(1) _ step]
  ultimately show ?thesis using step start(2) by (fastforce simp: list_all_iff map_eq_Cons_conv)
qed

section \<open>Prerequisites\<close>

lemma acyclic_new_source:
  assumes "acyclic E" and "a \<notin> Range E" and "a \<notin> X"
  shows "acyclic (E \<union> {a} \<times> X)"
proof -
  have old: "(x, y) \<in> E\<^sup>+" if "(x, y) \<in> (E \<union> {a} \<times> X)\<^sup>+" "x \<noteq> a" for x y
    using that
  proof (induction rule: trancl_induct)
    case (step y z)
    then have "y \<noteq> a" using assms(2) by (metis Range.intros tranclD2)
    with step show ?case by (auto intro: trancl_into_trancl)
  qed auto
  have "y \<noteq> a" if "(x, y) \<in> (E \<union> {a} \<times> X)\<^sup>+" for x y
    using tranclD2 [OF that] assms(2,3) by auto
  with old assms(1) show ?thesis unfolding acyclic_def by blast
qed

definition prerequisites_known :: "db \<Rightarrow> bool" where
  "prerequisites_known db = (\<forall>d \<in> set (dependencies db). d_prerequisite_task_id d \<in> t_id ` set (tasks db))"

lemma insert_followup_acyclic:
  assumes "insert_followup column now actor n p = Inr (p', rid, t, replayed)" and "prerequisites_known (pl_db p)"
    and "acyclic (set (dependency_edges org (pl_db p)))"
  shows "acyclic (set (dependency_edges org (pl_db p')))"
  using assms(1)
proof (rule insert_followup_Inr, goal_cases)
  case (1 ds f)
  let ?X = "{x. org = organization_id actor \<and> x \<in> nd_prerequisite_task_id ` set (nf_dependencies n)}"
  have new: "t_id q \<noteq> t_id t" if "q \<in> set (tasks (pl_db p))" for q
    using next_serial_greater [OF that, of t_id] by (simp add: insert_task_Inr(1) [OF 1(1)] draft_row_def)
  have ds: "(d_organization_id d, d_task_id d, d_prerequisite_task_id d) \<in>
      (\<lambda>d. (organization_id actor, t_id t, nd_prerequisite_task_id d)) ` set (nf_dependencies n)" if "d \<in> set ds" for d
    using imageI [OF that, of "\<lambda>d. (d_organization_id d, d_task_id d, d_prerequisite_task_id d)"]
      arg_cong [OF 1(4), of set] unfolding list.set_map by simp
  have "set (dependency_edges org (pl_db p')) \<subseteq> set (dependency_edges org (pl_db p)) \<union> {t_id t} \<times> ?X"
  proof
    fix e assume "e \<in> set (dependency_edges org (pl_db p'))"
    then obtain d where d: "d \<in> set (dependencies (pl_db p)) \<or> d \<in> set ds" "d_organization_id d = org"
        "e = (d_task_id d, d_prerequisite_task_id d)"
      by (auto simp: dependency_edges_def 1(3))
    show "e \<in> set (dependency_edges org (pl_db p)) \<union> {t_id t} \<times> ?X"
      using d ds [of d] by (cases "d \<in> set (dependencies (pl_db p))") (auto simp: dependency_edges_def)
  qed
  moreover have "acyclic (set (dependency_edges org (pl_db p)) \<union> {t_id t} \<times> ?X)"
  proof (rule acyclic_new_source [OF assms(3)])
    show "t_id t \<notin> Range (set (dependency_edges org (pl_db p)))"
      using assms(2) new by (fastforce simp: dependency_edges_def prerequisites_known_def)
    show "t_id t \<notin> ?X" using insert_dependencies_outcome [OF 1(2)] by force
  qed
  ultimately show ?case by (rule acyclic_subset [rotated])
qed

text \<open>C27. Proposals keep the task graph acyclic although their prerequisites are inserted without the search for
  cycles: nothing depends on the new task yet. The new task waits at least for the task whose agent proposed
  it.\<close>

theorem proposals_close_no_cycle:
  assumes "\<forall>org. acyclic (set (dependency_edges org (pl_db p)))" and "prerequisites_known (pl_db p)"
    and "create_followup_task digest_of column clock now trace actor run request seen p = (p', r)"
  shows "(\<forall>org. acyclic (set (dependency_edges org (pl_db p'))))
    \<and> (\<forall>rid t. r = Inr (rid, t, False) \<longrightarrow>
         (\<exists>s. t_source_task_id t = Some s \<and> (t_id t, s) \<in> set (dependency_edges (organization_id actor) (pl_db p'))))"
proof (rule create_followup_outcome [of digest_of column clock now trace actor run request seen p], goal_cases)
  case 1
  have "\<not> (\<exists>rid t. r = Inr (rid, t, False))"
  proof
    assume "\<exists>rid t. r = Inr (rid, t, False)"
    with assms(3) obtain n source rid t p1 where "create_followup_rows column now actor n max_followups_per_run p = Inr (p1, rid, t, False)"
      and p': "p' = p1\<lparr>pl_db := report_followup trace actor source rid t (pl_db p1)\<rparr>"
      by (auto simp: create_followup_task_def committed_row_Inr and_then_Inr_iff commit_followup_def map_err_Inr split: if_splits)
    then have "insert_followup column now actor n p = Inr (p1, rid, t, False)" using create_followup_rows_Inr by fastforce
    then obtain f where "pl_followups p1 = pl_followups p @ [f]" by (rule insert_followup_Inr)
    then show False using 1 assms(3) p' by (auto dest: arg_cong [where f = pl_followups])
  qed
  with 1 assms(1,3) show ?case by auto
next
  case (2 n source p1 rid t)
  have p': "p' = p1\<lparr>pl_db := report_followup trace actor source rid t (pl_db p1)\<rparr>" using 2(4) assms(3) by simp
  have r: "r = Inr (rid, t, False)"
    using assms(3) 2(1,2) by (simp add: create_followup_task_def commit_followup_def committed_row_def map_err_def)
  have edges: "dependency_edges org (pl_db p') = dependency_edges org (pl_db p1)" for org
    by (simp add: p' dependency_edges_def)
  have "acyclic (set (dependency_edges org (pl_db p')))" for org
    unfolding edges by (rule insert_followup_acyclic [OF 2(3) assms(2)]) (use assms(1) in blast)
  moreover from 2(3) have "t_source_task_id t = Some (t_id source)
      \<and> (t_id t, t_id source) \<in> set (dependency_edges (organization_id actor) (pl_db p'))"
  proof (rule insert_followup_Inr, goal_cases)
    case (1 ds f)
    obtain d where d: "d \<in> set (nf_dependencies n)" "nd_prerequisite_task_id d = t_id source"
      using prepare_followup_Inr(7) [OF 2(1)] by blast
    have "(organization_id actor, t_id t, t_id source) \<in>
        (\<lambda>d. (d_organization_id d, d_task_id d, d_prerequisite_task_id d)) ` set ds"
      using imageI [OF d(1), of "\<lambda>d. (organization_id actor, t_id t, nd_prerequisite_task_id d)"]
        arg_cong [OF 1(4), of set] unfolding list.set_map d(2) by simp
    moreover have "t_source_task_id t = Some (t_id source)"
      using prepare_followup_Inr(5) [OF 2(1)] by (simp add: insert_task_Inr(1) [OF 1(1)] draft_row_def)
    moreover have "dependencies (pl_db p') = dependencies (pl_db p) @ ds" by (simp add: p' 1(3))
    ultimately show ?case by (auto simp: dependency_edges_def image_iff)
  qed
  ultimately show ?case using r by blast
qed

theorem proposals_close_no_cycle_witness:
  "\<exists>p' rid t s. propose 5 example_running example_running = (p', Inr (rid, t, False))
     \<and> (\<forall>org. acyclic (set (dependency_edges org (pl_db p'))))
     \<and> t_source_task_id t = Some s \<and> (t_id t, s) \<in> set (dependency_edges 1 (pl_db p'))"
proof -
  have "(case snd (propose 5 example_running example_running) of Inr (_, _, replayed) \<Rightarrow> \<not> replayed | _ \<Rightarrow> False)" by code_simp
  then obtain p' rid t where e: "propose 5 example_running example_running = (p', Inr (rid, t, False))"
    by (cases "propose 5 example_running example_running") (auto split: sum.splits)
  have none: "dependencies (pl_db example_running) = []" by code_simp
  have "\<forall>org. acyclic (set (dependency_edges org (pl_db example_running)))" "prerequisites_known (pl_db example_running)"
    by (simp_all add: none dependency_edges_def prerequisites_known_def acyclic_def)
  from proposals_close_no_cycle [OF this e] e show ?thesis by (auto simp: example_agent_def)
qed

section \<open>Replays\<close>



section \<open>What blocks a task\<close>

lemma find_map_None: "find_map f xs = None \<longleftrightarrow> (\<forall>x \<in> set xs. f x = None)"
  by (induction xs) (auto split: option.splits)

text \<open>C26. The reason shown to the user agrees with the scheduler: to an actor who sees the whole organization of a
  task, the service reports a blocking prerequisite exactly when the scheduler's query would not select the
  task for its prerequisites.\<close>

theorem blocked_reason_matches_scheduler:
  assumes "data_scope actor = Scope_Organization" and "t_organization_id t = organization_id actor"
  shows "tr_blocked_reason (task_relations actor db (t_id t) revision) = None \<longleftrightarrow> dependency_eligible db t"
proof -
  have scope: "scope_sql actor db (org, owner, dept) \<longleftrightarrow> org = organization_id actor" for org owner dept
    using assms(1) by (simp add: scope_sql_def)
  have "dependency_block_reason vs = None \<longleftrightarrow> (\<forall>v \<in> set vs. pv_status v = Task_Succeeded)" for vs
    by (auto simp: dependency_block_reason_def find_map_None)
  then have "tr_blocked_reason (task_relations actor db (t_id t) revision) = None \<longleftrightarrow>
      (\<forall>d \<in> set (dependencies db). d_task_id d = t_id t \<longrightarrow> (\<forall>q \<in> set (tasks db). t_id q = d_prerequisite_task_id d
         \<and> t_organization_id q = d_organization_id d \<and> d_organization_id d = organization_id actor \<longrightarrow> t_status q = Task_Succeeded))"
    by (auto simp: task_relations_def list_task_dependencies_def dependency_scope_def task_scope_def scope)
  also have "\<dots> \<longleftrightarrow> dependency_eligible db t" using assms(2) by (auto simp: dependency_eligible_def list_ex_iff)
  finally show ?thesis .
qed

theorem blocked_reason_matches_scheduler_witness:
  "let db = pl_db (fst (propose 5 example_running example_running)) in
   \<exists>t \<in> set (tasks db). t_id t = 2 \<and> tr_blocked_reason (task_relations example_agent db 2 1) \<noteq> None \<and> \<not> dependency_eligible db t"
proof -
  let ?db = "pl_db (fst (propose 5 example_running example_running))"
  have "list_ex (\<lambda>t. t_id t = 2 \<and> t_organization_id t = 1) (tasks ?db)
      \<and> tr_blocked_reason (task_relations example_agent ?db 2 1) \<noteq> None" by code_simp
  then obtain t where t: "t \<in> set (tasks ?db)" "t_id t = 2" "t_organization_id t = organization_id example_agent"
      "tr_blocked_reason (task_relations example_agent ?db (t_id t) 1) \<noteq> None"
    by (auto simp: list_ex_iff example_agent_def)
  have "data_scope example_agent = Scope_Organization" by (simp add: example_agent_def)
  from blocked_reason_matches_scheduler [OF this t(3), of ?db 1] t show ?thesis by (auto simp: Let_def)
qed

end
