(* ===== verification/Platform_Properties.thy ===== *)
theory Platform_Properties
  imports Followup_Properties
begin

text \<open>
  The shape of the rows: what the services accept is within the limits the rest of the system counts on, and
  stays so. Pages, synchronisation and departments.
\<close>

section \<open>Accepted values\<close>

definition text_ok :: "nat \<Rightarrow> rstr \<Rightarrow> bool" where
  "text_ok n s = (s \<noteq> [] \<and> chars_count s \<le> n)"

definition slug_ok :: "rstr \<Rightarrow> bool" where
  "slug_ok s = (3 \<le> length s \<and> length s \<le> 64
     \<and> (\<forall>c \<in> set s. is_ascii_lowercase c \<or> is_ascii_digit c \<or> c = CHR ''-'') \<and> hd s \<noteq> CHR ''-'' \<and> last s \<noteq> CHR ''-'')"

definition root_ok :: "rstr \<Rightarrow> bool" where
  "root_ok s = (starts_with ''/'' s \<and> \<not> contains_str ''..'' s \<and> length s \<le> 512)"

lemma text_field_ok: "text_field v f n = Inr s \<Longrightarrow> text_ok n s"
  by (auto simp: text_field_def text_ok_def Let_def split: if_splits)

lemma slug_Inr: "slug v = Inr s \<Longrightarrow> slug_ok s"
proof -
  assume "slug v = Inr s"
  then have s: "3 \<le> length s" "length s \<le> 64" "list_all (\<lambda>c. is_ascii_lowercase c \<or> is_ascii_digit c \<or> c = CHR ''-'') s"
      "\<not> starts_with ''-'' s" "\<not> ends_with ''-'' s"
    by (auto simp: slug_def Let_def split: if_splits)
  then obtain a xs where "s = a # xs" by (cases s) auto
  moreover obtain b ys where "s = ys @ [b]" using s(1) by (cases s rule: rev_cases) auto
  ultimately show ?thesis
    using s unfolding slug_ok_def list_all_iff
    by (metis (no_types, lifting) ends_with_def last_snoc list.sel(1) list.size(3,4) rev.simps(1,2) rev_append append_Cons append_Nil
        starts_with_append)
qed

lemma workspace_Inr: "workspace v = Inr s \<Longrightarrow> root_ok s"
  by (auto simp: workspace_def root_ok_def Let_def split: if_splits)

lemma network_Inr: "network v = Inr s \<Longrightarrow> s \<in> {''off'', ''allowlist''}"
  by (auto simp: network_def split: if_splits)

lemma duration_Inr: "duration v = Inr s \<Longrightarrow> 60 \<le> s \<and> s \<le> 86400"
  by (auto simp: duration_def split: if_splits)

lemma remote_Inr: "remote url_parse v = Inr (s, protocol) \<Longrightarrow> protocol \<in> {''https'', ''ssh''}"
  by (auto simp: remote_def Let_def split: if_splits option.splits)

lemma transpose_map_Inr: "transpose_map f x = Inr y \<Longrightarrow> y = Some v \<Longrightarrow> \<exists>w. x = Some w \<and> f w = Inr v"
  by (auto simp: transpose_map_def and_then_Inr_iff split: option.splits)

section \<open>Well-formed rows\<close>

definition project_typed :: "project_row \<Rightarrow> bool" where
  "project_typed r = (slug_ok (p_slug r) \<and> text_ok 128 (p_name r) \<and> p_status r \<in> {''active'', ''archived''}
     \<and> (p_status r = ''archived'' \<longleftrightarrow> p_archived_at r \<noteq> None))"

definition repository_typed :: "repository_row \<Rightarrow> bool" where
  "repository_typed r = (text_ok 128 (rp_name r) \<and> text_ok 128 (rp_default_branch r) \<and> rp_protocol r \<in> {''https'', ''ssh''})"

definition environment_typed :: "workflow_environment \<Rightarrow> bool" where
  "environment_typed e = (text_ok 128 (e_name e) \<and> root_ok (e_workspace_root e) \<and> e_network_mode e \<in> {''off'', ''allowlist''}
     \<and> 60 \<le> e_max_duration_secs e \<and> e_max_duration_secs e \<le> 86400)"

definition task_typed :: "task_row \<Rightarrow> bool" where
  "task_typed t = (text_ok 200 (t_title t) \<and> text_ok 4000 (t_goal t) \<and> task_check t
     \<and> (t_status t = Task_Archived \<longleftrightarrow> t_archived_at t \<noteq> None))"

definition project_key :: "project_row \<Rightarrow> int \<times> rstr" where
  "project_key r = (p_organization_id r, p_slug r)"

definition platform_typed :: "platform \<Rightarrow> bool" where
  "platform_typed p =
     ((\<forall>t \<in> set (tasks (pl_db p)). task_typed t)
      \<and> environments (pl_db p) = map environment_row.truncate (wf_environments (pl_workflows p))
      \<and> (\<forall>e \<in> set (wf_environments (pl_workflows p)). environment_typed e)
      \<and> (\<forall>r \<in> set (pl_projects p). project_typed r) \<and> distinct (map project_key (pl_projects p))
      \<and> (\<forall>r \<in> set (pl_repositories p). repository_typed r))"

lemma record_audit_environments [simp]: "environments (record_audit a db) = environments db"
  by (simp add: record_audit_def)

lemma platform_typed_audit [simp]: "platform_typed (p\<lparr>pl_db := record_audit x (pl_db p)\<rparr>) = platform_typed p"
  by (simp add: platform_typed_def)

lemma typed_user_audit: "record_user_audit tr actor a ty i p = Inr p' \<Longrightarrow> platform_typed p' = platform_typed p"
  by (auto dest!: record_user_audit_Inr)

lemma typed_commit:
  "platform_typed p \<Longrightarrow> (\<And>p'. r = Inr p' \<Longrightarrow> platform_typed p') \<Longrightarrow> platform_typed (fst (commit p r f))"
  by (simp add: fst_commit split: sum.splits)

lemma typed_committed_row:
  "platform_typed p \<Longrightarrow> (\<And>p' a. r = Inr (p', a) \<Longrightarrow> platform_typed p') \<Longrightarrow> platform_typed (fst (committed_row p r))"
  by (auto simp: fst_committed_row split: sum.splits)

section \<open>Projects and repositories\<close>

lemma typed_create_project: "platform_typed p \<Longrightarrow> platform_typed (fst (create_project now trace actor req p))"
  unfolding create_project_def
proof (rule typed_committed_row, goal_cases)
  case (2 p' row)
  note p = 2(1)
  from 2(2) obtain sl name n p1 p2 where sl: "slug (cp_slug req) = Inr sl" "text_field (cp_name req) ''project_name'' 128 = Inr name"
    and ins: "insert_project now actor n p = Inr (p1, row)" "np_slug n = sl" "np_name n = name"
    and p2: "add_member actor (p_id row) (user_id actor) ''owner'' p1 = Inr p2"
    and p': "record_user_audit trace actor ''devrail.project.create'' ''devrail_project'' (p_id row) p2 = Inr p'"
    by (force simp: and_then_Inr_iff map_err_Inr)
  have p1: "p1 = p\<lparr>pl_projects := pl_projects p @ [row]\<rparr>" "project_key row \<notin> project_key ` set (pl_projects p)"
      "p_slug row = sl" "p_name row = name" "p_status row = ''active''" "p_archived_at row = None"
    using ins by (auto simp: insert_project_def Let_def list_ex_iff project_key_def split: if_splits)
  have "platform_typed p1"
    using p p1(2-6) slug_Inr [OF sl(1)] text_field_ok [OF sl(2)] by (auto simp: platform_typed_def p1(1) project_typed_def)
  moreover have "platform_typed p2 = platform_typed p1"
    using p2 by (auto simp: add_member_def Let_def platform_typed_def split: option.splits)
  ultimately show ?case using typed_user_audit [OF p'] by simp
qed simp

lemma distinct_keys_update: "(\<And>r. key (f r) = key r) \<Longrightarrow> distinct (map key (update_where P f rows)) = distinct (map key rows)"
  by (simp add: update_where_keeps)

lemma on_project_update_typed:
  assumes "project_typed r" and "\<And>v. name = Some v \<Longrightarrow> text_ok 128 v"
    and "\<And>st. up_status req = Some st \<Longrightarrow> st \<in> {''active'', ''archived''}"
  shows "project_typed (on_project_update now name dept req r)"
  using assms by (cases name; cases "up_status req") (auto simp: project_typed_def on_project_update_def unwrap_or_def)

lemma typed_update_project: "platform_typed p \<Longrightarrow> platform_typed (fst (update_project now trace actor i req p))"
  unfolding update_project_def
proof (rule typed_commit, goal_cases)
  case (2 p')
  from 2(2) obtain name dept p1 where name: "transpose_map (\<lambda>v. text_field v ''project_name'' 128) (up_name req) = Inr name"
    and st: "\<not> (case up_status req of None \<Rightarrow> False | Some st \<Rightarrow> st \<notin> {''active'', ''archived''})"
    and rows: "update_project_rows now actor i name dept req p = Inr (p1, True)"
    and p': "record_user_audit trace actor ''devrail.project.update'' ''devrail_project'' i p1 = Inr p'"
    by (auto simp: and_then_Inr_iff map_err_Inr guard_Inr_iff split_beta simp del: not_Some_eq split: if_splits)
  from name have "text_ok 128 v" if "name = Some v" for v using transpose_map_Inr [OF name that] text_field_ok by blast
  moreover have "st \<in> {''active'', ''archived''}" if "up_status req = Some st" for st using st that by simp
  ultimately have "project_typed (on_project_update now name dept req r)" if "project_typed r" for r
    using on_project_update_typed [OF that, of name req now dept] by blast
  moreover have "project_key (on_project_update now name dept req r) = project_key r" for r
    by (simp add: project_key_def on_project_update_def)
  ultimately have "platform_typed p1"
    using 2(1) rows
    by (auto simp: update_project_rows_def Let_def platform_typed_def set_update_where distinct_keys_update split: if_splits)
  then show ?case using typed_user_audit [OF p'] by simp
qed simp

lemma typed_archive_project: "platform_typed p \<Longrightarrow> platform_typed (fst (archive_project now trace actor i p))"
  unfolding archive_project_def Let_def
proof (rule typed_commit, goal_cases)
  case (2 p')
  let ?f = "\<lambda>r. r\<lparr>p_status := ''archived'', p_archived_at := Some now, p_updated_at := now\<rparr>"
  have "project_typed (?f r)" if "project_typed r" for r using that by (simp add: project_typed_def)
  moreover have "project_key (?f r) = project_key r" for r by (simp add: project_key_def)
  ultimately have "platform_typed (p\<lparr>pl_projects := update_where P ?f (pl_projects p)\<rparr>)" for P
    using 2(1) by (auto simp: platform_typed_def set_update_where distinct_keys_update)
  then show ?case using 2(2) by (auto simp: typed_user_audit split: if_splits)
qed simp

lemma typed_update_project_policy:
  "platform_typed p \<Longrightarrow> platform_typed (fst (update_project_policy now trace actor i notification gates p))"
  using typed_update_project [of p now trace actor i
      "\<lparr>up_name = None, up_description = Patch_Missing, up_department_id = Patch_Missing, up_status = None,
        up_default_repository_id = Patch_Missing, up_default_environment_id = Patch_Missing,
        up_notification_policy = notification, up_quality_gate_template = gates\<rparr>"]
  by (auto simp: update_project_policy_def split: prod.splits sum.splits)

lemma typed_create_repository:
  "platform_typed p \<Longrightarrow> platform_typed (fst (create_repository url_parse now trace actor project req p))"
  unfolding create_repository_def
proof (rule typed_committed_row, goal_cases)
  case (2 p' row)
  from 2(2) obtain name url protocol branch n p1 where
    v: "text_field (cr_name req) ''repository_name'' 128 = Inr name" "remote url_parse (cr_remote_url req) = Inr (url, protocol)"
      "text_field (unwrap_or (cr_default_branch req) ''main'') ''default_branch'' 128 = Inr branch"
    and ins: "insert_repository now actor n p = Inr (p1, row)" "nr_name n = name" "nr_protocol n = protocol" "nr_default_branch n = branch"
    and p': "record_user_audit trace actor ''devrail.repository.create'' ''devrail_repository'' (rp_id row) p1 = Inr p'"
    by (force simp: and_then_Inr_iff map_err_Inr)
  have "repository_typed row" "p1 = p\<lparr>pl_repositories := pl_repositories p @ [row]\<rparr>"
    using ins text_field_ok [OF v(1)] remote_Inr [OF v(2)] text_field_ok [OF v(3)]
    by (auto simp: insert_repository_def Let_def repository_typed_def split: if_splits)
  with 2(1) have "platform_typed p1" by (simp add: platform_typed_def)
  then show ?case using typed_user_audit [OF p'] by simp
qed simp

lemma typed_repository_rows:
  assumes "update_repository_rows now actor project i f p = Inr (p1, c)" and "platform_typed p"
    and "\<And>r. repository_typed r \<Longrightarrow> repository_typed (f r)"
  shows "platform_typed p1"
  using assms by (auto simp: update_repository_rows_def Let_def platform_typed_def set_update_where split: if_splits)

lemma typed_update_repository:
  "platform_typed p \<Longrightarrow> platform_typed (fst (update_repository url_parse now trace actor project i req p))"
  unfolding update_repository_def
proof (rule typed_commit, goal_cases)
  case (2 p')
  from 2(2) obtain address name branch p1 where address: "transpose_map (remote url_parse) (ur_remote_url req) = Inr address"
    and name: "transpose_map (\<lambda>v. text_field v ''repository_name'' 128) (ur_name req) = Inr name"
    and branch: "transpose_map (\<lambda>v. text_field v ''default_branch'' 128) (ur_default_branch req) = Inr branch"
    and rows: "update_repository_rows now actor project i (on_repository_update now name address branch req) p = Inr (p1, True)"
    and p': "record_user_audit trace actor ''devrail.repository.update'' ''devrail_repository'' i p1 = Inr p'"
    by (auto simp: and_then_Inr_iff map_err_Inr split: if_splits)
  have "text_ok 128 v" if "name = Some v" for v using transpose_map_Inr [OF name that] text_field_ok by blast
  moreover have "text_ok 128 v" if "branch = Some v" for v using transpose_map_Inr [OF branch that] text_field_ok by blast
  moreover have "snd v \<in> {''https'', ''ssh''}" if "address = Some v" for v
    using transpose_map_Inr [OF address that] remote_Inr by (metis prod.collapse)
  ultimately have "repository_typed (on_repository_update now name address branch req r)" if "repository_typed r" for r
    using that by (cases name; cases branch; cases address) (auto simp: repository_typed_def on_repository_update_def unwrap_or_def)
  from typed_repository_rows [OF rows 2(1) this] show ?case using typed_user_audit [OF p'] by simp
qed simp

lemma typed_sync_repository:
  "platform_typed p \<Longrightarrow> platform_typed (fst (sync_repository now trace ls_head ls_heads actor project i p))"
proof (cases "get_repository actor project i p")
  case (Inr repository)
  assume p: "platform_typed p"
  show ?thesis
    unfolding sync_repository_def Inr sum.case Let_def split_beta
  proof (rule typed_commit [OF p], goal_cases)
    case (1 p')
    then obtain f p1 where rows: "update_repository_rows now actor project i f p = Inr (p1, True)"
      and f: "\<And>r. repository_typed (f r) = repository_typed r"
      and p': "record_user_audit trace actor ''devrail.repository.sync'' ''devrail_repository'' i p1 = Inr p'"
      by (auto simp: and_then_Inr_iff map_err_Inr repository_typed_def split: if_splits)
    from typed_repository_rows [OF rows p] f show ?case using typed_user_audit [OF p'] by simp
  qed
qed (simp add: sync_repository_def)

section \<open>Environments and tasks\<close>

lemma typed_set_environments:
  "platform_typed p \<Longrightarrow> (\<And>e. e \<in> set es \<Longrightarrow> environment_typed e) \<Longrightarrow> platform_typed (set_environments es p)"
  by (simp add: platform_typed_def set_environments_def)

lemma typed_create_environment:
  "platform_typed p \<Longrightarrow> platform_typed (fst (create_environment now trace actor project req p))"
  unfolding create_environment_def
proof (rule typed_committed_row, goal_cases)
  case (2 p' row)
  from 2(2) obtain name root n p1 where
    v: "text_field (ce_name req) ''environment_name'' 128 = Inr name" "workspace (ce_workspace_root req) = Inr root"
    and ins: "insert_environment now actor n p = Inr (p1, row)" "ne_name n = name" "ne_workspace_root n = root"
    and p': "record_user_audit trace actor ''devrail.environment.create'' ''devrail_environment'' (e_id row) p1 = Inr p'"
    by (force simp: and_then_Inr_iff map_err_Inr)
  have row: "environment_typed row" "p1 = set_environments (wf_environments (pl_workflows p) @ [row]) p"
    using ins text_field_ok [OF v(1)] workspace_Inr [OF v(2)]
    by (auto simp: insert_environment_def Let_def environment_typed_def split: if_splits)
  have "platform_typed p1"
    unfolding row(2) by (rule typed_set_environments [OF 2(1)]) (use 2(1) row(1) in \<open>auto simp: platform_typed_def\<close>)
  then show ?case using typed_user_audit [OF p'] by simp
qed simp

lemma checked_environment_values:
  assumes "checked_environment_update req = Inr u"
  shows "ue_name u = Some v \<Longrightarrow> text_ok 128 v" and "ue_workspace_root u = Some v \<Longrightarrow> root_ok v"
    and "ue_network_mode u = Some v \<Longrightarrow> v \<in> {''off'', ''allowlist''}"
    and "ue_max_duration_secs u = Some d \<Longrightarrow> 60 \<le> d \<and> d \<le> 86400"
proof -
  from assms obtain name root mode longest where
    v: "transpose_map (\<lambda>v. text_field v ''environment_name'' 128) (ue_name req) = Inr name"
      "transpose_map workspace (ue_workspace_root req) = Inr root" "transpose_map network (ue_network_mode req) = Inr mode"
      "transpose_map duration (ue_max_duration_secs req) = Inr longest"
    and u: "u = req\<lparr>ue_name := name, ue_workspace_root := root, ue_network_mode := mode, ue_max_duration_secs := longest\<rparr>"
    by (auto simp: checked_environment_update_def and_then_Inr_iff)
  show "ue_name u = Some v \<Longrightarrow> text_ok 128 v" using transpose_map_Inr [OF v(1)] text_field_ok by (auto simp: u)
  show "ue_workspace_root u = Some v \<Longrightarrow> root_ok v" using transpose_map_Inr [OF v(2)] workspace_Inr by (auto simp: u)
  show "ue_network_mode u = Some v \<Longrightarrow> v \<in> {''off'', ''allowlist''}" using transpose_map_Inr [OF v(3)] network_Inr by (fastforce simp: u)
  show "ue_max_duration_secs u = Some d \<Longrightarrow> 60 \<le> d \<and> d \<le> 86400" using transpose_map_Inr [OF v(4)] duration_Inr by (auto simp: u)
qed

lemma on_environment_update_typed:
  assumes "checked_environment_update req = Inr u" and "environment_typed e"
  shows "environment_typed (on_environment_update now u e)"
  using assms(2) checked_environment_values [OF assms(1)]
  by (auto simp: environment_typed_def on_environment_update_def unwrap_or_def split: option.splits)

lemma typed_update_environment:
  "platform_typed p \<Longrightarrow> platform_typed (fst (update_environment now trace actor project i req p))"
  unfolding update_environment_def
proof (rule typed_commit, goal_cases)
  case (2 p')
  from 2(2) obtain u p1 where u: "checked_environment_update req = Inr u"
    and rows: "update_environment_rows now actor project i u p = Inr (p1, True)"
    and p': "record_user_audit trace actor ''devrail.environment.update'' ''devrail_environment'' i p1 = Inr p'"
    by (auto simp: and_then_Inr_iff map_err_Inr split: if_splits)
  obtain P where p1: "p1 = set_environments (update_where P (on_environment_update now u) (wf_environments (pl_workflows p))) p"
    using rows by (auto simp: update_environment_rows_def Let_def split: if_splits)
  have "platform_typed p1"
    unfolding p1 using 2(1) on_environment_update_typed [OF u]
    by (intro typed_set_environments) (auto simp: set_update_where platform_typed_def)
  then show ?case using typed_user_audit [OF p'] by simp
qed simp

lemma typed_health_check:
  "platform_typed p \<Longrightarrow> platform_typed (fst (health_check_environment trace metadata actor project i p))"
  by (auto simp: health_check_environment_def fst_commit typed_user_audit split_beta Let_def split: sum.splits)

lemma draft_row_typed:
  assumes "insert_task column now actor n p = Inr (p', t)" and "text_ok 200 (nt_title n)" and "text_ok 4000 (nt_goal n)"
  shows "task_typed t"
  using assms(2,3) insert_task_Inr(3) [OF assms(1)] by (simp add: task_typed_def insert_task_Inr(1) [OF assms(1)] draft_row_def)

lemma updated_task_typed:
  assumes "updated_task inp column now u p t = Inr t1" and "task_typed t"
    and "\<And>v. tu_title u = Some v \<Longrightarrow> text_ok 200 v" and "\<And>v. tu_goal u = Some v \<Longrightarrow> text_ok 4000 v"
  shows "task_typed t1"
proof -
  have "text_ok 200 (t_title t1)" "text_ok 4000 (t_goal t1)"
    using assms(2-4) by (auto simp: updated_task_Inr(1) [OF assms(1)] on_task_update_def unwrap_or_def task_typed_def split: option.splits)
  moreover have "t_status t1 = Task_Archived \<longleftrightarrow> t_archived_at t1 \<noteq> None"
    using assms(2) by (auto simp: updated_task_Inr(1) [OF assms(1)] on_task_update_def unwrap_or_def task_typed_def split: option.splits)
  ultimately show ?thesis using updated_task_Inr(3) [OF assms(1)] by (simp add: task_typed_def)
qed

lemma checked_task_texts:
  assumes "prepare_task_update inp actor project i req seen = Inr (u, t0)"
  shows "tu_title u = Some v \<Longrightarrow> text_ok 200 v" and "tu_goal u = Some v \<Longrightarrow> text_ok 4000 v"
proof -
  obtain u1 a where u1: "checked_task_update req = Inr u1" "u = u1\<lparr>tu_queue := a\<rparr>" using prepare_task_update_Inr [OF assms] by metis
  then obtain title goal where v: "transpose_map (\<lambda>v. text_field v ''task_title'' 200) (ut_title req) = Inr title"
      "transpose_map (\<lambda>v. text_field v ''task_goal'' 4000) (ut_goal req) = Inr goal" "tu_title u = title" "tu_goal u = goal"
    by (auto simp: checked_task_update_def and_then_Inr_iff)
  show "tu_title u = Some v \<Longrightarrow> text_ok 200 v" using transpose_map_Inr [OF v(1)] text_field_ok v(3) by blast
  show "tu_goal u = Some v \<Longrightarrow> text_ok 4000 v" using transpose_map_Inr [OF v(2)] text_field_ok v(4) by blast
qed

lemma prepare_followup_texts:
  assumes "prepare_followup digest_of clock actor run request seen = Inr (n, source)"
  shows "text_ok 200 (nt_title (nf_task n))" and "text_ok 4000 (nt_goal (nf_task n))"
proof -
  obtain title goal background acceptance constraints priority where
    t: "followup_texts request = Inr (title, goal, background, acceptance, constraints, priority)"
      "nt_title (nf_task n) = title" "nt_goal (nf_task n) = goal"
    using assms unfolding prepare_followup_def guard_Inr_iff by (auto simp: and_then_Inr_iff split: option.splits)
  then show "text_ok 200 (nt_title (nf_task n))" "text_ok 4000 (nt_goal (nf_task n))"
    by (auto simp: followup_texts_def and_then_Inr_iff intro: text_field_ok)
qed

lemma frame_environments [simp]:
  "environments (append_task_event org i ty key db) = environments db"
  "environments (outbox e db) = environments db"
  by (simp_all add: append_task_event_def outbox_def)

lemma typed_task_api:
  assumes "task_api p p'" and "platform_typed p"
  shows "platform_typed p'"
  using assms
proof induction
  case (create p column now trace actor project req)
  show ?case
  proof (rule create_task_outcome [of column now trace actor project req p], goal_cases)
    case (2 n t x)
    have "task_typed t" by (rule draft_row_typed [OF 2(1)]) (rule text_field_ok [OF 2(2)], rule text_field_ok [OF 2(3)])
    with create show ?case unfolding 2(5) by (auto simp: platform_typed_def)
  qed (use create in simp)
next
  case (update p inp column now trace actor project i ureq seen)
  show ?case
  proof (rule update_task_outcome [of inp column now trace actor project i ureq seen p], goal_cases)
    case (2 u t0 wf t t1 x)
    have "task_typed t1"
      by (rule updated_task_typed [OF 2(5)]) (use update 2(3) checked_task_texts [OF 2(1)] in \<open>auto simp: platform_typed_def\<close>)
    with update 2(2) show ?case unfolding 2(6) by (auto simp: platform_typed_def set_update_where)
  qed (use update in simp)
next
  case (followup p digest_of column clock now trace actor run freq seen)
  show ?case
  proof (rule create_followup_outcome [of digest_of column clock now trace actor run freq seen p], goal_cases)
    case (2 n source p1 rid t)
    from 2(3) show ?case
    proof (rule insert_followup_Inr, goal_cases)
      case (1 ds f)
      have "task_typed t" by (rule draft_row_typed [OF 1(1)]) (rule prepare_followup_texts [OF 2(1)])+
      moreover have "pl_workflows p1 = pl_workflows p" "pl_projects p1 = pl_projects p" "pl_repositories p1 = pl_repositories p"
        by (subst 1(9), simp)+
      ultimately show ?case using followup unfolding 2(4) by (auto simp: platform_typed_def 1(3) report_followup_def)
    qed
  qed (use followup in simp)
next
  case (rejection p trace actor run reason)
  then show ?case by (simp add: record_followup_rejection_def)
qed

section \<open>Every operation\<close>

text \<open>What the other components do to the rows of the task table, seen from here.\<close>

definition same_shape :: "task_row \<Rightarrow> task_row \<Rightarrow> bool" where
  "same_shape t u = (t_title u = t_title t \<and> t_goal u = t_goal t \<and> (task_check t \<longrightarrow> task_check u)
     \<and> t_archived_at u = t_archived_at t \<and> (t_status u = Task_Archived \<longleftrightarrow> t_status t = Task_Archived))"

inductive service_step :: "platform \<Rightarrow> platform \<Rightarrow> bool" where
  new_project: "service_step p (fst (create_project now trace actor pc p))"
| change_project: "service_step p (fst (update_project now trace actor i pu p))"
| drop_project: "service_step p (fst (archive_project now trace actor i p))"
| policy: "service_step p (fst (update_project_policy now trace actor i notification gates p))"
| new_repository: "service_step p (fst (create_repository url_parse now trace actor project rc p))"
| change_repository: "service_step p (fst (update_repository url_parse now trace actor project i ru p))"
| sync: "service_step p (fst (sync_repository now trace ls_head ls_heads actor project i p))"
| new_environment: "service_step p (fst (create_environment now trace actor project ec p))"
| change_environment: "service_step p (fst (update_environment now trace actor project i eu p))"
| health: "service_step p (fst (health_check_environment trace metadata actor project i p))"
| task: "task_api p p' \<Longrightarrow> service_step p p'"
| members: "service_step p (fst (revoke_member now actor project user p))"
| elsewhere: "list_all2 same_shape (tasks (pl_db p)) (tasks db) \<Longrightarrow> environments db = environments (pl_db p) \<Longrightarrow>
     wf_environments ws = wf_environments (pl_workflows p) \<Longrightarrow> service_step p (p\<lparr>pl_db := db, pl_workflows := ws\<rparr>)"

lemma typed_step: "service_step p p' \<Longrightarrow> platform_typed p \<Longrightarrow> platform_typed p'"
proof (induction rule: service_step.induct)
  case (elsewhere p db ws)
  have "task_typed u" if u: "u \<in> set (tasks db)" for u
  proof -
    obtain t where "t \<in> set (tasks (pl_db p))" "same_shape t u"
      using elsewhere(1) u by (metis in_set_conv_nth list_all2_conv_all_nth)
    with elsewhere(4) show ?thesis by (auto simp: platform_typed_def task_typed_def same_shape_def)
  qed
  with elsewhere show ?case by (simp add: platform_typed_def)
next
  case (members p now actor project user)
  then show ?case by (simp add: revoke_member_def Let_def platform_typed_def)
qed (rule typed_create_project typed_update_project typed_archive_project typed_update_project_policy typed_create_repository
      typed_update_repository typed_sync_repository typed_create_environment typed_update_environment typed_health_check
      typed_task_api, assumption+)+


definition example_environment_request :: create_environment_request where
  "example_environment_request =
     \<lparr>ce_name = ''stage'', ce_workspace_root = ''/ws/stage'', ce_network_mode = None, ce_tool_policy = None,
      ce_secret_ref_names = None, ce_max_duration_secs = None, ce_enabled = None, ce_department_id = None\<rparr>"

lemma example_platform_typed: "platform_typed (example_platform [example_draft] [])"
proof -
  have "task_typed example_draft" "environment_typed example_wf_environment" "project_typed example_project" by code_simp+
  then show ?thesis by (simp add: platform_typed_def example_platform_def example_db_def example_versions_def)
qed


section \<open>Pages\<close>

lemma concat_pages:
  "int (length xs) \<le> int n * s \<Longrightarrow> 0 \<le> s \<Longrightarrow> concat (map (\<lambda>k. take (nat s) (drop (k * nat s) xs)) [0..<n]) = xs"
proof (induction n arbitrary: xs)
  case (Suc n)
  have "[0..<Suc n] = 0 # map Suc [0..<n]" by (simp add: upt_conv_Cons map_Suc_upt del: upt_Suc)
  moreover have "int (length (drop (nat s) xs)) \<le> int n * s"
    using Suc.prems by (cases "nat s \<le> length xs") (auto simp: algebra_simps)
  ultimately show ?case using Suc.IH [of "drop (nat s) xs"] Suc.prems(2) by (simp add: comp_def add.commute del: upt_Suc)
qed simp



section \<open>Synchronisation and departments\<close>

lemma find_map_None_if: "(\<And>x. x \<in> set xs \<Longrightarrow> f x = None) \<Longrightarrow> find_map f xs = None"
  by (simp add: find_map_None)

text \<open>The documented output of \<^verbatim>\<open>git ls-remote\<close> without \<^verbatim>\<open>--symref\<close>: lines of an object name, a tab and a
  reference.\<close>

definition ls_remote_format :: "rstr \<Rightarrow> bool" where
  "ls_remote_format out = list_all (\<lambda>line. is_sha (take 40 line) \<and> take 1 (drop 40 line) = [CHR 9]) (str_lines out)"

lemma sync_outcome_plain:
  assumes "ls_remote_format out"
  shows "sync_outcome (Some out) = (''failed'', None, None)"
proof -
  have "head_branch line = None" if "line \<in> set (str_lines out)" for line
  proof -
    have "is_sha (take 40 line)" using assms that by (simp add: ls_remote_format_def list_all_iff)
    then have "\<not> starts_with ''ref: refs/heads/'' line"
      by (cases line) (auto simp: is_sha_def starts_with_def is_ascii_hexdigit_def is_ascii_digit_def)
    then show ?thesis by (simp add: head_branch_def)
  qed
  then have "find_map head_branch (str_lines out) = None" by (rule find_map_None_if)
  then show ?thesis by (simp add: sync_outcome_def Let_def)
qed

text \<open>C38. A repository can never be synchronised: the command asks for \<open>HEAD\<close> without \<^verbatim>\<open>--symref\<close>, so that, with the
  output git documents for it, the line that names the default branch is missing and every
  synchronisation that is recorded is recorded as failed.\<close>

theorem synchronisation_always_fails:
  assumes "\<And>url out. ls_head url = Some out \<Longrightarrow> ls_remote_format out"
    and "sync_repository now trace ls_head ls_heads actor project i p = (p', Inr r)" and "distinct (map rp_id (pl_repositories p))"
  shows "rp_last_sync_status r = ''failed'' \<and> rp_last_head_sha r = None \<and> rp_last_remote_branch r = None"
proof -
  have failed: "sync_outcome (ls_head url) = (''failed'', None, None)" for url
    using assms(1) [of url] sync_outcome_plain by (cases "ls_head url") (simp_all add: sync_outcome_def)
  let ?f = "\<lambda>r. r\<lparr>rp_last_sync_status := ''failed'', rp_last_head_sha := None, rp_last_remote_branch := None,
      rp_last_remote_branch_count := None, rp_updated_at := now\<rparr>"
  obtain repository where "get_repository actor project i p = Inr repository"
    using assms(2) by (cases "get_repository actor project i p") (simp_all add: sync_repository_def)
  with assms(2) have c: "commit p (and_then (map_err db_error (update_repository_rows now actor project i ?f p)) (\<lambda>(p1, changed).
             if \<not> changed then Inl (NotFound ''repository'') else
             record_user_audit trace actor ''devrail.repository.sync'' ''devrail_repository'' i p1))
            (get_repository actor project i) = (p', Inr r)"
    by (simp add: sync_repository_def failed)
  then obtain p1 where rows: "update_repository_rows now actor project i ?f p = Inr (p1, True)"
    and a: "record_user_audit trace actor ''devrail.repository.sync'' ''devrail_repository'' i p1 = Inr p'"
    and g: "get_repository actor project i p' = Inr r"
    by (auto dest!: commit_Inr simp: and_then_Inr_iff map_err_Inr split: if_splits)
  define hit where "hit = (\<lambda>r. rp_id r = i \<and> rp_project_id r = project \<and> writable actor (repository_scope r) \<and> rp_archived_at r = None)"
  have p1: "pl_repositories p1 = update_where hit ?f (pl_repositories p)" "\<exists>x \<in> set (pl_repositories p). hit x"
    using rows by (auto simp: update_repository_rows_def Let_def hit_def list_ex_iff split: if_splits)
  have "pl_repositories p' = pl_repositories p1" using record_user_audit_Inr [OF a] by auto
  moreover have "r \<in> set (pl_repositories p')" "rp_id r = i"
    using g by (auto simp: get_repository_def find_repository_def dest: find_SomeD split: option.splits)
  ultimately have "r \<in> set (update_where hit ?f (pl_repositories p))" by (simp only: p1(1))
  then obtain x where x: "x \<in> set (pl_repositories p)" "r = (if hit x then ?f x else x)"
    unfolding update_where_def set_map by (rule imageE)
  have "rp_id x = i" using x(2) \<open>rp_id r = i\<close> by (cases "hit x") simp_all
  from p1(2) obtain y where y: "y \<in> set (pl_repositories p)" "hit y" by blast
  then have "x = y" using x(1) \<open>rp_id x = i\<close> assms(3) by (auto simp: hit_def distinct_map dest: inj_onD)
  with x(2) y(2) show ?thesis by simp
qed

definition example_repository :: repository_row where
  "example_repository =
     \<lparr>rp_id = 1, rp_organization_id = 1, rp_department_id = None, rp_owner_user_id = 1, rp_project_id = 1, rp_name = ''core'',
      rp_remote_url = ''https://host/core'', rp_protocol = ''https'', rp_default_branch = ''main'', rp_credential_ref = None,
      rp_last_sync_status = ''unknown'', rp_last_head_sha = None, rp_last_remote_branch = None,
      rp_last_remote_branch_count = None, rp_created_at = 0, rp_updated_at = 0, rp_archived_at = None\<rparr>"

theorem synchronisation_always_fails_witness:
  "let ls = (\<lambda>_. Some (replicate 40 (CHR ''a'') @ [CHR 9] @ ''HEAD''));
       p = (example_platform [] [])\<lparr>pl_repositories := [example_repository]\<rparr>
   in \<exists>p' r. sync_repository 5 ''t'' ls ls example_wf_actor 1 1 p = (p', Inr r) \<and> rp_last_sync_status r = ''failed''"
proof -
  let ?ls = "\<lambda>_ :: rstr. Some (replicate 40 (CHR ''a'') @ [CHR 9] @ ''HEAD'')"
  let ?p = "(example_platform [] [])\<lparr>pl_repositories := [example_repository]\<rparr>"
  have "is_ok (snd (sync_repository 5 ''t'' ?ls ?ls example_wf_actor 1 1 ?p))" by code_simp
  then obtain p' r where s: "sync_repository 5 ''t'' ?ls ?ls example_wf_actor 1 1 ?p = (p', Inr r)"
    by (metis is_ok_iff prod.collapse)
  have f: "ls_remote_format (replicate 40 (CHR ''a'') @ [CHR 9] @ ''HEAD'')" by code_simp
  have "ls_remote_format out" if "?ls url = Some out" for url out
  proof -
    from that have "out = replicate 40 (CHR ''a'') @ [CHR 9] @ ''HEAD''" by simp
    with f show ?thesis by (simp only:)
  qed
  from synchronisation_always_fails [OF this s] s show ?thesis by (auto simp: Let_def)
qed

text \<open>C40. An actor who sees a department and its children can write outside them: the check on the requested department
  covers the two narrower scopes only, so an environment created for any other department of the
  organization is accepted, and its creator cannot see it.\<close>

theorem environment_written_outside_scope:
  assumes "data_scope actor = Scope_DepartmentAndChildren" and "ce_department_id req = Some d"
    and "d \<notin> set (visible_departments actor (pl_db p))"
    and "create_environment now trace actor project req p = (p', Inr e)"
  shows "e_department_id e = Some d \<and> get_environment actor project (e_id e) p' = Inl (NotFound ''environment'')"
proof -
  have dept: "scope_department actor (ce_department_id req) = Inr (Some d)" by (simp add: scope_department_def assms(1,2))
  from assms(4) obtain n p1 where ins: "insert_environment now actor n p = Inr (p1, e)" "ne_department_id n = Some d"
    and a: "record_user_audit trace actor ''devrail.environment.create'' ''devrail_environment'' (e_id e) p1 = Inr p'"
    unfolding create_environment_def committed_row_Inr by (force simp: and_then_Inr_iff map_err_Inr dept)
  have e: "e_department_id e = Some d" "e_id e = next_serial e_id (wf_environments (pl_workflows p))"
      "p1 = set_environments (wf_environments (pl_workflows p) @ [e]) p"
    using ins by (auto simp: insert_environment_def Let_def split: if_splits)
  obtain x where p': "p' = p1\<lparr>pl_db := record_audit x (pl_db p1)\<rparr>" using record_user_audit_Inr [OF a] by blast
  have "visible_departments actor (pl_db p') = visible_departments actor (pl_db p)"
    by (simp add: p' e(3) set_environments_def visible_departments_def department_edges_def record_audit_def)
  then have hidden: "\<not> scope_sql actor (pl_db p') (environment_scope e)"
    using assms(1,3) e(1) by (simp add: scope_sql_def environment_scope_def)
  have envs: "wf_environments (pl_workflows p') = wf_environments (pl_workflows p) @ [e]" by (simp add: p' e(3) set_environments_def)
  have fresh: "e_id y \<noteq> e_id e" if "y \<in> set (wf_environments (pl_workflows p))" for y
    using next_serial_greater [OF that, of e_id] e(2) by simp
  have "find_environment_row actor p' project (e_id e) = None"
    unfolding find_environment_row_def find_None_iff envs using fresh hidden by auto
  with e(1) show ?thesis by (simp add: get_environment_def)
qed

definition example_foreign_request :: create_environment_request where
  "example_foreign_request =
     \<lparr>ce_name = ''shared'', ce_workspace_root = ''/work'', ce_network_mode = None, ce_tool_policy = None,
      ce_secret_ref_names = None, ce_max_duration_secs = None, ce_enabled = None, ce_department_id = Some 10\<rparr>"

theorem environment_written_outside_scope_witness:
  "let actor = example_wf_actor\<lparr>department_id := Some 11, data_scope := Scope_DepartmentAndChildren\<rparr>;
       p = (example_platform [] [])\<lparr>pl_projects := [example_project\<lparr>p_department_id := Some 11\<rparr>]\<rparr>
   in \<exists>p' e. create_environment 5 ''t'' actor 1 example_foreign_request p = (p', Inr e)
        \<and> e_department_id e = Some 10 \<and> get_environment actor 1 (e_id e) p' = Inl (NotFound ''environment'')"
proof -
  let ?actor = "example_wf_actor\<lparr>department_id := Some 11, data_scope := Scope_DepartmentAndChildren\<rparr>"
  let ?p = "(example_platform [] [])\<lparr>pl_projects := [example_project\<lparr>p_department_id := Some 11\<rparr>]\<rparr>"
  have "is_ok (snd (create_environment 5 ''t'' ?actor 1 example_foreign_request ?p))" by code_simp
  then obtain p' e where c: "create_environment 5 ''t'' ?actor 1 example_foreign_request ?p = (p', Inr e)"
    by (metis is_ok_iff prod.collapse)
  have "data_scope ?actor = Scope_DepartmentAndChildren" "ce_department_id example_foreign_request = Some 10"
    by (simp_all add: example_foreign_request_def)
  moreover have "10 \<notin> set (visible_departments ?actor (pl_db ?p))" by code_simp
  ultimately show ?thesis using environment_written_outside_scope [OF _ _ _ c] c by (auto simp: Let_def)
qed

end
