(* ===== verification/Spec2Isabelle.thy ===== *)
theory Spec2Isabelle
  imports Prelude Access Store Leases Tracker Reconcile Recursive Errors Scope Dependencies
    Propagation Scheduler Config Requests Evidence Repairs Repair_Flow Repair_Invariants Repair_Replay
    Workflow Reloader Continuations Continuation_Flow Continuation_Properties Composition Runs Run_Flow Run_Starts
    Workspaces Run_End Run_End_Properties Run_Service Run_Service_Properties Platform Tasks Followups
    Task_Properties Followup_Properties Platform_Properties
begin

text \<open>
  DevRail is a backend that turns development tasks into supervised runs of a coding agent: a
  PostgreSQL database holds tasks, runs and requests, background workers move them, and HTTP
  services change them on behalf of users. This library models the part of the backend that
  decides what happens to a task (everything under \<^verbatim>\<open>src/backend/src\<close>) and proves the properties
  the workers and services rely on.

  \<^bold>\<open>Conventions.\<close> A table is a list of records with the columns the modelled statements read or
  write; one SQL statement, and one transaction of the source, is one function on the tables, with
  \<open>Inl\<close> for every error it can raise, in which case nothing is written. The clock, random numbers and
  the rows locked by other transactions are arguments. Times are microseconds in \<open>int\<close>, Rust strings
  are byte strings, integers keep their width where arithmetic could leave it. Third-party code
  (SHA-256, YAML, templates, \<^verbatim>\<open>serde_json\<close>, the file system, the agent process) is an argument, with
  what is relied on as a named predicate. User-visible Chinese texts are ASCII tags.

  \<^bold>\<open>Foundations.\<close> \<open>Prelude\<close>: byte strings, updates of lists of rows, results. \<open>Access\<close>: actors and
  data scopes (\<^verbatim>\<open>access.rs\<close>). \<open>Errors\<close>: \<^verbatim>\<open>ApiError\<close> and the mapping of database errors
  (\<^verbatim>\<open>error.rs\<close>). \<open>Store\<close>: the rows and tables (\<^verbatim>\<open>models.rs\<close>). \<open>Recursive\<close>: recursive common table
  expressions, computed with fuel that is the number of rows plus one and proved to reach the
  closure. \<open>Scope\<close>: row-level visibility (\<^verbatim>\<open>scope_sql\<close>). \<open>Leases\<close>: the contract of a claim with an
  expiry as a locale, with the theorem that a claim is exclusive; it is interpreted on the task
  queue, the request queues, the gate reruns and the start of a run.

  \<^bold>\<open>Scheduler.\<close> \<open>Tracker\<close>: selecting, claiming, renewing, releasing and retrying queued tasks
  (\<^verbatim>\<open>repositories/devrail.rs\<close>). \<open>Reconcile\<close>: the repair of inconsistent claims and runs. \<open>Dependencies\<close>:
  replacing the prerequisites of a task; the graph stays acyclic. \<open>Propagation\<close>: what a failed
  prerequisite does to its dependents; the passes converge. \<open>Scheduler\<close>: the worker's loop and its
  error handling (\<^verbatim>\<open>workers/task_scheduler.rs\<close>). \<open>Config\<close>: the environment variables
  (\<^verbatim>\<open>config.rs\<close>) and that accepted settings make the scheduler's arithmetic safe.

  \<^bold>\<open>Repairs and continuations.\<close> \<open>Requests\<close>: the two request queues. \<open>Evidence\<close>: digests, references and
  the scan for secrets. \<open>Repairs\<close>: every transaction on the repair tables
  (\<^verbatim>\<open>repositories/devrail_repairs.rs\<close>, \<^verbatim>\<open>services/devrail_repairs.rs\<close>); \<open>Repair_Flow\<close>,
  \<open>Repair_Invariants\<close>, \<open>Repair_Replay\<close>: the step relation, its invariants and replays.
  \<open>Continuations\<close>, \<open>Continuation_Flow\<close>, \<open>Continuation_Properties\<close>: the same for continuations.
  \<open>Composition\<close>: scheduler, repairs and continuations on one database. Each side is proved against
  a rest of the system that may do anything but move its tasks; \<open>Composition\<close> shows that the others
  keep to that.

  \<^bold>\<open>Workflows.\<close> \<open>Workflow\<close>: the contract in \<^verbatim>\<open>WORKFLOW.md\<close>, its checks against the platform policy and
  its rendering (\<^verbatim>\<open>orchestration/workflow.rs\<close>). \<open>Reloader\<close>: accepted versions, reload ticks, and the
  workflow a task is queued with.

  \<^bold>\<open>Runs.\<close> \<open>Runs\<close>: the tables of runs, events, controls and approvals and every transaction on them
  (\<^verbatim>\<open>repositories/devrail_runs.rs\<close>); \<open>Run_Flow\<close>, \<open>Run_Starts\<close>: the step relation, the forest of
  runs, final states and the exclusive start. \<open>Workspaces\<close>: keys, paths, hooks, evidence and clean-up
  (\<^verbatim>\<open>devrail_workspaces.rs\<close>). \<open>Run_End\<close>, \<open>Run_End_Properties\<close>: \<^verbatim>\<open>finish_run\<close> of the supervisor,
  from the report of the agent to the task. \<open>Run_Service\<close>, \<open>Run_Service_Properties\<close>: the start of a run
  as its sequence of checks, transactions and outside work, with each failure path
  (\<^verbatim>\<open>services/devrail_runs.rs\<close>). Starts by users do not keep to what \<open>Composition\<close> asks of the rest
  of the system: \<open>user_start_strands_continuation\<close> shows how one blocks an open continuation.

  \<^bold>\<open>The API.\<close> \<open>Platform\<close>: validators, projects, repositories, environments and listings, over a record
  \<open>platform\<close> that adds their tables to the store. \<open>Tasks\<close>: creation and update of tasks, with the trigger
  that freezes dispatched inputs; a handler reads one state and its transaction meets another, so
  concurrent edits are covered. \<open>Followups\<close>: tasks proposed by agents (all in \<^verbatim>\<open>services/devrail.rs\<close> and
  \<^verbatim>\<open>repositories/devrail.rs\<close>). \<open>Task_Properties\<close>: the API takes only steps that the joint machine of
  \<open>Composition\<close> allows, and a queued task is described by its snapshot. \<open>Followup_Properties\<close>: proposals are
  bounded, replayed and acyclic. \<open>Platform_Properties\<close>: the blocking reason agrees with the scheduler, the
  rows stay well-formed, the pages cover the tasks.

  \<^bold>\<open>Not modelled.\<close> HTTP handlers and the OpenAPI description (they decode, check a permission and call
  a service), telemetry and metrics, the processes and sockets of the harness supervisor, git and
  worktrees on disk, branches, pull requests and webhooks, artifacts, reviews and comments, push
  delivery, authentication with WebAuthn and TOTP (cryptographic libraries), the administration of
  users, roles and departments, migrations beyond the constraints and the trigger the statements
  meet, the web frontend, and the audit tool under \<^verbatim>\<open>src/codex-audit-pipeline\<close>.
\<close>

section \<open>A scheduler tick\<close>



section \<open>Scheduler, repairs and continuations on one task table\<close>

text \<open>C1. Repairs and continuations run side by side with the scheduler: whatever sequence of scheduler
  statements, repair transactions, continuation transactions and harmless outside writes leads
  from a state without requests to another one, the repair tables went through steps of the repair
  state machine and the continuation tables through steps of the continuation state machine, each
  seeing the others only as "the rest of the system". So the theorems on each machine hold of the
  whole.\<close>

theorem whole_refines_parts:
  assumes "no_repairs (repairs_part j0)" and "no_continuations (continuation_view j0)"
    and "policies_validated sv" and "(joint_step sv)\<^sup>*\<^sup>* j0 j"
  shows "repair_step\<^sup>*\<^sup>* (repairs_part j0) (repairs_part j)
    \<and> (cont_step sv)\<^sup>*\<^sup>* (continuation_view j0) (continuation_view j)"
  by (rule joint_reachable [OF assms])

theorem whole_refines_parts_witness:
  "repair_step\<^sup>*\<^sup>* (repairs_part example_joint) (repairs_part example_joint_both)
   \<and> (cont_step example_services)\<^sup>*\<^sup>* (continuation_view example_joint) (continuation_view example_joint_both)
   \<and> map q_task_id (continuation_part example_joint_both) = [2]
   \<and> map q_task_id (repair_requests (repairs_part example_joint_both)) = [1]"
  using whole_refines_parts [OF example_joint_start example_policies example_joint_reached] example_joint_rows(1,2)
  by simp

text \<open>C2. A task is in the hands of one of them at most: in every state that scheduler, repairs and
  continuations reach together, a repair in progress and an open continuation are never of the same
  task.\<close>

theorem repair_and_continuation_exclude:
  assumes "no_repairs (repairs_part j0)" and "no_continuations (continuation_view j0)"
    and "policies_validated sv" and "(joint_step sv)\<^sup>*\<^sup>* j0 j"
    and "r \<in> set (repair_requests (repairs_part j))" and "q_status r \<in> {Req_Pending, Req_Claimed, Req_Dispatched, Req_Running}"
    and "c \<in> set (continuation_part j)" and "q_status c \<in> {Req_Pending, Req_Claimed}"
  shows "q_task_id r \<noteq> q_task_id c"
proof
  assume same: "q_task_id r = q_task_id c"
  have inv: "repair_inv (repairs_part j)" "cont_inv (continuation_view j)"
    using joint_reachable [OF assms(1-4)] reachable_inv [OF assms(1)] reachable_continuations [OF assms(2,3)]
    by simp_all
  obtain t where t: "t \<in> set (tasks (base (repairs_part j)))" "under_repair r t"
    using inv(1) assms(5,6) unfolding repair_inv_def tasks_follow_def active_request by blast
  obtain u where u: "u \<in> set (tasks (base (repairs_part j)))" "awaits_continuation c u"
    using cont_invD(3) [OF inv(2), of c] assms(7,8) by (auto simp: continuation_view_def open_continuation_def)
  have "t_id t = t_id u" using t(2) u(2) same by (simp add: under_repair_def awaits_continuation_def)
  then have "t = u"
    using t(1) u(1) cont_invD(1) [OF inv(2)] by (auto simp: distinct_map dest: inj_onD)
  then show False
    using t(2) u(2) assms(6) by (auto simp: under_repair_def awaits_continuation_def)
qed

theorem repair_and_continuation_exclude_witness:
  "\<exists>r \<in> set (repair_requests (repairs_part example_joint_both)). \<exists>c \<in> set (continuation_part example_joint_both).
     q_status r = Req_Pending \<and> q_status c = Req_Pending \<and> q_task_id r \<noteq> q_task_id c"
proof -
  obtain r c where rows: "continuation_part example_joint_both = [c]"
      "repair_requests (repairs_part example_joint_both) = [r]"
    using example_joint_rows(1,2) by auto
  then have "q_status r = Req_Pending" "q_status c = Req_Pending" using example_joint_rows(3,4) by simp_all
  moreover from this have "q_task_id r \<noteq> q_task_id c"
    by (intro repair_and_continuation_exclude [OF example_joint_start example_policies example_joint_reached])
      (simp_all add: rows)
  ultimately show ?thesis using rows by simp
qed

end
